(* ===== verification/Engine_Prelude.thy ===== *)
theory Engine_Prelude
  imports Main "HOL-Library.Word"
begin

text \<open>
  The shared vocabulary of the development: byte arrays, the results of C++ code that may run
  into undefined behaviour, bounds-checked accesses to arrays, C strings, and the generic lemmas
  on lists and words that the component theories use through the collections
  \<open>res_simps\<close> (case analysis of results) and \<open>mem_simps\<close> (array accesses).
\<close>

named_theorems res_simps "case analysis of results"
named_theorems mem_simps "reads and writes of arrays"

section \<open>Results\<close>

text \<open>
  What a C++ fragment does when it does not return normally. \<open>Out_Of_Bounds\<close> is an access
  outside an array object, \<open>Null_Deref\<close> the use of a null pointer (both undefined
  behaviour); \<open>Uncaught\<close> is an exception that leaves every handler, which terminates the
  process; \<open>Exit_Code\<close> is a call of \<open>exit\<close>.
\<close>

datatype fault = Out_Of_Bounds | Null_Deref | Uncaught string | Exit_Code int

type_synonym 'a res = "fault + 'a"

type_synonym bytes = "char list"

type_synonym size_t = "64 word"

definition rbind :: "'e + 'a \<Rightarrow> ('a \<Rightarrow> 'e + 'b) \<Rightarrow> 'e + 'b" where
  "rbind m f = (case m of Inl e \<Rightarrow> Inl e | Inr x \<Rightarrow> f x)"

lemma rbind_Inl [simp]: "rbind (Inl e) f = Inl e"
  by (simp add: rbind_def)

lemma rbind_Inr [simp]: "rbind (Inr x) f = f x"
  by (simp add: rbind_def)

lemma rbind_eq_Inr [res_simps]: "rbind m f = Inr y \<longleftrightarrow> (\<exists>x. m = Inr x \<and> f x = Inr y)"
  by (cases m) auto

lemma rbind_eq_Inl [res_simps]:
  "rbind m f = Inl e \<longleftrightarrow> m = Inl e \<or> (\<exists>x. m = Inr x \<and> f x = Inl e)"
  by (cases m) auto

lemma rbind_cong [fundef_cong]:
  "m = m' \<Longrightarrow> (\<And>x. m' = Inr x \<Longrightarrow> f x = g x) \<Longrightarrow> rbind m f = rbind m' g"
  by (cases m') auto

lemma rbind_assoc: "rbind (rbind m f) g = rbind m (\<lambda>x. rbind (f x) g)"
  by (cases m) auto

text \<open>Folding a step that may fault over a list, stopping at the first fault.\<close>

fun rfold :: "('a \<Rightarrow> 's \<Rightarrow> 's res) \<Rightarrow> 'a list \<Rightarrow> 's \<Rightarrow> 's res" where
  "rfold f [] s = Inr s"
| "rfold f (x # xs) s = rbind (f x s) (rfold f xs)"

lemma rfold_append: "rfold f (xs @ ys) s = rbind (rfold f xs s) (rfold f ys)"
proof (induction xs arbitrary: s)
  case (Cons x xs)
  then show ?case by (cases "f x s") simp_all
qed simp

lemma rfold_invariant:
  assumes "\<And>x s s'. x \<in> set xs \<Longrightarrow> P s \<Longrightarrow> f x s = Inr s' \<Longrightarrow> P s'"
    and "P s" and "rfold f xs s = Inr s'"
  shows "P s'"
  using assms by (induction xs arbitrary: s) (auto simp: res_simps)

section \<open>Arrays and C strings\<close>

abbreviation NUL :: char where
  "NUL \<equiv> CHR 0x00"

text \<open>Copying \<open>bs\<close> to offset \<open>off\<close> of the array \<open>d\<close> (\<open>memcpy\<close>, \<open>read\<close> into a buffer).\<close>

definition mem_write :: "'a list \<Rightarrow> nat \<Rightarrow> 'a list \<Rightarrow> 'a list res" where
  "mem_write d off bs =
     (if off + length bs \<le> length d
      then Inr (take off d @ bs @ drop (off + length bs) d)
      else Inl Out_Of_Bounds)"

definition mem_read :: "'a list \<Rightarrow> nat \<Rightarrow> nat \<Rightarrow> 'a list res" where
  "mem_read d off n =
     (if off + n \<le> length d then Inr (take n (drop off d)) else Inl Out_Of_Bounds)"

text \<open>
  The C string that starts at the beginning of the array: the bytes before the first NUL. With
  no NUL in the array the reader runs past its end.
\<close>

definition c_string :: "bytes \<Rightarrow> bytes res" where
  "c_string d = (if NUL \<in> set d then Inr (takeWhile (\<lambda>c. c \<noteq> NUL) d) else Inl Out_Of_Bounds)"

text \<open>What a C function sees of \<open>std::string::c_str()\<close>: the bytes before the first NUL.\<close>

definition c_str :: "bytes \<Rightarrow> bytes" where
  "c_str s = takeWhile (\<lambda>c. c \<noteq> NUL) s"

lemma mem_write_Inr [mem_simps]:
  "mem_write d off bs = Inr d' \<longleftrightarrow>
     off + length bs \<le> length d \<and> d' = take off d @ bs @ drop (off + length bs) d"
  by (auto simp: mem_write_def)

lemma mem_write_ok:
  "off + length bs \<le> length d \<Longrightarrow>
     mem_write d off bs = Inr (take off d @ bs @ drop (off + length bs) d)"
  by (simp add: mem_write_def)

lemma mem_write_fault [mem_simps]:
  "mem_write d off bs = Inl e \<longleftrightarrow> length d < off + length bs \<and> e = Out_Of_Bounds"
  by (auto simp: mem_write_def)

lemma mem_write_length: "mem_write d off bs = Inr d' \<Longrightarrow> length d' = length d"
  by (auto simp: mem_simps)

lemma mem_write_read:
  "mem_write d off bs = Inr d' \<Longrightarrow> take (length bs) (drop off d') = bs"
  by (auto simp: mem_simps)

lemma mem_write_take:
  "mem_write d off bs = Inr d' \<Longrightarrow> n \<le> off \<Longrightarrow> take n d' = take n d"
  by (auto simp: mem_simps min_def)

lemma c_string_no_NUL: "c_string d = Inr s \<Longrightarrow> NUL \<notin> set s"
  by (auto simp: c_string_def split: if_splits dest: set_takeWhileD)

lemma c_string_length: "c_string d = Inr s \<Longrightarrow> length s < length d"
proof -
  assume *: "c_string d = Inr s"
  then have "NUL \<in> set d" and s: "s = takeWhile (\<lambda>c. c \<noteq> NUL) d"
    by (auto simp: c_string_def split: if_splits)
  from \<open>NUL \<in> set d\<close> have "takeWhile (\<lambda>c. c \<noteq> NUL) d \<noteq> d"
    by (metis (full_types) takeWhile_eq_all_conv)
  then show ?thesis
    unfolding s by (metis le_neq_implies_less length_takeWhile_le takeWhile_eq_take take_all)
qed

lemma c_string_append_NUL: "NUL \<notin> set s \<Longrightarrow> c_string (s @ NUL # r) = Inr s"
proof -
  assume "NUL \<notin> set s"
  then have "takeWhile (\<lambda>c. c \<noteq> NUL) (s @ NUL # r) = s"
    by (subst takeWhile_append2) auto
  then show ?thesis by (simp add: c_string_def)
qed

lemma takeWhile_no_NUL [simp]: "NUL \<notin> set s \<Longrightarrow> takeWhile (\<lambda>c. c \<noteq> NUL) s = s"
  by (auto simp: takeWhile_eq_all_conv)

lemma c_str_id: "NUL \<notin> set s \<Longrightarrow> c_str s = s"
  by (simp add: c_str_def)

section \<open>Words\<close>

lemma unat_of_nat_size_t [simp]: "n < 2 ^ 64 \<Longrightarrow> unat (of_nat n :: size_t) = n"
  by (simp add: unat_of_nat)

lemma size_t_le_of_nat: "n < 2 ^ 64 \<Longrightarrow> (w :: size_t) \<le> of_nat n \<longleftrightarrow> unat w \<le> n"
  by (simp add: word_le_nat_alt)

end
