(* ===== verification/C_Library.thy ===== *)
theory C_Library
  imports Engine_Prelude
begin

text \<open>
  The functions of the C standard library that the message code calls: \<open>strncat\<close>,
  \<open>atoi\<close>, \<open>sprintf\<close> with the format \<open>%4d\<close>, \<open>strlen\<close> and
  \<open>memset\<close>. They work on arrays as byte lists and report an access outside an array.
  The main facts are that \<open>atoi\<close> reads back what \<open>sprintf\<close> printed, and how
  wide the printed text is.
\<close>

section \<open>Character classes\<close>

definition is_space :: "char \<Rightarrow> bool" where
  "is_space c \<longleftrightarrow> c = CHR '' '' \<or> (9 \<le> (of_char c :: nat) \<and> (of_char c :: nat) \<le> 13)"

definition is_digit :: "char \<Rightarrow> bool" where
  "is_digit c \<longleftrightarrow> 48 \<le> (of_char c :: nat) \<and> (of_char c :: nat) \<le> 57"

definition digit_value :: "char \<Rightarrow> nat" where
  "digit_value c = of_char c - 48"

definition digit_char :: "nat \<Rightarrow> char" where
  "digit_char d = char_of (48 + d)"

lemma of_char_digit_char: "d < 10 \<Longrightarrow> (of_char (digit_char d) :: nat) = 48 + d"
  by (simp add: digit_char_def take_bit_eq_mod)

lemma digit_value_char [simp]: "d < 10 \<Longrightarrow> digit_value (digit_char d) = d"
  by (simp add: digit_value_def of_char_digit_char)

lemma is_digit_char [simp]: "d < 10 \<Longrightarrow> is_digit (digit_char d)"
  by (simp add: is_digit_def of_char_digit_char)

lemma digit_not_space: "is_digit c \<Longrightarrow> \<not> is_space c"
  by (auto simp: is_digit_def is_space_def)

lemma digit_not_sign: "is_digit c \<Longrightarrow> c \<noteq> CHR ''-'' \<and> c \<noteq> CHR ''+''"
  by (auto simp: is_digit_def)

lemma digit_not_NUL: "is_digit c \<Longrightarrow> c \<noteq> NUL"
  by (auto simp: is_digit_def)

lemma digit_value_less: "is_digit c \<Longrightarrow> digit_value c < 10"
  by (auto simp: is_digit_def digit_value_def)

section \<open>Reading integers: atoi\<close>

fun digits_value :: "nat \<Rightarrow> bytes \<Rightarrow> nat" where
  "digits_value acc [] = acc"
| "digits_value acc (c # cs) =
     (if is_digit c then digits_value (10 * acc + digit_value c) cs else acc)"

text \<open>
  \<open>atoi\<close> on the bytes of a C string (without its NUL): white space, an optional sign,
  then the longest run of digits; no digit gives 0. Values outside the range of \<open>int\<close>
  are left undefined by the language; the header of a message has four characters, so they do not
  occur there.
\<close>

definition atoi :: "bytes \<Rightarrow> int" where
  "atoi s = (case dropWhile is_space s of
       [] \<Rightarrow> 0
     | c # cs \<Rightarrow>
         if c = CHR ''-'' then - int (digits_value 0 cs)
         else if c = CHR ''+'' then int (digits_value 0 cs)
         else int (digits_value 0 (c # cs)))"

lemma digits_value_append:
  "\<forall>c \<in> set xs. is_digit c \<Longrightarrow> digits_value acc (xs @ ys) = digits_value (digits_value acc xs) ys"
  by (induction xs arbitrary: acc) auto

lemma digits_value_bound: "digits_value acc s < (acc + 1) * 10 ^ length s"
proof (induction s arbitrary: acc)
  case (Cons c cs)
  show ?case
  proof (cases "is_digit c")
    case True
    have "digits_value (10 * acc + digit_value c) cs < (10 * acc + digit_value c + 1) * 10 ^ length cs"
      by (rule Cons.IH)
    also have "\<dots> \<le> (10 * (acc + 1)) * 10 ^ length cs"
      using digit_value_less [OF True] by (intro mult_le_mono1) simp
    finally show ?thesis using True by (simp add: algebra_simps)
  next
    case False
    have "acc < (acc + 1) * 10 ^ length (c # cs)"
      by (metis add.commute less_add_same_cancel1 less_le_trans mult.right_neutral mult_le_mono2
          one_le_numeral one_le_power plus_1_eq_Suc zero_less_Suc lessI Suc_eq_plus1)
    with False show ?thesis by simp
  qed
qed simp

lemma atoi_bound: "\<bar>atoi s\<bar> < 10 ^ length s"
proof -
  have len: "length (dropWhile is_space s) \<le> length s"
    by (rule length_dropWhile_le)
  have val: "int (digits_value 0 t) < 10 ^ length s" if "length t \<le> length s" for t
  proof -
    have "digits_value 0 t < 10 ^ length t"
      using digits_value_bound [of 0 t] by simp
    also have "\<dots> \<le> (10::nat) ^ length s"
      using that by (intro power_increasing) auto
    finally have "int (digits_value 0 t) < int (10 ^ length s)"
      by (simp only: of_nat_less_iff)
    then show ?thesis by simp
  qed
  show ?thesis
  proof (cases "dropWhile is_space s")
    case Nil
    show ?thesis unfolding atoi_def Nil by simp
  next
    case (Cons c cs)
    with len have "length cs \<le> length s" and "length (c # cs) \<le> length s"
      by simp_all
    with val [of cs] val [of "c # cs"] Cons show ?thesis
      by (simp add: atoi_def)
  qed
qed

section \<open>Printing integers: sprintf\<close>

fun show_nat :: "nat \<Rightarrow> bytes" where
  "show_nat n = (if n < 10 then [digit_char n] else show_nat (n div 10) @ [digit_char (n mod 10)])"

declare show_nat.simps [simp del]

definition show_int :: "int \<Rightarrow> bytes" where
  "show_int i = (if i < 0 then CHR ''-'' # show_nat (nat (- i)) else show_nat (nat i))"

text \<open>The text of the conversion \<open>%4d\<close>: right-aligned in a field of width 4.\<close>

definition format_4d :: "int \<Rightarrow> bytes" where
  "format_4d i = (let s = show_int i in replicate (4 - length s) (CHR '' '') @ s)"

text \<open>\<open>sprintf\<close> into the array \<open>dest\<close>: the text and its NUL.\<close>

definition sprintf_4d :: "bytes \<Rightarrow> int \<Rightarrow> bytes res" where
  "sprintf_4d dest i = mem_write dest 0 (format_4d i @ [NUL])"

lemma show_nat_digits: "\<forall>c \<in> set (show_nat n). is_digit c"
proof (induction n rule: show_nat.induct)
  case (1 n)
  then show ?case
    by (cases "n < 10") (auto simp: show_nat.simps [of n])
qed

lemma show_nat_nonempty: "show_nat n \<noteq> []"
  by (subst show_nat.simps) simp

lemma digits_value_show_nat: "digits_value 0 (show_nat n) = n"
proof (induction n rule: show_nat.induct)
  case (1 n)
  show ?case
  proof (cases "n < 10")
    case True
    then show ?thesis by (simp add: show_nat.simps [of n])
  next
    case False
    with 1 have "digits_value 0 (show_nat (n div 10)) = n div 10" by simp
    with False show ?thesis
      by (simp add: show_nat.simps [of n] digits_value_append [OF show_nat_digits])
  qed
qed

lemma length_show_nat: "k > 0 \<Longrightarrow> n < 10 ^ k \<Longrightarrow> length (show_nat n) \<le> k"
proof (induction k arbitrary: n)
  case (Suc k)
  show ?case
  proof (cases "n < 10")
    case True
    then show ?thesis by (simp add: show_nat.simps [of n])
  next
    case False
    with Suc.prems have "k > 0" by (cases k) auto
    moreover from Suc.prems have "n div 10 < 10 ^ k"
      by (simp add: less_mult_imp_div_less mult.commute)
    ultimately have "length (show_nat (n div 10)) \<le> k" by (rule Suc.IH)
    with False show ?thesis by (simp add: show_nat.simps [of n])
  qed
qed simp

text \<open>Printing with \<open>%4d\<close> and reading with \<open>atoi\<close> gives the number back.\<close>

lemma dropWhile_spaces:
  "dropWhile is_space (replicate k (CHR '' '') @ s) = dropWhile is_space s"
  by (induction k) (auto simp: is_space_def)

lemma atoi_format_4d: "atoi (format_4d (int n)) = int n"
proof -
  obtain c cs where cs: "show_nat n = c # cs"
    using show_nat_nonempty [of n] by (cases "show_nat n") auto
  with show_nat_digits [of n] have c: "is_digit c" by simp
  then have "dropWhile is_space (format_4d (int n)) = c # cs"
    by (simp add: format_4d_def show_int_def Let_def dropWhile_spaces cs digit_not_space)
  with c digit_not_sign [OF c] cs digits_value_show_nat [of n] show ?thesis
    by (simp add: atoi_def)
qed

lemma length_format_4d: "n < 10000 \<Longrightarrow> length (format_4d (int n)) = 4"
  using length_show_nat [of 4 n] by (simp add: format_4d_def show_int_def Let_def)

lemma format_4d_no_NUL: "NUL \<notin> set (format_4d (int n))"
  using show_nat_digits [of n] digit_not_NUL
  by (auto simp: format_4d_def show_int_def Let_def)

section \<open>strncat, strlen and memset\<close>

text \<open>
  \<open>strncat dest src n\<close>: at most \<open>n\<close> bytes of \<open>src\<close>, up to its first NUL, and a
  NUL go to the end of the C string in \<open>dest\<close>. It reads no byte of \<open>src\<close> behind
  the first \<open>n\<close>.
\<close>

definition strncat :: "bytes \<Rightarrow> bytes \<Rightarrow> nat \<Rightarrow> bytes res" where
  "strncat dest src n =
     rbind (c_string dest) (\<lambda>d.
       let s = takeWhile (\<lambda>c. c \<noteq> NUL) (take n src) in
       if length src < n \<and> NUL \<notin> set src then Inl Out_Of_Bounds
       else mem_write dest (length d) (s @ [NUL]))"

definition strlen :: "bytes \<Rightarrow> nat res" where
  "strlen d = rbind (c_string d) (\<lambda>s. Inr (length s))"

text \<open>\<open>memset d c n\<close> with \<open>n\<close> bytes at the start of \<open>d\<close>.\<close>

definition memset :: "bytes \<Rightarrow> char \<Rightarrow> nat \<Rightarrow> bytes res" where
  "memset d c n = mem_write d 0 (replicate n c)"

lemma strncat_empty:
  assumes "length dest = Suc n" and "dest = replicate (Suc n) NUL" and "n \<le> length src"
  shows "\<exists>r. strncat dest src n = Inr (takeWhile (\<lambda>c. c \<noteq> NUL) (take n src) @ NUL # r)"
proof -
  let ?s = "takeWhile (\<lambda>c. c \<noteq> NUL) (take n src)"
  have "c_string dest = Inr []"
    using assms(2) by (simp add: c_string_def)
  moreover have "length ?s \<le> n"
    using length_takeWhile_le [of "\<lambda>c. c \<noteq> NUL" "take n src"] by simp
  ultimately show ?thesis
    using assms(1,3) by (auto simp: strncat_def Let_def mem_write_ok)
qed

end
