(* ===== verification/Socket_Msg.thy ===== *)
theory Socket_Msg
  imports C_Library
begin

text \<open>
  The class \<open>socket_msg\<close> of \<^verbatim>\<open>src/socket_msg.h\<close>: a buffer of four header bytes and
  up to 1024 body bytes, and the body's length. The header is the length printed with
  \<open>%4d\<close>. The theory holds the class's operations, its invariant \<open>msg_inv\<close>, the
  safety of decoding untrusted bytes, the round trip of the header and the bytes a message puts on
  the wire.
\<close>

section \<open>The class\<close>

definition header_length :: nat where
  "header_length = 4"

definition max_body_length :: nat where
  "max_body_length = 1024"

record socket_msg =
  data' :: bytes
  body_length' :: size_t

text \<open>The constructor leaves \<open>data'\<close> uninitialised: the array's old bytes are an argument.\<close>

definition socket_msg_ctor :: "bytes \<Rightarrow> socket_msg" where
  "socket_msg_ctor uninit = \<lparr>data' = uninit, body_length' = 0\<rparr>"

text \<open>\<open>data()\<close> is the whole array, \<open>body()\<close> the array from its offset \<open>header_length\<close>.\<close>

definition msg_data :: "socket_msg \<Rightarrow> bytes" where
  "msg_data m = data' m"

definition msg_length :: "socket_msg \<Rightarrow> size_t" where
  "msg_length m = of_nat header_length + body_length' m"

definition msg_body :: "socket_msg \<Rightarrow> bytes" where
  "msg_body m = drop header_length (data' m)"

definition msg_body_length :: "socket_msg \<Rightarrow> size_t" where
  "msg_body_length m = body_length' m"

definition set_body_length :: "size_t \<Rightarrow> socket_msg \<Rightarrow> socket_msg" where
  "set_body_length new_length m =
     (let m = m\<lparr>body_length' := new_length\<rparr> in
      if body_length' m > of_nat max_body_length
      then m\<lparr>body_length' := of_nat max_body_length\<rparr> else m)"

definition delete_msg :: "socket_msg \<Rightarrow> socket_msg res" where
  "delete_msg m =
     rbind (memset (data' m) NUL (header_length + max_body_length))
       (\<lambda>d. Inr (m\<lparr>data' := d, body_length' := 0\<rparr>))"

text \<open>
  \<open>decode_header\<close>: the local array \<open>header\<close> starts as five NULs; \<open>atoi\<close>'s
  \<open>int\<close> is converted to \<open>size_t\<close>, so a negative number becomes a huge one.
\<close>

definition decode_header :: "socket_msg \<Rightarrow> (bool \<times> socket_msg) res" where
  "decode_header m =
     rbind (strncat (replicate (header_length + 1) NUL) (data' m) header_length) (\<lambda>header.
     rbind (c_string header) (\<lambda>s.
       let m = m\<lparr>body_length' := word_of_int (atoi s)\<rparr> in
       if body_length' m > of_nat max_body_length
       then Inr (False, m\<lparr>body_length' := 0\<rparr>)
       else Inr (True, m)))"

text \<open>\<open>encode_header\<close>: the cast to \<open>int\<close> keeps the low 32 bits, as a signed number.\<close>

definition encode_header :: "socket_msg \<Rightarrow> socket_msg res" where
  "encode_header m =
     rbind (sprintf_4d (replicate (header_length + 1) NUL)
              (sint (ucast (body_length' m) :: 32 word))) (\<lambda>header.
     rbind (mem_write (data' m) 0 (take header_length header)) (\<lambda>d.
       Inr (m\<lparr>data' := d\<rparr>)))"

text \<open>\<open>memcpy(msg.body(), src, n)\<close>, as the senders fill a message.\<close>

definition copy_to_body :: "bytes \<Rightarrow> socket_msg \<Rightarrow> socket_msg res" where
  "copy_to_body bs m =
     rbind (mem_write (data' m) header_length bs) (\<lambda>d. Inr (m\<lparr>data' := d\<rparr>))"

section \<open>The invariant\<close>

definition msg_inv :: "socket_msg \<Rightarrow> bool" where
  "msg_inv m \<longleftrightarrow> length (data' m) = header_length + max_body_length
     \<and> unat (body_length' m) \<le> max_body_length"

named_theorems msg_defs "definitions of the class's constants and accessors"

lemmas msg_consts [msg_defs] = header_length_def max_body_length_def
lemmas msg_access [msg_defs] = msg_data_def msg_body_def msg_body_length_def msg_length_def

lemma msg_inv_ctor:
  "length uninit = header_length + max_body_length \<Longrightarrow> msg_inv (socket_msg_ctor uninit)"
  by (simp add: msg_inv_def socket_msg_ctor_def)

lemma set_body_length_eq:
  "set_body_length n m = m\<lparr>body_length' := min n (of_nat max_body_length)\<rparr>"
  by (simp add: set_body_length_def Let_def min_def not_less)

lemma unat_set_body_length:
  "unat (body_length' (set_body_length n m)) = min (unat n) max_body_length"
  by (simp add: set_body_length_eq min_def word_le_nat_alt msg_consts)

lemma msg_inv_set_body_length:
  "msg_inv m \<Longrightarrow> msg_inv (set_body_length n m)"
  using unat_set_body_length [of n m] by (simp add: msg_inv_def set_body_length_eq)

lemma delete_msg_eq:
  assumes "msg_inv m"
  shows "delete_msg m =
    Inr \<lparr>data' = replicate (header_length + max_body_length) NUL, body_length' = 0\<rparr>"
  using assms by (simp add: delete_msg_def memset_def mem_write_ok msg_inv_def)

lemma msg_inv_cleared:
  "msg_inv \<lparr>data' = replicate (header_length + max_body_length) NUL, body_length' = 0\<rparr>"
  by (simp add: msg_inv_def)

section \<open>Decoding a header\<close>

text \<open>The header text: the first four bytes, up to a NUL among them.\<close>

definition header_text :: "bytes \<Rightarrow> bytes" where
  "header_text d = takeWhile (\<lambda>c. c \<noteq> NUL) (take header_length d)"

lemma length_header_text: "length (header_text d) \<le> 4"
  using length_takeWhile_le [of "\<lambda>c. c \<noteq> NUL" "take 4 d"]
  by (simp add: header_text_def msg_consts)

lemma atoi_header_range: "\<bar>atoi (header_text d)\<bar> < 10000"
proof -
  have "(10::int) ^ length (header_text d) \<le> 10 ^ 4"
    using length_header_text by (intro power_increasing) auto
  with atoi_bound [of "header_text d"] show ?thesis by simp
qed

lemma header_word_gt_iff:
  assumes "\<bar>i\<bar> < 10000"
  shows "(word_of_int i :: size_t) > of_nat max_body_length \<longleftrightarrow> i < 0 \<or> i > 1024"
proof (cases "i < 0")
  case True
  have "uint (word_of_int i :: size_t) = i mod 2 ^ 64"
    by (simp add: uint_word_of_int)
  also have "\<dots> = (i + 2 ^ 64) mod 2 ^ 64"
    by simp
  also have "\<dots> = i + 2 ^ 64"
    using True assms by (intro mod_pos_pos_trivial) auto
  finally show ?thesis
    using True assms by (simp add: word_less_def msg_consts)
next
  case False
  have "uint (word_of_int i :: size_t) = i"
    using False assms by (simp add: uint_word_of_int)
  then show ?thesis
    using False by (simp add: word_less_def msg_consts)
qed

text \<open>What \<open>decode_header\<close> computes, on every byte content of the buffer.\<close>

lemma decode_header_eq:
  assumes "length (data' m) = header_length + max_body_length"
  shows "decode_header m =
    (let i = atoi (header_text (data' m)) in
     if 0 \<le> i \<and> i \<le> 1024 then Inr (True, m\<lparr>body_length' := word_of_int i\<rparr>)
     else Inr (False, m\<lparr>body_length' := 0\<rparr>))"
proof -
  obtain r where r: "strncat (replicate (header_length + 1) NUL) (data' m) header_length
      = Inr (header_text (data' m) @ NUL # r)"
    using strncat_empty [of "replicate (header_length + 1) NUL" header_length "data' m"] assms
    unfolding header_text_def by auto
  have s: "c_string (header_text (data' m) @ NUL # r) = Inr (header_text (data' m))"
    by (rule c_string_append_NUL) (auto simp: header_text_def dest: set_takeWhileD)
  show ?thesis
    unfolding decode_header_def r s rbind_Inr Let_def
    using header_word_gt_iff [OF atoi_header_range, of "data' m"] by auto
qed

lemma unat_word_of_int_header: "0 \<le> i \<Longrightarrow> i \<le> 1024 \<Longrightarrow> unat (word_of_int i :: size_t) = nat i"
  by (simp add: unat_eq_nat_uint uint_word_of_int)

lemma decode_header_total:
  assumes "length (data' m) = header_length + max_body_length"
  shows "\<exists>ok m'. decode_header m = Inr (ok, m') \<and> msg_inv m' \<and> data' m' = data' m
    \<and> (\<not> ok \<longrightarrow> body_length' m' = 0)"
proof (cases "0 \<le> atoi (header_text (data' m)) \<and> atoi (header_text (data' m)) \<le> 1024")
  case True
  with assms have "decode_header m
      = Inr (True, m\<lparr>body_length' := word_of_int (atoi (header_text (data' m)))\<rparr>)"
    by (simp add: decode_header_eq)
  moreover have "nat (atoi (header_text (data' m))) \<le> 1024"
    using True by linarith
  ultimately show ?thesis
    using assms True by (auto simp: msg_inv_def unat_word_of_int_header msg_consts)
next
  case False
  with assms have "decode_header m = Inr (False, m\<lparr>body_length' := 0\<rparr>)"
    by (simp only: decode_header_eq Let_def if_False)
  with assms show ?thesis
    by (auto simp: msg_inv_def)
qed

section \<open>Encoding a header and the wire image\<close>

text \<open>
  The frame of a body: its length in four characters, then the body. This is the wire format both
  ends of a connection use.
\<close>

definition frame :: "bytes \<Rightarrow> bytes" where
  "frame b = format_4d (int (length b)) @ b"

text \<open>The bytes a sender hands to the socket: \<open>data()\<close>, \<open>length()\<close> bytes of it.\<close>

definition wire :: "socket_msg \<Rightarrow> bytes" where
  "wire m = take (unat (msg_length m)) (data' m)"

definition body_bytes :: "socket_msg \<Rightarrow> bytes" where
  "body_bytes m = take (unat (body_length' m)) (msg_body m)"

lemma unat_msg_length: "msg_inv m \<Longrightarrow> unat (msg_length m) = 4 + unat (body_length' m)"
proof -
  assume "msg_inv m"
  then have "unat (4 :: size_t) + unat (body_length' m) < 2 ^ LENGTH(64)"
    by (simp add: msg_inv_def msg_consts)
  then show ?thesis
    by (simp add: msg_length_def msg_consts unat_word_ariths)
qed

lemma sint_ucast_small:
  assumes "unat (w :: size_t) \<le> 1024"
  shows "sint (ucast w :: 32 word) = int (unat w)"
proof -
  have w: "uint w \<le> 1024"
    using assms by (metis of_nat_le_iff of_nat_numeral uint_nat)
  then have "uint (ucast w :: 32 word) = uint w"
    by (simp add: unsigned_ucast_eq take_bit_int_eq_self)
  then have "sint (ucast w :: 32 word) = uint w"
    using w order_trans [OF _ uint_ge_0, of "- (2 ^ 31)" w]
    by (simp add: sint_uint signed_take_bit_int_eq_self)
  then show ?thesis by simp
qed

lemma encode_header_eq:
  assumes "msg_inv m"
  shows "encode_header m =
    Inr (m\<lparr>data' := format_4d (int (unat (body_length' m))) @ drop header_length (data' m)\<rparr>)"
proof -
  let ?n = "unat (body_length' m)"
  have n: "?n \<le> 1024" and l: "length (data' m) = 1028"
    using assms by (simp_all add: msg_inv_def msg_consts)
  then have "length (format_4d (int ?n)) = 4"
    by (intro length_format_4d) simp
  then show ?thesis
    using n l
    by (simp add: encode_header_def sprintf_4d_def sint_ucast_small mem_write_ok msg_consts)
qed

lemma msg_inv_encode_header:
  assumes "msg_inv m" and "encode_header m = Inr m'"
  shows "msg_inv m'"
proof -
  have "length (format_4d (int (unat (body_length' m)))) = 4"
    using assms(1) by (intro length_format_4d) (simp add: msg_inv_def msg_consts)
  with assms show ?thesis
    by (auto simp: encode_header_eq msg_inv_def msg_consts)
qed

lemma header_text_format:
  "n \<le> 1024 \<Longrightarrow> header_text (format_4d (int n) @ r) = format_4d (int n)"
  by (simp add: header_text_def msg_consts length_format_4d format_4d_no_NUL)

lemma length_frame: "length b \<le> 1024 \<Longrightarrow> length (frame b) = 4 + length b"
  by (simp add: frame_def length_format_4d)

lemma wire_encode_header:
  assumes "msg_inv m" and "encode_header m = Inr m'"
  shows "wire m' = frame (body_bytes m)"
proof -
  have l: "length (format_4d (int (unat (body_length' m)))) = 4"
    using assms(1) by (intro length_format_4d) (simp add: msg_inv_def msg_consts)
  have "msg_inv m'" by (rule msg_inv_encode_header [OF assms])
  moreover have "body_length' m' = body_length' m"
    using assms by (auto simp: encode_header_eq)
  moreover have "length (body_bytes m) = unat (body_length' m)"
    using assms(1) by (simp add: body_bytes_def msg_body_def msg_inv_def msg_consts)
  ultimately show ?thesis
    using assms l
    by (auto simp: wire_def unat_msg_length encode_header_eq frame_def body_bytes_def msg_body_def
        msg_consts)
qed

end
