(* ===== verification/Framing.thy ===== *)
theory Framing
  imports Socket_Msg
begin

text \<open>
  The abstract contract of the wire format: a stream is a sequence of frames, each a header of
  four bytes that says how many body bytes follow. \<open>deframe\<close> cuts a stream into bodies;
  the locale \<open>frame_format\<close> states what an encoder and a header decoder promise each
  other and derives that every sequence of bodies is read back from its encoding, whatever
  follows. The class \<open>socket_msg\<close> is the provider: its \<open>encode_header\<close> makes
  the frames and its \<open>decode_header\<close> reads the headers.
\<close>

section \<open>Cutting a stream into bodies\<close>

text \<open>
  The complete bodies at the front of a stream and the bytes that remain: a header that is
  refused, or an incomplete frame.
\<close>

function deframe :: "(bytes \<Rightarrow> nat option) \<Rightarrow> bytes \<Rightarrow> bytes list \<times> bytes" where
  "deframe dec s =
     (if length s < header_length then ([], s)
      else case dec (take header_length s) of
        None \<Rightarrow> ([], s)
      | Some n \<Rightarrow>
          if length s < header_length + n then ([], s)
          else let (bs, r) = deframe dec (drop (header_length + n) s)
               in (take n (drop header_length s) # bs, r))"
  by pat_completeness auto
termination
  by (relation "measure (\<lambda>(dec, s). length s)") (auto simp: msg_consts)

declare deframe.simps [simp del]

lemma deframe_short: "length s < header_length \<Longrightarrow> deframe dec s = ([], s)"
  by (subst deframe.simps) simp

lemma deframe_Nil [simp]: "deframe dec [] = ([], [])"
  by (simp add: deframe_short msg_consts)

lemma deframe_frame:
  assumes "length h = header_length" and "dec h = Some (length b)"
  shows "deframe dec (h @ b @ r) = (b # fst (deframe dec r), snd (deframe dec r))"
  using assms by (subst deframe.simps) (simp add: case_prod_beta)

text \<open>A frame at the end of a completely cut stream adds one body.\<close>

lemma deframe_append_aux:
  "deframe dec c = (bs, r) \<Longrightarrow> r = [] \<Longrightarrow> deframe dec (c @ d) = (bs @ fst (deframe dec d), snd (deframe dec d))"
proof (induction dec c arbitrary: bs r rule: deframe.induct)
  case (1 dec s)
  show ?case
  proof (cases "length s < header_length")
    case True
    with "1.prems" show ?thesis by (simp add: deframe_short)
  next
    case False
    from "1.prems" False obtain n where n: "dec (take header_length s) = Some n"
      by (auto simp: deframe.simps [of dec s] msg_consts split: option.splits)
    with "1.prems" False have len: "\<not> length s < header_length + n"
      by (auto simp: deframe.simps [of dec s] msg_consts split: if_splits)
    obtain bs' where bs': "deframe dec (drop (header_length + n) s) = (bs', [])"
      and bs: "bs = take n (drop header_length s) # bs'"
      using "1.prems" False n len by (auto simp: deframe.simps [of dec s] split: prod.splits)
    have IH: "deframe dec (drop (header_length + n) s @ d)
        = (bs' @ fst (deframe dec d), snd (deframe dec d))"
      by (rule "1.IH" [OF False n len bs' refl])
    have "deframe dec (s @ d) =
        (take n (drop header_length s) # fst (deframe dec (drop (header_length + n) s @ d)),
         snd (deframe dec (drop (header_length + n) s @ d)))"
      using False n len by (subst deframe.simps) (simp add: case_prod_beta)
    then show ?thesis by (simp add: IH bs)
  qed
qed

lemma deframe_append:
  "deframe dec c = (bs, []) \<Longrightarrow> deframe dec (c @ d) = (bs @ fst (deframe dec d), snd (deframe dec d))"
  by (rule deframe_append_aux) simp_all

lemma deframe_snoc:
  assumes "deframe dec c = (bs, [])" and "length h = header_length" and "dec h = Some (length b)"
  shows "deframe dec (c @ h @ b) = (bs @ [b], [])"
  using deframe_append [OF assms(1), of "h @ b"] deframe_frame [of h dec b "[]", OF assms(2,3)]
  by simp

section \<open>The contract\<close>

locale frame_format =
  fixes enc :: "bytes \<Rightarrow> bytes" and dec :: "bytes \<Rightarrow> nat option" and max_len :: nat
  assumes enc_body: "length b \<le> max_len \<Longrightarrow> drop header_length (enc b) = b"
    and enc_length: "length b \<le> max_len \<Longrightarrow> length (enc b) = header_length + length b"
    and dec_enc: "length b \<le> max_len \<Longrightarrow> dec (take header_length (enc b)) = Some (length b)"
    and dec_bound: "length h = header_length \<Longrightarrow> dec h = Some n \<Longrightarrow> n \<le> max_len"
begin

lemma deframe_enc:
  assumes "length b \<le> max_len"
  shows "deframe dec (enc b @ r) = (b # fst (deframe dec r), snd (deframe dec r))"
proof -
  have e: "enc b = take header_length (enc b) @ b"
    using enc_body [OF assms] by (metis append_take_drop_id)
  have "deframe dec ((take header_length (enc b) @ b) @ r)
      = (b # fst (deframe dec r), snd (deframe dec r))"
    using deframe_frame [of "take header_length (enc b)" dec b r] dec_enc [OF assms]
      enc_length [OF assms] by simp
  then show ?thesis using e by simp
qed

text \<open>Every sequence of bodies is read back from the stream of their frames.\<close>

lemma deframe_stream:
  "\<forall>b \<in> set bs. length b \<le> max_len \<Longrightarrow>
     deframe dec (concat (map enc bs) @ r) = (bs @ fst (deframe dec r), snd (deframe dec r))"
  by (induction bs) (auto simp: deframe_enc)

lemma enc_stream_inj:
  assumes "\<forall>b \<in> set bs. length b \<le> max_len" and "\<forall>b \<in> set cs. length b \<le> max_len"
    and "concat (map enc bs) = concat (map enc cs)"
  shows "bs = cs"
  using deframe_stream [OF assms(1), of "[]"] deframe_stream [OF assms(2), of "[]"] assms(3)
  by simp

lemma deframe_bodies_bound: "b \<in> set (fst (deframe dec s)) \<Longrightarrow> length b \<le> max_len"
proof (induction s rule: measure_induct_rule [of length])
  case (less s)
  from less.prems obtain n where n: "dec (take header_length s) = Some n"
    and len: "\<not> length s < header_length + n"
    by (auto simp: deframe.simps [of dec s] split: if_splits option.splits)
  then have b: "b = take n (drop header_length s)
      \<or> b \<in> set (fst (deframe dec (drop (header_length + n) s)))"
    using less.prems by (auto simp: deframe.simps [of dec s] split: prod.splits if_splits)
  have "n \<le> max_len"
    using dec_bound [OF _ n] len by simp
  moreover have "length (drop (header_length + n) s) < length s"
    using len by (simp add: msg_consts)
  ultimately show ?case
    using b less.IH [of "drop (header_length + n) s"] by auto
qed

end

section \<open>The provider: socket_msg\<close>

text \<open>What \<open>decode_header\<close> makes of four header bytes: the body length, or a refusal.\<close>

definition header_value :: "bytes \<Rightarrow> nat option" where
  "header_value h =
     (case decode_header \<lparr>data' = h @ replicate max_body_length NUL, body_length' = 0\<rparr> of
        Inr (True, m) \<Rightarrow> Some (unat (body_length' m))
      | _ \<Rightarrow> None)"

lemma header_value_eq:
  assumes "length h = header_length"
  shows "header_value h =
    (let i = atoi (header_text h) in if 0 \<le> i \<and> i \<le> 1024 then Some (nat i) else None)"
proof -
  have t: "header_text (h @ r) = header_text h" for r
    using assms by (simp add: header_text_def)
  show ?thesis
    using assms by (simp add: header_value_def decode_header_eq Let_def t unat_word_of_int_header)
qed

text \<open>On a message's own buffer, decoding the header is \<open>header_value\<close> of its first bytes.\<close>

lemma decode_header_value:
  assumes "length (data' m) = header_length + max_body_length"
  shows "decode_header m =
    (case header_value (take header_length (data' m)) of
       Some n \<Rightarrow> Inr (True, m\<lparr>body_length' := of_nat n\<rparr>)
     | None \<Rightarrow> Inr (False, m\<lparr>body_length' := 0\<rparr>))"
proof -
  have t: "header_text (take header_length (data' m)) = header_text (data' m)"
    by (simp add: header_text_def)
  have w: "(word_of_int i :: size_t) = of_nat (nat i)" if "0 \<le> i" for i
    using that by simp
  show ?thesis
    using assms w by (auto simp: decode_header_eq header_value_eq Let_def t)
qed

lemma header_value_bound:
  "length h = header_length \<Longrightarrow> header_value h = Some n \<Longrightarrow> n \<le> max_body_length"
  by (auto simp: header_value_eq Let_def msg_consts split: if_splits)

lemma header_value_frame:
  assumes "length b \<le> max_body_length"
  shows "header_value (take header_length (frame b)) = Some (length b)"
proof -
  have l: "length (format_4d (int (length b))) = 4"
    using assms by (intro length_format_4d) (simp add: msg_consts)
  moreover have "header_text (format_4d (int (length b))) = format_4d (int (length b))"
    using header_text_format [of "length b" "[]"] assms by (simp add: msg_consts)
  ultimately show ?thesis
    using assms by (simp add: frame_def header_value_eq atoi_format_4d msg_consts)
qed

interpretation msg_format: frame_format frame header_value max_body_length
proof unfold_locales
  fix b :: bytes
  assume b: "length b \<le> max_body_length"
  then have l: "length (format_4d (int (length b))) = 4"
    by (intro length_format_4d) (simp add: msg_consts)
  show "drop header_length (frame b) = b" and "length (frame b) = header_length + length b"
    by (simp_all add: frame_def l msg_consts)
  show "header_value (take header_length (frame b)) = Some (length b)"
    by (rule header_value_frame [OF b])
qed (rule header_value_bound)

end
