(* ===== verification/Asio.thy ===== *)
theory Asio
  imports Framing "HOL-Library.Sublist"
begin

text \<open>
  The part of Boost.Asio that the connection classes rely on. A handler returns the
  asynchronous operations it starts; the environment (the \<open>io_service\<close>) completes
  outstanding operations, one at a time, and calls their handlers, with or without an error. Two
  step relations say what the environment may do with the write side and with the read side of an
  object, and two locales state what the classes promise for their handlers:
  \<open>write_queue\<close> for the queue of outgoing messages, \<open>framed_reader\<close> for the
  read loop. Both \<open>socket_session\<close> (\<^verbatim>\<open>src/game.cpp\<close>) and \<open>chat_client\<close>
  (\<^verbatim>\<open>src/chat_client.cpp\<close>) interpret both.
\<close>

section \<open>Asynchronous operations\<close>

datatype read_handler = Handle_read_header | Handle_read_body

text \<open>
  \<open>Async_read off n h\<close> reads exactly \<open>n\<close> bytes to offset \<open>off\<close> of the object's
  \<open>read_msg_\<close>; \<open>Async_write d n\<close> writes the first \<open>n\<close> bytes of the array
  \<open>d\<close>.
\<close>

datatype async_op =
    Async_read nat nat read_handler
  | Async_write bytes nat
  | Async_connect
  | Close_socket

type_synonym 's handler_result = "(async_op list \<times> 's) res"

fun writes_of :: "async_op list \<Rightarrow> (bytes \<times> nat) list" where
  "writes_of [] = []"
| "writes_of (Async_write d n # ops) = (d, n) # writes_of ops"
| "writes_of (_ # ops) = writes_of ops"

fun reads_of :: "async_op list \<Rightarrow> (nat \<times> nat \<times> read_handler) list" where
  "reads_of [] = []"
| "reads_of (Async_read off n h # ops) = (off, n, h) # reads_of ops"
| "reads_of (_ # ops) = reads_of ops"

text \<open>The write operation on a message: \<open>buffer(m.data(), m.length())\<close>.\<close>

definition write_op :: "socket_msg \<Rightarrow> async_op" where
  "write_op m = Async_write (data' m) (unat (msg_length m))"

lemma writes_of_write_op [simp]:
  "writes_of (write_op m # ops) = (data' m, unat (msg_length m)) # writes_of ops"
  by (simp add: write_op_def)

lemma reads_of_write_op [simp]: "reads_of (write_op m # ops) = reads_of ops"
  by (simp add: write_op_def)

lemma read_wire: "msg_inv m \<Longrightarrow> mem_read (data' m) 0 (unat (msg_length m)) = Inr (wire m)"
  by (simp add: mem_read_def wire_def unat_msg_length msg_inv_def msg_consts)

section \<open>The write side\<close>

record 's wq_state =
  wq_obj :: 's
  wq_pending :: "(bytes \<times> nat) list"
  wq_sent :: bytes
  wq_accepted :: "socket_msg list"

text \<open>
  The program hands over a message (\<open>deliver\<close>), or one outstanding write ends: with all
  of its bytes written (\<open>written\<close>), or with an error after some of them
  (\<open>failed\<close>).
\<close>

inductive wq_step :: "(socket_msg \<Rightarrow> 's \<Rightarrow> 's handler_result) \<Rightarrow> (bool \<Rightarrow> 's \<Rightarrow> 's handler_result) \<Rightarrow>
    's wq_state \<Rightarrow> 's wq_state \<Rightarrow> bool"
  for enqueue complete where
  deliver: "msg_inv m \<Longrightarrow> enqueue m s = Inr (ops, s') \<Longrightarrow>
     wq_step enqueue complete
       \<lparr>wq_obj = s, wq_pending = p, wq_sent = w, wq_accepted = a\<rparr>
       \<lparr>wq_obj = s', wq_pending = p @ writes_of ops, wq_sent = w, wq_accepted = a @ [m]\<rparr>"
| written: "mem_read d 0 n = Inr bs \<Longrightarrow> complete False s = Inr (ops, s') \<Longrightarrow>
     wq_step enqueue complete
       \<lparr>wq_obj = s, wq_pending = p1 @ (d, n) # p2, wq_sent = w, wq_accepted = a\<rparr>
       \<lparr>wq_obj = s', wq_pending = p1 @ p2 @ writes_of ops, wq_sent = w @ bs, wq_accepted = a\<rparr>"
| failed: "mem_read d 0 n = Inr bs \<Longrightarrow> complete True s = Inr (ops, s') \<Longrightarrow>
     wq_step enqueue complete
       \<lparr>wq_obj = s, wq_pending = p1 @ (d, n) # p2, wq_sent = w, wq_accepted = a\<rparr>
       \<lparr>wq_obj = s', wq_pending = p1 @ p2 @ writes_of ops, wq_sent = w @ take k bs,
        wq_accepted = a\<rparr>"

inductive wq_reachable :: "(socket_msg \<Rightarrow> 's \<Rightarrow> 's handler_result) \<Rightarrow>
    (bool \<Rightarrow> 's \<Rightarrow> 's handler_result) \<Rightarrow> 's \<Rightarrow> 's wq_state \<Rightarrow> bool"
  for enqueue complete s0 where
  wq_start: "wq_reachable enqueue complete s0
     \<lparr>wq_obj = s0, wq_pending = [], wq_sent = [], wq_accepted = []\<rparr>"
| wq_next: "wq_reachable enqueue complete s0 x \<Longrightarrow> wq_step enqueue complete x y \<Longrightarrow>
     wq_reachable enqueue complete s0 y"

text \<open>The messages of the queue and the write they stand for: the one at the front.\<close>

fun front_write :: "socket_msg list \<Rightarrow> (bytes \<times> nat) list" where
  "front_write [] = []"
| "front_write (m # ms) = [(data' m, unat (msg_length m))]"

definition wq_inv :: "('s \<Rightarrow> socket_msg list) \<Rightarrow> 's wq_state \<Rightarrow> bool" where
  "wq_inv queue x \<longleftrightarrow>
     (\<exists>sent. wq_accepted x = sent @ queue (wq_obj x) \<and> (\<forall>m \<in> set (wq_accepted x). msg_inv m) \<and>
       (wq_pending x = front_write (queue (wq_obj x)) \<and> wq_sent x = concat (map wire sent)
        \<or> wq_pending x = [] \<and> queue (wq_obj x) \<noteq> []
          \<and> (\<exists>k. wq_sent x = concat (map wire sent) @ take k (wire (hd (queue (wq_obj x)))))))"

locale write_queue =
  fixes enqueue :: "socket_msg \<Rightarrow> 's \<Rightarrow> 's handler_result"
    and complete :: "bool \<Rightarrow> 's \<Rightarrow> 's handler_result"
    and queue :: "'s \<Rightarrow> socket_msg list"
  assumes enqueue_law: "\<exists>ops s'. enqueue m s = Inr (ops, s') \<and> queue s' = queue s @ [m]
        \<and> writes_of ops = (if queue s = [] then [(data' m, unat (msg_length m))] else [])"
    and complete_ok: "queue s = m # ms \<Longrightarrow> \<exists>ops s'. complete False s = Inr (ops, s') \<and> queue s' = ms
        \<and> writes_of ops = front_write ms"
    and complete_error: "\<exists>ops s'. complete True s = Inr (ops, s') \<and> queue s' = queue s
        \<and> writes_of ops = []"
begin

lemma inv_deliver:
  assumes inv: "wq_inv queue \<lparr>wq_obj = s, wq_pending = p, wq_sent = w, wq_accepted = a\<rparr>"
    and "msg_inv m" and e: "enqueue m s = Inr (ops, s')"
  shows "wq_inv queue
    \<lparr>wq_obj = s', wq_pending = p @ writes_of ops, wq_sent = w, wq_accepted = a @ [m]\<rparr>"
proof -
  have q: "queue s' = queue s @ [m]"
    and o: "writes_of ops = (if queue s = [] then [(data' m, unat (msg_length m))] else [])"
    using enqueue_law [of m s] e by auto
  have "front_write (queue s) @ writes_of ops = front_write (queue s')"
    by (cases "queue s") (auto simp: q o)
  then show ?thesis
    using inv \<open>msg_inv m\<close> q o by (fastforce simp: wq_inv_def)
qed

lemma inv_done:
  assumes inv: "wq_inv queue \<lparr>wq_obj = s, wq_pending = p1 @ (d, n) # p2, wq_sent = w, wq_accepted = a\<rparr>"
    and r: "mem_read d 0 n = Inr bs"
  shows "\<exists>sent m ms. queue s = m # ms \<and> a = sent @ m # ms \<and> (\<forall>m \<in> set a. msg_inv m)
    \<and> w = concat (map wire sent) \<and> p1 = [] \<and> p2 = [] \<and> bs = wire m"
proof -
  obtain sent where a: "a = sent @ queue s" "\<forall>m \<in> set a. msg_inv m"
    and p: "p1 @ (d, n) # p2 = front_write (queue s)" and w: "w = concat (map wire sent)"
    using inv by (auto simp: wq_inv_def)
  from p obtain m ms where q: "queue s = m # ms"
    by (cases "queue s") auto
  with p have "p1 = [] \<and> p2 = [] \<and> d = data' m \<and> n = unat (msg_length m)"
    by (cases p1) auto
  with r read_wire [of m] a q w show ?thesis by auto
qed

lemma inv_step: "wq_step enqueue complete x y \<Longrightarrow> wq_inv queue x \<Longrightarrow> wq_inv queue y"
proof (induction rule: wq_step.induct)
  case (deliver m s ops s' p w a)
  then show ?case by (blast intro: inv_deliver)
next
  case (written d n bs s ops s' p1 p2 w a)
  then obtain sent m ms where *: "queue s = m # ms" "a = sent @ m # ms" "\<forall>m \<in> set a. msg_inv m"
    "w = concat (map wire sent)" "p1 = []" "p2 = []" "bs = wire m"
    using inv_done by blast
  then have "queue s' = ms" and "writes_of ops = front_write ms"
    using complete_ok [of s m ms] written by auto
  with * show ?case
    by (auto simp: wq_inv_def intro!: exI [of _ "sent @ [m]"])
next
  case (failed d n bs s ops s' p1 p2 w a k)
  then obtain sent m ms where *: "queue s = m # ms" "a = sent @ m # ms" "\<forall>m \<in> set a. msg_inv m"
    "w = concat (map wire sent)" "p1 = []" "p2 = []" "bs = wire m"
    using inv_done by blast
  then have "queue s' = m # ms" and "writes_of ops = []"
    using complete_error [of s] failed by auto
  with * show ?case
    by (auto simp: wq_inv_def)
qed

lemma inv_reachable:
  assumes "queue s0 = []" and "wq_reachable enqueue complete s0 x"
  shows "wq_inv queue x"
  using assms(2)
proof induction
  case wq_start
  then show ?case by (simp add: wq_inv_def assms(1))
next
  case (wq_next x y)
  then show ?case by (blast intro: inv_step)
qed

text \<open>
  What is on the wire is a prefix of the accepted messages in their order: nothing is reordered,
  lost, repeated or interleaved, and at most one write is outstanding.
\<close>

lemma sent_prefix:
  assumes "queue s0 = []" and "wq_reachable enqueue complete s0 x"
  shows "prefix (wq_sent x) (concat (map wire (wq_accepted x))) \<and> length (wq_pending x) \<le> 1"
proof -
  obtain sent where a: "wq_accepted x = sent @ queue (wq_obj x)"
    and c: "wq_pending x = front_write (queue (wq_obj x)) \<and> wq_sent x = concat (map wire sent)
        \<or> wq_pending x = [] \<and> queue (wq_obj x) \<noteq> []
          \<and> (\<exists>k. wq_sent x = concat (map wire sent) @ take k (wire (hd (queue (wq_obj x)))))"
    using inv_reachable [OF assms] by (auto simp: wq_inv_def)
  show ?thesis
  proof (cases "queue (wq_obj x)")
    case Nil
    with a c show ?thesis by auto
  next
    case (Cons m ms)
    have "prefix (take k (wire m)) (wire m @ r)" for k r
      using take_is_prefix [of k "wire m"] by (metis prefix_def append.assoc)
    with a c Cons show ?thesis by auto
  qed
qed

text \<open>While no write has failed, an idle connection has sent everything it accepted.\<close>

lemma idle_all_sent:
  assumes "queue s0 = []" and "wq_reachable enqueue complete s0 x" and "queue (wq_obj x) = []"
  shows "wq_pending x = [] \<and> wq_sent x = concat (map wire (wq_accepted x))"
  using inv_reachable [OF assms(1,2)] assms(3) by (auto simp: wq_inv_def)

text \<open>
  After a failed write the front message stays in the queue and nothing is outstanding: further
  messages are only queued, and no write is ever started again.
\<close>

lemma stuck_step:
  assumes "wq_step enqueue complete x y" and "queue (wq_obj x) \<noteq> []" and "wq_pending x = []"
  shows "queue (wq_obj y) \<noteq> [] \<and> wq_pending y = [] \<and> wq_sent y = wq_sent x"
  using assms
proof (induction rule: wq_step.induct)
  case (deliver m s ops s' p w a)
  then show ?case using enqueue_law [of m s] by auto
qed simp_all

lemma stuck_forever:
  assumes "(wq_step enqueue complete)\<^sup>*\<^sup>* x y"
    and "queue (wq_obj x) \<noteq> []" and "wq_pending x = []"
  shows "queue (wq_obj y) \<noteq> [] \<and> wq_pending y = [] \<and> wq_sent y = wq_sent x"
  using assms by (induction rule: rtranclp_induct) (auto dest: stuck_step)

end

section \<open>The read side\<close>

record 's rd_state =
  rd_obj :: 's
  rd_pending :: "(nat \<times> nat \<times> read_handler) list"
  rd_consumed :: bytes
  rd_bodies :: "bytes list"

text \<open>
  One outstanding read ends: with exactly the requested bytes in the buffer, or with an error
  after some of them. \<open>on_header\<close> and \<open>on_body\<close> are the handlers;
  \<open>rbuf\<close> and \<open>set_rbuf\<close> give access to the object's \<open>read_msg_\<close>.
  \<open>rd_bodies\<close> records the body bytes in the buffer when the body handler is called.
\<close>

inductive rd_step :: "(bool \<Rightarrow> 's \<Rightarrow> 's handler_result) \<Rightarrow> (bool \<Rightarrow> 's \<Rightarrow> 's handler_result) \<Rightarrow>
    ('s \<Rightarrow> socket_msg) \<Rightarrow> (socket_msg \<Rightarrow> 's \<Rightarrow> 's) \<Rightarrow> 's rd_state \<Rightarrow> 's rd_state \<Rightarrow> bool"
  for on_header on_body rbuf set_rbuf where
  header_read: "length bs = n \<Longrightarrow> mem_write (data' (rbuf s)) off bs = Inr d \<Longrightarrow>
     on_header False (set_rbuf ((rbuf s)\<lparr>data' := d\<rparr>) s) = Inr (ops, s') \<Longrightarrow>
     rd_step on_header on_body rbuf set_rbuf
       \<lparr>rd_obj = s, rd_pending = p1 @ (off, n, Handle_read_header) # p2, rd_consumed = c, rd_bodies = b\<rparr>
       \<lparr>rd_obj = s', rd_pending = p1 @ p2 @ reads_of ops, rd_consumed = c @ bs, rd_bodies = b\<rparr>"
| body_read: "length bs = n \<Longrightarrow> mem_write (data' (rbuf s)) off bs = Inr d \<Longrightarrow>
     on_body False (set_rbuf ((rbuf s)\<lparr>data' := d\<rparr>) s) = Inr (ops, s') \<Longrightarrow>
     rd_step on_header on_body rbuf set_rbuf
       \<lparr>rd_obj = s, rd_pending = p1 @ (off, n, Handle_read_body) # p2, rd_consumed = c, rd_bodies = b\<rparr>
       \<lparr>rd_obj = s', rd_pending = p1 @ p2 @ reads_of ops, rd_consumed = c @ bs,
        rd_bodies = b @ [body_bytes ((rbuf s)\<lparr>data' := d\<rparr>)]\<rparr>"
| read_error: "length bs < n \<Longrightarrow> mem_write (data' (rbuf s)) off bs = Inr d \<Longrightarrow>
     (if h = Handle_read_header then on_header else on_body) True
       (set_rbuf ((rbuf s)\<lparr>data' := d\<rparr>) s) = Inr (ops, s') \<Longrightarrow>
     rd_step on_header on_body rbuf set_rbuf
       \<lparr>rd_obj = s, rd_pending = p1 @ (off, n, h) # p2, rd_consumed = c, rd_bodies = b\<rparr>
       \<lparr>rd_obj = s', rd_pending = p1 @ p2 @ reads_of ops, rd_consumed = c @ bs, rd_bodies = b\<rparr>"

inductive rd_reachable :: "(bool \<Rightarrow> 's \<Rightarrow> 's handler_result) \<Rightarrow> (bool \<Rightarrow> 's \<Rightarrow> 's handler_result) \<Rightarrow>
    ('s \<Rightarrow> socket_msg) \<Rightarrow> (socket_msg \<Rightarrow> 's \<Rightarrow> 's) \<Rightarrow> 's \<Rightarrow> 's rd_state \<Rightarrow> bool"
  for on_header on_body rbuf set_rbuf s0 where
  rd_start: "rd_reachable on_header on_body rbuf set_rbuf s0
     \<lparr>rd_obj = s0, rd_pending = [(0, header_length, Handle_read_header)], rd_consumed = [],
      rd_bodies = []\<rparr>"
| rd_next: "rd_reachable on_header on_body rbuf set_rbuf s0 x \<Longrightarrow>
     rd_step on_header on_body rbuf set_rbuf x y \<Longrightarrow>
     rd_reachable on_header on_body rbuf set_rbuf s0 y"

text \<open>
  The three phases of the loop: waiting for a header, waiting for the body a header announced, and
  stopped. \<open>c\<close> is the part of the consumed bytes that is cut into bodies.
\<close>

definition rd_inv :: "('s \<Rightarrow> socket_msg) \<Rightarrow> 's rd_state \<Rightarrow> bool" where
  "rd_inv rbuf x \<longleftrightarrow> msg_inv (rbuf (rd_obj x)) \<and>
     (\<exists>c r. rd_consumed x = c @ r \<and> deframe header_value c = (rd_bodies x, []) \<and>
       (rd_pending x = [(0, header_length, Handle_read_header)] \<and> r = []
        \<or> rd_pending x = [(header_length, unat (body_length' (rbuf (rd_obj x))), Handle_read_body)]
          \<and> length r = header_length
          \<and> header_value r = Some (unat (body_length' (rbuf (rd_obj x))))
        \<or> rd_pending x = []))"

locale framed_reader =
  fixes on_header :: "bool \<Rightarrow> 's \<Rightarrow> 's handler_result"
    and on_body :: "bool \<Rightarrow> 's \<Rightarrow> 's handler_result"
    and rbuf :: "'s \<Rightarrow> socket_msg"
    and set_rbuf :: "socket_msg \<Rightarrow> 's \<Rightarrow> 's"
  assumes rbuf_set: "rbuf (set_rbuf m s) = m"
    and header_accept: "decode_header (rbuf s) = Inr (True, m) \<Longrightarrow>
        \<exists>ops s'. on_header False s = Inr (ops, s') \<and> rbuf s' = m
          \<and> reads_of ops = [(header_length, unat (body_length' m), Handle_read_body)]"
    and header_refuse: "decode_header (rbuf s) = Inr (False, m) \<Longrightarrow>
        \<exists>ops s'. on_header False s = Inr (ops, s') \<and> rbuf s' = m \<and> reads_of ops = []"
    and header_error: "on_header True s = Inr (ops, s') \<Longrightarrow> rbuf s' = rbuf s \<and> reads_of ops = []"
    and body_ok: "on_body False s = Inr (ops, s') \<Longrightarrow> rbuf s' = rbuf s
        \<and> reads_of ops = [(0, header_length, Handle_read_header)]"
    and body_error: "on_body True s = Inr (ops, s') \<Longrightarrow> rbuf s' = rbuf s \<and> reads_of ops = []"
begin

lemma inv_header:
  assumes inv: "rd_inv rbuf \<lparr>rd_obj = s, rd_pending = p1 @ (off, n, Handle_read_header) # p2,
      rd_consumed = c, rd_bodies = b\<rparr>"
    and "length bs = n" and wr: "mem_write (data' (rbuf s)) off bs = Inr d"
    and h: "on_header False (set_rbuf ((rbuf s)\<lparr>data' := d\<rparr>) s) = Inr (ops, s')"
  shows "rd_inv rbuf \<lparr>rd_obj = s', rd_pending = p1 @ p2 @ reads_of ops, rd_consumed = c @ bs,
      rd_bodies = b\<rparr>"
proof -
  let ?m = "(rbuf s)\<lparr>data' := d\<rparr>"
  from inv have mi: "msg_inv (rbuf s)" and c: "deframe header_value c = (b, [])"
    and p: "p1 = []" "p2 = []" "off = 0" "n = header_length"
    by (auto simp: rd_inv_def append_eq_Cons_conv)
  have len: "length (data' ?m) = header_length + max_body_length"
    using mem_write_length [OF wr] mi by (simp add: msg_inv_def)
  have bs: "take header_length (data' ?m) = bs"
    using mem_write_read [OF wr] p \<open>length bs = n\<close> by simp
  have dh: "decode_header ?m = (case header_value bs of
      Some n \<Rightarrow> Inr (True, ?m\<lparr>body_length' := of_nat n\<rparr>) | None \<Rightarrow> Inr (False, ?m\<lparr>body_length' := 0\<rparr>))"
    using decode_header_value [OF len] by (simp only: bs)
  show ?thesis
  proof (cases "header_value bs")
    case None
    with dh have "decode_header (rbuf (set_rbuf ?m s)) = Inr (False, ?m\<lparr>body_length' := 0\<rparr>)"
      by (simp add: rbuf_set)
    from header_refuse [OF this] h have "rbuf s' = ?m\<lparr>body_length' := 0\<rparr>" and "reads_of ops = []"
      by auto
    with c p len show ?thesis by (auto simp: rd_inv_def msg_inv_def)
  next
    case (Some k)
    have k: "k \<le> max_body_length"
      using header_value_bound [OF _ Some] p \<open>length bs = n\<close> by simp
    then have u: "unat (of_nat k :: size_t) = k"
      by (simp add: msg_consts)
    from Some dh have "decode_header (rbuf (set_rbuf ?m s)) = Inr (True, ?m\<lparr>body_length' := of_nat k\<rparr>)"
      by (simp add: rbuf_set)
    from header_accept [OF this] h have "rbuf s' = ?m\<lparr>body_length' := of_nat k\<rparr>"
      and "reads_of ops = [(header_length, k, Handle_read_body)]"
      by (auto simp: u)
    with c p len Some k u \<open>length bs = n\<close> show ?thesis
      by (auto simp: rd_inv_def msg_inv_def)
  qed
qed

lemma inv_body:
  assumes inv: "rd_inv rbuf \<lparr>rd_obj = s, rd_pending = p1 @ (off, n, Handle_read_body) # p2,
      rd_consumed = c, rd_bodies = b\<rparr>"
    and "length bs = n" and wr: "mem_write (data' (rbuf s)) off bs = Inr d"
    and h: "on_body False (set_rbuf ((rbuf s)\<lparr>data' := d\<rparr>) s) = Inr (ops, s')"
  shows "rd_inv rbuf \<lparr>rd_obj = s', rd_pending = p1 @ p2 @ reads_of ops, rd_consumed = c @ bs,
      rd_bodies = b @ [body_bytes ((rbuf s)\<lparr>data' := d\<rparr>)]\<rparr>"
proof -
  from inv obtain c' r where mi: "msg_inv (rbuf s)" and c: "c = c' @ r"
    and df: "deframe header_value c' = (b, [])" and r: "length r = header_length"
    and hv: "header_value r = Some n" and n: "n = unat (body_length' (rbuf s))"
    and p: "p1 = []" "p2 = []" "off = header_length"
    by (auto simp: rd_inv_def append_eq_Cons_conv)
  have "body_bytes ((rbuf s)\<lparr>data' := d\<rparr>) = bs"
    using mem_write_read [OF wr] p n \<open>length bs = n\<close> by (simp add: body_bytes_def msg_body_def)
  moreover have "rbuf s' = (rbuf s)\<lparr>data' := d\<rparr>"
    and "reads_of ops = [(0, header_length, Handle_read_header)]"
    using body_ok [OF h] by (simp_all add: rbuf_set)
  moreover have "deframe header_value (c' @ r @ bs) = (b @ [bs], [])"
    using deframe_snoc [OF df r] hv \<open>length bs = n\<close> by simp
  ultimately show ?thesis
    using mem_write_length [OF wr] mi p c by (auto simp: rd_inv_def msg_inv_def)
qed

lemma inv_read_error:
  assumes inv: "rd_inv rbuf \<lparr>rd_obj = s, rd_pending = p1 @ (off, n, h) # p2, rd_consumed = c, rd_bodies = b\<rparr>"
    and wr: "mem_write (data' (rbuf s)) off bs = Inr d"
    and e: "(if h = Handle_read_header then on_header else on_body) True
       (set_rbuf ((rbuf s)\<lparr>data' := d\<rparr>) s) = Inr (ops, s')"
  shows "rd_inv rbuf \<lparr>rd_obj = s', rd_pending = p1 @ p2 @ reads_of ops, rd_consumed = c @ bs, rd_bodies = b\<rparr>"
proof -
  from inv have mi: "msg_inv (rbuf s)" and p: "p1 = []" "p2 = []"
    and c: "\<exists>c' r. c = c' @ r \<and> deframe header_value c' = (b, [])"
    by (auto simp: rd_inv_def append_eq_Cons_conv)
  have "rbuf s' = (rbuf s)\<lparr>data' := d\<rparr> \<and> reads_of ops = []"
    using e header_error body_error by (auto simp: rbuf_set split: if_splits)
  with mi p c mem_write_length [OF wr] show ?thesis
    by (fastforce simp: rd_inv_def msg_inv_def)
qed

lemma reader_inv_step:
  "rd_step on_header on_body rbuf set_rbuf x y \<Longrightarrow> rd_inv rbuf x \<Longrightarrow> rd_inv rbuf y"
  by (induction rule: rd_step.induct) (blast intro: inv_header inv_body inv_read_error)+

lemma reader_inv:
  assumes "msg_inv (rbuf s0)" and "rd_reachable on_header on_body rbuf set_rbuf s0 x"
  shows "rd_inv rbuf x"
  using assms(2)
proof induction
  case rd_start
  then show ?case using assms(1) by (simp add: rd_inv_def)
next
  case (rd_next x y)
  then show ?case by (blast intro: reader_inv_step)
qed

text \<open>
  For every stream of the peer, the bodies handed to the body handler are the frames at its
  front; and every read the loop starts stays inside the buffer.
\<close>

lemma bodies_of_stream:
  assumes "msg_inv (rbuf s0)" and "rd_reachable on_header on_body rbuf set_rbuf s0 x"
  shows "prefix (rd_bodies x) (fst (deframe header_value (rd_consumed x)))
    \<and> (\<forall>(off, n, h) \<in> set (rd_pending x). off + n \<le> length (data' (rbuf (rd_obj x))))
    \<and> length (rd_pending x) \<le> 1"
proof -
  obtain c r where mi: "msg_inv (rbuf (rd_obj x))" and c: "rd_consumed x = c @ r"
    and d: "deframe header_value c = (rd_bodies x, [])"
    and p: "rd_pending x = [(0, header_length, Handle_read_header)]
      \<or> rd_pending x = [(header_length, unat (body_length' (rbuf (rd_obj x))), Handle_read_body)]
      \<or> rd_pending x = []"
    using reader_inv [OF assms] by (auto simp: rd_inv_def)
  have "prefix (rd_bodies x) (fst (deframe header_value (rd_consumed x)))"
    using deframe_append [OF d, of r] c by simp
  with p mi show ?thesis by (auto simp: msg_inv_def)
qed

text \<open>
  Every stream of frames can be read to its end, one body after the other, when the body handler
  never faults on a message in its invariant.
\<close>

lemma header_readable:
  assumes x: "rd_reachable on_header on_body rbuf set_rbuf s0
      \<lparr>rd_obj = s, rd_pending = [(0, header_length, Handle_read_header)], rd_consumed = c, rd_bodies = bs\<rparr>"
    and inv: "msg_inv (rbuf s)" and b: "length b \<le> max_body_length"
  shows "\<exists>s'. msg_inv (rbuf s') \<and> unat (body_length' (rbuf s')) = length b
    \<and> rd_reachable on_header on_body rbuf set_rbuf s0
      \<lparr>rd_obj = s', rd_pending = [(header_length, length b, Handle_read_body)],
       rd_consumed = c @ take header_length (frame b), rd_bodies = bs\<rparr>"
proof -
  let ?h = "take header_length (frame b)"
  let ?d = "?h @ drop header_length (data' (rbuf s))"
  let ?m = "(rbuf s)\<lparr>data' := ?d, body_length' := of_nat (length b)\<rparr>"
  have h: "length ?h = header_length"
    using msg_format.enc_length [OF b] by simp
  have w: "mem_write (data' (rbuf s)) 0 ?h = Inr ?d"
    using inv h by (simp add: mem_write_ok msg_inv_def)
  have u: "unat (of_nat (length b) :: size_t) = length b"
    using b by (simp add: msg_consts)
  have "decode_header (rbuf (set_rbuf ((rbuf s)\<lparr>data' := ?d\<rparr>) s)) = Inr (True, ?m)"
    using inv h header_value_frame [OF b] by (simp add: rbuf_set decode_header_value msg_inv_def)
  from header_accept [OF this] obtain ops s1 where
    o1: "on_header False (set_rbuf ((rbuf s)\<lparr>data' := ?d\<rparr>) s) = Inr (ops, s1)" and s1: "rbuf s1 = ?m"
    and r1: "reads_of ops = [(header_length, length b, Handle_read_body)]"
    by (auto simp: u)
  have st: "rd_step on_header on_body rbuf set_rbuf
      \<lparr>rd_obj = s, rd_pending = [] @ (0, header_length, Handle_read_header) # [], rd_consumed = c,
       rd_bodies = bs\<rparr>
      \<lparr>rd_obj = s1, rd_pending = [] @ [] @ reads_of ops, rd_consumed = c @ ?h, rd_bodies = bs\<rparr>"
    by (rule rd_step.header_read, rule h, rule w, rule o1)
  have "msg_inv (rbuf s1)" "unat (body_length' (rbuf s1)) = length b"
    using inv h b u by (simp_all add: s1 msg_inv_def)
  with rd_next [OF x] st r1 show ?thesis by (intro exI [of _ s1]) simp
qed

lemma body_readable:
  assumes total: "\<And>s. msg_inv (rbuf s) \<Longrightarrow> \<exists>r. on_body False s = Inr r"
    and x: "rd_reachable on_header on_body rbuf set_rbuf s0
      \<lparr>rd_obj = s, rd_pending = [(header_length, length b, Handle_read_body)], rd_consumed = c, rd_bodies = bs\<rparr>"
    and inv: "msg_inv (rbuf s)" and b: "unat (body_length' (rbuf s)) = length b"
  shows "\<exists>s'. msg_inv (rbuf s') \<and> rd_reachable on_header on_body rbuf set_rbuf s0
      \<lparr>rd_obj = s', rd_pending = [(0, header_length, Handle_read_header)],
       rd_consumed = c @ b, rd_bodies = bs @ [b]\<rparr>"
proof -
  obtain d where w: "mem_write (data' (rbuf s)) header_length b = Inr d"
    using inv b by (simp add: msg_inv_def mem_write_def)
  let ?s = "set_rbuf ((rbuf s)\<lparr>data' := d\<rparr>) s"
  have i: "msg_inv (rbuf ?s)"
    using mem_write_length [OF w] inv by (simp add: rbuf_set msg_inv_def)
  obtain ops s' where h: "on_body False ?s = Inr (ops, s')"
    using total [OF i] by auto
  have s': "rbuf s' = rbuf ?s" and r: "reads_of ops = [(0, header_length, Handle_read_header)]"
    using body_ok [OF h] by auto
  have bb: "body_bytes ((rbuf s)\<lparr>data' := d\<rparr>) = b"
    using mem_write_read [OF w] b by (simp add: body_bytes_def msg_body_def)
  have "rd_step on_header on_body rbuf set_rbuf
      \<lparr>rd_obj = s, rd_pending = [] @ (header_length, length b, Handle_read_body) # [],
       rd_consumed = c, rd_bodies = bs\<rparr>
      \<lparr>rd_obj = s', rd_pending = [] @ [] @ reads_of ops, rd_consumed = c @ b,
       rd_bodies = bs @ [body_bytes ((rbuf s)\<lparr>data' := d\<rparr>)]\<rparr>"
    by (rule rd_step.body_read, rule refl, rule w, rule h)
  with rd_next [OF x] r bb i s' show ?thesis by (intro exI [of _ s']) simp
qed

lemma frame_readable:
  assumes total: "\<And>s. msg_inv (rbuf s) \<Longrightarrow> \<exists>r. on_body False s = Inr r"
    and x: "rd_reachable on_header on_body rbuf set_rbuf s0
      \<lparr>rd_obj = s, rd_pending = [(0, header_length, Handle_read_header)], rd_consumed = c, rd_bodies = bs\<rparr>"
    and inv: "msg_inv (rbuf s)" and b: "length b \<le> max_body_length"
  shows "\<exists>s'. msg_inv (rbuf s') \<and> rd_reachable on_header on_body rbuf set_rbuf s0
      \<lparr>rd_obj = s', rd_pending = [(0, header_length, Handle_read_header)],
       rd_consumed = c @ frame b, rd_bodies = bs @ [b]\<rparr>"
proof -
  obtain s1 where s1: "msg_inv (rbuf s1)" "unat (body_length' (rbuf s1)) = length b"
    and x1: "rd_reachable on_header on_body rbuf set_rbuf s0
      \<lparr>rd_obj = s1, rd_pending = [(header_length, length b, Handle_read_body)],
       rd_consumed = c @ take header_length (frame b), rd_bodies = bs\<rparr>"
    using header_readable [OF x inv b] by blast
  have "frame b = take header_length (frame b) @ b"
    using msg_format.enc_body [OF b] by (metis append_take_drop_id)
  then have "(c @ take header_length (frame b)) @ b = c @ frame b"
    by (simp only: append_assoc)
  with body_readable [OF total x1 s1] show ?thesis by simp
qed

lemma stream_readable:
  assumes total: "\<And>s. msg_inv (rbuf s) \<Longrightarrow> \<exists>r. on_body False s = Inr r" and inv: "msg_inv (rbuf s0)"
  shows "\<forall>b \<in> set bs. length b \<le> max_body_length \<Longrightarrow>
    \<exists>s. msg_inv (rbuf s) \<and> rd_reachable on_header on_body rbuf set_rbuf s0
      \<lparr>rd_obj = s, rd_pending = [(0, header_length, Handle_read_header)],
       rd_consumed = concat (map frame bs), rd_bodies = bs\<rparr>"
proof (induction bs rule: rev_induct)
  case Nil
  then show ?case using inv rd_start by force
next
  case (snoc b bs)
  then obtain s where "msg_inv (rbuf s)" and "rd_reachable on_header on_body rbuf set_rbuf s0
      \<lparr>rd_obj = s, rd_pending = [(0, header_length, Handle_read_header)],
       rd_consumed = concat (map frame bs), rd_bodies = bs\<rparr>"
    by auto
  with frame_readable [OF total, of s0 s "concat (map frame bs)" bs b] snoc.prems show ?case by simp
qed

end

end
