(* ===== verification/Socket_Session.thy ===== *)
theory Socket_Session
  imports Asio
begin

text \<open>
  The classes \<open>socket_session\<close> and \<open>socket_server\<close> of
  \<^verbatim>\<open>src/game.cpp\<close>: a connection with its read loop and its queue of outgoing
  messages, and the acceptor that creates the connections. Handlers return the operations they
  start. The session interprets \<open>write_queue\<close> and \<open>framed_reader\<close>.
\<close>

section \<open>socket\_session\<close>

text \<open>\<open>sess_out\<close> collects what the session prints.\<close>

record socket_session =
  read_msg :: socket_msg
  write_msgs :: "socket_msg list"
  sess_out :: "bytes list"

definition socket_session_ctor :: "bytes \<Rightarrow> socket_session" where
  "socket_session_ctor uninit =
     \<lparr>read_msg = socket_msg_ctor uninit, write_msgs = [], sess_out = []\<rparr>"

definition start :: "socket_session \<Rightarrow> socket_session handler_result" where
  "start s = Inr ([Async_read 0 header_length Handle_read_header], s)"

definition deliver :: "socket_msg \<Rightarrow> socket_session \<Rightarrow> socket_session handler_result" where
  "deliver msg s =
     (let write_in_progress = (write_msgs s \<noteq> []);
          s = s\<lparr>write_msgs := write_msgs s @ [msg]\<rparr>
      in if \<not> write_in_progress then Inr ([write_op (hd (write_msgs s))], s) else Inr ([], s))"

definition handle_read_header :: "bool \<Rightarrow> socket_session \<Rightarrow> socket_session handler_result" where
  "handle_read_header error s =
     (if \<not> error then
        rbind (decode_header (read_msg s)) (\<lambda>(ok, m).
          let s = s\<lparr>read_msg := m\<rparr> in
          if ok then Inr ([Async_read header_length (unat (msg_body_length m)) Handle_read_body], s)
          else Inr ([], s))
      else Inr ([], s))"

text \<open>
  \<open>handle_read_body\<close> prints \<open>read_msg_.data()\<close> as a C string: it reads up to the
  first NUL of a buffer that the session never clears.
\<close>

definition handle_read_body :: "bool \<Rightarrow> socket_session \<Rightarrow> socket_session handler_result" where
  "handle_read_body error s =
     (if \<not> error then
        rbind (c_string (msg_data (read_msg s))) (\<lambda>txt.
          Inr ([Async_read 0 header_length Handle_read_header],
               s\<lparr>sess_out := sess_out s @ [''Message: '' @ txt]\<rparr>))
      else Inr ([], s))"

text \<open>\<open>pop_front\<close> on an empty deque is undefined.\<close>

definition handle_write :: "bool \<Rightarrow> socket_session \<Rightarrow> socket_session handler_result" where
  "handle_write error s =
     (if \<not> error then
        (case write_msgs s of
           [] \<Rightarrow> Inl Out_Of_Bounds
         | _ # ms \<Rightarrow>
             let s = s\<lparr>write_msgs := ms\<rparr> in
             if write_msgs s \<noteq> [] then Inr ([write_op (hd (write_msgs s))], s) else Inr ([], s))
      else Inr ([], s))"

definition set_read_msg :: "socket_msg \<Rightarrow> socket_session \<Rightarrow> socket_session" where
  "set_read_msg m s = s\<lparr>read_msg := m\<rparr>"

lemmas session_defs = deliver_def handle_read_header_def handle_read_body_def handle_write_def
  set_read_msg_def msg_body_length_def msg_data_def

interpretation sess_wq: write_queue deliver handle_write write_msgs
proof unfold_locales
  fix m and s :: socket_session
  show "\<exists>ops s'. deliver m s = Inr (ops, s') \<and> write_msgs s' = write_msgs s @ [m]
      \<and> writes_of ops = (if write_msgs s = [] then [(data' m, unat (msg_length m))] else [])"
    by (auto simp: session_defs Let_def)
next
  fix s :: socket_session and m ms
  assume "write_msgs s = m # ms"
  then show "\<exists>ops s'. handle_write False s = Inr (ops, s') \<and> write_msgs s' = ms
      \<and> writes_of ops = front_write ms"
    by (cases ms) (auto simp: session_defs Let_def)
next
  fix s :: socket_session
  show "\<exists>ops s'. handle_write True s = Inr (ops, s') \<and> write_msgs s' = write_msgs s
      \<and> writes_of ops = []"
    by (auto simp: session_defs)
qed

interpretation sess_rd: framed_reader handle_read_header handle_read_body read_msg set_read_msg
  by unfold_locales (auto simp: session_defs Let_def res_simps)

section \<open>socket\_server\<close>

text \<open>
  The acceptor: sessions are numbered in the order of their creation; \<open>srv_accepting\<close>
  lists the sessions with an outstanding \<open>async_accept\<close>, \<open>srv_sessions\<close> holds
  every session created, with the operations it has started.
\<close>

record socket_server =
  srv_next :: nat
  srv_accepting :: "nat list"
  srv_sessions :: "nat \<rightharpoonup> socket_session \<times> async_op list"

definition start_accept :: "bytes \<Rightarrow> socket_server \<Rightarrow> socket_server" where
  "start_accept uninit srv =
     (let new_session = srv_next srv in
      srv\<lparr>srv_next := Suc new_session,
          srv_accepting := srv_accepting srv @ [new_session],
          srv_sessions := (srv_sessions srv)(new_session \<mapsto> (socket_session_ctor uninit, []))\<rparr>)"

definition socket_server_ctor :: "bytes \<Rightarrow> socket_server" where
  "socket_server_ctor uninit =
     start_accept uninit \<lparr>srv_next = 0, srv_accepting = [], srv_sessions = Map.empty\<rparr>"

text \<open>
  \<open>handle_accept\<close>: the accept on \<open>session\<close> has ended; with no error the session
  starts reading, and in every case the next accept is started.
\<close>

definition handle_accept :: "bytes \<Rightarrow> nat \<Rightarrow> bool \<Rightarrow> socket_server \<Rightarrow> socket_server res" where
  "handle_accept uninit session error srv =
     rbind
       (if \<not> error then
          (case srv_sessions srv session of
             None \<Rightarrow> Inl Null_Deref
           | Some (s, ops) \<Rightarrow>
               rbind (start s) (\<lambda>(ops', s').
                 Inr (srv\<lparr>srv_sessions := (srv_sessions srv)(session \<mapsto> (s', ops @ ops'))\<rparr>)))
        else Inr srv)
       (\<lambda>srv. Inr (start_accept uninit (srv\<lparr>srv_accepting := removeAll session (srv_accepting srv)\<rparr>)))"

text \<open>
  Runs of the server: each entry says which outstanding accept ended and how, and what the memory
  of the next session holds.
\<close>

inductive server_run :: "bytes \<Rightarrow> socket_server \<Rightarrow> nat \<Rightarrow> bool" where
  run_start: "server_run u (socket_server_ctor u) 0"
| run_accept: "server_run u srv k \<Longrightarrow> i \<in> set (srv_accepting srv) \<Longrightarrow>
     handle_accept v i e srv = Inr srv' \<Longrightarrow> server_run u srv' (if e then k else Suc k)"

text \<open>The sessions that have started an operation.\<close>

definition started :: "socket_server \<Rightarrow> nat set" where
  "started srv = {j. \<exists>s ops. srv_sessions srv j = Some (s, ops) \<and> ops \<noteq> []}"

definition server_inv :: "socket_server \<Rightarrow> nat \<Rightarrow> bool" where
  "server_inv srv k \<longleftrightarrow>
     (\<exists>i s. srv_accepting srv = [i] \<and> srv_next srv = Suc i \<and> srv_sessions srv i = Some (s, []))
     \<and> (\<forall>j. srv_next srv \<le> j \<longrightarrow> srv_sessions srv j = None)
     \<and> card (started srv) = k
     \<and> finite (dom (srv_sessions srv))"

lemma started_start_accept:
  "srv_sessions srv (srv_next srv) = None \<Longrightarrow> started (start_accept u srv) = started srv"
  by (auto simp: started_def start_accept_def Let_def split: if_splits)

lemma server_inv_ctor: "server_inv (socket_server_ctor u) 0"
  by (auto simp: server_inv_def started_def socket_server_ctor_def start_accept_def Let_def)

lemma server_inv_accept:
  assumes inv: "server_inv srv k" and i: "i \<in> set (srv_accepting srv)"
  shows "\<exists>srv'. handle_accept v i e srv = Inr srv' \<and> server_inv srv' (if e then k else Suc k)"
proof -
  obtain s where a: "srv_accepting srv = [i]" "srv_next srv = Suc i"
    and s: "srv_sessions srv i = Some (s, [])"
    and fresh: "\<forall>j. Suc i \<le> j \<longrightarrow> srv_sessions srv j = None"
    and card: "card (started srv) = k" and fin: "finite (dom (srv_sessions srv))"
    using inv i by (auto simp: server_inv_def)
  let ?srv = "if e then srv
    else srv\<lparr>srv_sessions := (srv_sessions srv)(i \<mapsto> (s, [Async_read 0 header_length Handle_read_header]))\<rparr>"
  let ?r = "start_accept v (?srv\<lparr>srv_accepting := []\<rparr>)"
  have r: "handle_accept v i e srv = Inr ?r"
    using a s by (auto simp: handle_accept_def start_def)
  have "started srv \<subseteq> dom (srv_sessions srv)"
    by (auto simp: started_def)
  then have fin': "finite (started srv)" using fin by (rule finite_subset)
  have "started ?srv = (if e then started srv else insert i (started srv))"
    by (auto simp: started_def split: if_splits)
  moreover have "i \<notin> started srv" using s by (simp add: started_def)
  moreover have "started ?r = started ?srv"
    using a fresh by (subst started_start_accept) (auto simp: started_def)
  ultimately have "card (started ?r) = (if e then k else Suc k)"
    using card fin' by simp
  then have "server_inv ?r (if e then k else Suc k)"
    using a fresh fin
    unfolding server_inv_def by (auto simp: start_accept_def Let_def)
  with r show ?thesis by blast
qed

lemma server_run_inv: "server_run u srv k \<Longrightarrow> server_inv srv k"
proof (induction rule: server_run.induct)
  case (run_start u)
  then show ?case by (rule server_inv_ctor)
next
  case (run_accept u srv k i v e srv')
  then show ?case using server_inv_accept [of srv k i v e] by auto
qed

end
