(* ===== verification/Chat_Client.thy ===== *)
theory Chat_Client
  imports Asio
begin

text \<open>
  \<^verbatim>\<open>src/chat_client.cpp\<close>: the class \<open>chat_client\<close>, whose handlers run in the
  thread of the \<open>io_service\<close>, and \<open>main\<close>, which turns the lines of the standard
  input into messages. The class interprets \<open>write_queue\<close> and \<open>framed_reader\<close>;
  the main results are what the client prints for a stream of the server and what it sends for its
  input.
\<close>

section \<open>The class\<close>

text \<open>
  \<open>cl_posted\<close> holds the handlers that \<open>write\<close> and \<open>close\<close> have posted to
  the \<open>io_service\<close>, \<open>cl_out\<close> what the client has printed.
\<close>

datatype posted = Post_do_write socket_msg | Post_do_close

record chat_client =
  cl_read_msg :: socket_msg
  cl_write_msgs :: "socket_msg list"
  cl_open :: bool
  cl_posted :: "posted list"
  cl_out :: bytes

abbreviation newline :: char where
  "newline \<equiv> CHR 0x0A"

definition chat_client_ctor :: "bytes \<Rightarrow> async_op list \<times> chat_client" where
  "chat_client_ctor uninit =
     ([Async_connect],
      \<lparr>cl_read_msg = socket_msg_ctor uninit, cl_write_msgs = [], cl_open = True, cl_posted = [],
       cl_out = []\<rparr>)"

definition client_write :: "socket_msg \<Rightarrow> chat_client \<Rightarrow> chat_client" where
  "client_write msg c = c\<lparr>cl_posted := cl_posted c @ [Post_do_write msg]\<rparr>"

definition client_close :: "chat_client \<Rightarrow> chat_client" where
  "client_close c = c\<lparr>cl_posted := cl_posted c @ [Post_do_close]\<rparr>"

definition do_close :: "chat_client \<Rightarrow> chat_client handler_result" where
  "do_close c = Inr ([Close_socket], c\<lparr>cl_open := False\<rparr>)"

definition handle_connect :: "bool \<Rightarrow> chat_client \<Rightarrow> chat_client handler_result" where
  "handle_connect error c =
     (if \<not> error then Inr ([Async_read 0 header_length Handle_read_header], c) else Inr ([], c))"

definition cl_handle_read_header :: "bool \<Rightarrow> chat_client \<Rightarrow> chat_client handler_result" where
  "cl_handle_read_header error c =
     (if \<not> error then
        rbind (decode_header (cl_read_msg c)) (\<lambda>(ok, m).
          let c = c\<lparr>cl_read_msg := m\<rparr> in
          if ok then Inr ([Async_read header_length (unat (msg_body_length m)) Handle_read_body], c)
          else do_close c)
      else do_close c)"

text \<open>\<open>cout.write(body(), body_length())\<close> and a newline.\<close>

definition cl_handle_read_body :: "bool \<Rightarrow> chat_client \<Rightarrow> chat_client handler_result" where
  "cl_handle_read_body error c =
     (if \<not> error then
        rbind (mem_read (msg_data (cl_read_msg c)) header_length
                 (unat (msg_body_length (cl_read_msg c)))) (\<lambda>txt.
          Inr ([Async_read 0 header_length Handle_read_header],
               c\<lparr>cl_out := cl_out c @ txt @ [newline]\<rparr>))
      else do_close c)"

definition do_write :: "socket_msg \<Rightarrow> chat_client \<Rightarrow> chat_client handler_result" where
  "do_write msg c =
     (let write_in_progress = (cl_write_msgs c \<noteq> []);
          c = c\<lparr>cl_write_msgs := cl_write_msgs c @ [msg]\<rparr>
      in if \<not> write_in_progress then Inr ([write_op (hd (cl_write_msgs c))], c) else Inr ([], c))"

definition cl_handle_write :: "bool \<Rightarrow> chat_client \<Rightarrow> chat_client handler_result" where
  "cl_handle_write error c =
     (if \<not> error then
        (case cl_write_msgs c of
           [] \<Rightarrow> Inl Out_Of_Bounds
         | _ # ms \<Rightarrow>
             let c = c\<lparr>cl_write_msgs := ms\<rparr> in
             if cl_write_msgs c \<noteq> [] then Inr ([write_op (hd (cl_write_msgs c))], c)
             else Inr ([], c))
      else do_close c)"

text \<open>The \<open>io_service\<close> runs the first posted handler.\<close>

definition run_posted :: "chat_client \<Rightarrow> chat_client handler_result" where
  "run_posted c =
     (case cl_posted c of
        [] \<Rightarrow> Inr ([], c)
      | Post_do_write m # ps \<Rightarrow> do_write m (c\<lparr>cl_posted := ps\<rparr>)
      | Post_do_close # ps \<Rightarrow> do_close (c\<lparr>cl_posted := ps\<rparr>))"

definition cl_set_read_msg :: "socket_msg \<Rightarrow> chat_client \<Rightarrow> chat_client" where
  "cl_set_read_msg m c = c\<lparr>cl_read_msg := m\<rparr>"

lemmas client_defs = do_write_def cl_handle_read_header_def cl_handle_read_body_def
  cl_handle_write_def do_close_def cl_set_read_msg_def msg_body_length_def msg_data_def

interpretation client_wq: write_queue do_write cl_handle_write cl_write_msgs
proof unfold_locales
  fix m and c :: chat_client
  show "\<exists>ops c'. do_write m c = Inr (ops, c') \<and> cl_write_msgs c' = cl_write_msgs c @ [m]
      \<and> writes_of ops = (if cl_write_msgs c = [] then [(data' m, unat (msg_length m))] else [])"
    by (auto simp: client_defs Let_def)
next
  fix c :: chat_client and m ms
  assume "cl_write_msgs c = m # ms"
  then show "\<exists>ops c'. cl_handle_write False c = Inr (ops, c') \<and> cl_write_msgs c' = ms
      \<and> writes_of ops = front_write ms"
    by (cases ms) (auto simp: client_defs Let_def)
next
  fix c :: chat_client
  show "\<exists>ops c'. cl_handle_write True c = Inr (ops, c') \<and> cl_write_msgs c' = cl_write_msgs c
      \<and> writes_of ops = []"
    by (auto simp: client_defs)
qed

interpretation client_rd: framed_reader cl_handle_read_header cl_handle_read_body cl_read_msg
  cl_set_read_msg
  by unfold_locales (auto simp: client_defs Let_def res_simps)

section \<open>What the client prints\<close>

text \<open>The printed text is the bodies of the frames in the received bytes, one line each.\<close>

definition printed :: "bytes list \<Rightarrow> bytes" where
  "printed bs = concat (map (\<lambda>b. b @ [newline]) bs)"

abbreviation client_rd_step :: "chat_client rd_state \<Rightarrow> chat_client rd_state \<Rightarrow> bool" where
  "client_rd_step \<equiv> rd_step cl_handle_read_header cl_handle_read_body cl_read_msg cl_set_read_msg"

abbreviation client_rd_reachable :: "chat_client \<Rightarrow> chat_client rd_state \<Rightarrow> bool" where
  "client_rd_reachable \<equiv>
     rd_reachable cl_handle_read_header cl_handle_read_body cl_read_msg cl_set_read_msg"

lemma client_body_out:
  assumes "cl_handle_read_body False c = Inr (ops, c')"
  shows "cl_out c' = cl_out c @ body_bytes (cl_read_msg c) @ [newline]"
  using assms by (auto simp: client_defs res_simps mem_read_def body_bytes_def msg_body_def split: if_splits)

lemma client_header_out: "cl_handle_read_header e c = Inr (ops, c') \<Longrightarrow> cl_out c' = cl_out c"
  by (auto simp: client_defs res_simps Let_def split: if_splits)

lemma client_error_out: "cl_handle_read_body True c = Inr (ops, c') \<Longrightarrow> cl_out c' = cl_out c"
  by (auto simp: client_defs)

lemma client_out_step:
  "client_rd_step x y \<Longrightarrow> cl_out (rd_obj x) = printed (rd_bodies x) \<Longrightarrow>
     cl_out (rd_obj y) = printed (rd_bodies y)"
proof (induction rule: rd_step.induct)
  case (header_read bs n s off d ops s' p1 p2 c b)
  then show ?case by (auto simp: cl_set_read_msg_def dest: client_header_out)
next
  case (body_read bs n s off d ops s' p1 p2 c b)
  from client_body_out [OF body_read(3)] body_read.prems show ?case
    by (simp add: cl_set_read_msg_def printed_def)
next
  case (read_error bs n s off d h ops s' p1 p2 c b)
  then show ?case
    by (auto simp: cl_set_read_msg_def dest: client_header_out client_error_out split: if_splits)
qed

lemma client_prints_bodies:
  assumes "client_rd_reachable c0 x" and "cl_out c0 = []"
  shows "cl_out (rd_obj x) = printed (rd_bodies x)"
  using assms(1)
proof induction
  case rd_start
  then show ?case by (simp add: assms(2) printed_def)
next
  case (rd_next x y)
  then show ?case by (blast intro: client_out_step)
qed

text \<open>
  The client's body handler never faults: in every state of the loop the body it prints lies in
  the buffer.
\<close>

lemma client_body_total:
  assumes "msg_inv (cl_read_msg c)"
  shows "\<exists>ops c'. cl_handle_read_body e c = Inr (ops, c')"
  using assms by (auto simp: client_defs mem_read_def msg_inv_def)

lemma client_stream_readable:
  assumes u: "length u = header_length + max_body_length"
    and bs: "\<forall>b \<in> set bs. length b \<le> max_body_length"
  shows "\<exists>s. client_rd_reachable (snd (chat_client_ctor u))
      \<lparr>rd_obj = s, rd_pending = [(0, header_length, Handle_read_header)],
       rd_consumed = concat (map frame bs), rd_bodies = bs\<rparr>"
proof -
  have "msg_inv (cl_read_msg (snd (chat_client_ctor u)))"
    using msg_inv_ctor [OF u] by (simp add: chat_client_ctor_def)
  moreover have "\<exists>r. cl_handle_read_body False c = Inr r" if "msg_inv (cl_read_msg c)" for c
    using client_body_total [OF that, of False] by blast
  ultimately show ?thesis
    using client_rd.stream_readable bs by blast
qed

section \<open>main: from lines to messages\<close>

text \<open>
  \<open>cin.getline(line, max_body_length + 1)\<close> in a loop: a line of at most 1024 characters,
  its newline removed; a longer line, or the end of the input, ends the loop.
\<close>

function cin_lines :: "bytes \<Rightarrow> bytes list" where
  "cin_lines inp =
     (if inp = [] then []
      else let line = takeWhile (\<lambda>c. c \<noteq> newline) inp in
        if length line > max_body_length then []
        else line # cin_lines (drop (length line + 1) inp))"
  by pat_completeness auto
termination
  by (relation "measure length") (auto simp: Let_def)

declare cin_lines.simps [simp del]

text \<open>
  The message for a line: the array \<open>line\<close> holds the line and its NUL, so
  \<open>strlen\<close> stops at a NUL inside the line.
\<close>

definition line_msg :: "bytes \<Rightarrow> bytes \<Rightarrow> socket_msg res" where
  "line_msg uninit line =
     (let arr = line @ [NUL]; msg = socket_msg_ctor uninit in
      rbind (strlen arr) (\<lambda>n.
        let msg = set_body_length (of_nat n) msg in
        rbind (mem_read arr 0 (unat (msg_body_length msg))) (\<lambda>bs.
        rbind (copy_to_body bs msg) encode_header)))"

text \<open>The loop over the input: every line's message is written \<open>cnt_n\<close> times.\<close>

fun send_lines :: "bytes \<Rightarrow> int \<Rightarrow> bytes list \<Rightarrow> chat_client \<Rightarrow> chat_client res" where
  "send_lines uninit cnt_n [] c = Inr c"
| "send_lines uninit cnt_n (line # lines) c =
     rbind (line_msg uninit line) (\<lambda>msg.
       send_lines uninit cnt_n lines ((client_write msg ^^ nat cnt_n) c))"

text \<open>
  \<open>main\<close>: the exit code and, when it gets that far, the client with all its handlers
  posted. \<open>argv\<close> includes the program name.
\<close>

definition client_main :: "bytes \<Rightarrow> bytes list \<Rightarrow> bytes \<Rightarrow> (int \<times> chat_client option) res" where
  "client_main uninit argv inp =
     (if length argv < 4 then Inr (1, None)
      else let c = snd (chat_client_ctor uninit); cnt_n = atoi (argv ! 3) in
        rbind (send_lines uninit cnt_n (cin_lines inp) c) (\<lambda>c.
          Inr (0, Some (client_close c))))"

lemma cin_lines_props: "l \<in> set (cin_lines inp) \<Longrightarrow> length l \<le> max_body_length \<and> newline \<notin> set l"
proof (induction inp rule: cin_lines.induct)
  case (1 inp)
  then show ?case
    by (auto simp: cin_lines.simps [of inp] Let_def split: if_splits dest: set_takeWhileD)
qed

text \<open>Lines joined with newlines come back, as long as they fit.\<close>

lemma cin_lines_join:
  assumes "\<forall>l \<in> set ls. length l \<le> max_body_length \<and> newline \<notin> set l"
  shows "cin_lines (printed ls) = ls"
  using assms
proof (induction ls)
  case Nil
  then show ?case by (simp add: printed_def cin_lines.simps)
next
  case (Cons l ls)
  then have tw: "takeWhile (\<lambda>c. c \<noteq> newline) (l @ newline # printed ls) = l"
    by (subst takeWhile_append2) auto
  have "printed (l # ls) = l @ newline # printed ls"
    by (simp add: printed_def)
  with tw Cons show ?case
    by (subst cin_lines.simps) (simp add: Let_def)
qed

lemma line_msg_eq:
  assumes "length uninit = header_length + max_body_length"
    and "length line \<le> max_body_length" and "NUL \<notin> set line"
  shows "\<exists>m. line_msg uninit line = Inr m \<and> msg_inv m \<and> wire m = frame line"
proof -
  have cs: "c_string (line @ [NUL]) = Inr line"
    using c_string_append_NUL [OF assms(3)] .
  let ?n = "length line"
  let ?m = "set_body_length (of_nat ?n) (socket_msg_ctor uninit)"
  have u: "unat (body_length' ?m) = ?n"
    using unat_set_body_length [of "of_nat ?n" "socket_msg_ctor uninit"] assms(2)
    by (simp add: msg_consts)
  have d: "data' ?m = uninit"
    by (simp add: set_body_length_eq socket_msg_ctor_def)
  let ?d = "take header_length uninit @ line @ drop (header_length + ?n) uninit"
  have c: "copy_to_body line ?m = Inr (?m\<lparr>data' := ?d\<rparr>)"
    using assms(1,2) by (simp add: copy_to_body_def d mem_write_ok)
  have inv: "msg_inv (?m\<lparr>data' := ?d\<rparr>)"
    using assms(1,2) u by (simp add: msg_inv_def)
  obtain m' where m': "encode_header (?m\<lparr>data' := ?d\<rparr>) = Inr m'"
    using encode_header_eq [OF inv] by blast
  have "line_msg uninit line = Inr m'"
    by (simp add: line_msg_def Let_def strlen_def cs msg_body_length_def u mem_read_def c m')
  moreover have "msg_inv m'" by (rule msg_inv_encode_header [OF inv m'])
  moreover have "body_bytes (?m\<lparr>data' := ?d\<rparr>) = line"
    using u assms(1) by (simp add: body_bytes_def msg_body_def)
  then have "wire m' = frame line"
    using wire_encode_header [OF inv m'] by simp
  ultimately show ?thesis by blast
qed

text \<open>The messages among the posted handlers, in order.\<close>

fun posted_msgs :: "posted list \<Rightarrow> socket_msg list" where
  "posted_msgs [] = []"
| "posted_msgs (Post_do_write m # ps) = m # posted_msgs ps"
| "posted_msgs (Post_do_close # ps) = posted_msgs ps"

lemma posted_msgs_append: "posted_msgs (ps @ qs) = posted_msgs ps @ posted_msgs qs"
  by (induction ps rule: posted_msgs.induct) auto

lemma posted_client_write_n:
  "cl_posted ((client_write m ^^ k) c) = cl_posted c @ replicate k (Post_do_write m)"
proof (induction k)
  case (Suc k)
  then show ?case
    by (simp add: client_write_def replicate_append_same)
qed simp

lemma posted_msgs_replicate: "posted_msgs (replicate k (Post_do_write m)) = replicate k m"
  by (induction k) auto

lemma send_lines_wire:
  assumes "length uninit = header_length + max_body_length"
    and "\<forall>l \<in> set ls. length l \<le> max_body_length \<and> NUL \<notin> set l"
  shows "\<exists>c' ms. send_lines uninit n ls c = Inr c'
    \<and> posted_msgs (cl_posted c') = posted_msgs (cl_posted c) @ ms
    \<and> map wire ms = map frame (concat (map (replicate (nat n)) ls))
    \<and> (\<forall>m \<in> set ms. msg_inv m)"
  using assms(2)
proof (induction ls arbitrary: c)
  case (Cons l ls)
  obtain m where m: "line_msg uninit l = Inr m" "msg_inv m" "wire m = frame l"
    using line_msg_eq [OF assms(1)] Cons.prems by (metis list.set_intros(1))
  let ?c = "(client_write m ^^ nat n) c"
  obtain c' ms where c': "send_lines uninit n ls ?c = Inr c'"
    "posted_msgs (cl_posted c') = posted_msgs (cl_posted ?c) @ ms"
    "map wire ms = map frame (concat (map (replicate (nat n)) ls))"
    "\<forall>m \<in> set ms. msg_inv m"
    using Cons.IH [of ?c] Cons.prems by auto
  have "posted_msgs (cl_posted c') = posted_msgs (cl_posted c) @ (replicate (nat n) m @ ms)"
    using c'(2) by (simp add: posted_client_write_n posted_msgs_append posted_msgs_replicate)
  moreover have "map wire (replicate (nat n) m @ ms)
      = map frame (concat (map (replicate (nat n)) (l # ls)))"
    using c'(3) m(3) by simp
  moreover have "\<forall>m \<in> set (replicate (nat n) m @ ms). msg_inv m"
    using c'(4) m(2) by (auto simp: in_set_replicate)
  ultimately show ?case
    using m(1) c'(1) by (metis send_lines.simps(2) rbind_Inr)
qed simp

end
