(* ===== verification/Json_Decode.thy ===== *)
theory Json_Decode
  imports Engine_Prelude
begin

text \<open>
  The decoder of \<^verbatim>\<open>src/json.gafq\<close>, the JSON module that the server's script loads.
  Strings are lists of bytes and positions count from 1, as in the script's language. The
  conversion of a text to a number is the parameter \<open>tonumber\<close> over the type
  \<open>'n\<close> of numbers. A table is an association list whose keys are distinct: setting a key to
  nil removes it. An error is a value; the position that \<open>error\<close> prepends is left out. Every
  loop of the decoder ends: all functions here are total.
\<close>

section \<open>Values\<close>

datatype key = KInt nat | KStr bytes

datatype 'n json = JNil | JBool bool | JNum 'n | JStr bytes | JTable "(key \<times> 'n json) list"

type_synonym 'n tab = "(key \<times> 'n json) list"

text \<open>\<open>res[key] = val\<close>.\<close>

fun table_put :: "key \<Rightarrow> 'n json \<Rightarrow> 'n tab \<Rightarrow> 'n tab" where
  "table_put k v [] = [(k, v)]"
| "table_put k v ((k', w) # t) = (if k = k' then (k, v) # t else (k', w) # table_put k v t)"

definition table_set :: "key \<Rightarrow> 'n json \<Rightarrow> 'n tab \<Rightarrow> 'n tab" where
  "table_set k v t = (case v of JNil \<Rightarrow> filter (\<lambda>(k', _). k' \<noteq> k) t | _ \<Rightarrow> table_put k v t)"

definition table_get :: "key \<Rightarrow> 'n tab \<Rightarrow> 'n json" where
  "table_get k t = (case map_of t k of Some v \<Rightarrow> v | None \<Rightarrow> JNil)"

text \<open>\<open>decode_error\<close> reports a message with a line and a column; the others only a message.\<close>

datatype lua_error = Decode_error bytes nat nat | Lua_error bytes

type_synonym 'a lua_res = "lua_error + 'a"

section \<open>Characters and positions\<close>

abbreviation quote :: char where "quote \<equiv> CHR 0x22"
abbreviation backslash :: char where "backslash \<equiv> CHR 0x5C"
abbreviation ch_tab :: char where "ch_tab \<equiv> CHR 0x09"
abbreviation ch_cr :: char where "ch_cr \<equiv> CHR 0x0D"
abbreviation ch_nl :: char where "ch_nl \<equiv> CHR 0x0A"

definition char_at :: "bytes \<Rightarrow> nat \<Rightarrow> char option" where
  "char_at str i = (if 1 \<le> i \<and> i \<le> length str then Some (str ! (i - 1)) else None)"

text \<open>\<open>str:sub(a, b)\<close> for a position \<open>a\<close> that is at least 1.\<close>

definition lua_sub :: "bytes \<Rightarrow> nat \<Rightarrow> nat \<Rightarrow> bytes" where
  "lua_sub str a b = take (b + 1 - a) (drop (a - 1) str)"

definition space_chars :: "char \<Rightarrow> bool" where
  "space_chars c \<longleftrightarrow> c = CHR '' '' \<or> c = ch_tab \<or> c = ch_cr \<or> c = ch_nl"

definition delim_chars :: "char \<Rightarrow> bool" where
  "delim_chars c \<longleftrightarrow> space_chars c \<or> c = CHR '']'' \<or> c = CHR ''}'' \<or> c = CHR '',''"

definition escape_chars :: "char \<Rightarrow> bool" where
  "escape_chars c \<longleftrightarrow> c \<in> set [backslash, CHR ''/'', quote, CHR ''b'', CHR ''f'', CHR ''n'', CHR ''r'', CHR ''t'', CHR ''u'']"

definition escape_char_map :: "char \<Rightarrow> char option" where
  "escape_char_map c = map_of [(backslash, backslash), (quote, quote), (CHR 0x08, CHR ''b''), (CHR 0x0C, CHR ''f''),
     (ch_nl, CHR ''n''), (ch_cr, CHR ''r''), (ch_tab, CHR ''t'')] c"

definition escape_char_map_inv :: "char \<Rightarrow> char option" where
  "escape_char_map_inv c = map_of [(CHR ''/'', CHR ''/''), (backslash, backslash), (quote, quote), (CHR ''b'', CHR 0x08),
     (CHR ''f'', CHR 0x0C), (CHR ''n'', ch_nl), (CHR ''r'', ch_cr), (CHR ''t'', ch_tab)] c"

function next_char :: "bytes \<Rightarrow> nat \<Rightarrow> (char \<Rightarrow> bool) \<Rightarrow> bool \<Rightarrow> nat" where
  "next_char str i S negate =
     (if i \<le> length str then
        if S (str ! (i - 1)) \<noteq> negate then i else next_char str (i + 1) S negate
      else length str + 1)"
  by pat_completeness auto
termination by (relation "measure (\<lambda>(str, i, _, _). length str + 1 - i)") auto

declare next_char.simps [simp del]

text \<open>A text between apostrophes in a message.\<close>

definition in_quotes :: "bytes \<Rightarrow> bytes" where
  "in_quotes s = [CHR 0x27] @ s @ [CHR 0x27]"

text \<open>
  The line and column of a position: the loop runs over all positions before it, also those behind
  the end of the text, where there is no character.
\<close>

definition line_col :: "bytes \<Rightarrow> nat \<Rightarrow> nat \<times> nat" where
  "line_col str idx =
     fold (\<lambda>i (line_count, col_count).
             if char_at str i = Some ch_nl then (line_count + 1, 1) else (line_count, col_count + 1))
       [1..<idx] (1, 1)"

definition decode_error :: "bytes \<Rightarrow> nat \<Rightarrow> bytes \<Rightarrow> 'a lua_res" where
  "decode_error str idx msg =
     (let (line_count, col_count) = line_col str idx in Inl (Decode_error msg line_count col_count))"

section \<open>Strings\<close>

definition lua_char :: "nat \<Rightarrow> char" where
  "lua_char n = char_of n"

text \<open>The format \<open>%x\<close>.\<close>

definition hex_digit :: "nat \<Rightarrow> char" where
  "hex_digit d = ''0123456789abcdef'' ! (d mod 16)"

fun hex_format :: "nat \<Rightarrow> bytes" where
  "hex_format n = (if n < 16 then [hex_digit n] else hex_format (n div 16) @ [hex_digit n])"

declare hex_format.simps [simp del]

definition codepoint_to_utf8 :: "nat \<Rightarrow> bytes lua_res" where
  "codepoint_to_utf8 n =
     (if n \<le> 0x7f then Inr [lua_char n]
      else if n \<le> 0x7ff then Inr [lua_char (n div 64 + 192), lua_char (n mod 64 + 128)]
      else if n \<le> 0xffff then
        Inr [lua_char (n div 4096 + 224), lua_char (n mod 4096 div 64 + 128), lua_char (n mod 64 + 128)]
      else if n \<le> 0x10ffff then
        Inr [lua_char (n div 262144 + 240), lua_char (n mod 262144 div 4096 + 128),
             lua_char (n mod 4096 div 64 + 128), lua_char (n mod 64 + 128)]
      else Inl (Lua_error (''invalid unicode codepoint '' @ in_quotes (hex_format n))))"

definition is_xdigit :: "char \<Rightarrow> bool" where
  "is_xdigit c \<longleftrightarrow> c \<in> set ''0123456789abcdefABCDEF''"

definition xdigit_val :: "char \<Rightarrow> nat" where
  "xdigit_val c =
     (let n = of_char c in
      if n < 58 then n - 48 else if n < 71 then n - 55 else n - 87)"

definition hex_val :: "bytes \<Rightarrow> nat" where
  "hex_val s = foldl (\<lambda>a c. 16 * a + xdigit_val c) 0 s"

text \<open>
  The two patterns: a pair of escapes whose first one is a high surrogate, and a single one. The
  second of a pair may be any four digits.
\<close>

definition match_pair :: "bytes \<Rightarrow> bytes option" where
  "match_pair s =
     (if 10 \<le> length s \<and> s ! 0 \<in> set ''dD'' \<and> s ! 1 \<in> set ''89aAbB'' \<and> list_all is_xdigit (take 2 (drop 2 s))
         \<and> s ! 4 = backslash \<and> s ! 5 = CHR ''u'' \<and> list_all is_xdigit (take 4 (drop 6 s))
      then Some (take 10 s) else None)"

definition match_single :: "bytes \<Rightarrow> bytes option" where
  "match_single s = (if 4 \<le> length s \<and> list_all is_xdigit (take 4 s) then Some (take 4 s) else None)"

definition match_hex :: "bytes \<Rightarrow> bytes option" where
  "match_hex s = (case match_pair s of Some h \<Rightarrow> Some h | None \<Rightarrow> match_single s)"

text \<open>\<open>n2\<close> exists exactly when the match is a pair; the difference is computed as a signed number.\<close>

definition parse_unicode_escape :: "bytes \<Rightarrow> bytes lua_res" where
  "parse_unicode_escape s =
     (let n1 = hex_val (lua_sub s 1 4); s2 = lua_sub s 7 10 in
      if s2 \<noteq> [] then
        codepoint_to_utf8 (nat ((int n1 - 0xd800) * 0x400 + (int (hex_val s2) - 0xdc00) + 0x10000))
      else codepoint_to_utf8 n1)"

text \<open>The loop of \<open>parse_string\<close>; \<open>i\<close> is the position of the opening quote.\<close>

function parse_string_loop :: "bytes \<Rightarrow> nat \<Rightarrow> nat \<Rightarrow> nat \<Rightarrow> bytes \<Rightarrow> (bytes \<times> nat) lua_res" where
  "parse_string_loop str i j k res =
     (if j \<le> length str then
        (let x = (of_char (str ! (j - 1)) :: nat) in
         if x < 32 then decode_error str j ''control character in string''
         else if x = 92 then
           (let res = res @ lua_sub str k (j - 1); j' = j + 1 in
            if char_at str j' = Some (CHR ''u'') then
              (case match_hex (drop j' str) of
                 None \<Rightarrow> decode_error str (j' - 1) ''invalid unicode escape in string''
               | Some hex \<Rightarrow>
                   rbind (parse_unicode_escape hex) (\<lambda>u.
                     parse_string_loop str i (j' + length hex + 1) (j' + length hex + 1) (res @ u)))
            else
              (case char_at str j' of
                 None \<Rightarrow> decode_error str (j' - 1) (''invalid escape char '' @ in_quotes [] @ '' in string'')
               | Some c \<Rightarrow>
                   if \<not> escape_chars c then decode_error str (j' - 1) (''invalid escape char '' @ in_quotes [c] @ '' in string'')
                   else (case escape_char_map_inv c of
                           None \<Rightarrow> Inl (Lua_error ''attempt to concatenate a nil value'')
                         | Some e \<Rightarrow> parse_string_loop str i (j' + 1) (j' + 1) (res @ [e]))))
         else if x = 34 then Inr (res @ lua_sub str k (j - 1), j + 1)
         else parse_string_loop str i (j + 1) k res)
      else decode_error str i ''expected closing quote for string'')"
  by pat_completeness auto
termination by (relation "measure (\<lambda>(str, _, j, _, _). length str + 1 - j)") auto

declare parse_string_loop.simps [simp del]

definition parse_string :: "bytes \<Rightarrow> nat \<Rightarrow> (bytes \<times> nat) lua_res" where
  "parse_string str i = parse_string_loop str i (i + 1) (i + 1) []"

section \<open>Numbers and literals\<close>

definition parse_number :: "(bytes \<Rightarrow> 'n option) \<Rightarrow> bytes \<Rightarrow> nat \<Rightarrow> ('n json \<times> nat) lua_res" where
  "parse_number tonumber str i =
     (let x = next_char str i delim_chars False; s = lua_sub str i (x - 1) in
      case tonumber s of
        None \<Rightarrow> decode_error str i (''invalid number '' @ in_quotes s)
      | Some n \<Rightarrow> Inr (JNum n, x))"

definition literal_map :: "bytes \<Rightarrow> 'n json option" where
  "literal_map word = map_of [(''true'', JBool True), (''false'', JBool False), (''null'', JNil)] word"

definition parse_literal :: "bytes \<Rightarrow> nat \<Rightarrow> ('n json \<times> nat) lua_res" where
  "parse_literal str i =
     (let x = next_char str i delim_chars False; word = lua_sub str i (x - 1) in
      case literal_map word of
        None \<Rightarrow> decode_error str i (''invalid literal '' @ in_quotes word)
      | Some v \<Rightarrow> Inr (v, x))"

section \<open>Progress\<close>

text \<open>Every successful step moves forward and stays within one position of the end.\<close>

lemma char_at_Some: "char_at str i = Some c \<longleftrightarrow> 1 \<le> i \<and> i \<le> length str \<and> str ! (i - 1) = c"
  by (auto simp: char_at_def)

lemma next_char_bounds:
  "i \<le> length str + 1 \<Longrightarrow> i \<le> next_char str i S neg \<and> next_char str i S neg \<le> length str + 1"
proof (induction str i S neg rule: next_char.induct)
  case (1 str i S neg)
  then show ?case by (subst (1 2) next_char.simps) auto
qed

lemma next_char_beyond: "length str < i \<Longrightarrow> next_char str i S neg = length str + 1"
  by (subst next_char.simps) simp

lemma next_char_le: "next_char str i S neg \<le> length str \<Longrightarrow> i \<le> next_char str i S neg"
  using next_char_bounds [of i str S neg] next_char_beyond [of str i S neg]
  by (cases "i \<le> length str + 1") auto

lemma next_char_char_at:
  "char_at str (next_char str i S neg) = Some c \<Longrightarrow>
     i \<le> next_char str i S neg \<and> next_char str i S neg \<le> length str"
  using next_char_le [of str i S neg] by (simp add: char_at_Some)

lemma next_char_pos: "1 \<le> i \<Longrightarrow> 1 \<le> next_char str i S neg"
  using next_char_bounds [of i str S neg] next_char_beyond [of str i S neg]
  by (cases "i \<le> length str + 1") auto

lemma decode_error_not_Inr [simp]: "decode_error str i msg \<noteq> Inr x" "Inr x \<noteq> decode_error str i msg"
  by (simp_all add: decode_error_def split: prod.splits)

lemma match_hex_length: "match_hex s = Some h \<Longrightarrow> length h \<le> length s \<and> 4 \<le> length h"
  by (auto simp: match_hex_def match_pair_def match_single_def split: option.splits if_splits)

lemma parse_string_loop_bounds:
  "parse_string_loop str i j k res = Inr (s, j') \<Longrightarrow> j < j' \<and> j' \<le> length str + 1"
proof (induction str i j k res rule: parse_string_loop.induct)
  case (1 str i j k res)
  note eq = 1(4) [unfolded parse_string_loop.simps [of str i j k res]]
  show ?case
    using eq 1(1-3)
    by (auto simp: Let_def res_simps split: if_splits option.splits) fastforce+
qed

lemma parse_number_bounds:
  "parse_number tonumber str i = Inr (v, x) \<Longrightarrow> i \<le> length str \<Longrightarrow> i \<le> x \<and> x \<le> length str + 1"
  using next_char_bounds [of i str delim_chars False]
  by (auto simp: parse_number_def Let_def split: option.splits)

lemma parse_literal_bounds:
  "parse_literal str i = Inr (v, x) \<Longrightarrow> i \<le> length str \<Longrightarrow> i \<le> x \<and> x \<le> length str + 1"
  using next_char_bounds [of i str delim_chars False]
  by (auto simp: parse_literal_def Let_def split: option.splits)

section \<open>Values, arrays and objects\<close>

function (sequential) parse :: "(bytes \<Rightarrow> 'n option) \<Rightarrow> bytes \<Rightarrow> nat \<Rightarrow> ('n json \<times> nat) lua_res"
  and parse_array :: "(bytes \<Rightarrow> 'n option) \<Rightarrow> bytes \<Rightarrow> nat \<Rightarrow> nat \<Rightarrow> 'n tab \<Rightarrow> ('n json \<times> nat) lua_res"
  and parse_object :: "(bytes \<Rightarrow> 'n option) \<Rightarrow> bytes \<Rightarrow> nat \<Rightarrow> 'n tab \<Rightarrow> ('n json \<times> nat) lua_res"
where
  "parse tonumber str idx =
     (case char_at str idx of
        None \<Rightarrow> decode_error str idx (''unexpected character '' @ in_quotes [])
      | Some chr \<Rightarrow>
          if chr = quote then rbind (parse_string str idx) (\<lambda>(s, j). Inr (JStr s, j))
          else if chr \<in> set ''0123456789-'' then parse_number tonumber str idx
          else if chr \<in> set ''tfn'' then parse_literal str idx
          else if chr = CHR ''['' then parse_array tonumber str (idx + 1) 1 []
          else if chr = CHR ''{'' then parse_object tonumber str (idx + 1) []
          else decode_error str idx (''unexpected character '' @ in_quotes [chr]))"
| "parse_array tonumber str i n res =
     (let i' = next_char str i space_chars True in
      if char_at str i' = Some (CHR '']'') then Inr (JTable res, i' + 1)
      else
        rbind (parse tonumber str i') (\<lambda>(x, j).
          let res = table_set (KInt n) x res;
              j' = next_char str j space_chars True
          in if char_at str j' = Some (CHR '']'') then Inr (JTable res, j' + 1)
             else if char_at str j' \<noteq> Some (CHR '','') then decode_error str (j' + 1) (''expected '' @ in_quotes '']'' @ '' or '' @ in_quotes '','')
             else parse_array tonumber str (j' + 1) (n + 1) res))"
| "parse_object tonumber str i res =
     (let i' = next_char str i space_chars True in
      if char_at str i' = Some (CHR ''}'') then Inr (JTable res, i' + 1)
      else if char_at str i' \<noteq> Some quote then decode_error str i' ''expected string for key''
      else
        rbind (parse_string str i') (\<lambda>(key, j).
          let c = next_char str j space_chars True in
          if char_at str c \<noteq> Some (CHR '':'') then decode_error str c (''expected '' @ in_quotes '':'' @ '' after key'')
          else
            let v = next_char str (c + 1) space_chars True in
            rbind (parse tonumber str v) (\<lambda>(val, j).
              let res = table_set (KStr key) val res;
                  j' = next_char str j space_chars True
              in if char_at str j' = Some (CHR ''}'') then Inr (JTable res, j' + 1)
                 else if char_at str j' \<noteq> Some (CHR '','') then decode_error str (j' + 1) (''expected '' @ in_quotes ''}'' @ '' or '' @ in_quotes '','')
                 else parse_object tonumber str (j' + 1) res)))"
  by pat_completeness auto

lemma next_char_rest: "length str + 1 - next_char str i S neg \<le> length str + 1 - i"
  using next_char_le [of str i S neg] by (cases "next_char str i S neg \<le> length str") auto

lemma object_key_bounds:
  assumes "char_at str (next_char str i space_chars True) = Some quote"
    and "parse_string str (next_char str i space_chars True) = Inr (s, l)"
    and "char_at str (next_char str l space_chars True) = Some c"
  shows "i \<le> next_char str l space_chars True \<and> next_char str l space_chars True \<le> length str"
proof -
  have "i \<le> next_char str i space_chars True" using next_char_char_at [OF assms(1)] by simp
  moreover have "next_char str i space_chars True < l"
    using parse_string_loop_bounds assms(2) by (fastforce simp: parse_string_def)
  ultimately show ?thesis using next_char_char_at [OF assms(3)] by simp
qed

text \<open>How a value, an array and an object are read when reading them succeeds, on the domain of the functions.\<close>

lemma parse_dom_Inr:
  assumes dom: "parse_parse_array_parse_object_dom (Inl (tn, str, i))"
    and p: "parse tn str i = Inr (v, j)"
  obtains (string) s where "char_at str i = Some quote" "parse_string str i = Inr (s, j)" "v = JStr s"
  | (number) c where "char_at str i = Some c" "parse_number tn str i = Inr (v, j)"
  | (literal) c where "char_at str i = Some c" "parse_literal str i = Inr (v, j)"
  | (array) "char_at str i = Some (CHR ''['')" "parse_array tn str (i + 1) 1 [] = Inr (v, j)"
  | (object) "char_at str i = Some (CHR ''{'')" "parse_object tn str (i + 1) [] = Inr (v, j)"
proof -
  obtain c where c: "char_at str i = Some c"
    using p by (cases "char_at str i") (simp_all add: parse.psimps [OF dom])
  note eq = p [unfolded parse.psimps [OF dom] c option.case]
  show ?thesis
  proof (cases "c = quote")
    case True
    with eq c string show ?thesis by (auto simp: rbind_eq_Inr)
  next
    case False
    with eq c number literal array object show ?thesis by (metis decode_error_not_Inr(1))
  qed
qed

lemma parse_array_dom_Inr:
  assumes dom: "parse_parse_array_parse_object_dom (Inr (Inl (tn, str, i, n, t)))"
    and "parse_array tn str i n t = Inr (v, j)"
  obtains (close) "char_at str (next_char str i space_chars True) = Some (CHR '']'')"
      "v = JTable t" "j = next_char str i space_chars True + 1"
  | (last) x k where "char_at str (next_char str i space_chars True) \<noteq> Some (CHR '']'')"
      "parse tn str (next_char str i space_chars True) = Inr (x, k)"
      "char_at str (next_char str k space_chars True) = Some (CHR '']'')"
      "v = JTable (table_set (KInt n) x t)" "j = next_char str k space_chars True + 1"
  | (comma) x k where "char_at str (next_char str i space_chars True) \<noteq> Some (CHR '']'')"
      "parse tn str (next_char str i space_chars True) = Inr (x, k)"
      "char_at str (next_char str k space_chars True) = Some (CHR '','')"
      "parse_array tn str (next_char str k space_chars True + 1) (n + 1) (table_set (KInt n) x t) = Inr (v, j)"
  using assms(2) unfolding parse_array.psimps [OF dom] Let_def
  by (force simp: rbind_eq_Inr split: if_splits)

lemma parse_object_dom_Inr:
  assumes dom: "parse_parse_array_parse_object_dom (Inr (Inr (tn, str, i, t)))"
    and "parse_object tn str i t = Inr (v, j)"
  obtains (close) "char_at str (next_char str i space_chars True) = Some (CHR ''}'')"
      "v = JTable t" "j = next_char str i space_chars True + 1"
  | (pair) s l x k where "char_at str (next_char str i space_chars True) = Some quote"
      "parse_string str (next_char str i space_chars True) = Inr (s, l)"
      "char_at str (next_char str l space_chars True) = Some (CHR '':'')"
      "parse tn str (next_char str (next_char str l space_chars True + 1) space_chars True) = Inr (x, k)"
      "char_at str (next_char str k space_chars True) = Some (CHR ''}'')
         \<and> v = JTable (table_set (KStr s) x t) \<and> j = next_char str k space_chars True + 1
       \<or> char_at str (next_char str k space_chars True) = Some (CHR '','')
         \<and> parse_object tn str (next_char str k space_chars True + 1) (table_set (KStr s) x t) = Inr (v, j)"
  using assms(2) unfolding parse_object.psimps [OF dom] Let_def
  by (force simp: rbind_eq_Inr split: if_splits)

text \<open>
  Termination: a value is shorter than what is left of the text, and the loops go on behind it. The
  bounds hold on the domain of the functions, before they are known to be total.
\<close>

lemma parse_dom_bounds:
  "parse_parse_array_parse_object_dom (Inl (tn, str, i)) \<Longrightarrow> parse tn str i = Inr (v, j) \<Longrightarrow>
     i \<le> j \<and> j \<le> length str + 1 \<and> i \<le> length str"
  "parse_parse_array_parse_object_dom (Inr (Inl (tn, str, i, n, t))) \<Longrightarrow>
     parse_array tn str i n t = Inr (v, j) \<Longrightarrow> i \<le> j \<and> j \<le> length str + 1 \<and> i \<le> length str"
  "parse_parse_array_parse_object_dom (Inr (Inr (tn, str, i, t))) \<Longrightarrow>
     parse_object tn str i t = Inr (v, j) \<Longrightarrow> i \<le> j \<and> j \<le> length str + 1 \<and> i \<le> length str"
proof (induction arbitrary: v j and v j and v j rule: parse_parse_array_parse_object.pinduct)
  case (1 tn str i)
  from 1(1,4) show ?case
  proof (cases rule: parse_dom_Inr)
    case string
    then show ?thesis
      using parse_string_loop_bounds [of str i "i + 1" "i + 1" "[]"] by (auto simp: parse_string_def char_at_Some)
  next
    case number
    then show ?thesis using parse_number_bounds [of tn str i] by (simp add: char_at_Some)
  next
    case literal
    then show ?thesis using parse_literal_bounds [of str i] by (simp add: char_at_Some)
  next
    case array
    then show ?thesis using 1(2) [OF array(1)] by (simp add: char_at_Some)
  next
    case object
    then show ?thesis using 1(3) [OF object(1)] by (simp add: char_at_Some)
  qed
next
  case (2 tn str i n t)
  from 2(1,4) show ?case
  proof (cases rule: parse_array_dom_Inr)
    case close
    then show ?thesis using next_char_char_at [OF close(1)] by simp
  next
    case (last x k)
    note b = 2(2) [OF refl last(1,2)]
    then show ?thesis
      using next_char_le [of str i space_chars True] next_char_char_at [OF last(3)] last(5) by simp
  next
    case (comma x k)
    note b = 2(2) [OF refl comma(1,2)]
    have "char_at str (next_char str k space_chars True) \<noteq> Some (CHR '']'')" using comma(3) by simp
    from 2(3) [OF refl comma(1,2) refl refl refl this _ comma(4)] comma(3)
    show ?thesis
      using b next_char_le [of str i space_chars True] next_char_char_at [OF comma(3)] by simp
  qed
next
  case (3 tn str i t)
  from 3(1,4) show ?case
  proof (cases rule: parse_object_dom_Inr)
    case close
    then show ?thesis using next_char_char_at [OF close(1)] by simp
  next
    case (pair s l x k)
    have ne: "char_at str (next_char str i space_chars True) \<noteq> Some (CHR ''}'')" using pair(1) by simp
    have q: "\<not> char_at str (next_char str i space_chars True) \<noteq> Some quote" using pair(1) by simp
    have c: "\<not> char_at str (next_char str l space_chars True) \<noteq> Some (CHR '':'')" using pair(3) by simp
    note b = 3(2) [OF refl ne q pair(2) refl refl c refl pair(4)]
    have i: "i \<le> next_char str l space_chars True" using object_key_bounds [OF pair(1-3)] by simp
    have v: "i < k \<and> k \<le> length str + 1"
      using b i next_char_le [of str "next_char str l space_chars True + 1" space_chars True] by simp
    from pair(5) show ?thesis
    proof
      assume fin: "char_at str (next_char str k space_chars True) = Some (CHR ''}'')
         \<and> v = JTable (table_set (KStr s) x t) \<and> j = next_char str k space_chars True + 1"
      then show ?thesis using v next_char_char_at [of str k] by fastforce
    next
      assume more: "char_at str (next_char str k space_chars True) = Some (CHR '','')
         \<and> parse_object tn str (next_char str k space_chars True + 1) (table_set (KStr s) x t) = Inr (v, j)"
      then have "next_char str k space_chars True + 1 \<le> j \<and> j \<le> length str + 1"
        using 3(3) [OF refl ne q pair(2) refl refl c refl pair(4) refl refl refl] by simp
      then show ?thesis using v more next_char_char_at [of str k] by fastforce
    qed
  qed
qed



lemma parse_total: "All parse_parse_array_parse_object_dom"
proof (relation "measure (case_sum (\<lambda>(_, str, i). 2 * (length str + 1 - i))
    (case_sum (\<lambda>(_, str, i, _, _). 2 * (length str + 1 - i) + 1) (\<lambda>(_, str, i, _). 2 * (length str + 1 - i) + 1)))",
    goal_cases)
  case 1
  show ?case by simp
next
  case (2 tn str i c)
  then show ?case by (auto simp: char_at_Some)
next
  case (3 tn str i c)
  then show ?case by (auto simp: char_at_Some)
next
  case (4 tn str i n t i')
  then show ?case using next_char_rest [of str i space_chars True] by simp
next
  case (5 tn str i n t i' x v j t' j')
  then have "i' \<le> j" "j \<le> length str + 1" "i' \<le> length str" "i \<le> i'"
    using parse_dom_bounds(1) [of tn str i' v j] next_char_le [of str i space_chars True] by auto
  moreover have "j \<le> j'" using 5 next_char_bounds calculation by blast
  moreover have "j' \<le> length str" using 5 by (simp add: char_at_Some)
  ultimately show ?case by simp
next
  case (6 tn str i t i' x key l c v)
  then have "i \<le> c" using object_key_bounds [of str i key l] by auto
  then show ?case using 6(8) next_char_rest [of str "c + 1" space_chars True] by simp
next
  case (7 tn str i t i' x key l c v y val k t' j')
  then have "i \<le> c" using object_key_bounds [of str i key l] by auto
  moreover have "v \<le> k" "k \<le> length str + 1" "c + 1 \<le> v"
    using 7 parse_dom_bounds(1) [of tn str v val k] next_char_le [of str "c + 1" space_chars True] by auto
  moreover have "k \<le> j'" using 7 next_char_bounds calculation by blast
  moreover have "j' \<le> length str" using 7 by (simp add: char_at_Some)
  ultimately show ?case by simp
qed

termination parse by (rule parse_total)

definition json_decode :: "(bytes \<Rightarrow> 'n option) \<Rightarrow> bytes \<Rightarrow> 'n json lua_res" where
  "json_decode tonumber str =
     rbind (parse tonumber str (next_char str 1 space_chars True)) (\<lambda>(res, idx).
       let idx = next_char str idx space_chars True in
       if idx \<le> length str then decode_error str idx ''trailing garbage'' else Inr res)"

declare parse.simps [simp del] parse_array.simps [simp del] parse_object.simps [simp del]

section \<open>Decoded values are well formed\<close>

text \<open>The keys of every table are distinct, and nil is never stored in one.\<close>

fun json_wf :: "'n json \<Rightarrow> bool" where
  "json_wf (JTable t) \<longleftrightarrow> distinct (map fst t) \<and> (\<forall>kv \<in> set t. snd kv \<noteq> JNil \<and> json_wf (snd kv))"
| "json_wf _ \<longleftrightarrow> True"

lemma set_table_put: "set (table_put k v t) \<subseteq> insert (k, v) (set t)"
  by (induction k v t rule: table_put.induct) auto

lemma table_put_keys: "distinct (map fst t) \<Longrightarrow> distinct (map fst (table_put k v t))"
proof (induction t)
  case (Cons a t)
  then show ?case using set_table_put [of k v t] by (cases a) (auto simp: image_iff)
qed simp

lemma json_wf_table_set: "json_wf (JTable t) \<Longrightarrow> json_wf v \<Longrightarrow> json_wf (JTable (table_set k v t))"
  using set_table_put [of k v t] table_put_keys [of t k v]
  by (cases v) (auto simp: table_set_def distinct_map_filter)

lemma table_get_set: "table_get k (table_set k' v t) = (if k = k' then v else table_get k t)"
proof -
  have "map_of (table_put k' v t) k = (if k = k' then Some v else map_of t k)" for v
    by (induction t) auto
  moreover have "map_of (filter (\<lambda>(a, _). a \<noteq> k') t) k = (if k = k' then None else map_of t k)"
    by (induction t) auto
  ultimately show ?thesis by (cases v) (simp_all add: table_get_def table_set_def)
qed

lemmas parse_Inr =
  parse_dom_Inr [OF parse_total [THEN spec], consumes 1, case_names string number literal array object]
lemmas parse_array_Inr =
  parse_array_dom_Inr [OF parse_total [THEN spec], consumes 1, case_names close last comma]
lemmas parse_object_Inr =
  parse_object_dom_Inr [OF parse_total [THEN spec], consumes 1, case_names close pair]

lemma parse_wf:
  "parse tn str i = Inr (v, j) \<Longrightarrow> json_wf v"
  "json_wf (JTable t) \<Longrightarrow> parse_array tn str i n t = Inr (v, j) \<Longrightarrow> json_wf v"
  "json_wf (JTable t) \<Longrightarrow> parse_object tn str i t = Inr (v, j) \<Longrightarrow> json_wf v"
proof (induction arbitrary: v j and v j and v j rule: parse_parse_array_parse_object.induct)
  case (1 tn str i)
  have e: "json_wf (JTable [])" by simp
  from 1(3) show ?case
  proof (cases rule: parse_Inr)
    case number
    then show ?thesis by (auto simp: parse_number_def Let_def split: option.splits)
  next
    case literal
    then show ?thesis by (auto simp: parse_literal_def literal_map_def Let_def split: option.splits if_splits)
  next
    case array
    then show ?thesis using 1(1) [OF array(1) _ _ _ _ e] by simp
  next
    case object
    then show ?thesis using 1(2) [OF object(1) _ _ _ _ _ e] by simp
  qed simp
next
  case (2 tn str i n t)
  from 2(4) show ?case
  proof (cases rule: parse_array_Inr)
    case close
    with 2(3) show ?thesis by simp
  next
    case (last x k)
    with 2(1) [OF refl last(1,2)] 2(3) show ?thesis by (simp only: json_wf_table_set)
  next
    case (comma x k)
    show ?thesis
      by (rule 2(2) [OF refl comma(1,2) refl refl refl _ _ _ comma(4)])
        (use comma(3) 2(1) [OF refl comma(1,2)] 2(3) in \<open>simp_all add: json_wf_table_set del: json_wf.simps\<close>)
  qed
next
  case (3 tn str i t)
  from 3(4) show ?case
  proof (cases rule: parse_object_Inr)
    case close
    with 3(3) show ?thesis by simp
  next
    case (pair s l x k)
    have ne: "char_at str (next_char str i space_chars True) \<noteq> Some (CHR ''}'')" using pair(1) by simp
    have q: "\<not> char_at str (next_char str i space_chars True) \<noteq> Some quote" using pair(1) by simp
    have c: "\<not> char_at str (next_char str l space_chars True) \<noteq> Some (CHR '':'')" using pair(3) by simp
    have x: "json_wf (JTable (table_set (KStr s) x t))"
      using 3(1) [OF refl ne q pair(2) refl refl c refl pair(4)] 3(3) by (rule json_wf_table_set [rotated])
    from pair(5) show ?thesis
    proof
      assume "char_at str (next_char str k space_chars True) = Some (CHR '','')
        \<and> parse_object tn str (next_char str k space_chars True + 1) (table_set (KStr s) x t) = Inr (v, j)"
      then show ?thesis
        using 3(2) [OF refl ne q pair(2) refl refl c refl pair(4) refl refl refl _ _ x] by simp
    qed (use x in simp)
  qed
qed

lemma json_decode_wf: "json_decode tn str = Inr v \<Longrightarrow> json_wf v"
  using parse_wf(1) by (auto simp: json_decode_def res_simps Let_def split: if_splits)

section \<open>Positions of errors\<close>

lemma line_col_Suc:
  "1 \<le> i \<Longrightarrow> line_col str (Suc i) =
     (if char_at str i = Some ch_nl then (fst (line_col str i) + 1, 1)
      else (fst (line_col str i), snd (line_col str i) + 1))"
  by (simp add: line_col_def split: prod.splits)

lemma line_col_one: "i \<le> 1 \<Longrightarrow> line_col str i = (1, 1)"
  by (simp add: line_col_def)

lemma line_col_beyond: "i \<le> length str + 1 \<Longrightarrow> fst (line_col str i) = 1 + count_list (take (i - 1) str) ch_nl"
proof (induction i)
  case 0
  then show ?case by (simp add: line_col_one)
next
  case (Suc i)
  show ?case
  proof (cases "1 \<le> i")
    case True
    with Suc have "take i str = take (i - 1) str @ [str ! (i - 1)]"
      using take_Suc_conv_app_nth [of "i - 1" str] by simp
    with True Suc show ?thesis by (simp add: line_col_Suc char_at_def)
  next
    case False
    then have "i = 0" by simp
    then show ?thesis by (simp add: line_col_one)
  qed
qed

lemma line_col_last: "fst (line_col str (length str + 2)) = fst (line_col str (length str + 1))"
  using line_col_Suc [of "length str + 1" str] by (simp add: char_at_def)

lemma line_col_col: "1 \<le> snd (line_col str i) \<and> snd (line_col str i) \<le> max 1 i"
proof (induction i)
  case (Suc i)
  then show ?case by (cases "1 \<le> i") (simp_all add: line_col_Suc line_col_one)
qed (simp add: line_col_one)

lemma count_take_le: "count_list (take n s) c \<le> count_list s c"
  by (metis append_take_drop_id count_list_append le_add1)

text \<open>An error that reports a position reports one of the text, or at most one column behind its end.\<close>

definition located :: "bytes \<Rightarrow> 'a lua_res \<Rightarrow> bool" where
  "located str r \<longleftrightarrow> (case r of
     Inl (Decode_error m l c) \<Rightarrow> 1 \<le> l \<and> l \<le> 1 + count_list str ch_nl \<and> 1 \<le> c \<and> c \<le> length str + 2
   | _ \<Rightarrow> True)"

lemma located_Inr [simp]: "located str (Inr x)" and located_Lua_error [simp]: "located str (Inl (Lua_error m))"
  by (simp_all add: located_def)

lemma located_decode_error [simp]:
  assumes "i \<le> length str + 2" shows "located str (decode_error str i msg)"
proof -
  have "1 \<le> fst (line_col str i)" "fst (line_col str i) \<le> 1 + count_list str ch_nl"
    using assms line_col_beyond [of i str] line_col_beyond [of "length str + 1" str] line_col_last [of str]
      count_take_le [of "i - 1" str ch_nl]
    by (cases "i = length str + 2"; simp)+
  then show ?thesis
    using assms line_col_col [of str i]
    by (cases "line_col str i") (auto simp: located_def decode_error_def)
qed

lemma located_if: "(P \<Longrightarrow> located str a) \<Longrightarrow> (\<not> P \<Longrightarrow> located str b) \<Longrightarrow> located str (if P then a else b)"
  by simp

lemma located_rbind:
  "located str r \<Longrightarrow> (\<And>x. r = Inr x \<Longrightarrow> located str (f x)) \<Longrightarrow> located str (rbind r f)"
  by (cases r) (simp_all add: located_def)

lemma located_literal_number:
  assumes "i \<le> length str + 2"
  shows "located str (parse_literal str i)" "located str (parse_number tn str i)"
  using assms by (simp_all add: parse_literal_def parse_number_def Let_def split: option.split)

lemma located_codepoint [simp]: "located str (parse_unicode_escape h)"
  by (simp add: parse_unicode_escape_def codepoint_to_utf8_def Let_def)

lemma located_string_loop: "i \<le> length str + 1 \<Longrightarrow> located str (parse_string_loop str i j k res)"
proof (induction str i j k res rule: parse_string_loop.induct)
  case (1 str i j k res)
  show ?case
    using 1 unfolding parse_string_loop.simps [of str i j k res] Let_def
    by (auto intro!: located_rbind split: option.splits)
qed

lemma next_char_upper: "next_char str i S neg \<le> length str + 1"
  using next_char_bounds [of i str S neg] next_char_beyond [of str i S neg] by (cases "i \<le> length str + 1") auto

lemma next_char_upper_simps [simp]:
  "next_char str i S neg \<le> Suc (length str)" "next_char str i S neg \<le> Suc (Suc (length str))"
  using next_char_upper [of str i S neg] by simp_all

lemma located_parse:
  "i \<le> length str + 2 \<Longrightarrow> located str (parse tn str i)"
  "located str (parse_array tn str i n t)"
  "located str (parse_object tn str i t)"
proof (induction tn str i and tn str i n t and tn str i t rule: parse_parse_array_parse_object.induct)
  case (1 tn str i)
  show ?case
  proof (cases "char_at str i")
    case None
    then show ?thesis using 1(3) by (simp add: parse.simps)
  next
    case (Some c)
    then have i: "i \<le> length str" by (simp add: char_at_Some)
    have "located str (rbind (parse_string str i) (\<lambda>(s, j). Inr (JStr s, j)))"
      using i by (auto intro!: located_rbind located_string_loop simp: parse_string_def)
    then show ?thesis
      unfolding parse.simps [of tn str i] Some option.case
      using i by (intro located_if 1(1,2) [OF Some] located_literal_number) auto
  qed
next
  case (2 tn str i n t)
  show ?case
    unfolding parse_array.simps [of tn str i n t] Let_def
    using 2 by (auto intro!: located_rbind)
next
  case (3 tn str i t)
  show ?case
    unfolding parse_object.simps [of tn str i t] Let_def
    using 3 by (auto intro!: located_rbind located_string_loop simp: parse_string_def)
qed

lemma located_json_decode: "located str (json_decode tn str)"
  unfolding json_decode_def Let_def by (auto intro!: located_rbind located_parse)

end
