(* ===== verification/Json_Encode.thy ===== *)
theory Json_Encode
  imports Json_Decode
begin

text \<open>
  The encoder of \<^verbatim>\<open>src/json.gafq\<close>. Tables have an identity here, because the encoder
  looks for circular references: a value refers to a table by its address in a heap, and the table
  \<open>stack\<close> of the script, which holds the tables being encoded, is a set of addresses that is
  threaded through the calls. The entries of a table stand in the order in which \<open>pairs\<close>
  enumerates them. What the interpreter does with numbers and the length operator on tables are
  parameters, collected in the record \<open>lua_env\<close>.
\<close>

section \<open>Values with identity\<close>

text \<open>\<open>NumKey\<close> is a number that is not an integer, \<open>OtherKey\<close> a key of another type.\<close>

datatype 'n lkey = IntKey int | NumKey 'n | StrKey bytes | OtherKey nat

text \<open>\<open>LOther\<close> is a value of a type the encoder does not know, given by the name of the type.\<close>

datatype 'n lval = LNil | LBool bool | LNum 'n | LStr bytes | LRef nat | LOther bytes

type_synonym 'n ltable = "('n lkey \<times> 'n lval) list"
type_synonym 'n lheap = "(nat \<times> 'n ltable) list"

record 'n lua_env =
  format_14g :: "'n \<Rightarrow> bytes"
  is_finite :: "'n \<Rightarrow> bool"
  num_tostring :: "'n \<Rightarrow> bytes"
  table_length :: "'n ltable \<Rightarrow> nat"

definition rawget :: "'n ltable \<Rightarrow> 'n lkey \<Rightarrow> 'n lval" where
  "rawget t k = (case map_of t k of Some v \<Rightarrow> v | None \<Rightarrow> LNil)"

definition heap_table :: "'n lheap \<Rightarrow> nat \<Rightarrow> 'n ltable" where
  "heap_table h a = (case map_of h a of Some t \<Rightarrow> t | None \<Rightarrow> [])"

text \<open>What \<open>#t\<close> may return: a border of the table.\<close>

definition is_border :: "'n ltable \<Rightarrow> nat \<Rightarrow> bool" where
  "is_border t n \<longleftrightarrow> (n = 0 \<or> rawget t (IntKey (int n)) \<noteq> LNil) \<and> rawget t (IntKey (int n + 1)) = LNil"

definition is_number_key :: "'n lkey \<Rightarrow> bool" where
  "is_number_key k \<longleftrightarrow> (case k of IntKey _ \<Rightarrow> True | NumKey _ \<Rightarrow> True | _ \<Rightarrow> False)"

text \<open>The values that \<open>ipairs\<close> visits from an index on.\<close>

lemma rawget_key: "rawget t k \<noteq> LNil \<Longrightarrow> k \<in> fst ` set t"
  by (auto simp: rawget_def split: option.splits dest: map_of_SomeD) (metis fst_conv image_eqI map_of_SomeD)

lemma index_keys_decrease:
  assumes "IntKey (int i) \<in> K" "finite K"
  shows "card {j. i + 1 \<le> j \<and> IntKey (int j) \<in> K} < card {j. i \<le> j \<and> IntKey (int j) \<in> K}"
proof (rule psubset_card_mono)
  have "finite ((\<lambda>j. IntKey (int j)) -` K)" by (intro finite_vimageI assms) (auto intro: injI)
  then show "finite {j. i \<le> j \<and> IntKey (int j) \<in> K}" by (rule rev_finite_subset) auto
  have "i \<in> {j. i \<le> j \<and> IntKey (int j) \<in> K}" "i \<notin> {j. i + 1 \<le> j \<and> IntKey (int j) \<in> K}"
    using assms by auto
  moreover have "{j. i + 1 \<le> j \<and> IntKey (int j) \<in> K} \<subseteq> {j. i \<le> j \<and> IntKey (int j) \<in> K}" by auto
  ultimately show "{j. i + 1 \<le> j \<and> IntKey (int j) \<in> K} \<subset> {j. i \<le> j \<and> IntKey (int j) \<in> K}"
    by blast
qed

function ipairs_from :: "'n ltable \<Rightarrow> nat \<Rightarrow> 'n lval list" where
  "ipairs_from t i =
     (let v = rawget t (IntKey (int i)) in if v = LNil then [] else v # ipairs_from t (i + 1))"
  by pat_completeness auto
termination
  by (relation "measure (\<lambda>(t, i). card {j. i \<le> j \<and> IntKey (int j) \<in> fst ` set t})")
    (auto dest!: rawget_key intro: index_keys_decrease simp del: One_nat_def add_Suc_right)

declare ipairs_from.simps [simp del]

section \<open>Strings and numbers\<close>

text \<open>The format \<open>%04x\<close>.\<close>

definition hex_format4 :: "nat \<Rightarrow> bytes" where
  "hex_format4 n = replicate (4 - length (hex_format n)) (CHR ''0'') @ hex_format n"

definition escape_char :: "char \<Rightarrow> bytes" where
  "escape_char c = backslash #
     (case escape_char_map c of Some e \<Rightarrow> [e] | None \<Rightarrow> CHR ''u'' # hex_format4 (of_char c))"

definition needs_escape :: "char \<Rightarrow> bool" where
  "needs_escape c \<longleftrightarrow> (of_char c :: nat) < 32 \<or> c = backslash \<or> c = quote"

definition encode_string :: "bytes \<Rightarrow> bytes" where
  "encode_string val = [quote] @ concat (map (\<lambda>c. if needs_escape c then escape_char c else [c]) val) @ [quote]"

definition encode_number :: "'n lua_env \<Rightarrow> 'n \<Rightarrow> bytes lua_res" where
  "encode_number env val =
     (if \<not> is_finite env val then Inl (Lua_error (''unexpected number value '' @ in_quotes (num_tostring env val)))
      else Inr (format_14g env val))"

definition encode_nil :: bytes where
  "encode_nil = ''null''"

definition bool_tostring :: "bool \<Rightarrow> bytes" where
  "bool_tostring b = (if b then ''true'' else ''false'')"

text \<open>\<open>table.concat(res, ",")\<close>.\<close>

fun concat_comma :: "bytes list \<Rightarrow> bytes" where
  "concat_comma [] = []"
| "concat_comma [s] = s"
| "concat_comma (s # t # r) = s @ [CHR '',''] @ concat_comma (t # r)"

section \<open>Tables\<close>

function (sequential) encode :: "'n lua_env \<Rightarrow> 'n lheap \<Rightarrow> nat set \<Rightarrow> 'n lval \<Rightarrow> (bytes \<times> nat set) lua_res"
  and encode_table :: "'n lua_env \<Rightarrow> 'n lheap \<Rightarrow> nat set \<Rightarrow> nat \<Rightarrow> (bytes \<times> nat set) lua_res"
  and encode_ipairs :: "'n lua_env \<Rightarrow> 'n lheap \<Rightarrow> nat set \<Rightarrow> 'n lval list \<Rightarrow> (bytes list \<times> nat set) lua_res"
  and encode_pairs :: "'n lua_env \<Rightarrow> 'n lheap \<Rightarrow> nat set \<Rightarrow> 'n ltable \<Rightarrow> (bytes list \<times> nat set) lua_res"
where
  "encode env h stack v =
     (case v of
        LNil \<Rightarrow> Inr (encode_nil, stack)
      | LRef a \<Rightarrow> encode_table env h stack a
      | LStr s \<Rightarrow> Inr (encode_string s, stack)
      | LNum n \<Rightarrow> rbind (encode_number env n) (\<lambda>s. Inr (s, stack))
      | LBool b \<Rightarrow> Inr (bool_tostring b, stack)
      | LOther t \<Rightarrow> Inl (Lua_error (''unexpected type '' @ in_quotes t)))"
| "encode_table env h stack a =
     (if a \<in> stack then Inl (Lua_error ''circular reference'')
      else
        (let stack = insert a stack; val = heap_table h a in
         if rawget val (IntKey 1) \<noteq> LNil \<or> val = [] then
           if \<not> list_all (\<lambda>(k, _). is_number_key k) val
           then Inl (Lua_error ''invalid table: mixed or invalid key types'')
           else if length val \<noteq> table_length env val then Inl (Lua_error ''invalid table: sparse array'')
           else
             rbind (encode_ipairs env h stack (ipairs_from val 1)) (\<lambda>(res, stack).
               Inr ([CHR ''[''] @ concat_comma res @ [CHR '']''], stack - {a}))
         else
           rbind (encode_pairs env h stack val) (\<lambda>(res, stack).
             Inr ([CHR ''{''] @ concat_comma res @ [CHR ''}''], stack - {a}))))"
| "encode_ipairs env h stack [] = Inr ([], stack)"
| "encode_ipairs env h stack (v # vs) =
     rbind (encode env h stack v) (\<lambda>(s, stack).
       rbind (encode_ipairs env h stack vs) (\<lambda>(ss, stack). Inr (s # ss, stack)))"
| "encode_pairs env h stack [] = Inr ([], stack)"
| "encode_pairs env h stack ((k, v) # t) =
     (case k of
        StrKey key \<Rightarrow>
          rbind (encode env h stack v) (\<lambda>(s, stack).
            rbind (encode_pairs env h stack t) (\<lambda>(ss, stack).
              Inr ((encode_string key @ [CHR '':''] @ s) # ss, stack)))
      | _ \<Rightarrow> Inl (Lua_error ''invalid table: mixed or invalid key types''))"
  by pat_completeness auto

text \<open>
  A call that returns leaves the stack as it found it: this is what the reset at the end of
  \<open>encode_table\<close> is for. It holds on the domain of the functions, and then gives termination: the
  tables of the heap that are not on the stack become fewer.
\<close>

lemma encode_dom_stack:
  "encode_encode_table_encode_ipairs_encode_pairs_dom (Inl (Inl (env, h, st, v))) \<Longrightarrow>
     encode env h st v = Inr (s, st') \<Longrightarrow> st' = st"
  "encode_encode_table_encode_ipairs_encode_pairs_dom (Inl (Inr (env, h, st, a))) \<Longrightarrow>
     encode_table env h st a = Inr (s, st') \<Longrightarrow> st' = st"
  "encode_encode_table_encode_ipairs_encode_pairs_dom (Inr (Inl (env, h, st, vs))) \<Longrightarrow>
     encode_ipairs env h st vs = Inr (ss, st') \<Longrightarrow> st' = st"
  "encode_encode_table_encode_ipairs_encode_pairs_dom (Inr (Inr (env, h, st, t))) \<Longrightarrow>
     encode_pairs env h st t = Inr (ss, st') \<Longrightarrow> st' = st"
proof (induction arbitrary: s st' and s st' and ss st' and ss st'
    rule: encode_encode_table_encode_ipairs_encode_pairs.pinduct)
  case (1 env h st v)
  then show ?case by (auto simp: encode.psimps res_simps split: lval.splits)
next
  case (2 env h st a)
  note eq = 2(4) [unfolded encode_table.psimps [OF 2(1)] Let_def]
  have a: "a \<notin> st" using eq by (simp split: if_splits)
  show ?case
  proof (cases "rawget (heap_table h a) (IntKey 1) \<noteq> LNil \<or> heap_table h a = []")
    case True
    with eq a obtain ss st1 where "encode_ipairs env h (insert a st) (ipairs_from (heap_table h a) 1) = Inr (ss, st1)"
        "st' = st1 - {a}" "list_all (\<lambda>(k, _). is_number_key k) (heap_table h a)"
        "length (heap_table h a) = table_length env (heap_table h a)"
      by (auto simp: rbind_eq_Inr split: if_splits)
    then show ?thesis using a 2(2) [OF a refl refl True] by simp
  next
    case False
    with eq a obtain ss st1 where "encode_pairs env h (insert a st) (heap_table h a) = Inr (ss, st1)" "st' = st1 - {a}"
      by (auto simp: rbind_eq_Inr split: if_splits)
    then show ?thesis using a 2(3) [OF a refl refl False] by simp
  qed
next
  case (4 env h st v vs)
  from 4(4) obtain x st1 xs where v: "encode env h st v = Inr (x, st1)"
      and vs: "encode_ipairs env h st1 vs = Inr (xs, st')"
    by (auto simp: encode_ipairs.psimps(2) [OF 4(1)] rbind_eq_Inr)
  show ?case using 4(2) [OF v] 4(3) [OF v refl vs] by simp
next
  case (6 env h st k v t)
  note eq = 6(4) [unfolded encode_pairs.psimps(2) [OF 6(1)]]
  from eq obtain key where k: "k = StrKey key" by (auto split: lkey.splits)
  from eq obtain x st1 xs where v: "encode env h st v = Inr (x, st1)"
      and t: "encode_pairs env h st1 t = Inr (xs, st')"
    by (auto simp: rbind_eq_Inr k)
  show ?case using 6(2) [OF k v] 6(3) [OF k v refl t] by simp
qed (simp_all add: encode_ipairs.psimps encode_pairs.psimps)

definition heap_addrs :: "'n lheap \<Rightarrow> nat set" where
  "heap_addrs h = set (map fst h)"

lemma card_stack: "a \<notin> st \<Longrightarrow> a \<in> heap_addrs h \<Longrightarrow> card (heap_addrs h - insert a st) < card (heap_addrs h - st)"
  by (rule psubset_card_mono) (auto simp: heap_addrs_def)

lemma heap_table_dom: "a \<notin> heap_addrs h \<Longrightarrow> heap_table h a = []"
  using map_of_eq_None_iff [of h a] by (simp add: heap_table_def heap_addrs_def)

lemma ipairs_from_Nil [simp]: "ipairs_from [] i = []"
  by (simp add: ipairs_from.simps rawget_def)

text \<open>Below a table there are fewer tables left, or the table has no entries at all.\<close>

lemma stack_decreases:
  assumes "a \<notin> st" "heap_table h a = [] \<Longrightarrow> n = 0"
  shows "((card (heap_addrs h - insert a st), n), (card (heap_addrs h - st), 1)) \<in> less_than <*lex*> less_than"
proof (cases "a \<in> heap_addrs h")
  case True
  then show ?thesis using card_stack [of a st h] assms by simp
next
  case False
  then have "heap_addrs h - insert a st = heap_addrs h - st" by blast
  then show ?thesis using assms heap_table_dom [OF False] by simp
qed

lemma encode_total: "All encode_encode_table_encode_ipairs_encode_pairs_dom"
proof (relation "inv_image (less_than <*lex*> less_than) (\<lambda>x. case x of
      Inl (Inl (_, h, st, _)) \<Rightarrow> (card (heap_addrs h - st), 2)
    | Inl (Inr (_, h, st, _)) \<Rightarrow> (card (heap_addrs h - st), 1)
    | Inr (Inl (_, h, st, vs)) \<Rightarrow> (card (heap_addrs h - st), 3 * length vs)
    | Inr (Inr (_, h, st, t)) \<Rightarrow> (card (heap_addrs h - st), 3 * length t))", goal_cases)
  case (3 env h st a st' val)
  then show ?case using stack_decreases [of a st h "3 * length (ipairs_from val 1)"] by simp
next
  case (4 env h st a st' val)
  then show ?case using stack_decreases [of a st h "3 * length val"] by simp
next
  case (6 env h st v vs x s st')
  then show ?case using encode_dom_stack(1) by fastforce
next
  case (8 env h st k v t key x s st')
  then show ?case using encode_dom_stack(1) by fastforce
qed auto

termination encode by (rule encode_total)

declare encode.simps [simp del] encode_table.simps [simp del]

lemmas encode_stack = encode_dom_stack [OF encode_total [THEN spec]]

definition json_encode :: "'n lua_env \<Rightarrow> 'n lheap \<Rightarrow> 'n lval \<Rightarrow> bytes lua_res" where
  "json_encode env h val = rbind (encode env h {} val) (\<lambda>(s, _). Inr s)"

section \<open>What a value denotes\<close>

text \<open>
  The tree a value unfolds to, when it has one: a table that contains itself has none. The text
  of a tree is a plain recursion on it.
\<close>

text \<open>The table of the values \<open>js\<close> at the keys from 1 on.\<close>

definition array_tab :: "'n json list \<Rightarrow> 'n tab" where
  "array_tab js = zip (map KInt [1..<length js + 1]) js"

inductive unfolds :: "'n lua_env \<Rightarrow> 'n lheap \<Rightarrow> 'n lval \<Rightarrow> 'n json \<Rightarrow> bool"
  and unfolds_list :: "'n lua_env \<Rightarrow> 'n lheap \<Rightarrow> 'n lval list \<Rightarrow> 'n json list \<Rightarrow> bool"
  and unfolds_pairs :: "'n lua_env \<Rightarrow> 'n lheap \<Rightarrow> 'n ltable \<Rightarrow> 'n tab \<Rightarrow> bool"
  for env :: "'n lua_env" and h :: "'n lheap"
where
  U_nil: "unfolds env h LNil JNil"
| U_bool: "unfolds env h (LBool b) (JBool b)"
| U_num: "is_finite env n \<Longrightarrow> unfolds env h (LNum n) (JNum n)"
| U_str: "unfolds env h (LStr s) (JStr s)"
| U_array: "rawget (heap_table h a) (IntKey 1) \<noteq> LNil \<or> heap_table h a = [] \<Longrightarrow>
    list_all (\<lambda>(k, _). is_number_key k) (heap_table h a) \<Longrightarrow>
    length (heap_table h a) = table_length env (heap_table h a) \<Longrightarrow>
    unfolds_list env h (ipairs_from (heap_table h a) 1) js \<Longrightarrow>
    unfolds env h (LRef a) (JTable (array_tab js))"
| U_object: "rawget (heap_table h a) (IntKey 1) = LNil \<Longrightarrow> heap_table h a \<noteq> [] \<Longrightarrow>
    unfolds_pairs env h (heap_table h a) t \<Longrightarrow> unfolds env h (LRef a) (JTable t)"
| U_list_Nil: "unfolds_list env h [] []"
| U_list_Cons: "unfolds env h v j \<Longrightarrow> unfolds_list env h vs js \<Longrightarrow> unfolds_list env h (v # vs) (j # js)"
| U_pairs_Nil: "unfolds_pairs env h [] []"
| U_pairs_Cons: "unfolds env h v j \<Longrightarrow> unfolds_pairs env h es t \<Longrightarrow>
    unfolds_pairs env h ((StrKey k, v) # es) ((KStr k, j) # t)"

inductive_simps unfolds_simps:
  "unfolds env h LNil j" "unfolds env h (LBool b) j" "unfolds env h (LNum n) j" "unfolds env h (LStr s) j"
  "unfolds env h (LOther t) j"

inductive_cases unfolds_RefE: "unfolds env h (LRef a) j"
inductive_cases unfolds_list_ConsE: "unfolds_list env h (v # vs) js"
inductive_cases unfolds_list_NilE: "unfolds_list env h [] js"
inductive_cases unfolds_pairs_ConsE: "unfolds_pairs env h (e # es) t"
inductive_cases unfolds_pairs_NilE: "unfolds_pairs env h [] t"

definition is_array_tab :: "'n tab \<Rightarrow> bool" where
  "is_array_tab t \<longleftrightarrow> list_all (\<lambda>(k, _). case k of KInt _ \<Rightarrow> True | KStr _ \<Rightarrow> False) t"

definition key_text :: "key \<Rightarrow> bytes" where
  "key_text k = (case k of KStr s \<Rightarrow> encode_string s | KInt _ \<Rightarrow> [])"

fun json_text :: "'n lua_env \<Rightarrow> 'n json \<Rightarrow> bytes" where
  "json_text env JNil = ''null''"
| "json_text env (JBool b) = (if b then ''true'' else ''false'')"
| "json_text env (JNum n) = format_14g env n"
| "json_text env (JStr s) = encode_string s"
| "json_text env (JTable t) =
     (if is_array_tab t
      then [CHR ''[''] @ concat_comma (map (\<lambda>(_, j). json_text env j) t) @ [CHR '']'']
      else [CHR ''{''] @ concat_comma (map (\<lambda>(k, j). key_text k @ [CHR '':''] @ json_text env j) t) @ [CHR ''}''])"

lemma is_array_array_tab [simp]: "is_array_tab (array_tab js)"
  by (auto simp: is_array_tab_def array_tab_def list_all_iff dest!: set_zip_leftD)

lemma array_tab_values [simp]: "map (\<lambda>(_, j). f j) (array_tab js) = map f js"
  by (intro nth_equalityI) (simp_all add: array_tab_def del: upt_Suc)

lemma unfolds_pairs_object: "unfolds_pairs env h es t \<Longrightarrow> es \<noteq> [] \<Longrightarrow> \<not> is_array_tab t"
  by (cases rule: unfolds_pairs.cases) (auto simp: is_array_tab_def)

lemmas unfolds_Ref_cases = unfolds_RefE [consumes 1, case_names array object]

lemma unfolds_deterministic:
  "unfolds env h v j \<Longrightarrow> unfolds env h v j' \<Longrightarrow> j' = j"
  "unfolds_list env h vs js \<Longrightarrow> unfolds_list env h vs js' \<Longrightarrow> js' = js"
  "unfolds_pairs env h es t \<Longrightarrow> unfolds_pairs env h es t' \<Longrightarrow> t' = t"
proof (induction arbitrary: j' and js' and t' rule: unfolds_unfolds_list_unfolds_pairs.inducts)
  case (U_array a js)
  from U_array(6) show ?case
  proof (cases rule: unfolds_Ref_cases)
    case (array js')
    with U_array(5) [of js'] show ?thesis by simp
  qed (use U_array(1) in simp)
next
  case (U_object a t)
  from U_object(5) show ?case
  proof (cases rule: unfolds_Ref_cases)
    case (object t')
    with U_object(4) [of t'] show ?thesis by simp
  qed (use U_object(1,2) in simp)
next
  case (U_list_Cons v j vs js)
  from U_list_Cons(5) obtain j1 js1 where "js' = j1 # js1" "unfolds env h v j1" "unfolds_list env h vs js1"
    by (rule unfolds_list_ConsE)
  with U_list_Cons(2) [of j1] U_list_Cons(4) [of js1] show ?case by simp
next
  case (U_pairs_Cons v j es t k)
  from U_pairs_Cons(5) obtain j1 t1 where "t' = (KStr k, j1) # t1" "unfolds env h v j1" "unfolds_pairs env h es t1"
    by (rule unfolds_pairs_ConsE) auto
  with U_pairs_Cons(2) [of j1] U_pairs_Cons(4) [of t1] show ?case by simp
qed (auto simp: unfolds_simps elim: unfolds_list_NilE unfolds_pairs_NilE)

section \<open>The encoder computes the text of the tree\<close>

lemma size_entry: "j \<in> snd ` set t \<Longrightarrow> size j < size (JTable t)"
  by (induction t) (force simp: image_iff)+

lemma array_tab_snd [simp]: "snd ` set (array_tab js) = set js"
proof -
  have "map (\<lambda>(_, j). j) (array_tab js) = js" using array_tab_values [of "\<lambda>j. j" js] by simp
  then have "set (map (\<lambda>(_, j). j) (array_tab js)) = set js" by simp
  then show ?thesis by (simp add: split_def)
qed

text \<open>The tables on the stack denote larger trees, so a value that denotes a tree is never on it.\<close>

definition larger :: "'n lua_env \<Rightarrow> 'n lheap \<Rightarrow> nat set \<Rightarrow> 'n json set \<Rightarrow> bool" where
  "larger env h st js \<longleftrightarrow> (\<forall>b \<in> st. \<exists>j'. unfolds env h (LRef b) j' \<and> (\<forall>j \<in> js. size j < size j'))"

lemma larger_empty [simp]: "larger env h {} js"
  by (simp add: larger_def)

lemma larger_mono: "larger env h st js \<Longrightarrow> js' \<subseteq> js \<Longrightarrow> larger env h st js'"
  by (fastforce simp: larger_def)

lemma larger_not_on_stack: "larger env h st {j} \<Longrightarrow> unfolds env h (LRef a) j \<Longrightarrow> a \<notin> st"
  using unfolds_deterministic(1) by (fastforce simp: larger_def)

lemma larger_push:
  assumes "larger env h st {JTable t}" "unfolds env h (LRef a) (JTable t)"
  shows "larger env h (insert a st) (snd ` set t)"
  unfolding larger_def
proof (intro ballI)
  fix b assume "b \<in> insert a st"
  then obtain j' where "unfolds env h (LRef b) j'" "size (JTable t) \<le> size j'"
    using assms by (fastforce simp: larger_def)
  then show "\<exists>j'. unfolds env h (LRef b) j' \<and> (\<forall>j \<in> snd ` set t. size j < size j')"
    using size_entry less_le_trans by blast
qed

lemma encode_of_unfolds:
  "unfolds env h v j \<Longrightarrow> larger env h st {j} \<Longrightarrow> encode env h st v = Inr (json_text env j, st)"
  "unfolds_list env h vs js \<Longrightarrow> larger env h st (set js) \<Longrightarrow>
     encode_ipairs env h st vs = Inr (map (json_text env) js, st)"
  "unfolds_pairs env h es t \<Longrightarrow> larger env h st (snd ` set t) \<Longrightarrow>
     encode_pairs env h st es = Inr (map (\<lambda>(k, j). key_text k @ [CHR '':''] @ json_text env j) t, st)"
proof (induction arbitrary: st and st and st rule: unfolds_unfolds_list_unfolds_pairs.inducts)
  case (U_array a js)
  have u: "unfolds env h (LRef a) (JTable (array_tab js))"
    using U_array(1-4) by (rule unfolds_unfolds_list_unfolds_pairs.U_array)
  have a: "a \<notin> st" using larger_not_on_stack U_array(6) u by blast
  have "encode_ipairs env h (insert a st) (ipairs_from (heap_table h a) 1) = Inr (map (json_text env) js, insert a st)"
    using U_array(5) larger_push [OF U_array(6) u] by simp
  then show ?case
    using a U_array(1-3) by (simp add: encode.simps [of _ _ _ "LRef a"] encode_table.simps Let_def)
next
  case (U_object a t)
  have u: "unfolds env h (LRef a) (JTable t)"
    using U_object(1-3) by (rule unfolds_unfolds_list_unfolds_pairs.U_object)
  have a: "a \<notin> st" using larger_not_on_stack U_object(5) u by blast
  have "encode_pairs env h (insert a st) (heap_table h a)
      = Inr (map (\<lambda>(k, j). key_text k @ [CHR '':''] @ json_text env j) t, insert a st)"
    using U_object(4) larger_push [OF U_object(5) u] by simp
  then show ?case
    using a U_object(1,2) unfolds_pairs_object [OF U_object(3,2)]
    by (simp add: encode.simps [of _ _ _ "LRef a"] encode_table.simps Let_def)
next
  case (U_list_Cons v j vs js)
  then show ?case
    using larger_mono [OF U_list_Cons(5), of "{j}"] larger_mono [OF U_list_Cons(5), of "set js"] by force
next
  case (U_pairs_Cons v j es t k)
  then show ?case
    using larger_mono [OF U_pairs_Cons(5), of "{j}"] larger_mono [OF U_pairs_Cons(5), of "snd ` set t"]
    by (force simp: key_text_def)
qed (simp_all add: encode.simps encode_nil_def bool_tostring_def encode_number_def)

lemma unfolds_of_encode:
  "encode env h st v = Inr (s, st') \<Longrightarrow> \<exists>j. unfolds env h v j"
  "encode_table env h st a = Inr (s, st') \<Longrightarrow> \<exists>j. unfolds env h (LRef a) j"
  "encode_ipairs env h st vs = Inr (ss, st') \<Longrightarrow> \<exists>js. unfolds_list env h vs js"
  "encode_pairs env h st t = Inr (ss, st') \<Longrightarrow> \<exists>js. unfolds_pairs env h t js"
proof (induction arbitrary: s st' and s st' and ss st' and ss st' rule: encode_encode_table_encode_ipairs_encode_pairs.induct)
  case (1 env h st v)
  then show ?case
    by (cases v) (auto simp: encode.simps rbind_eq_Inr unfolds_simps encode_number_def split: if_splits)
next
  case (2 env h st a)
  note eq = 2(3) [unfolded encode_table.simps Let_def]
  have a: "a \<notin> st" using eq by (simp split: if_splits)
  show ?case
  proof (cases "rawget (heap_table h a) (IntKey 1) \<noteq> LNil \<or> heap_table h a = []")
    case True
    with eq a obtain ss st1 where "encode_ipairs env h (insert a st) (ipairs_from (heap_table h a) 1) = Inr (ss, st1)"
        "list_all (\<lambda>(k, _). is_number_key k) (heap_table h a)"
        "length (heap_table h a) = table_length env (heap_table h a)"
      by (auto simp: rbind_eq_Inr split: if_splits)
    then show ?thesis using a 2(1) [OF a refl refl True] True U_array by simp blast
  next
    case False
    with eq a obtain ss st1 where "encode_pairs env h (insert a st) (heap_table h a) = Inr (ss, st1)"
      by (auto simp: rbind_eq_Inr split: if_splits)
    then show ?thesis using a 2(2) [OF a refl refl False] False U_object by simp blast
  qed
next
  case (4 env h st v vs)
  from 4(3) obtain x st1 xs where v: "encode env h st v = Inr (x, st1)"
      and vs: "encode_ipairs env h st1 vs = Inr (xs, st')"
    by (auto simp: rbind_eq_Inr)
  show ?case using 4(1) [OF v] 4(2) [OF v refl vs] U_list_Cons by blast
next
  case (6 env h st k v t)
  from 6(3) obtain key where k: "k = StrKey key" by (auto split: lkey.splits)
  from 6(3) obtain x st1 xs where v: "encode env h st v = Inr (x, st1)"
      and t: "encode_pairs env h st1 t = Inr (xs, st')"
    by (auto simp: rbind_eq_Inr k)
  show ?case using 6(1) [OF k v] 6(2) [OF k v refl t] U_pairs_Cons k by blast
qed (auto intro: U_list_Nil U_pairs_Nil)

lemma json_encode_eq: "json_encode env h v = Inr s \<longleftrightarrow> (\<exists>j. unfolds env h v j \<and> s = json_text env j)"
proof
  assume "json_encode env h v = Inr s"
  then obtain st where e: "encode env h {} v = Inr (s, st)" by (auto simp: json_encode_def rbind_eq_Inr)
  then obtain j where "unfolds env h v j" using unfolds_of_encode(1) by blast
  then show "\<exists>j. unfolds env h v j \<and> s = json_text env j"
    using encode_of_unfolds(1) [of env h v j "{}"] e by auto
qed (auto simp: json_encode_def encode_of_unfolds)

end
