(* ===== verification/Json_Roundtrip.thy ===== *)
theory Json_Roundtrip
  imports Json_Encode
begin

text \<open>
  Decoding what the encoder produces. A text is decoded where it stands, between what comes before
  it and what follows, so that the lemmas on the parts compose. The round trip holds for the trees
  of values whose tables are arrays of non-nil values or objects with string keys, and for the
  numbers whose fourteen digits determine them.
\<close>

section \<open>Reading at a position\<close>

lemma char_at_append [simp]: "char_at (pre @ c # r) (Suc (length pre)) = Some c"
  by (simp add: char_at_def)

lemma char_at_append_nth: "char_at (pre @ r) (length pre + Suc k) = (if k < length r then Some (r ! k) else None)"
  by (simp add: char_at_def nth_append)

lemma next_char_here: "S c \<noteq> neg \<Longrightarrow> next_char (pre @ c # r) (Suc (length pre)) S neg = Suc (length pre)"
  by (subst next_char.simps) simp

lemma next_char_over:
  assumes "\<forall>c \<in> set s. S c = neg" "post = [] \<or> S (hd post) \<noteq> neg"
  shows "next_char (pre @ s @ post) (Suc (length pre)) S neg = Suc (length pre + length s)"
  using assms
proof (induction s arbitrary: pre)
  case Nil
  then show ?case by (cases post) (simp_all add: next_char_here next_char_beyond)
next
  case (Cons c s)
  then have "next_char ((pre @ [c]) @ s @ post) (Suc (length (pre @ [c]))) S neg = Suc (length (pre @ [c]) + length s)"
    by (intro Cons.IH) simp_all
  then show ?case using Cons.prems by (subst next_char.simps) simp
qed

lemma lua_sub_here: "lua_sub (pre @ s @ post) (Suc (length pre)) (length pre + length s) = s"
  by (simp add: lua_sub_def)

lemma lua_sub_snoc:
  "1 \<le> k \<Longrightarrow> k \<le> Suc (length pre) \<Longrightarrow>
     lua_sub (pre @ c # r) k (Suc (length pre)) = lua_sub (pre @ c # r) k (length pre) @ [c]"
  by (simp add: lua_sub_def Suc_diff_le take_Suc_conv_app_nth nth_append)

lemma lua_sub_empty [simp]: "b < a \<Longrightarrow> lua_sub str a b = []"
  by (simp add: lua_sub_def)

section \<open>Strings\<close>

lemma escape_char_map_spec:
  "escape_char_map c = Some e \<Longrightarrow>
     escape_chars e \<and> escape_char_map_inv e = Some c \<and> e \<noteq> CHR ''u''"
  by (auto simp: escape_char_map_def escape_char_map_inv_def escape_chars_def split: if_splits)

lemma hex_format_small: "n < 16 \<Longrightarrow> hex_format n = [hex_digit n]"
  by (subst hex_format.simps) simp

lemma hex_digits_control:
  assumes "n < 32"
  shows "hex_format4 n = [CHR ''0'', CHR ''0'', hex_digit (n div 16), hex_digit n]"
proof -
  have zeros: "replicate 3 c = [c, c, c]" "replicate 2 c = [c, c]" for c :: char
    by (simp_all add: eval_nat_numeral)
  show ?thesis
  proof (cases "n < 16")
    case True
    then have "hex_digit (n div 16) = CHR ''0''" by (simp add: hex_digit_def)
    with hex_format_small [OF True] show ?thesis by (simp add: hex_format4_def zeros)
  next
    case False
    have d: "hex_format (n div 16) = [hex_digit (n div 16)]" by (rule hex_format_small) (use assms in simp)
    have "hex_format n = hex_format (n div 16) @ [hex_digit n]" by (subst hex_format.simps) (use False in simp)
    with d show ?thesis by (simp add: hex_format4_def zeros)
  qed
qed

lemma hex_digit_val: "is_xdigit (hex_digit d) \<and> xdigit_val (hex_digit d) = d mod 16"
proof -
  have "d mod 16 \<in> set [0..<16]" by simp
  moreover have "list_all (\<lambda>m. is_xdigit (hex_digit m) \<and> xdigit_val (hex_digit m) = m) [0..<16]"
    by code_simp
  ultimately have "is_xdigit (hex_digit (d mod 16)) \<and> xdigit_val (hex_digit (d mod 16)) = d mod 16"
    unfolding list_all_iff by blast
  then show ?thesis by (simp add: hex_digit_def)
qed

lemma match_hex_control:
  assumes "n < 32"
  shows "match_hex (hex_format4 n @ r) = Some (hex_format4 n)" "parse_unicode_escape (hex_format4 n) = Inr [char_of n]"
proof -
  have z: "is_xdigit (CHR ''0'')" "xdigit_val (CHR ''0'') = 0" by code_simp+
  show "match_hex (hex_format4 n @ r) = Some (hex_format4 n)"
    using z hex_digit_val [of n] hex_digit_val [of "n div 16"]
    by (simp add: hex_digits_control [OF assms] match_hex_def match_pair_def match_single_def)
  have "hex_val [CHR ''0'', CHR ''0'', hex_digit (n div 16), hex_digit n] = n"
    using assms z hex_digit_val [of n] hex_digit_val [of "n div 16"] by (simp add: hex_val_def)
  then show "parse_unicode_escape (hex_format4 n) = Inr [char_of n]"
    using assms
    by (simp add: hex_digits_control [OF assms] parse_unicode_escape_def lua_sub_def codepoint_to_utf8_def lua_char_def)
qed

lemma of_char_special [simp]: "(of_char c = (34 :: nat)) = (c = quote)" "(of_char c = (92 :: nat)) = (c = backslash)"
  using of_char_eq_iff [of c quote, where 'a = nat] of_char_eq_iff [of c backslash, where 'a = nat] by simp_all

text \<open>One character of a string, escaped or not, and then the rest of it.\<close>

lemma string_loop_plain:
  assumes "\<not> needs_escape c" "1 \<le> k" "k \<le> Suc (length pre)"
  shows "parse_string_loop (pre @ c # r) i (Suc (length pre)) k res =
    parse_string_loop (pre @ c # r) i (Suc (Suc (length pre))) k res"
  using assms unfolding needs_escape_def
  by (subst parse_string_loop.simps) (auto simp: Let_def)

lemma string_loop_escape:
  assumes "needs_escape c"
  shows "parse_string_loop (pre @ escape_char c @ r) i (Suc (length pre)) k res =
    (let j = Suc (length pre + length (escape_char c)) in
     parse_string_loop (pre @ escape_char c @ r) i j j (res @ lua_sub (pre @ escape_char c @ r) k (length pre) @ [c]))"
proof (cases "escape_char_map c")
  case (Some e)
  then show ?thesis
    using escape_char_map_spec [OF Some]
    by (subst parse_string_loop.simps) (simp add: escape_char_def Let_def char_at_append_nth [of pre _ 1, simplified])
next
  case None
  with assms have c: "(of_char c :: nat) < 32"
    by (auto simp: needs_escape_def escape_char_map_def split: if_splits)
  have d: "drop (Suc (Suc (length pre))) (pre @ backslash # CHR ''u'' # x) = x" for x by simp
  show ?thesis
    using None match_hex_control [OF c]
    by (subst parse_string_loop.simps)
      (simp add: escape_char_def Let_def char_at_append_nth [of pre _ 1, simplified])
qed

definition escaped :: "bytes \<Rightarrow> bytes" where
  "escaped s = concat (map (\<lambda>c. if needs_escape c then escape_char c else [c]) s)"

lemma string_loop_escaped:
  assumes "1 \<le> k" "k \<le> Suc (length pre)"
  shows "parse_string_loop (pre @ escaped s @ quote # post) i (Suc (length pre)) k res =
    Inr (res @ lua_sub pre k (length pre) @ s, length pre + length (escaped s) + 2)"
  using assms
proof (induction s arbitrary: pre k res)
  case Nil
  then show ?case
    by (subst parse_string_loop.simps) (simp add: escaped_def lua_sub_def Let_def)
next
  case (Cons c s)
  have sub: "lua_sub (pre @ x) k (length pre) = lua_sub pre k (length pre)" for x
    using Cons.prems by (auto simp: lua_sub_def)
  show ?case
  proof (cases "needs_escape c")
    case True
    have "lua_sub (pre @ escape_char c) (Suc (length (pre @ escape_char c))) (length (pre @ escape_char c)) = []"
      by simp
    with True Cons.IH [of "Suc (length (pre @ escape_char c))" "pre @ escape_char c"] show ?thesis
      by (simp add: escaped_def string_loop_escape Let_def sub)
  next
    case False
    have "lua_sub (pre @ [c]) k (Suc (length pre)) = lua_sub pre k (length pre) @ [c]"
      using lua_sub_snoc [of k pre c "[]"] Cons.prems sub by simp
    with False Cons.prems Cons.IH [of k "pre @ [c]"] show ?thesis
      by (simp add: escaped_def string_loop_plain)
  qed
qed

lemma parse_string_encoded:
  "parse_string (pre @ encode_string s @ post) (Suc (length pre)) = Inr (s, Suc (length pre + length (encode_string s)))"
  using string_loop_escaped [of "Suc (Suc (length pre))" "pre @ [quote]" s post "Suc (length pre)" "[]"]
  by (simp add: parse_string_def encode_string_def escaped_def)

section \<open>Trees that survive the round trip\<close>

text \<open>A number is written with its digits only and read back as itself.\<close>

definition number_ok :: "(bytes \<Rightarrow> 'n option) \<Rightarrow> 'n lua_env \<Rightarrow> 'n \<Rightarrow> bool" where
  "number_ok tonumber env n \<longleftrightarrow>
     tonumber (format_14g env n) = Some n \<and> format_14g env n \<noteq> [] \<and>
     hd (format_14g env n) \<in> set ''0123456789-'' \<and> (\<forall>c \<in> set (format_14g env n). \<not> delim_chars c \<and> c \<noteq> NUL)"

fun canonical :: "(bytes \<Rightarrow> 'n option) \<Rightarrow> 'n lua_env \<Rightarrow> 'n json \<Rightarrow> bool" where
  "canonical tonumber env (JNum n) \<longleftrightarrow> number_ok tonumber env n"
| "canonical tonumber env (JTable t) \<longleftrightarrow>
     (t = array_tab (map snd t) \<or> t \<noteq> [] \<and> distinct (map fst t) \<and> (\<forall>k \<in> set (map fst t). \<exists>s. k = KStr s)) \<and>
     (\<forall>kv \<in> set t. snd kv \<noteq> JNil \<and> canonical tonumber env (snd kv))"
| "canonical tonumber env _ \<longleftrightarrow> True"

definition closed :: "bytes \<Rightarrow> bool" where
  "closed post \<longleftrightarrow> post = [] \<or> hd post \<in> set '',]}''"

text \<open>The text of a value is read where it stands.\<close>

definition reads :: "(bytes \<Rightarrow> 'n option) \<Rightarrow> bytes \<Rightarrow> 'n json \<Rightarrow> bool" where
  "reads tonumber s j \<longleftrightarrow>
     (\<forall>pre post. closed post \<longrightarrow>
        parse tonumber (pre @ s @ post) (Suc (length pre)) = Inr (j, Suc (length pre + length s)))"

lemma closed_delim: "closed post \<Longrightarrow> post = [] \<or> delim_chars (hd post) \<noteq> False"
  by (auto simp: closed_def delim_chars_def)

lemma closed_Cons [simp]: "closed (CHR '','' # r)" "closed (CHR '']'' # r)" "closed (CHR ''}'' # r)" "closed []"
  by (simp_all add: closed_def)

lemma reads_number:
  assumes "number_ok tonumber env n"
  shows "reads tonumber (format_14g env n) (JNum n)"
  unfolding reads_def
proof (intro allI impI)
  fix pre post assume post: "closed post"
  obtain c r where f: "format_14g env n = c # r" using assms by (cases "format_14g env n") (simp_all add: number_ok_def)
  have c: "c \<noteq> quote" "c \<in> set ''0123456789-''" using assms f by (auto simp: number_ok_def)
  have "next_char (pre @ format_14g env n @ post) (Suc (length pre)) delim_chars False
      = Suc (length pre + length (format_14g env n))"
    using assms post closed_delim by (intro next_char_over) (auto simp: number_ok_def)
  then have "parse_number tonumber (pre @ format_14g env n @ post) (Suc (length pre))
      = Inr (JNum n, Suc (length pre + length (format_14g env n)))"
    using assms lua_sub_here [of pre "format_14g env n" post] by (simp add: parse_number_def number_ok_def)
  moreover have "parse tonumber (pre @ format_14g env n @ post) (Suc (length pre))
      = parse_number tonumber (pre @ format_14g env n @ post) (Suc (length pre))"
    using c unfolding f by (subst parse.simps) (simp del: set_simps)
  ultimately show "parse tonumber (pre @ format_14g env n @ post) (Suc (length pre))
      = Inr (JNum n, Suc (length pre + length (format_14g env n)))" by simp
qed

lemma reads_literal:
  assumes "literal_map s = Some j"
  shows "reads tonumber s j"
  unfolding reads_def
proof (intro allI impI)
  fix pre post assume post: "closed post"
  have s: "s = ''true'' \<or> s = ''false'' \<or> s = ''null''" using assms by (auto simp: literal_map_def split: if_splits)
  then have "\<forall>c \<in> set s. delim_chars c = False" by (auto simp: delim_chars_def space_chars_def)
  then have "next_char (pre @ s @ post) (Suc (length pre)) delim_chars False = Suc (length pre + length s)"
    using post closed_delim by (intro next_char_over) auto
  then have "parse_literal (pre @ s @ post) (Suc (length pre)) = Inr (j, Suc (length pre + length s))"
    using assms lua_sub_here [of pre s post] by (simp add: parse_literal_def)
  moreover have "parse tonumber (pre @ s @ post) (Suc (length pre)) = parse_literal (pre @ s @ post) (Suc (length pre))"
    using s by (subst parse.simps) auto
  ultimately show "parse tonumber (pre @ s @ post) (Suc (length pre)) = Inr (j, Suc (length pre + length s))" by simp
qed

lemma reads_string: "reads tonumber (encode_string s) (JStr s)"
  unfolding reads_def
proof (intro allI impI)
  fix pre post
  have "char_at (pre @ encode_string s @ post) (Suc (length pre)) = Some quote"
    by (simp add: encode_string_def)
  then show "parse tonumber (pre @ encode_string s @ post) (Suc (length pre))
      = Inr (JStr s, Suc (length pre + length (encode_string s)))"
    by (subst parse.simps) (simp add: parse_string_encoded)
qed

section \<open>Arrays and objects\<close>

lemma table_set_fresh: "v \<noteq> JNil \<Longrightarrow> k \<notin> fst ` set t \<Longrightarrow> table_set k v t = t @ [(k, v)]"
proof -
  assume v: "v \<noteq> JNil" and k: "k \<notin> fst ` set t"
  from k have "table_put k v t = t @ [(k, v)]" by (induction t) auto
  with v show ?thesis by (cases v) (simp_all add: table_set_def)
qed

definition starts :: "bytes \<Rightarrow> bool" where
  "starts s \<longleftrightarrow> s \<noteq> [] \<and> \<not> space_chars (hd s) \<and> hd s \<noteq> CHR '']'' \<and> hd s \<noteq> CHR ''}''"

lemma starts_next:
  "starts s \<Longrightarrow> next_char (pre @ s @ r) (Suc (length pre)) space_chars True = Suc (length pre)"
  by (cases s) (simp_all add: starts_def next_char_here)

lemma starts_char_at: "starts s \<Longrightarrow> char_at (pre @ s @ r) (Suc (length pre)) = Some (hd s)"
  by (cases s) (simp_all add: starts_def)

lemma after_value:
  assumes "\<not> space_chars c"
  shows "next_char (pre @ s @ c # r) (Suc (length pre + length s)) space_chars True = Suc (length pre + length s)"
    and "char_at (pre @ s @ c # r) (Suc (length pre + length s)) = Some c"
  using next_char_here [of space_chars c True "pre @ s" r] char_at_append [of "pre @ s" c r] assms by simp_all

lemma parse_array_step:
  assumes "reads tonumber s x" "starts s" "x \<noteq> JNil" "KInt n \<notin> fst ` set res" "c \<in> set '',]''"
  shows "parse_array tonumber (pre @ s @ c # r) (Suc (length pre)) n res =
    (if c = CHR '']'' then Inr (JTable (res @ [(KInt n, x)]), Suc (Suc (length pre + length s)))
     else parse_array tonumber (pre @ s @ c # r) (Suc (Suc (length pre + length s))) (n + 1) (res @ [(KInt n, x)]))"
proof -
  have c: "\<not> space_chars c" "closed (c # r)" using assms(5) by (auto simp: space_chars_def)
  have p: "parse tonumber (pre @ s @ c # r) (Suc (length pre)) = Inr (x, Suc (length pre + length s))"
    using assms(1) c(2) unfolding reads_def by blast
  have ne: "hd s \<noteq> CHR '']''" using assms(2) by (simp add: starts_def)
  show ?thesis
    using assms(5)
    by (subst parse_array.simps)
      (auto simp: starts_next [OF assms(2)] starts_char_at [OF assms(2)] p ne after_value space_chars_def
        table_set_fresh [OF assms(3,4)] Let_def)
qed

lemma parse_array_elements:
  assumes "\<forall>j \<in> set js. reads tonumber (text j) j \<and> j \<noteq> JNil \<and> starts (text j)" "js \<noteq> []"
    and "\<forall>m \<ge> n. KInt m \<notin> fst ` set res"
  shows "parse_array tonumber (pre @ concat_comma (map text js) @ CHR '']'' # post) (Suc (length pre)) n res =
    Inr (JTable (res @ zip (map KInt [n..<n + length js]) js),
         Suc (Suc (length pre + length (concat_comma (map text js)))))"
  using assms
proof (induction js arbitrary: pre n res)
  case (Cons j js)
  have j: "reads tonumber (text j) j" "starts (text j)" "j \<noteq> JNil" "KInt n \<notin> fst ` set res"
    using Cons.prems by auto
  show ?case
  proof (cases js)
    case Nil
    then show ?thesis using parse_array_step [OF j, of "CHR '']''" pre post] by simp
  next
    case (Cons j' js')
    then have ne: "js \<noteq> []" by simp
    have "parse_array tonumber ((pre @ text j @ [CHR '','']) @ concat_comma (map text js) @ CHR '']'' # post)
        (Suc (length (pre @ text j @ [CHR '','']))) (n + 1) (res @ [(KInt n, j)]) =
      Inr (JTable ((res @ [(KInt n, j)]) @ zip (map KInt [n + 1..<n + 1 + length js]) js),
         Suc (Suc (length (pre @ text j @ [CHR '','']) + length (concat_comma (map text js)))))"
      using Cons.prems ne by (intro Cons.IH) auto
    moreover have "[n..<n + length (j # js)] = n # [n + 1..<n + 1 + length js]" by (simp add: upt_rec)
    moreover have "concat_comma (map text (j # js)) = text j @ [CHR '',''] @ concat_comma (map text js)"
      using Cons by simp
    ultimately show ?thesis
      using parse_array_step [OF j, of "CHR '',''" pre "concat_comma (map text js) @ CHR '']'' # post"] by simp
  qed
qed simp

lemma starts_encode_string [simp]: "starts (encode_string s)" "hd (encode_string s) = quote"
  by (simp_all add: starts_def encode_string_def space_chars_def)

lemma parse_object_step:
  assumes "reads tonumber s x" "starts s" "x \<noteq> JNil" "KStr k \<notin> fst ` set res" "c \<in> set '',}''"
  shows "parse_object tonumber (pre @ encode_string k @ CHR '':'' # s @ c # r) (Suc (length pre)) res =
    (if c = CHR ''}'' then Inr (JTable (res @ [(KStr k, x)]), Suc (Suc (Suc (length pre + length (encode_string k) + length s))))
     else parse_object tonumber (pre @ encode_string k @ CHR '':'' # s @ c # r)
       (Suc (Suc (Suc (length pre + length (encode_string k) + length s)))) (res @ [(KStr k, x)]))"
proof -
  have c: "closed (c # r)" using assms(5) by auto
  let ?pre = "pre @ encode_string k @ [CHR '':'']"
  let ?str = "pre @ encode_string k @ CHR '':'' # s @ c # r"
  have str: "?str = ?pre @ s @ c # r" by simp
  have p: "parse tonumber ?str (Suc (Suc (length pre + length (encode_string k))))
      = Inr (x, Suc (Suc (length pre + length (encode_string k) + length s)))"
    using assms(1) c unfolding reads_def str by (auto dest: spec [where x = ?pre])
  have v: "next_char ?str (Suc (Suc (length pre + length (encode_string k)))) space_chars True
      = Suc (Suc (length pre + length (encode_string k)))"
    using starts_next [OF assms(2), of ?pre "c # r"] by simp
  have e: "next_char ?str (Suc (Suc (length pre + length (encode_string k) + length s))) space_chars True
      = Suc (Suc (length pre + length (encode_string k) + length s))"
      "char_at ?str (Suc (Suc (length pre + length (encode_string k) + length s))) = Some c"
    using after_value [of c ?pre s r] assms(5) by (auto simp: space_chars_def)
  have colon: "\<not> space_chars (CHR '':'')" by (simp add: space_chars_def)
  show ?thesis
    using assms(5) v p e
    by (subst parse_object.simps)
      (auto simp: starts_next starts_char_at parse_string_encoded after_value [OF colon]
        table_set_fresh [OF assms(3,4)] Let_def)
qed

lemma parse_object_elements:
  assumes "\<forall>(k, j) \<in> set t. (\<exists>s. k = KStr s) \<and> reads tonumber (text j) j \<and> j \<noteq> JNil \<and> starts (text j)" "t \<noteq> []"
    and "distinct (map fst (res @ t))"
  defines "entries \<equiv> map (\<lambda>(k, j). key_text k @ [CHR '':''] @ text j)"
  shows "parse_object tonumber (pre @ concat_comma (entries t) @ CHR ''}'' # post) (Suc (length pre)) res =
    Inr (JTable (res @ t), Suc (Suc (length pre + length (concat_comma (entries t)))))"
  using assms(1-3)
proof (induction t arbitrary: pre res)
  case (Cons e t)
  obtain k j where e: "e = (KStr k, j)" using Cons.prems(1) by (cases e) auto
  have j: "reads tonumber (text j) j" "starts (text j)" "j \<noteq> JNil" "KStr k \<notin> fst ` set res"
    using Cons.prems e by auto
  have kt: "key_text (KStr k) = encode_string k" by (simp add: key_text_def)
  show ?case
  proof (cases t)
    case Nil
    then show ?thesis
      using parse_object_step [OF j, of "CHR ''}''" pre post] by (simp add: entries_def e kt ac_simps)
  next
    case (Cons e' t')
    let ?pre = "pre @ encode_string k @ [CHR '':''] @ text j @ [CHR '','']"
    have "parse_object tonumber (?pre @ concat_comma (entries t) @ CHR ''}'' # post) (Suc (length ?pre)) (res @ [e]) =
      Inr (JTable ((res @ [e]) @ t), Suc (Suc (length ?pre + length (concat_comma (entries t)))))"
      using Cons.prems Cons by (intro Cons.IH) auto
    moreover have "concat_comma (entries (e # t)) = encode_string k @ [CHR '':''] @ text j @ [CHR '',''] @ concat_comma (entries t)"
      using Cons by (cases e') (simp add: entries_def e kt)
    ultimately show ?thesis
      using parse_object_step [OF j, of "CHR '',''" pre "concat_comma (entries t) @ CHR ''}'' # post"]
      by (simp add: e ac_simps)
  qed
qed simp

section \<open>The round trip\<close>

lemma starts_json_text: "canonical tonumber env j \<Longrightarrow> starts (json_text env j)"
proof (cases j)
  case (JNum n)
  assume "canonical tonumber env j"
  with JNum have "format_14g env n \<noteq> []" "hd (format_14g env n) \<in> set ''0123456789-''"
    by (simp_all add: number_ok_def)
  then show ?thesis using JNum by (auto simp: starts_def space_chars_def)
qed (auto simp: starts_def space_chars_def encode_string_def)

lemma reads_array:
  assumes "\<forall>j \<in> set js. reads tonumber (text j) j \<and> j \<noteq> JNil \<and> starts (text j)"
  shows "reads tonumber ([CHR ''[''] @ concat_comma (map text js) @ [CHR '']'']) (JTable (array_tab js))"
  unfolding reads_def
proof (intro allI impI)
  fix pre post
  let ?str = "pre @ ([CHR ''[''] @ concat_comma (map text js) @ [CHR '']'']) @ post"
  have "parse_array tonumber ?str (Suc (Suc (length pre))) 1 [] =
      Inr (JTable (array_tab js), Suc (length pre + length ([CHR ''[''] @ concat_comma (map text js) @ [CHR '']''])))"
  proof (cases "js = []")
    case True
    then show ?thesis
      using next_char_here [of space_chars "CHR '']''" True "pre @ [CHR ''['']" post]
        char_at_append [of "pre @ [CHR ''['']" "CHR '']''" post]
      by (subst parse_array.simps) (simp add: array_tab_def space_chars_def)
  next
    case False
    then show ?thesis
      using parse_array_elements [OF assms False, of 1 "[]" "pre @ [CHR ''['']" post] by (simp add: array_tab_def del: upt_Suc)
  qed
  then show "parse tonumber ?str (Suc (length pre)) =
      Inr (JTable (array_tab js), Suc (length pre + length ([CHR ''[''] @ concat_comma (map text js) @ [CHR '']''])))"
    by (subst parse.simps) simp
qed

lemma reads_object:
  assumes "\<forall>(k, j) \<in> set t. (\<exists>s. k = KStr s) \<and> reads tonumber (text j) j \<and> j \<noteq> JNil \<and> starts (text j)"
    and "t \<noteq> []" "distinct (map fst t)"
  shows "reads tonumber ([CHR ''{''] @ concat_comma (map (\<lambda>(k, j). key_text k @ [CHR '':''] @ text j) t) @ [CHR ''}'']) (JTable t)"
  unfolding reads_def
proof (intro allI impI)
  fix pre post
  let ?s = "concat_comma (map (\<lambda>(k, j). key_text k @ [CHR '':''] @ text j) t)"
  have "parse_object tonumber (pre @ ([CHR ''{''] @ ?s @ [CHR ''}'']) @ post) (Suc (Suc (length pre))) [] =
      Inr (JTable t, Suc (length pre + length ([CHR ''{''] @ ?s @ [CHR ''}''])))"
    using parse_object_elements [OF assms(1,2), of "[]" "pre @ [CHR ''{'']" post] assms(3) by simp
  then show "parse tonumber (pre @ ([CHR ''{''] @ ?s @ [CHR ''}'']) @ post) (Suc (length pre)) =
      Inr (JTable t, Suc (length pre + length ([CHR ''{''] @ ?s @ [CHR ''}''])))"
    by (subst parse.simps) simp
qed

lemma reads_json_text: "canonical tonumber env j \<Longrightarrow> reads tonumber (json_text env j) j"
proof (induction j)
  case (JTable t)
  have parts: "\<forall>(k, j) \<in> set t. reads tonumber (json_text env j) j \<and> j \<noteq> JNil \<and> starts (json_text env j)"
    using JTable starts_json_text by fastforce
  show ?case
  proof (cases "t = array_tab (map snd t)")
    case True
    have t: "json_text env (JTable t) = [CHR ''[''] @ concat_comma (map (json_text env) (map snd t)) @ [CHR '']'']"
      using is_array_array_tab [of "map snd t"] True by (simp add: split_def comp_def)
    show ?thesis
      unfolding t by (subst (2) True, rule reads_array) (use parts in auto)
  next
    case False
    then have o: "t \<noteq> []" "distinct (map fst t)" "\<forall>k \<in> set (map fst t). \<exists>s. k = KStr s" using JTable.prems by auto
    then have "\<not> is_array_tab t" by (cases t) (auto simp: is_array_tab_def)
    then show ?thesis
      using reads_object [of t tonumber "json_text env"] o parts by fastforce
  qed
next
  case JNil
  then show ?case using reads_literal [of "''null''" JNil] by (simp add: literal_map_def)
next
  case (JBool b)
  then show ?case
    using reads_literal [of "''true''" "JBool True" tonumber] reads_literal [of "''false''" "JBool False" tonumber]
    by (simp add: literal_map_def)
qed (simp_all add: reads_number reads_string)

lemma json_decode_text: "canonical tonumber env j \<Longrightarrow> json_decode tonumber (json_text env j) = Inr j"
proof -
  assume c: "canonical tonumber env j"
  have "next_char (json_text env j) 1 space_chars True = 1"
    using starts_next [OF starts_json_text [OF c], of "[]" "[]"] by simp
  moreover have "parse tonumber (json_text env j) 1 = Inr (j, Suc (length (json_text env j)))"
    using reads_json_text [OF c] unfolding reads_def by (metis One_nat_def append_Nil append_Nil2 closed_Cons(4) list.size(3) plus_nat.add_0)
  ultimately show ?thesis by (simp add: json_decode_def next_char_beyond)
qed

text \<open>The text has no NUL, so it passes through the C strings of the engine unchanged.\<close>

lemma escape_char_no_NUL: "needs_escape c \<Longrightarrow> NUL \<notin> set (escape_char c)"
proof (cases "escape_char_map c")
  case None
  assume "needs_escape c"
  with None have c: "(of_char c :: nat) < 32" by (auto simp: needs_escape_def escape_char_map_def split: if_splits)
  have "hex_digit d \<noteq> NUL" for d using hex_digit_val [of d] by (auto simp: is_xdigit_def)
  then show ?thesis using None by (simp add: escape_char_def hex_digits_control [OF c]) metis
next
  case (Some e)
  then show ?thesis by (auto simp: escape_char_def escape_char_map_def split: if_splits)
qed

lemma encode_string_no_NUL: "NUL \<notin> set (encode_string s)"
  using escape_char_no_NUL by (auto simp: encode_string_def) (auto simp: needs_escape_def)

lemma concat_comma_no_NUL: "(\<And>s. s \<in> set ss \<Longrightarrow> NUL \<notin> set s) \<Longrightarrow> NUL \<notin> set (concat_comma ss)"
  by (induction ss rule: concat_comma.induct) auto

lemma json_text_no_NUL: "canonical tonumber env j \<Longrightarrow> NUL \<notin> set (json_text env j)"
proof (induction j)
  case (JTable t)
  then have "NUL \<notin> set (json_text env (snd kv))" if "kv \<in> set t" for kv
    using that by (cases kv) (auto simp: snds.simps)
  moreover have "NUL \<notin> set (key_text k)" for k by (cases k) (simp_all add: key_text_def encode_string_no_NUL)
  ultimately have "NUL \<notin> set (concat_comma (map (\<lambda>(_, j). json_text env j) t))"
    "NUL \<notin> set (concat_comma (map (\<lambda>(k, j). key_text k @ [CHR '':''] @ json_text env j) t))"
    by (intro concat_comma_no_NUL; force)+
  then show ?case by simp
qed (auto simp: number_ok_def encode_string_no_NUL)

section \<open>Values in the heap\<close>

text \<open>Tables hold no nil and have distinct keys; the numbers are read back from their texts.\<close>

definition number_val_ok :: "(bytes \<Rightarrow> 'n option) \<Rightarrow> 'n lua_env \<Rightarrow> 'n lval \<Rightarrow> bool" where
  "number_val_ok tonumber env v \<longleftrightarrow> (case v of LNum n \<Rightarrow> number_ok tonumber env n | _ \<Rightarrow> True)"

definition heap_ok :: "(bytes \<Rightarrow> 'n option) \<Rightarrow> 'n lua_env \<Rightarrow> 'n lheap \<Rightarrow> bool" where
  "heap_ok tonumber env h \<longleftrightarrow>
     (\<forall>(a, t) \<in> set h. distinct (map fst t) \<and> (\<forall>(k, v) \<in> set t. v \<noteq> LNil \<and> number_val_ok tonumber env v))"

lemma heap_ok_table:
  assumes "heap_ok tonumber env h"
  shows "distinct (map fst (heap_table h a))" "(k, v) \<in> set (heap_table h a) \<Longrightarrow> v \<noteq> LNil \<and> number_val_ok tonumber env v"
proof -
  have "heap_table h a = [] \<or> (a, heap_table h a) \<in> set h"
    by (auto simp: heap_table_def split: option.splits dest: map_of_SomeD)
  then show "distinct (map fst (heap_table h a))"
    "(k, v) \<in> set (heap_table h a) \<Longrightarrow> v \<noteq> LNil \<and> number_val_ok tonumber env v"
    using assms unfolding heap_ok_def by fastforce+
qed

lemma ipairs_values: "v \<in> set (ipairs_from t i) \<Longrightarrow> v \<noteq> LNil \<and> v \<in> snd ` set t"
proof (induction t i rule: ipairs_from.induct)
  case (1 t i)
  show ?case
  proof (cases "rawget t (IntKey (int i)) = LNil")
    case True
    then show ?thesis using 1(2) by (subst (asm) ipairs_from.simps) simp
  next
    case False
    then have "rawget t (IntKey (int i)) \<in> snd ` set t"
      by (auto simp: rawget_def split: option.splits dest: map_of_SomeD intro: rev_image_eqI)
    then show ?thesis
      using 1(1) [OF refl False] 1(2) [unfolded ipairs_from.simps [of t i]] False by (auto simp: Let_def)
  qed
qed

lemma unfolds_canonical:
  assumes "heap_ok tonumber env h"
  shows "unfolds env h v j \<Longrightarrow> number_val_ok tonumber env v \<Longrightarrow> canonical tonumber env j \<and> (j = JNil \<longrightarrow> v = LNil)"
    "unfolds_list env h vs js \<Longrightarrow> (\<forall>v \<in> set vs. v \<noteq> LNil \<and> number_val_ok tonumber env v) \<Longrightarrow>
       \<forall>j \<in> set js. canonical tonumber env j \<and> j \<noteq> JNil"
    "unfolds_pairs env h es t \<Longrightarrow> (\<forall>(k, v) \<in> set es. v \<noteq> LNil \<and> number_val_ok tonumber env v) \<Longrightarrow>
       map fst es = map (\<lambda>k. case k of KStr s \<Rightarrow> StrKey s | KInt n \<Rightarrow> IntKey (int n)) (map fst t) \<and>
       (\<forall>(k, j) \<in> set t. canonical tonumber env j \<and> j \<noteq> JNil \<and> (\<exists>s. k = KStr s))"
proof (induction rule: unfolds_unfolds_list_unfolds_pairs.inducts)
  case (U_array a js)
  have "\<forall>v \<in> set (ipairs_from (heap_table h a) 1). v \<noteq> LNil \<and> number_val_ok tonumber env v"
    using ipairs_values [of _ "heap_table h a"] heap_ok_table(2) [OF assms] by fastforce
  then have js: "\<forall>j \<in> set js. canonical tonumber env j \<and> j \<noteq> JNil" by (rule U_array(5))
  have "map snd (array_tab js) = js" by (simp add: array_tab_def del: upt_Suc)
  moreover have "snd kv \<in> set js" if "kv \<in> set (array_tab js)" for kv
    using that array_tab_snd [of js] by (metis image_eqI)
  ultimately show ?case using js by simp
next
  case (U_object a t)
  have t: "map fst (heap_table h a) = map (\<lambda>k. case k of KStr s \<Rightarrow> StrKey s | KInt n \<Rightarrow> IntKey (int n)) (map fst t)"
    "\<forall>(k, j) \<in> set t. canonical tonumber env j \<and> j \<noteq> JNil \<and> (\<exists>s. k = KStr s)"
    using U_object(4) heap_ok_table(2) [OF assms] by blast+
  have "distinct (map fst t)" using heap_ok_table(1) [OF assms, of a] unfolding t(1) distinct_map [of _ "map fst t"] by simp
  moreover have "t \<noteq> []" using t(1) U_object(2) by auto
  ultimately show ?case using t(2) by auto
qed (auto simp: number_val_ok_def)

lemma json_roundtrip:
  assumes "heap_ok tonumber env h" "number_val_ok tonumber env v" "json_encode env h v = Inr s"
  shows "\<exists>j. unfolds env h v j \<and> json_decode tonumber s = Inr j"
proof -
  obtain j where j: "unfolds env h v j" "s = json_text env j" using assms(3) json_encode_eq by blast
  then have "canonical tonumber env j" using unfolds_canonical(1) assms by blast
  then show ?thesis using j json_decode_text by blast
qed

section \<open>The codec as an interface\<close>

text \<open>A reader that undoes a writer on the valid values: the texts of two of them differ.\<close>

locale text_codec =
  fixes valid :: "'v \<Rightarrow> bool"
    and write_text :: "'v \<Rightarrow> bytes"
    and read_text :: "bytes \<Rightarrow> 'v lua_res"
  assumes read_write: "valid v \<Longrightarrow> read_text (write_text v) = Inr v"
begin

lemma write_inj: "valid v \<Longrightarrow> valid w \<Longrightarrow> write_text v = write_text w \<Longrightarrow> v = w"
  by (metis read_write sum.inject(2))

lemma rewrite: "valid v \<Longrightarrow> read_text (write_text v) = Inr w \<Longrightarrow> write_text w = write_text v"
  by (simp add: read_write)

end

interpretation json_codec: text_codec "canonical tonumber env" "json_text env" "json_decode tonumber"
  for tonumber :: "bytes \<Rightarrow> 'n option" and env :: "'n lua_env"
  by unfold_locales (rule json_decode_text)

text \<open>Two values with the same text denote the same tree.\<close>

lemma json_encode_inj:
  assumes "heap_ok tonumber env h" "number_val_ok tonumber env v" "number_val_ok tonumber env w"
    and "json_encode env h v = Inr s" "json_encode env h w = Inr s"
  shows "\<exists>j. unfolds env h v j \<and> unfolds env h w j"
proof -
  obtain i j where ij: "unfolds env h v i" "unfolds env h w j" "json_text env i = json_text env j"
    using assms(4,5) by (metis json_encode_eq)
  then have "canonical tonumber env i" "canonical tonumber env j"
    using unfolds_canonical(1) assms(1-3) by blast+
  with ij json_codec.write_inj show ?thesis by blast
qed

end
