(* ===== verification/Gafq_Api.thy ===== *)
theory Gafq_Api
  imports Engine_Prelude
begin

text \<open>
  The interface of the Gafq interpreter (a Lua 5.1 under another name), as
  \<^verbatim>\<open>src/3rd/gafq/include/gafq.h\<close> and \<^verbatim>\<open>gauxlib.h\<close> declare it. The
  interpreter itself is a binary library: its functions are the fields of the record
  \<open>gafq_api\<close> over an abstract interpreter state \<open>'v\<close>, an argument of every
  definition that calls them. The constants and macros of the headers are definitions over that
  record. \<open>gafq_stack_laws\<close> names the documented stack effects the engine relies on.
\<close>

section \<open>Constants\<close>

definition GAFQ_MULTRET :: int where "GAFQ_MULTRET = - 1"

definition GAFQ_REGISTRYINDEX :: int where "GAFQ_REGISTRYINDEX = - 10000"
definition GAFQ_ENVIRONINDEX :: int where "GAFQ_ENVIRONINDEX = - 10001"
definition GAFQ_GLOBALSINDEX :: int where "GAFQ_GLOBALSINDEX = - 10002"

definition gafq_upvalueindex :: "int \<Rightarrow> int" where
  "gafq_upvalueindex i = GAFQ_GLOBALSINDEX - i"

text \<open>Thread status; 0 is OK.\<close>

definition GAFQ_YIELD :: int where "GAFQ_YIELD = 1"
definition GAFQ_ERRRUN :: int where "GAFQ_ERRRUN = 2"
definition GAFQ_ERRSYNTAX :: int where "GAFQ_ERRSYNTAX = 3"
definition GAFQ_ERRMEM :: int where "GAFQ_ERRMEM = 4"
definition GAFQ_ERRERR :: int where "GAFQ_ERRERR = 5"
definition GAFQ_ERRFILE :: int where "GAFQ_ERRFILE = GAFQ_ERRERR + 1"

text \<open>Basic types.\<close>

definition GAFQ_TNONE :: int where "GAFQ_TNONE = - 1"
definition GAFQ_TNIL :: int where "GAFQ_TNIL = 0"
definition GAFQ_TBOOLEAN :: int where "GAFQ_TBOOLEAN = 1"
definition GAFQ_TLIGHTUSERDATA :: int where "GAFQ_TLIGHTUSERDATA = 2"
definition GAFQ_TNUMBER :: int where "GAFQ_TNUMBER = 3"
definition GAFQ_TSTRING :: int where "GAFQ_TSTRING = 4"
definition GAFQ_TTABLE :: int where "GAFQ_TTABLE = 5"
definition GAFQ_TFUNCTION :: int where "GAFQ_TFUNCTION = 6"
definition GAFQ_TUSERDATA :: int where "GAFQ_TUSERDATA = 7"
definition GAFQ_TTHREAD :: int where "GAFQ_TTHREAD = 8"

definition GAFQ_MINSTACK :: nat where "GAFQ_MINSTACK = 20"

lemmas gafq_index_defs = GAFQ_REGISTRYINDEX_def GAFQ_ENVIRONINDEX_def GAFQ_GLOBALSINDEX_def

lemmas gafq_type_defs = GAFQ_TNONE_def GAFQ_TNIL_def GAFQ_TBOOLEAN_def GAFQ_TLIGHTUSERDATA_def
  GAFQ_TNUMBER_def GAFQ_TSTRING_def GAFQ_TTABLE_def GAFQ_TFUNCTION_def GAFQ_TUSERDATA_def
  GAFQ_TTHREAD_def

section \<open>The library's functions\<close>

text \<open>
  The functions the engine and the headers' macros call. A C function pushed into the interpreter
  is named by its C name. \<open>gafq_togstring\<close> may convert the value in place, so it returns
  a state; \<open>None\<close> is a null pointer.
\<close>

record 'v gafq_api =
  gafq_gettop :: "'v \<Rightarrow> int"
  gafq_settop :: "int \<Rightarrow> 'v \<Rightarrow> 'v"
  gafq_pushvalue :: "int \<Rightarrow> 'v \<Rightarrow> 'v"
  gafq_type :: "int \<Rightarrow> 'v \<Rightarrow> int"
  gafq_tointeger :: "int \<Rightarrow> 'v \<Rightarrow> int"
  gafq_togstring :: "int \<Rightarrow> 'v \<Rightarrow> bytes option \<times> 'v"
  gafq_objlen :: "int \<Rightarrow> 'v \<Rightarrow> nat"
  gafq_pushnumber :: "int \<Rightarrow> 'v \<Rightarrow> 'v"
  gafq_pushinteger :: "int \<Rightarrow> 'v \<Rightarrow> 'v"
  gafq_pushgstring :: "bytes \<Rightarrow> 'v \<Rightarrow> 'v"
  gafq_pushstring :: "bytes \<Rightarrow> 'v \<Rightarrow> 'v"
  gafq_pushcclosure :: "string \<Rightarrow> int \<Rightarrow> 'v \<Rightarrow> 'v"
  gafq_getfield :: "int \<Rightarrow> bytes \<Rightarrow> 'v \<Rightarrow> 'v"
  gafq_rawgeti :: "int \<Rightarrow> int \<Rightarrow> 'v \<Rightarrow> 'v"
  gafq_createtable :: "int \<Rightarrow> int \<Rightarrow> 'v \<Rightarrow> 'v"
  gafq_setfield :: "int \<Rightarrow> bytes \<Rightarrow> 'v \<Rightarrow> 'v"
  gafq_pcall :: "int \<Rightarrow> int \<Rightarrow> int \<Rightarrow> 'v \<Rightarrow> int \<times> 'v"
  gafqL_newstate :: 'v
  gafqL_openlibs :: "'v \<Rightarrow> 'v"
  gafqL_loadfile :: "bytes \<Rightarrow> 'v \<Rightarrow> int \<times> 'v"
  gafqL_loadstring :: "bytes \<Rightarrow> 'v \<Rightarrow> int \<times> 'v"

section \<open>The headers' macros\<close>

definition gafq_pop :: "'v gafq_api \<Rightarrow> int \<Rightarrow> 'v \<Rightarrow> 'v" where
  "gafq_pop api n = gafq_settop api (- n - 1)"

definition gafq_newtable :: "'v gafq_api \<Rightarrow> 'v \<Rightarrow> 'v" where
  "gafq_newtable api = gafq_createtable api 0 0"

definition gafq_pushcfunction :: "'v gafq_api \<Rightarrow> string \<Rightarrow> 'v \<Rightarrow> 'v" where
  "gafq_pushcfunction api f = gafq_pushcclosure api f 0"

definition gafq_setglobal :: "'v gafq_api \<Rightarrow> bytes \<Rightarrow> 'v \<Rightarrow> 'v" where
  "gafq_setglobal api s = gafq_setfield api GAFQ_GLOBALSINDEX s"

definition gafq_getglobal :: "'v gafq_api \<Rightarrow> bytes \<Rightarrow> 'v \<Rightarrow> 'v" where
  "gafq_getglobal api s = gafq_getfield api GAFQ_GLOBALSINDEX s"

definition gafq_register :: "'v gafq_api \<Rightarrow> bytes \<Rightarrow> string \<Rightarrow> 'v \<Rightarrow> 'v" where
  "gafq_register api n f v = gafq_setglobal api n (gafq_pushcfunction api f v)"

definition gafq_strlen :: "'v gafq_api \<Rightarrow> int \<Rightarrow> 'v \<Rightarrow> nat" where
  "gafq_strlen api i = gafq_objlen api i"

definition gafq_isfunction :: "'v gafq_api \<Rightarrow> int \<Rightarrow> 'v \<Rightarrow> bool" where
  "gafq_isfunction api n v \<longleftrightarrow> gafq_type api n v = GAFQ_TFUNCTION"

definition gafq_istable :: "'v gafq_api \<Rightarrow> int \<Rightarrow> 'v \<Rightarrow> bool" where
  "gafq_istable api n v \<longleftrightarrow> gafq_type api n v = GAFQ_TTABLE"

definition gafq_islightuserdata :: "'v gafq_api \<Rightarrow> int \<Rightarrow> 'v \<Rightarrow> bool" where
  "gafq_islightuserdata api n v \<longleftrightarrow> gafq_type api n v = GAFQ_TLIGHTUSERDATA"

definition gafq_isnil :: "'v gafq_api \<Rightarrow> int \<Rightarrow> 'v \<Rightarrow> bool" where
  "gafq_isnil api n v \<longleftrightarrow> gafq_type api n v = GAFQ_TNIL"

definition gafq_isboolean :: "'v gafq_api \<Rightarrow> int \<Rightarrow> 'v \<Rightarrow> bool" where
  "gafq_isboolean api n v \<longleftrightarrow> gafq_type api n v = GAFQ_TBOOLEAN"

definition gafq_isthread :: "'v gafq_api \<Rightarrow> int \<Rightarrow> 'v \<Rightarrow> bool" where
  "gafq_isthread api n v \<longleftrightarrow> gafq_type api n v = GAFQ_TTHREAD"

definition gafq_isnone :: "'v gafq_api \<Rightarrow> int \<Rightarrow> 'v \<Rightarrow> bool" where
  "gafq_isnone api n v \<longleftrightarrow> gafq_type api n v = GAFQ_TNONE"

definition gafq_isnoneornil :: "'v gafq_api \<Rightarrow> int \<Rightarrow> 'v \<Rightarrow> bool" where
  "gafq_isnoneornil api n v \<longleftrightarrow> gafq_type api n v \<le> 0"

definition gafq_pushliteral :: "'v gafq_api \<Rightarrow> bytes \<Rightarrow> 'v \<Rightarrow> 'v" where
  "gafq_pushliteral api s = gafq_pushgstring api s"

definition gafq_tostring :: "'v gafq_api \<Rightarrow> int \<Rightarrow> 'v \<Rightarrow> bytes option \<times> 'v" where
  "gafq_tostring api i = gafq_togstring api i"

definition gafq_getregistry :: "'v gafq_api \<Rightarrow> 'v \<Rightarrow> 'v" where
  "gafq_getregistry api = gafq_pushvalue api GAFQ_REGISTRYINDEX"

text \<open>
  \<open>gauxlib.h\<close>: \<open>loadfile || pcall\<close> is true, an error, as soon as loading fails, and
  then nothing is called.
\<close>

definition gafqL_dofile :: "'v gafq_api \<Rightarrow> bytes \<Rightarrow> 'v \<Rightarrow> bool \<times> 'v" where
  "gafqL_dofile api fn v =
     (let (e, v) = gafqL_loadfile api fn v in
      if e \<noteq> 0 then (True, v)
      else let (r, v) = gafq_pcall api 0 GAFQ_MULTRET 0 v in (r \<noteq> 0, v))"

definition gafqL_dostring :: "'v gafq_api \<Rightarrow> bytes \<Rightarrow> 'v \<Rightarrow> bool \<times> 'v" where
  "gafqL_dostring api s v =
     (let (e, v) = gafqL_loadstring api s v in
      if e \<noteq> 0 then (True, v)
      else let (r, v) = gafq_pcall api 0 GAFQ_MULTRET 0 v in (r \<noteq> 0, v))"

definition gafqL_getmetatable :: "'v gafq_api \<Rightarrow> bytes \<Rightarrow> 'v \<Rightarrow> 'v" where
  "gafqL_getmetatable api n = gafq_getfield api GAFQ_REGISTRYINDEX n"

definition gafqL_opt :: "'v gafq_api \<Rightarrow> (int \<Rightarrow> 'v \<Rightarrow> 'a) \<Rightarrow> int \<Rightarrow> 'a \<Rightarrow> 'v \<Rightarrow> 'a" where
  "gafqL_opt api f n d v = (if gafq_isnoneornil api n v then d else f n v)"

definition gafq_getref :: "'v gafq_api \<Rightarrow> int \<Rightarrow> 'v \<Rightarrow> 'v" where
  "gafq_getref api r = gafq_rawgeti api GAFQ_REGISTRYINDEX r"

lemmas gafq_macros = gafq_pop_def gafq_newtable_def gafq_pushcfunction_def gafq_setglobal_def
  gafq_getglobal_def gafq_register_def gafq_isfunction_def gafq_istable_def gafq_isnil_def
  gafq_isnone_def gafq_isnoneornil_def gafq_tostring_def

lemma type_tests_exclusive:
  "gafq_isfunction api n v \<Longrightarrow> \<not> gafq_isnil api n v \<and> \<not> gafq_istable api n v \<and> \<not> gafq_isnone api n v"
  by (simp add: gafq_macros gafq_type_defs)

lemma gafq_isnoneornil_iff:
  "GAFQ_TNONE \<le> gafq_type api n v \<Longrightarrow>
     gafq_isnoneornil api n v \<longleftrightarrow> gafq_isnone api n v \<or> gafq_isnil api n v"
  by (auto simp: gafq_macros gafq_type_defs)

section \<open>Documented stack effects\<close>

text \<open>
  What the Lua 5.1 manual says about the height of the stack: the indicator \<open>[-o, +p]\<close> of
  each function. A protected call removes the function and its arguments and pushes the results, or
  one error object.
\<close>

definition gafq_stack_laws :: "'v gafq_api \<Rightarrow> bool" where
  "gafq_stack_laws api \<longleftrightarrow>
     (\<forall>v. 0 \<le> gafq_gettop api v)
   \<and> (\<forall>v n. 0 \<le> n \<and> n \<le> gafq_gettop api v \<longrightarrow>
        gafq_gettop api (gafq_settop api (- n - 1) v) = gafq_gettop api v - n)
   \<and> (\<forall>v i. gafq_gettop api (snd (gafq_togstring api i v)) = gafq_gettop api v)
   \<and> (\<forall>v x. gafq_gettop api (gafq_pushnumber api x v) = gafq_gettop api v + 1)
   \<and> (\<forall>v s. gafq_gettop api (gafq_pushstring api s v) = gafq_gettop api v + 1)
   \<and> (\<forall>v f. gafq_gettop api (gafq_pushcclosure api f 0 v) = gafq_gettop api v + 1)
   \<and> (\<forall>v i k. gafq_gettop api (gafq_getfield api i k v) = gafq_gettop api v + 1)
   \<and> (\<forall>v i k. 1 \<le> gafq_gettop api v \<longrightarrow>
        gafq_gettop api (gafq_setfield api i k v) = gafq_gettop api v - 1)
   \<and> (\<forall>v a b. gafq_gettop api (gafq_createtable api a b v) = gafq_gettop api v + 1)
   \<and> (\<forall>v n r st v'. 0 \<le> n \<and> n + 1 \<le> gafq_gettop api v \<and> 0 \<le> r \<and> gafq_pcall api n r 0 v = (st, v') \<longrightarrow>
        gafq_gettop api v' = gafq_gettop api v - (n + 1) + (if st = 0 then r else 1))
   \<and> gafq_gettop api (gafqL_newstate api) = 0
   \<and> (\<forall>v. gafq_gettop api (gafqL_openlibs api v) = gafq_gettop api v)
   \<and> (\<forall>v fn. gafq_gettop api (snd (gafqL_loadfile api fn v)) = gafq_gettop api v + 1)"

lemma gafq_laws:
  assumes "gafq_stack_laws api"
  shows gettop_nonneg: "0 \<le> gafq_gettop api v"
    and gettop_pop: "0 \<le> n \<Longrightarrow> n \<le> gafq_gettop api v \<Longrightarrow>
      gafq_gettop api (gafq_pop api n v) = gafq_gettop api v - n"
    and gettop_tostring: "gafq_gettop api (snd (gafq_tostring api i v)) = gafq_gettop api v"
    and gettop_pushnumber: "gafq_gettop api (gafq_pushnumber api x v) = gafq_gettop api v + 1"
    and gettop_pushstring: "gafq_gettop api (gafq_pushstring api s v) = gafq_gettop api v + 1"
    and gettop_getglobal: "gafq_gettop api (gafq_getglobal api k v) = gafq_gettop api v + 1"
    and gettop_newtable: "gafq_gettop api (gafq_newtable api v) = gafq_gettop api v + 1"
    and gettop_openlibs: "gafq_gettop api (gafqL_openlibs api v) = gafq_gettop api v"
    and gettop_newstate: "gafq_gettop api (gafqL_newstate api) = 0"
    and gettop_loadfile: "gafq_gettop api (snd (gafqL_loadfile api k v)) = gafq_gettop api v + 1"
  using assms by (simp_all add: gafq_stack_laws_def gafq_macros)

lemma gettop_pcall:
  assumes "gafq_stack_laws api" and "0 \<le> n" and "n + 1 \<le> gafq_gettop api v" and "0 \<le> r"
    and "gafq_pcall api n r 0 v = (st, v')"
  shows "gafq_gettop api v' = gafq_gettop api v - (n + 1) + (if st = 0 then r else 1)"
proof -
  from assms(1) have "\<forall>v n r st v'. 0 \<le> n \<and> n + 1 \<le> gafq_gettop api v \<and> 0 \<le> r
      \<and> gafq_pcall api n r 0 v = (st, v') \<longrightarrow>
      gafq_gettop api v' = gafq_gettop api v - (n + 1) + (if st = 0 then r else 1)"
    unfolding gafq_stack_laws_def by (elim conjE)
  then show ?thesis using assms(2-5) by blast
qed

lemma gettop_register:
  assumes "gafq_stack_laws api"
  shows "gafq_gettop api (gafq_register api n f v) = gafq_gettop api v"
proof -
  have push: "gafq_gettop api (gafq_pushcclosure api f 0 v) = gafq_gettop api v + 1"
    and set: "1 \<le> gafq_gettop api w \<Longrightarrow>
      gafq_gettop api (gafq_setfield api i k w) = gafq_gettop api w - 1" for w i k
    using assms by (simp_all add: gafq_stack_laws_def)
  show ?thesis
    using push set gettop_nonneg [OF assms, of v] by (simp add: gafq_macros)
qed

end
