(* ===== verification/Script_Engine.thy ===== *)
theory Script_Engine
  imports Gafq_Api
begin

text \<open>
  The class \<open>ScriptEngine\<close> (\<^verbatim>\<open>src/script_engine.h\<close>,
  \<^verbatim>\<open>src/script_engine.cpp\<close>): the queue of messages that the network thread fills with
  \<open>ExecGafq\<close> and the main thread empties with \<open>LoopExecute\<close>, which calls the
  script for each of them. Every operation is sequential here; the interleaving of the two threads
  is in \<open>Engine_Threads\<close>. The main results: what one round executes and in which order,
  when it dereferences a null pointer, and the exact effect of a round on the height of the
  interpreter's stack.
\<close>

section \<open>State\<close>

record ScriptEngineMsgBase =
  action :: bytes
  msg_text :: bytes

record gafqItem =
  gafq_content :: bytes
  item_fd :: int
  item_msg :: "ScriptEngineMsgBase option"
  errinfo :: bytes
  item_status :: int

text \<open>\<open>boost::make_shared<GAFQITEM>()\<close> value-initialises the item.\<close>

definition new_item :: gafqItem where
  "new_item = \<lparr>gafq_content = [], item_fd = 0, item_msg = None, errinfo = [], item_status = 0\<rparr>"

text \<open>What \<open>LoopExecute\<close> writes to the standard output and error streams.\<close>

datatype engine_log =
    Log_status int
  | Log_failed "bytes option"
  | Log_not_function "bytes option"

record 'v script_engine =
  wait_execute_list :: "gafqItem list"
  count :: "32 word"
  count2 :: "32 word"
  se_gafqState :: 'v
  init_file :: bytes
  se_log :: "engine_log list"

text \<open>
  \<open>get_instance\<close> creates the engine on its first call, with both counters 0 and the
  other plain members uninitialised.
\<close>

definition get_instance :: "'v \<Rightarrow> 'v script_engine option \<Rightarrow> 'v script_engine" where
  "get_instance uninit script_eng =
     (case script_eng of
        Some e \<Rightarrow> e
      | None \<Rightarrow> \<lparr>wait_execute_list = [], count = 0, count2 = 0, se_gafqState = uninit,
                 init_file = [], se_log = []\<rparr>)"

definition get_gafq_State :: "'v script_engine \<Rightarrow> 'v" where
  "get_gafq_State e = se_gafqState e"

section \<open>The C functions of the engine\<close>

text \<open>
  \<open>gafq_func3\<close> (and its twins): the sum of two integer arguments in \<open>int\<close>
  arithmetic; one result is pushed.
\<close>

definition gafq_func_add :: "'v gafq_api \<Rightarrow> 'v \<Rightarrow> int \<times> 'v" where
  "gafq_func_add api v =
     (let a = (word_of_int (gafq_tointeger api 1 v) :: 32 word);
          b = (word_of_int (gafq_tointeger api 2 v) :: 32 word);
          result = a + b
      in (1, gafq_pushinteger api (sint result) v))"

definition gafq_func1 :: "'v gafq_api \<Rightarrow> 'v \<Rightarrow> int \<times> 'v" where
  "gafq_func1 api v = gafq_func_add api v"

definition gafq_func2 :: "'v gafq_api \<Rightarrow> 'v \<Rightarrow> int \<times> 'v" where
  "gafq_func2 api v = gafq_func_add api v"

definition gafq_func3 :: "'v gafq_api \<Rightarrow> 'v \<Rightarrow> int \<times> 'v" where
  "gafq_func3 api v = gafq_func_add api v"

definition regs :: "(bytes \<times> string) list" where
  "regs = [(''gafq_func1'', ''gafq_func1''), (''gafq_func2'', ''gafq_func2'')]"

section \<open>Operations\<close>

definition Init :: "'v gafq_api \<Rightarrow> bytes \<Rightarrow> 'v script_engine \<Rightarrow> bool \<times> 'v script_engine" where
  "Init api file e =
     (let e = e\<lparr>init_file := file\<rparr>;
          v = gafqL_newstate api;
          v = gafqL_openlibs api v;
          v = snd (gafqL_dofile api (c_str (init_file e)) v);
          v = gafq_newtable api v;
          v = snd (gafq_pcall api 0 0 0 v);
          v = gafq_register api ''gafq_func3'' ''gafq_func3'' v
      in (True, e\<lparr>se_gafqState := v\<rparr>))"

text \<open>
  \<open>ExecGafq\<close>: the parameter \<open>status\<close> is not stored, and the error text only when
  there is no script text.
\<close>

definition ExecGafq :: "bytes \<Rightarrow> int \<Rightarrow> ScriptEngineMsgBase option \<Rightarrow> int \<Rightarrow> bytes \<Rightarrow>
    'v script_engine \<Rightarrow> 'v script_engine" where
  "ExecGafq content fd msg status err e =
     (let gt_ptr =
        (if content \<noteq> [] then
           new_item\<lparr>gafq_content := content, item_fd := fd, item_msg := None\<rparr>
         else new_item\<lparr>item_fd := fd, item_msg := msg, errinfo := err\<rparr>);
      e = e\<lparr>wait_execute_list := wait_execute_list e @ [gt_ptr]\<rparr>;
      e = e\<lparr>count2 := count2 e + 1\<rparr>
      in e\<lparr>count := count e + 1\<rparr>)"

text \<open>The critical section of \<open>LoopExecute\<close>: the list is copied, then cleared.\<close>

definition take_all_items :: "'v script_engine \<Rightarrow> gafqItem list \<times> 'v script_engine" where
  "take_all_items e =
     (let n = length (wait_execute_list e);
          temp_execute_list = map (\<lambda>i. wait_execute_list e ! i) [0..<n]
      in (temp_execute_list, e\<lparr>wait_execute_list := []\<rparr>))"

text \<open>The call of the script for one item: the body of the second loop.\<close>

definition exec_item :: "'v gafq_api \<Rightarrow> gafqItem \<Rightarrow> 'v script_engine \<Rightarrow> 'v script_engine res" where
  "exec_item api it e =
     (case item_msg it of
        None \<Rightarrow> Inl Null_Deref
      | Some msg \<Rightarrow>
          let v = gafq_getglobal api (c_str (action msg)) (se_gafqState e) in
          if gafq_isfunction api (- 1) v then
            let v = gafq_pushnumber api (item_fd it) v;
                v = gafq_pushstring api (c_str (msg_text msg)) v;
                (status, v) = gafq_pcall api 2 0 0 v;
                log = se_log e @ [Log_status status]
            in if status \<noteq> 0 then
                 if \<not> gafq_isnil api (- 1) v then
                   let (txt, v) = gafq_tostring api (- 1) v;
                       v = gafq_pop api 1 v
                   in Inr (e\<lparr>se_gafqState := v, se_log := log @ [Log_failed txt]\<rparr>)
                 else Inr (e\<lparr>se_gafqState := v, se_log := log\<rparr>)
               else Inr (e\<lparr>se_gafqState := v, se_log := log\<rparr>)
          else
            let (txt, v) = gafq_tostring api (- 1) v
            in Inr (e\<lparr>se_gafqState := v, se_log := se_log e @ [Log_not_function txt]\<rparr>))"

definition LoopExecute :: "'v gafq_api \<Rightarrow> 'v script_engine \<Rightarrow> 'v script_engine res" where
  "LoopExecute api e =
     (let (temp_execute_list, e) = take_all_items e
      in rfold (exec_item api) temp_execute_list e)"

section \<open>The queue\<close>

lemma take_all_items_eq:
  "take_all_items e = (wait_execute_list e, e\<lparr>wait_execute_list := []\<rparr>)"
  by (simp add: take_all_items_def Let_def map_nth)

lemma LoopExecute_eq:
  "LoopExecute api e = rfold (exec_item api) (wait_execute_list e) (e\<lparr>wait_execute_list := []\<rparr>)"
  by (simp add: LoopExecute_def take_all_items_eq)

text \<open>The queue as an abstract FIFO: what a submission adds and what a drain returns.\<close>

locale work_queue =
  fixes submit :: "'i \<Rightarrow> 'q \<Rightarrow> 'q" and drain :: "'q \<Rightarrow> 'i list \<times> 'q" and items :: "'q \<Rightarrow> 'i list"
  assumes items_submit: "items (submit i q) = items q @ [i]"
    and drain_items: "fst (drain q) = items q"
    and drain_clears: "items (snd (drain q)) = []"
begin

text \<open>Rounds of submissions, each followed by a drain: every submission is drained in its round.\<close>

fun rounds :: "'i list list \<Rightarrow> 'q \<Rightarrow> 'i list list \<times> 'q" where
  "rounds [] q = ([], q)"
| "rounds (r # rs) q =
     (let q = fold submit r q; (out, q) = drain q; (outs, q) = rounds rs q in (out # outs, q))"

lemma items_fold_submit: "items (fold submit r q) = items q @ r"
  by (induction r arbitrary: q) (auto simp: items_submit)

lemma drain_after_submits: "fst (drain (fold submit r q)) = items q @ r"
  by (simp add: drain_items items_fold_submit)

lemma rounds_drain: "items q = [] \<Longrightarrow> fst (rounds rs q) = rs"
proof (induction rs arbitrary: q)
  case (Cons r rs)
  have "items (snd (drain (fold submit r q))) = []"
    by (rule drain_clears)
  then have "fst (rounds rs (snd (drain (fold submit r q)))) = rs"
    by (rule Cons.IH)
  with Cons.prems show ?case
    by (simp add: Let_def case_prod_beta drain_after_submits)
qed simp

end

text \<open>The item a submission of a network message makes.\<close>

definition net_item :: "int \<times> ScriptEngineMsgBase \<Rightarrow> gafqItem" where
  "net_item fm = new_item\<lparr>item_fd := fst fm, item_msg := Some (snd fm)\<rparr>"

definition submit_msg :: "int \<times> ScriptEngineMsgBase \<Rightarrow> 'v script_engine \<Rightarrow> 'v script_engine" where
  "submit_msg fm e = ExecGafq [] (fst fm) (Some (snd fm)) 1 [] e"

definition waiting_msgs :: "'v script_engine \<Rightarrow> (int \<times> ScriptEngineMsgBase option) list" where
  "waiting_msgs e = map (\<lambda>it. (item_fd it, item_msg it)) (wait_execute_list e)"

definition drain_msgs ::
    "'v script_engine \<Rightarrow> (int \<times> ScriptEngineMsgBase option) list \<times> 'v script_engine" where
  "drain_msgs e = (let (its, e) = take_all_items e in (map (\<lambda>it. (item_fd it, item_msg it)) its, e))"

interpretation eng_queue: work_queue
  "\<lambda>i e. ExecGafq [] (fst i) (snd i) 1 [] e" drain_msgs waiting_msgs
  by unfold_locales
    (auto simp: ExecGafq_def Let_def new_item_def waiting_msgs_def drain_msgs_def take_all_items_eq)

lemma fold_submit_counts:
  "count (fold (\<lambda>i. ExecGafq [] (fst i) (snd i) 1 []) r e) = count e + of_nat (length r)
   \<and> count2 (fold (\<lambda>i. ExecGafq [] (fst i) (snd i) 1 []) r e) = count2 e + of_nat (length r)"
  by (induction r arbitrary: e) (simp_all add: ExecGafq_def Let_def algebra_simps)

section \<open>Stack effects\<close>

text \<open>
  How many stack slots one call of \<open>exec_item\<close> leaves behind: one when the global is not
  a function, one when the call fails with the error object \<open>nil\<close>.
\<close>

definition leaks :: "'v gafq_api \<Rightarrow> gafqItem \<Rightarrow> 'v \<Rightarrow> int" where
  "leaks api it v =
     (case item_msg it of
        None \<Rightarrow> 0
      | Some msg \<Rightarrow>
          let v1 = gafq_getglobal api (c_str (action msg)) v in
          if gafq_isfunction api (- 1) v1 then
            let (status, v2) = gafq_pcall api 2 0 0
              (gafq_pushstring api (c_str (msg_text msg)) (gafq_pushnumber api (item_fd it) v1))
            in if status \<noteq> 0 \<and> gafq_isnil api (- 1) v2 then 1 else 0
          else 1)"

lemma exec_item_Inr_iff: "(\<exists>e'. exec_item api it e = Inr e') \<longleftrightarrow> item_msg it \<noteq> None"
  by (auto simp: exec_item_def Let_def split: option.splits prod.splits)

lemma exec_item_fault: "exec_item api it e = Inl x \<longleftrightarrow> item_msg it = None \<and> x = Null_Deref"
  by (auto simp: exec_item_def Let_def split: option.splits prod.splits)

lemma exec_item_frame:
  assumes "exec_item api it e = Inr e'"
  shows "wait_execute_list e' = wait_execute_list e \<and> count e' = count e \<and> count2 e' = count2 e"
  using assms
  by (auto simp: exec_item_def Let_def split: option.splits prod.splits if_splits)

lemma exec_item_height:
  assumes laws: "gafq_stack_laws api" and ex: "exec_item api it e = Inr e'"
  shows "gafq_gettop api (se_gafqState e')
    = gafq_gettop api (se_gafqState e) + leaks api it (se_gafqState e)"
proof -
  obtain msg where msg: "item_msg it = Some msg"
    using ex by (auto simp: exec_item_def split: option.splits)
  let ?h = "gafq_gettop api (se_gafqState e)"
  let ?v = "gafq_getglobal api (c_str (action msg)) (se_gafqState e)"
  let ?w = "gafq_pushstring api (c_str (msg_text msg)) (gafq_pushnumber api (item_fd it) ?v)"
  have v: "gafq_gettop api ?v = ?h + 1" and w: "gafq_gettop api ?w = ?h + 3" and h: "0 \<le> ?h"
    by (simp_all add: gafq_laws [OF laws])
  obtain st u where u: "gafq_pcall api 2 0 0 ?w = (st, u)" by fastforce
  have hu: "gafq_gettop api u = ?h + (if st = 0 then 0 else 1)"
    using gettop_pcall [OF laws _ _ _ u] w h by simp
  obtain t u' where t: "gafq_tostring api (- 1) u = (t, u')" by fastforce
  have hu': "gafq_gettop api u' = gafq_gettop api u"
    using gettop_tostring [OF laws, of "- 1" u] t by simp
  obtain t' v' where t': "gafq_tostring api (- 1) ?v = (t', v')" by fastforce
  have hv': "gafq_gettop api v' = ?h + 1"
    using gettop_tostring [OF laws, of "- 1" ?v] t' v by simp
  have pop: "st \<noteq> 0 \<Longrightarrow> gafq_gettop api (gafq_pop api 1 u') = ?h"
    using gettop_pop [OF laws, of 1 u'] hu hu' h by simp
  show ?thesis
    using ex pop by (auto simp: exec_item_def leaks_def msg Let_def u t t' hu hv' split: if_splits)
qed

text \<open>The slots a whole round leaves behind, following the state of the interpreter.\<close>

fun round_leaks :: "'v gafq_api \<Rightarrow> gafqItem list \<Rightarrow> 'v script_engine \<Rightarrow> int" where
  "round_leaks api [] e = 0"
| "round_leaks api (it # its) e =
     leaks api it (se_gafqState e)
     + (case exec_item api it e of Inl _ \<Rightarrow> 0 | Inr e' \<Rightarrow> round_leaks api its e')"

lemma rfold_exec_height:
  "gafq_stack_laws api \<Longrightarrow> rfold (exec_item api) its e = Inr e' \<Longrightarrow>
     gafq_gettop api (se_gafqState e') = gafq_gettop api (se_gafqState e) + round_leaks api its e"
proof (induction its arbitrary: e)
  case (Cons it its)
  from Cons.prems(2) obtain e1 where e1: "exec_item api it e = Inr e1"
    and r: "rfold (exec_item api) its e1 = Inr e'"
    by (auto simp: res_simps)
  with Cons.IH [OF Cons.prems(1) r] exec_item_height [OF Cons.prems(1) e1] show ?case by simp
qed simp

lemma leaks_nonneg: "0 \<le> leaks api it v" "leaks api it v \<le> 1"
  by (auto simp: leaks_def Let_def split: option.splits prod.splits)

lemma round_leaks_nonneg: "0 \<le> round_leaks api its e"
  by (induction its arbitrary: e) (auto simp: leaks_nonneg split: sum.splits intro!: add_nonneg_nonneg)

lemma rfold_exec_total:
  "(\<exists>e'. rfold (exec_item api) its e = Inr e') \<longleftrightarrow> (\<forall>it \<in> set its. item_msg it \<noteq> None)"
proof (induction its arbitrary: e)
  case (Cons it its)
  show ?case
  proof (cases "exec_item api it e")
    case (Inl x)
    then show ?thesis using exec_item_fault [of api it e x] by auto
  next
    case (Inr e1)
    then have "item_msg it \<noteq> None" using exec_item_Inr_iff [of api it e] by blast
    with Inr Cons.IH [of e1] show ?thesis by simp
  qed
qed simp

lemma rfold_exec_frame:
  "rfold (exec_item api) its e = Inr e' \<Longrightarrow>
     wait_execute_list e' = wait_execute_list e \<and> count e' = count e \<and> count2 e' = count2 e"
proof (induction its arbitrary: e)
  case (Cons it its)
  from Cons.prems obtain e1 where e1: "exec_item api it e = Inr e1"
    and r: "rfold (exec_item api) its e1 = Inr e'"
    by (auto simp: res_simps)
  show ?case using Cons.IH [OF r] exec_item_frame [OF e1] by simp
qed simp

text \<open>A global that is not a function costs one slot for every item.\<close>

lemma round_leaks_not_function:
  assumes "\<And>v. \<not> gafq_isfunction api (- 1) (gafq_getglobal api a v)"
  shows "\<forall>it \<in> set its. \<exists>m. item_msg it = Some m \<and> c_str (action m) = a \<Longrightarrow>
    round_leaks api its e = int (length its)"
proof (induction its arbitrary: e)
  case (Cons it its)
  then obtain m where m: "item_msg it = Some m" "c_str (action m) = a" by auto
  have "leaks api it (se_gafqState e) = 1"
    using assms by (simp add: leaks_def m)
  moreover obtain e1 where "exec_item api it e = Inr e1"
    using exec_item_Inr_iff [of api it e] m by auto
  ultimately show ?case using Cons by simp
qed simp

text \<open>What \<open>Init\<close> leaves on the stack.\<close>

lemma dofile_height:
  assumes laws: "gafq_stack_laws api" and e: "fst (gafqL_loadfile api fn v) \<noteq> 0"
  shows "gafq_gettop api (snd (gafqL_dofile api fn v)) = gafq_gettop api v + 1"
  using gettop_loadfile [OF laws, of fn v] e
  by (auto simp: gafqL_dofile_def split: prod.splits)

lemma Init_height:
  assumes laws: "gafq_stack_laws api"
    and call: "\<And>v. fst (gafq_pcall api 0 0 0 (gafq_newtable api v)) \<noteq> 0"
  shows "gafq_gettop api (se_gafqState (snd (Init api file e)))
    = gafq_gettop api (snd (gafqL_dofile api (c_str file) (gafqL_openlibs api (gafqL_newstate api)))) + 1"
proof -
  let ?v = "snd (gafqL_dofile api (c_str file) (gafqL_openlibs api (gafqL_newstate api)))"
  obtain st u where u: "gafq_pcall api 0 0 0 (gafq_newtable api ?v) = (st, u)" by fastforce
  with call [of ?v] have "st \<noteq> 0" by simp
  have n: "gafq_gettop api (gafq_newtable api ?v) = gafq_gettop api ?v + 1"
    by (rule gettop_newtable [OF laws])
  moreover have "gafq_gettop api u = gafq_gettop api (gafq_newtable api ?v) - 1 + 1"
    using gettop_pcall [OF laws _ _ _ u] n gettop_nonneg [OF laws, of ?v] \<open>st \<noteq> 0\<close> by simp
  ultimately show ?thesis
    by (simp add: Init_def Let_def u gettop_register [OF laws])
qed

text \<open>An item submitted with script text has no message, and ends the round that reaches it.\<close>

lemma content_item_faults:
  assumes "content \<noteq> []" and "\<forall>it \<in> set (wait_execute_list e). item_msg it \<noteq> None"
  shows "LoopExecute api (ExecGafq content fd msg st err e) = Inl Null_Deref"
proof -
  let ?e = "ExecGafq content fd msg st err e"
  obtain it where w: "wait_execute_list ?e = wait_execute_list e @ [it]" and it: "item_msg it = None"
    using assms(1) by (simp add: ExecGafq_def Let_def)
  obtain e1 where "rfold (exec_item api) (wait_execute_list e) (?e\<lparr>wait_execute_list := []\<rparr>) = Inr e1"
    using rfold_exec_total assms(2) by blast
  moreover have "exec_item api it e1 = Inl Null_Deref" using it by (simp add: exec_item_def)
  ultimately show ?thesis by (simp add: LoopExecute_eq w rfold_append)
qed

section \<open>A reference interpreter\<close>

text \<open>
  A small interpreter that satisfies the laws, to run the engine on concrete inputs: a stack of
  values (top first) and the globals. A call of the function named \<open>fail\<close> ends with an
  error string, one of \<open>failnil\<close> with the error object \<open>nil\<close>, every other
  function returns nothing; calling anything else is an error.
\<close>

datatype ref_val = VNil | VNum int | VStr bytes | VTable | VFun string

record ref_vm =
  vm_stack :: "ref_val list"
  vm_globals :: "(bytes \<times> ref_val) list"
  vm_calls :: "(string \<times> ref_val list) list"

fun ref_type_of :: "ref_val \<Rightarrow> int" where
  "ref_type_of VNil = 0"
| "ref_type_of (VNum _) = 3"
| "ref_type_of (VStr _) = 4"
| "ref_type_of VTable = 5"
| "ref_type_of (VFun _) = 6"

definition ref_push :: "ref_val \<Rightarrow> ref_vm \<Rightarrow> ref_vm" where
  "ref_push x v = v\<lparr>vm_stack := x # vm_stack v\<rparr>"

definition ref_at :: "int \<Rightarrow> ref_vm \<Rightarrow> ref_val option" where
  "ref_at i v =
     (let n = length (vm_stack v);
          k = (if i < 0 then nat (- i) else n + 1 - nat i)
      in if i \<noteq> 0 \<and> 0 < k \<and> k \<le> n then Some (vm_stack v ! (k - 1)) else None)"

definition ref_pcall :: "int \<Rightarrow> int \<Rightarrow> int \<Rightarrow> ref_vm \<Rightarrow> int \<times> ref_vm" where
  "ref_pcall n r ef v =
     (let args = take (nat n) (vm_stack v); f = vm_stack v ! nat n;
          rest = drop (nat (n + 1)) (vm_stack v)
      in case f of
           VFun g \<Rightarrow>
             let calls = vm_calls v @ [(g, rev args)] in
             if g = ''fail'' then (2, v\<lparr>vm_stack := VStr ''error'' # rest, vm_calls := calls\<rparr>)
             else if g = ''failnil'' then (2, v\<lparr>vm_stack := VNil # rest, vm_calls := calls\<rparr>)
             else (0, v\<lparr>vm_stack := replicate (nat r) VNil @ rest, vm_calls := calls\<rparr>)
         | _ \<Rightarrow> (2, v\<lparr>vm_stack := VStr ''attempt to call'' # rest\<rparr>))"

definition ref_api :: "ref_vm gafq_api" where
  "ref_api = \<lparr>
     gafq_gettop = (\<lambda>v. int (length (vm_stack v))),
     gafq_settop = (\<lambda>i v. if i < 0 then v\<lparr>vm_stack := drop (nat (- i - 1)) (vm_stack v)\<rparr>
        else v\<lparr>vm_stack := replicate (nat i - length (vm_stack v)) VNil
                 @ drop (length (vm_stack v) - nat i) (vm_stack v)\<rparr>),
     gafq_pushvalue = (\<lambda>i v. ref_push (case ref_at i v of Some x \<Rightarrow> x | None \<Rightarrow> VTable) v),
     gafq_type = (\<lambda>i v. case ref_at i v of Some x \<Rightarrow> ref_type_of x | None \<Rightarrow> - 1),
     gafq_tointeger = (\<lambda>i v. case ref_at i v of Some (VNum k) \<Rightarrow> k | _ \<Rightarrow> 0),
     gafq_togstring = (\<lambda>i v. (case ref_at i v of Some (VStr s) \<Rightarrow> Some s | _ \<Rightarrow> None, v)),
     gafq_objlen = (\<lambda>i v. case ref_at i v of Some (VStr s) \<Rightarrow> length s | _ \<Rightarrow> 0),
     gafq_pushnumber = (\<lambda>x. ref_push (VNum x)),
     gafq_pushinteger = (\<lambda>x. ref_push (VNum x)),
     gafq_pushgstring = (\<lambda>s. ref_push (VStr s)),
     gafq_pushstring = (\<lambda>s. ref_push (VStr s)),
     gafq_pushcclosure = (\<lambda>f n. ref_push (VFun f)),
     gafq_getfield = (\<lambda>i k v. ref_push (case map_of (vm_globals v) k of Some x \<Rightarrow> x | None \<Rightarrow> VNil) v),
     gafq_rawgeti = (\<lambda>i k. ref_push VNil),
     gafq_createtable = (\<lambda>a b. ref_push VTable),
     gafq_setfield = (\<lambda>i k v. case vm_stack v of [] \<Rightarrow> v
        | x # xs \<Rightarrow> v\<lparr>vm_stack := xs, vm_globals := (k, x) # vm_globals v\<rparr>),
     gafq_pcall = ref_pcall,
     gafqL_newstate = \<lparr>vm_stack = [], vm_globals = [], vm_calls = []\<rparr>,
     gafqL_openlibs = (\<lambda>v. v),
     gafqL_loadfile = (\<lambda>fn v. (0, ref_push (VFun fn) v)),
     gafqL_loadstring = (\<lambda>s v. (0, ref_push (VFun s) v))\<rparr>"

lemma ref_pcall_height:
  assumes "0 \<le> n" and "n + 1 \<le> int (length (vm_stack v))" and "0 \<le> r"
    and "ref_pcall n r 0 v = (st, v')"
  shows "int (length (vm_stack v')) = int (length (vm_stack v)) - (n + 1) + (if st = 0 then r else 1)"
  using assms by (auto simp: ref_pcall_def Let_def split: ref_val.splits if_splits)

lemma ref_api_laws: "gafq_stack_laws ref_api"
  unfolding gafq_stack_laws_def
  by (intro conjI allI impI)
    (auto simp: ref_api_def ref_push_def ref_pcall_height split: list.splits)

text \<open>The same interpreter with no globals at all.\<close>

definition no_globals_api :: "ref_vm gafq_api" where
  "no_globals_api = ref_api\<lparr>gafq_getfield := \<lambda>i k. ref_push VNil\<rparr>"

lemma no_globals_laws: "gafq_stack_laws no_globals_api"
  using ref_api_laws unfolding gafq_stack_laws_def
  by (simp add: no_globals_api_def ref_api_def ref_push_def)

end
