(* ===== verification/Epoll_Server.thy ===== *)
theory Epoll_Server
  imports Framing Script_Engine
begin

text \<open>
  \<open>init_epool\<close> of \<^verbatim>\<open>src/game.cpp\<close>, the server loop that the program runs: it
  accepts connections, reads one message per readiness event and queues it for the script engine.
  The operating system is a parameter, the record \<open>os_api\<close> of system calls over a kernel
  state \<open>'k\<close>; \<open>read_law\<close> names what \<open>read(2)\<close> documents. The source
  file lacks the brace that closes the error branch of \<open>listen\<close>; the model follows the
  only reading under which its braces balance, an \<open>if/else\<close>.
\<close>

section \<open>The operating system\<close>

definition EPOLLIN :: "32 word" where "EPOLLIN = 1"
definition EPOLLERR :: "32 word" where "EPOLLERR = 8"

text \<open>
  \<open>sys_read fd n\<close> returns the result of the call and the bytes it stored;
  \<open>sys_epoll_wait\<close> returns its result and the events it stored, each a descriptor and a
  mask.
\<close>

record 'k os_api =
  sys_socket :: "'k \<Rightarrow> int \<times> 'k"
  sys_bind :: "int \<Rightarrow> 16 word \<Rightarrow> 'k \<Rightarrow> int \<times> 'k"
  sys_listen :: "int \<Rightarrow> int \<Rightarrow> 'k \<Rightarrow> int \<times> 'k"
  sys_epoll_create :: "int \<Rightarrow> 'k \<Rightarrow> int \<times> 'k"
  sys_epoll_ctl_add :: "int \<Rightarrow> int \<Rightarrow> 32 word \<Rightarrow> 'k \<Rightarrow> 'k"
  sys_epoll_wait :: "int \<Rightarrow> nat \<Rightarrow> 'k \<Rightarrow> (int \<times> (int \<times> 32 word) list) \<times> 'k"
  sys_accept :: "int \<Rightarrow> 'k \<Rightarrow> int \<times> 'k"
  sys_read :: "int \<Rightarrow> nat \<Rightarrow> 'k \<Rightarrow> (int \<times> bytes) \<times> 'k"
  sys_send :: "int \<Rightarrow> bytes \<Rightarrow> 'k \<Rightarrow> int \<times> 'k"
  sys_close :: "int \<Rightarrow> 'k \<Rightarrow> 'k"

text \<open>
  \<open>read\<close> stores at most as many bytes as asked for and returns their number; on an error
  it returns -1 and stores nothing.
\<close>

definition read_law :: "'k os_api \<Rightarrow> bool" where
  "read_law os \<longleftrightarrow>
     (\<forall>fd n k r bs k'. sys_read os fd n k = ((r, bs), k') \<longrightarrow>
        length bs \<le> n \<and> (r = int (length bs) \<or> r = - 1 \<and> bs = []))"

lemma read_lawD: "read_law os \<Longrightarrow> sys_read os fd n k = ((r, bs), k') \<Longrightarrow> length bs \<le> n"
  unfolding read_law_def by blast

definition EPOLL_SIZE :: nat where "EPOLL_SIZE = 1000"

section \<open>One event\<close>

record ('v, 'k) loop_state =
  ls_msg :: socket_msg
  ls_engine :: "'v script_engine"
  ls_kernel :: 'k

definition start_action :: bytes where "start_action = ''start_action''"

text \<open>
  The body of the message is read with room for one byte more than the header announces, printed,
  and handed to the engine as a C string.
\<close>

definition read_body ::
    "'k os_api \<Rightarrow> int \<Rightarrow> ('v, 'k) loop_state \<Rightarrow> ('v, 'k) loop_state res" where
  "read_body os fd s =
     (let m = ls_msg s;
          ((str_len1, bs), k) = sys_read os fd (unat (msg_body_length m + 1)) (ls_kernel s)
      in rbind (mem_write (data' m) header_length bs) (\<lambda>d.
         let m = m\<lparr>data' := d\<rparr> in
         rbind (c_string (msg_data m)) (\<lambda>_.
         rbind (c_string (msg_body m)) (\<lambda>txt.
           let foo = \<lparr>action = start_action, msg_text = txt\<rparr>
           in Inr (s\<lparr>ls_msg := m, ls_kernel := k,
                ls_engine := ExecGafq [] fd (Some foo) 1 [] (ls_engine s)\<rparr>)))))"

text \<open>The branch of a readable connection: clear the buffer, read the header, then the body.\<close>

definition handle_readable ::
    "'k os_api \<Rightarrow> int \<Rightarrow> ('v, 'k) loop_state \<Rightarrow> ('v, 'k) loop_state res" where
  "handle_readable os fd s =
     rbind (delete_msg (ls_msg s)) (\<lambda>m.
       let ((str_len, bs), k) = sys_read os fd header_length (ls_kernel s) in
       rbind (mem_write (data' m) 0 bs) (\<lambda>d.
         let m = m\<lparr>data' := d\<rparr>; s = s\<lparr>ls_msg := m, ls_kernel := k\<rparr> in
         if str_len > 0 then
           rbind (decode_header m) (\<lambda>(ok, m).
             let s = s\<lparr>ls_msg := m\<rparr> in
             if ok then read_body os fd s
             else Inr (s\<lparr>ls_kernel := sys_close os fd (ls_kernel s)\<rparr>))
         else Inr (s\<lparr>ls_kernel := sys_close os fd (ls_kernel s)\<rparr>)))"

definition handle_event :: "'k os_api \<Rightarrow> int \<Rightarrow> int \<Rightarrow> int \<times> 32 word \<Rightarrow>
    ('v, 'k) loop_state \<Rightarrow> ('v, 'k) loop_state res" where
  "handle_event os epfd server_socket ev s =
     (let (fd, events) = ev in
      if fd = server_socket then
        let (client_socket, k) = sys_accept os server_socket (ls_kernel s)
        in Inr (s\<lparr>ls_kernel := sys_epoll_ctl_add os epfd client_socket EPOLLIN k\<rparr>)
      else if and events EPOLLIN \<noteq> 0 then handle_readable os fd s
      else if and events EPOLLERR \<noteq> 0 then Inr (s\<lparr>ls_kernel := sys_close os fd (ls_kernel s)\<rparr>)
      else Inr s)"

section \<open>The loop\<close>

text \<open>
  At most \<open>n\<close> rounds of the loop; the flag says whether \<open>epoll_wait\<close> has failed
  and ended it.
\<close>

fun epoll_rounds :: "nat \<Rightarrow> 'k os_api \<Rightarrow> int \<Rightarrow> int \<Rightarrow> ('v, 'k) loop_state \<Rightarrow>
    (bool \<times> ('v, 'k) loop_state) res" where
  "epoll_rounds 0 os epfd server_socket s = Inr (False, s)"
| "epoll_rounds (Suc n) os epfd server_socket s =
     (let ((event_cnt, evs), k) = sys_epoll_wait os epfd EPOLL_SIZE (ls_kernel s);
          s = s\<lparr>ls_kernel := k\<rparr>
      in if event_cnt = - 1 then Inr (True, s)
         else rbind (rfold (handle_event os epfd server_socket) (take (nat event_cnt) evs) s)
                (epoll_rounds n os epfd server_socket))"

datatype epoll_exit = Bind_error | Listen_error | Running | Loop_ended

text \<open>
  \<open>port_lookup\<close> is the result of \<open>get_config_int("port")\<close>: a number, or the
  exception it throws. The port number is also passed to \<open>listen\<close>, as its backlog.
\<close>

definition init_epool :: "nat \<Rightarrow> 'k os_api \<Rightarrow> (string + int) \<Rightarrow> bytes \<Rightarrow> 'v script_engine \<Rightarrow> 'k \<Rightarrow>
    (epoll_exit \<times> 'v script_engine \<times> 'k) res" where
  "init_epool n os port_lookup uninit eng k =
     (let (server_socket, k) = sys_socket os k in
      case port_lookup of
        Inl ex \<Rightarrow> Inl (Uncaught ex)
      | Inr port \<Rightarrow>
          let (b, k) = sys_bind os server_socket (word_of_int port) k in
          if b = - 1 then Inr (Bind_error, eng, k)
          else
            let (l, k) = sys_listen os server_socket port k in
            if l = - 1 then Inr (Listen_error, eng, k)
            else
              let (epfd, k) = sys_epoll_create os 255 k;
                  k = sys_epoll_ctl_add os epfd server_socket EPOLLIN k
              in rbind (epoll_rounds n os epfd server_socket
                   \<lparr>ls_msg = socket_msg_ctor uninit, ls_engine = eng, ls_kernel = k\<rparr>)
                 (\<lambda>(ended, s).
                   if ended then
                     Inr (Loop_ended, ls_engine s,
                          sys_close os epfd (sys_close os server_socket (ls_kernel s)))
                   else Inr (Running, ls_engine s, ls_kernel s)))"

section \<open>What one readable event does\<close>

text \<open>The buffer after the header was read: header bytes, then NULs.\<close>

definition header_buffer :: "bytes \<Rightarrow> bytes" where
  "header_buffer h = h @ replicate (header_length + max_body_length - length h) NUL"

lemma length_header_buffer: "length h \<le> 4 \<Longrightarrow> length (header_buffer h) = header_length + max_body_length"
  by (simp add: header_buffer_def msg_consts)

lemma header_written:
  assumes "length h \<le> header_length"
  shows "mem_write (replicate (header_length + max_body_length) NUL) 0 h = Inr (header_buffer h)"
  using assms by (simp add: mem_write_ok header_buffer_def)

text \<open>What the header announces: the text of up to four bytes, cut at a NUL, as a number.\<close>

definition announced :: "bytes \<Rightarrow> nat option" where
  "announced h =
     (let i = atoi (header_text (header_buffer h)) in
      if 0 \<le> i \<and> i \<le> 1024 then Some (nat i) else None)"

lemma announced_bound: "announced h = Some n \<Longrightarrow> n \<le> 1024"
  by (auto simp: announced_def Let_def split: if_splits)

lemma decode_header_announced:
  assumes "length h \<le> header_length"
  shows "decode_header \<lparr>data' = header_buffer h, body_length' = 0\<rparr> =
    (case announced h of
       Some n \<Rightarrow> Inr (True, \<lparr>data' = header_buffer h, body_length' = of_nat n\<rparr>)
     | None \<Rightarrow> Inr (False, \<lparr>data' = header_buffer h, body_length' = 0\<rparr>))"
  using assms
  by (subst decode_header_eq) (auto simp: length_header_buffer announced_def Let_def msg_consts)

text \<open>The whole branch as one equation over the two reads.\<close>

definition message_text :: "bytes \<Rightarrow> bytes" where
  "message_text b = takeWhile (\<lambda>c. c \<noteq> NUL) b"

definition queued :: "int \<Rightarrow> bytes \<Rightarrow> 'v script_engine \<Rightarrow> 'v script_engine" where
  "queued fd txt e = ExecGafq [] fd (Some \<lparr>action = start_action, msg_text = txt\<rparr>) 1 [] e"

lemma handle_readable_header:
  assumes inv: "msg_inv (ls_msg s)"
    and rd: "sys_read os fd header_length (ls_kernel s) = ((r, h), k)" and len: "length h \<le> header_length"
  shows "handle_readable os fd s =
    (case (if r > 0 then announced h else None) of
       None \<Rightarrow> Inr (s\<lparr>ls_msg := \<lparr>data' = header_buffer h, body_length' = 0\<rparr>,
                      ls_kernel := sys_close os fd k\<rparr>)
     | Some n \<Rightarrow>
         read_body os fd (s\<lparr>ls_msg := \<lparr>data' = header_buffer h, body_length' = of_nat n\<rparr>,
                            ls_kernel := k\<rparr>))"
proof -
  have comm: "s\<lparr>ls_kernel := k, ls_msg := m\<rparr> = s\<lparr>ls_msg := m, ls_kernel := k\<rparr>" for k m
    by simp
  show ?thesis
    using decode_header_announced [OF len] header_written [OF len]
    by (auto simp: handle_readable_def delete_msg_eq [OF inv] rd Let_def comm split: option.splits)
qed

lemma body_read_size: "n \<le> 1024 \<Longrightarrow> unat ((of_nat n :: size_t) + 1) = Suc n"
  by (simp add: unat_word_ariths unat_of_nat)

lemma c_string_suffix: "c_string b = Inr t \<Longrightarrow> \<exists>u. c_string (a @ b) = Inr u"
  by (auto simp: c_string_def split: if_splits)

lemma c_string_pad:
  "c_string (b @ replicate k NUL) = (if NUL \<in> set b \<or> 0 < k then Inr (message_text b) else Inl Out_Of_Bounds)"
proof (cases "NUL \<in> set b")
  case True
  then have "takeWhile (\<lambda>c. c \<noteq> NUL) (b @ replicate k NUL) = takeWhile (\<lambda>c. c \<noteq> NUL) b"
    by (intro takeWhile_append1) auto
  with True show ?thesis by (simp add: c_string_def message_text_def)
next
  case False
  show ?thesis
  proof (cases k)
    case 0
    with False show ?thesis by (simp add: c_string_def)
  next
    case (Suc j)
    with False c_string_append_NUL [OF False] show ?thesis
      by (simp add: message_text_def)
  qed
qed

lemma read_body_eq:
  assumes m: "ls_msg s = \<lparr>data' = header_buffer h, body_length' = of_nat n\<rparr>"
    and n: "n \<le> 1024" and h: "length h \<le> header_length"
    and rd: "sys_read os fd (Suc n) (ls_kernel s) = ((r, b), k)" and len: "length b \<le> Suc n"
  shows "read_body os fd s =
    (if length b > max_body_length \<or> (length b = max_body_length \<and> NUL \<notin> set b) then Inl Out_Of_Bounds
     else Inr (s\<lparr>ls_msg := \<lparr>data' = take header_length (header_buffer h) @ b
                     @ replicate (max_body_length - length b) NUL, body_length' = of_nat n\<rparr>,
             ls_kernel := k, ls_engine := queued fd (message_text b) (ls_engine s)\<rparr>))"
proof (cases "length b > max_body_length")
  case True
  then show ?thesis
    using h by (simp add: read_body_def m msg_body_length_def body_read_size [OF n] rd Let_def
        mem_write_def length_header_buffer msg_consts)
next
  case False
  define d where "d = take header_length (header_buffer h) @ b @ replicate (max_body_length - length b) NUL"
  have hb: "drop (header_length + length b) (header_buffer h)
      = replicate (max_body_length - length b) NUL"
    using h False by (simp add: header_buffer_def msg_consts)
  have wr: "mem_write (header_buffer h) header_length b = Inr d"
    using False h by (simp add: mem_write_ok length_header_buffer hb [unfolded msg_consts] msg_consts d_def)
  have "length (take header_length (header_buffer h)) = header_length"
    using h by (simp add: length_header_buffer msg_consts)
  then have body: "drop header_length d = b @ replicate (max_body_length - length b) NUL"
    by (simp add: d_def)
  have data: "\<exists>u. c_string d = Inr u"
    if "c_string (b @ replicate (max_body_length - length b) NUL) = Inr t" for t
    using c_string_suffix [OF that] by (simp add: d_def)
  show ?thesis
  proof (cases "NUL \<in> set b \<or> 0 < max_body_length - length b")
    case True
    then have cs: "c_string (b @ replicate (max_body_length - length b) NUL) = Inr (message_text b)"
      by (simp add: c_string_pad)
    from data [OF this] obtain u where "c_string d = Inr u" by blast
    with True cs False show ?thesis
      unfolding d_def [symmetric]
      by (auto simp: read_body_def m msg_body_length_def body_read_size [OF n] rd Let_def wr
          msg_data_def msg_body_def body queued_def)
  next
    case full: False
    then have cs: "c_string (b @ replicate (max_body_length - length b) NUL) = Inl Out_Of_Bounds"
      unfolding c_string_pad by simp
    have "c_string d = Inl Out_Of_Bounds \<or> (\<exists>u. c_string d = Inr u)"
      by (auto simp: c_string_def)
    with full cs False show ?thesis
      unfolding d_def [symmetric]
      by (auto simp: read_body_def m msg_body_length_def body_read_size [OF n] rd Let_def wr
          msg_data_def msg_body_def body)
  qed
qed

section \<open>Events on a byte stream\<close>

text \<open>
  The bytes of a connection that have arrived and are not read yet are \<open>inp k\<close>;
  \<open>full_read_law\<close> says that \<open>read\<close> takes as many of them as were asked for.
\<close>

definition full_read_law :: "'k os_api \<Rightarrow> int \<Rightarrow> ('k \<Rightarrow> bytes) \<Rightarrow> bool" where
  "full_read_law os fd inp \<longleftrightarrow>
     (\<forall>n k. \<exists>k'. sys_read os fd n k = ((int (length (take n (inp k))), take n (inp k)), k')
        \<and> inp k' = drop n (inp k))"

lemma full_readD:
  assumes "full_read_law os fd inp"
  obtains k' where "sys_read os fd n k = ((int (length (take n (inp k))), take n (inp k)), k')"
    and "inp k' = drop n (inp k)"
  using assms by (auto simp: full_read_law_def)

lemma announced_frame:
  assumes "length b \<le> 1024"
  shows "announced (format_4d (int (length b))) = Some (length b)"
proof -
  have "header_text (header_buffer (format_4d (int (length b)))) = format_4d (int (length b))"
    using assms by (simp add: header_buffer_def header_text_format)
  with assms show ?thesis by (simp add: announced_def atoi_format_4d)
qed

lemma handle_readable_frame:
  assumes law: "full_read_law os fd inp" and inv: "msg_inv (ls_msg s)"
    and inp: "inp (ls_kernel s) = frame b @ rest" and b: "length b \<le> 1024"
  obtains k where "inp k = drop 1 rest"
    and "handle_readable os fd s =
      (let t = b @ take 1 rest in
       if length t > max_body_length \<or> (length t = max_body_length \<and> NUL \<notin> set t) then Inl Out_Of_Bounds
       else Inr (s\<lparr>ls_msg := \<lparr>data' = format_4d (int (length b)) @ t
                   @ replicate (max_body_length - length t) NUL, body_length' = of_nat (length b)\<rparr>,
               ls_kernel := k, ls_engine := queued fd (message_text t) (ls_engine s)\<rparr>))"
proof -
  let ?h = "format_4d (int (length b))"
  have h: "length ?h = 4" using b by (intro length_format_4d) simp
  obtain k1 where r1: "sys_read os fd header_length (ls_kernel s) = ((4, ?h), k1)"
    and i1: "inp k1 = b @ rest"
    using full_readD [OF law, of header_length "ls_kernel s"] h
    by (auto simp: inp frame_def msg_consts)
  obtain k2 where r2: "sys_read os fd (Suc (length b)) k1 = ((int (length (b @ take 1 rest)), b @ take 1 rest), k2)"
    and i2: "inp k2 = drop 1 rest"
    using full_readD [OF law, of "Suc (length b)" k1] by (auto simp: i1)
  let ?s = "s\<lparr>ls_msg := \<lparr>data' = header_buffer ?h, body_length' = of_nat (length b)\<rparr>, ls_kernel := k1\<rparr>"
  have hr: "handle_readable os fd s = read_body os fd ?s"
    using handle_readable_header [OF inv r1] h announced_frame [OF b] by (simp add: msg_consts)
  have th: "take header_length (header_buffer ?h) = ?h"
    using h by (simp add: header_buffer_def msg_consts)
  have hl: "length ?h \<le> header_length" using h by (simp add: msg_consts)
  define t where "t = b @ take 1 rest"
  have len: "length t \<le> Suc (length b)" by (simp add: t_def)
  have rt: "sys_read os fd (Suc (length b)) (ls_kernel ?s) = ((int (length t), t), k2)"
    using r2 by (simp add: t_def)
  have "read_body os fd ?s =
      (if length t > max_body_length \<or> (length t = max_body_length \<and> NUL \<notin> set t) then Inl Out_Of_Bounds
       else Inr (s\<lparr>ls_msg := \<lparr>data' = ?h @ t @ replicate (max_body_length - length t) NUL,
                   body_length' = of_nat (length b)\<rparr>,
               ls_kernel := k2, ls_engine := queued fd (message_text t) (ls_engine s)\<rparr>))"
    using read_body_eq [of ?s ?h "length b" os fd "int (length t)" t k2, OF _ b hl rt len]
    by (simp add: th)
  with hr have "handle_readable os fd s =
      (let t = b @ take 1 rest in
       if length t > max_body_length \<or> (length t = max_body_length \<and> NUL \<notin> set t) then Inl Out_Of_Bounds
       else Inr (s\<lparr>ls_msg := \<lparr>data' = ?h @ t @ replicate (max_body_length - length t) NUL,
                   body_length' = of_nat (length b)\<rparr>,
               ls_kernel := k2, ls_engine := queued fd (message_text t) (ls_engine s)\<rparr>))"
    unfolding Let_def t_def [symmetric] by (rule trans)
  with i2 show thesis by (rule that)
qed

lemma message_text_id: "NUL \<notin> set b \<Longrightarrow> message_text b = b"
  by (simp add: message_text_def)

text \<open>Safety of one event for every kernel that obeys \<open>read_law\<close>.\<close>

lemma handle_readable_inv:
  assumes law: "read_law os" and inv: "msg_inv (ls_msg s)" and ok: "handle_readable os fd s = Inr s'"
  shows "msg_inv (ls_msg s')"
proof -
  obtain r h k where rd: "sys_read os fd header_length (ls_kernel s) = ((r, h), k)" by (metis prod.collapse)
  have h: "length h \<le> header_length" by (rule read_lawD [OF law rd])
  have hb: "length (header_buffer h) = header_length + max_body_length"
    using h by (intro length_header_buffer) (simp add: msg_consts)
  show ?thesis
  proof (cases "if r > 0 then announced h else None")
    case None
    with ok handle_readable_header [OF inv rd h] hb show ?thesis by (auto simp: msg_inv_def)
  next
    case (Some n)
    then have n: "n \<le> 1024" by (auto simp: announced_bound split: if_splits)
    let ?s = "s\<lparr>ls_msg := \<lparr>data' = header_buffer h, body_length' = of_nat n\<rparr>, ls_kernel := k\<rparr>"
    obtain r1 b k1 where rd1: "sys_read os fd (Suc n) k = ((r1, b), k1)" by (metis prod.collapse)
    have b: "length b \<le> Suc n" by (rule read_lawD [OF law rd1])
    have "handle_readable os fd s = read_body os fd ?s"
      using handle_readable_header [OF inv rd h] Some by simp
    with ok have "read_body os fd ?s = Inr s'" by simp
    with read_body_eq [of ?s h n os fd r1 b k1, OF _ n h _ b] rd1 have
      "length b \<le> max_body_length" and
      "ls_msg s' = \<lparr>data' = take header_length (header_buffer h) @ b
        @ replicate (max_body_length - length b) NUL, body_length' = of_nat n\<rparr>"
      by (auto split: if_splits)
    with hb n show ?thesis by (simp add: msg_inv_def msg_consts)
  qed
qed

text \<open>When a readable event faults: exactly on bodies that leave no NUL in the buffer.\<close>

lemma handle_readable_fault_iff:
  assumes law: "read_law os" and inv: "msg_inv (ls_msg s)"
    and rd: "sys_read os fd header_length (ls_kernel s) = ((r, h), k)"
  shows "(\<exists>x. handle_readable os fd s = Inl x) \<longleftrightarrow>
    (\<exists>n r1 b k1. 0 < r \<and> announced h = Some n \<and> sys_read os fd (Suc n) k = ((r1, b), k1)
       \<and> (max_body_length < length b \<or> length b = max_body_length \<and> NUL \<notin> set b))"
proof -
  from law rd have h: "length h \<le> header_length" by (rule read_lawD)
  show ?thesis
  proof (cases "if r > 0 then announced h else None")
    case None
    with handle_readable_header [OF inv rd h] show ?thesis by (auto split: if_splits)
  next
    case (Some n)
    then have n: "n \<le> 1024" and r: "0 < r" "announced h = Some n"
      by (auto simp: announced_bound split: if_splits)
    let ?s = "s\<lparr>ls_msg := \<lparr>data' = header_buffer h, body_length' = of_nat n\<rparr>, ls_kernel := k\<rparr>"
    obtain r1 b k1 where rd1: "sys_read os fd (Suc n) k = ((r1, b), k1)" by (metis prod.collapse)
    have b: "length b \<le> Suc n" by (rule read_lawD [OF law rd1])
    have "handle_readable os fd s = read_body os fd ?s"
      using handle_readable_header [OF inv rd h] Some by simp
    with read_body_eq [of ?s h n os fd r1 b k1, OF _ n h _ b] rd1 r show ?thesis
      by (auto split: if_splits)
  qed
qed

section \<open>Invariants of the loop\<close>

text \<open>Every waiting item carries a message, so the main thread can execute all of them.\<close>

definition all_msgs :: "'v script_engine \<Rightarrow> bool" where
  "all_msgs e \<longleftrightarrow> (\<forall>it \<in> set (wait_execute_list e). item_msg it \<noteq> None)"

definition loop_inv :: "('v, 'k) loop_state \<Rightarrow> bool" where
  "loop_inv s \<longleftrightarrow> msg_inv (ls_msg s) \<and> all_msgs (ls_engine s)"

lemma all_msgs_queued: "all_msgs e \<Longrightarrow> all_msgs (queued fd txt e)"
  by (auto simp: all_msgs_def queued_def ExecGafq_def Let_def new_item_def)

lemma read_body_engine:
  assumes "read_body os fd s = Inr s'"
  shows "\<exists>txt. ls_engine s' = queued fd txt (ls_engine s)"
proof -
  obtain r b k where rd: "sys_read os fd (unat (msg_body_length (ls_msg s) + 1)) (ls_kernel s) = ((r, b), k)"
    by (metis prod.collapse)
  show ?thesis
    using assms by (auto simp: read_body_def rd Let_def res_simps queued_def)
qed

lemma handle_readable_engine:
  assumes "handle_readable os fd s = Inr s'"
  shows "ls_engine s' = ls_engine s \<or> (\<exists>txt. ls_engine s' = queued fd txt (ls_engine s))"
proof -
  obtain r h k where rd: "sys_read os fd header_length (ls_kernel s) = ((r, h), k)"
    by (metis prod.collapse)
  show ?thesis
    using assms
    by (auto simp: handle_readable_def rd Let_def res_simps split: if_splits dest!: read_body_engine)
qed

lemma handle_event_loop_inv:
  assumes "read_law os" and "loop_inv s" and "handle_event os epfd srv ev s = Inr s'"
  shows "loop_inv s'"
proof -
  obtain fd events where ev: "ev = (fd, events)" by (cases ev)
  show ?thesis
  proof (cases "fd \<noteq> srv \<and> and events EPOLLIN \<noteq> 0")
    case True
    with assms(3) ev have r: "handle_readable os fd s = Inr s'"
      by (simp add: handle_event_def)
    have "msg_inv (ls_msg s')"
      using handle_readable_inv [OF assms(1) _ r] assms(2) by (simp add: loop_inv_def)
    moreover have "all_msgs (ls_engine s')"
      using handle_readable_engine [OF r] assms(2) by (auto simp: loop_inv_def intro: all_msgs_queued)
    ultimately show ?thesis by (simp add: loop_inv_def)
  next
    case False
    with assms(2,3) ev show ?thesis
      by (auto simp: handle_event_def loop_inv_def Let_def split: if_splits prod.splits)
  qed
qed

lemma epoll_rounds_loop_inv:
  "read_law os \<Longrightarrow> loop_inv s \<Longrightarrow> epoll_rounds n os epfd srv s = Inr (f, s') \<Longrightarrow> loop_inv s'"
proof (induction n arbitrary: s)
  case (Suc n)
  obtain c evs k where w: "sys_epoll_wait os epfd EPOLL_SIZE (ls_kernel s) = ((c, evs), k)"
    by (metis prod.collapse)
  let ?s = "s\<lparr>ls_kernel := k\<rparr>"
  have i: "loop_inv ?s" using Suc.prems(2) by (simp add: loop_inv_def)
  show ?case
  proof (cases "c = - 1")
    case True
    with Suc.prems(3) w i show ?thesis by auto
  next
    case False
    with Suc.prems(3) w obtain s1 where
      r: "rfold (handle_event os epfd srv) (take (nat c) evs) ?s = Inr s1"
      and e: "epoll_rounds n os epfd srv s1 = Inr (f, s')"
      by (auto simp: res_simps)
    have "loop_inv s1"
      by (rule rfold_invariant [of _ loop_inv "handle_event os epfd srv", OF _ i r])
        (rule handle_event_loop_inv [OF Suc.prems(1)])
    then show ?thesis by (rule Suc.IH [OF Suc.prems(1) _ e])
  qed
qed simp

text \<open>Frames that arrive one at a time are queued one at a time, complete and in order.\<close>

lemma single_frame:
  assumes law: "full_read_law os fd inp" and inv: "msg_inv (ls_msg s)"
    and inp: "inp (ls_kernel s) = frame b" and b: "length b < max_body_length" and nul: "NUL \<notin> set b"
  shows "\<exists>s'. handle_readable os fd s = Inr s' \<and> ls_engine s' = queued fd b (ls_engine s)
    \<and> inp (ls_kernel s') = [] \<and> msg_inv (ls_msg s')"
proof -
  have b': "length b \<le> 1024" using b by (simp add: msg_consts)
  from inp have i: "inp (ls_kernel s) = frame b @ []" by simp
  obtain k where k: "inp k = drop 1 []" and
    h: "handle_readable os fd s =
      (let t = b @ take 1 [] in
       if length t > max_body_length \<or> (length t = max_body_length \<and> NUL \<notin> set t) then Inl Out_Of_Bounds
       else Inr (s\<lparr>ls_msg := \<lparr>data' = format_4d (int (length b)) @ t
                   @ replicate (max_body_length - length t) NUL, body_length' = of_nat (length b)\<rparr>,
               ls_kernel := k, ls_engine := queued fd (message_text t) (ls_engine s)\<rparr>))"
    by (rule handle_readable_frame [OF law inv i b'])
  have "length (format_4d (int (length b))) = 4" using b' by (intro length_format_4d) simp
  with h k b nul b' show ?thesis
    by (simp add: message_text_id msg_inv_def) (simp add: msg_consts)
qed

lemma frames_one_by_one:
  assumes law: "full_read_law os fd inp" and arr: "\<And>bs k. inp (arrive bs k) = inp k @ bs"
  shows "msg_inv (ls_msg s) \<Longrightarrow> inp (ls_kernel s) = [] \<Longrightarrow>
    \<forall>b \<in> set bs. length b < max_body_length \<and> NUL \<notin> set b \<Longrightarrow>
    \<exists>s'. rfold (\<lambda>f s. handle_readable os fd (s\<lparr>ls_kernel := arrive f (ls_kernel s)\<rparr>))
           (map frame bs) s = Inr s'
      \<and> ls_engine s' = fold (queued fd) bs (ls_engine s)"
proof (induction bs arbitrary: s)
  case (Cons b bs)
  let ?s = "s\<lparr>ls_kernel := arrive (frame b) (ls_kernel s)\<rparr>"
  have "\<exists>s'. handle_readable os fd ?s = Inr s' \<and> ls_engine s' = queued fd b (ls_engine ?s)
      \<and> inp (ls_kernel s') = [] \<and> msg_inv (ls_msg s')"
    by (rule single_frame [OF law]) (use Cons.prems arr in auto)
  then obtain s1 where s1: "handle_readable os fd ?s = Inr s1"
    "ls_engine s1 = queued fd b (ls_engine s)" "inp (ls_kernel s1) = []" "msg_inv (ls_msg s1)"
    by auto
  with Cons.IH [of s1] Cons.prems show ?case by auto
qed simp

lemma waiting_queued: "waiting_msgs (queued fd b e) =
    waiting_msgs e @ [(fd, Some \<lparr>action = start_action, msg_text = b\<rparr>)]"
  by (simp add: waiting_msgs_def queued_def ExecGafq_def Let_def new_item_def)

lemma waiting_fold_queued: "waiting_msgs (fold (queued fd) bs e) =
    waiting_msgs e @ map (\<lambda>b. (fd, Some \<lparr>action = start_action, msg_text = b\<rparr>)) bs"
  by (induction bs arbitrary: e) (simp_all add: waiting_queued)

section \<open>A reference kernel\<close>

text \<open>
  A kernel with one connection, to run the loop on concrete inputs: its state is the bytes that
  have arrived.
\<close>

definition stream_os :: "bytes os_api" where
  "stream_os = \<lparr>
     sys_socket = (\<lambda>k. (3, k)),
     sys_bind = (\<lambda>fd p k. (0, k)),
     sys_listen = (\<lambda>fd b k. (0, k)),
     sys_epoll_create = (\<lambda>n k. (4, k)),
     sys_epoll_ctl_add = (\<lambda>ep fd ev k. k),
     sys_epoll_wait = (\<lambda>ep n k. if k = [] then ((- 1, []), k) else ((1, [(5, 1)]), k)),
     sys_accept = (\<lambda>fd k. (5, k)),
     sys_read = (\<lambda>fd n k. ((int (length (take n k)), take n k), drop n k)),
     sys_send = (\<lambda>fd bs k. (int (length bs), k @ bs)),
     sys_close = (\<lambda>fd k. [])\<rparr>"

lemma stream_os_full_read: "full_read_law stream_os fd (\<lambda>k. k)"
  by (simp add: full_read_law_def stream_os_def)

lemma stream_os_read_law: "read_law stream_os"
  by (auto simp: read_law_def stream_os_def)

end
