(* ===== verification/Game_Config.thy ===== *)
theory Game_Config
  imports Engine_Prelude
begin

text \<open>
  The class \<open>GameConfig\<close> (\<^verbatim>\<open>src/game_config.h\<close>,
  \<^verbatim>\<open>src/game_config.cpp\<close>), the singleton that holds the configuration. The property
  tree is Boost's: its operations are the record \<open>ptree_api\<close> over an abstract tree type
  \<open>'p\<close> and an abstract type \<open>'f\<close> of floats. An operation that throws returns the name of the exception on the left.
\<close>

record ('p, 'f) ptree_api =
  pt_empty :: 'p
  pt_read_json :: "bytes \<Rightarrow> string + 'p"
  pt_get_int :: "bytes \<Rightarrow> 'p \<Rightarrow> string + int"
  pt_get_float :: "bytes \<Rightarrow> 'p \<Rightarrow> string + 'f"
  pt_get_string :: "bytes \<Rightarrow> 'p \<Rightarrow> string + bytes"

text \<open>The static members: the instance, reduced to its tree, and the number of objects.\<close>

record 'p config_state =
  cfg :: "'p option"
  objectCount :: int

definition config_init :: "'p config_state" where
  "config_init = \<lparr>cfg = None, objectCount = 0\<rparr>"

definition GameConfig_ctor :: "'p config_state \<Rightarrow> 'p config_state" where
  "GameConfig_ctor c = c\<lparr>objectCount := objectCount c + 1\<rparr>"

definition GameConfig_dtor :: "'p config_state \<Rightarrow> 'p config_state" where
  "GameConfig_dtor c = c\<lparr>objectCount := objectCount c - 1\<rparr>"

definition cfg_instance :: "('p, 'f) ptree_api \<Rightarrow> 'p config_state \<Rightarrow> 'p \<times> 'p config_state" where
  "cfg_instance api c =
     (case cfg c of
        Some p \<Rightarrow> (p, c)
      | None \<Rightarrow> (pt_empty api, (GameConfig_ctor c)\<lparr>cfg := Some (pt_empty api)\<rparr>))"

definition get_config_int :: "('p, 'f) ptree_api \<Rightarrow> bytes \<Rightarrow> 'p config_state \<Rightarrow> (string + int) \<times> 'p config_state" where
  "get_config_int api key c = (let (p, c) = cfg_instance api c in (pt_get_int api key p, c))"

definition get_config_float :: "('p, 'f) ptree_api \<Rightarrow> bytes \<Rightarrow> 'p config_state \<Rightarrow> (string + 'f) \<times> 'p config_state" where
  "get_config_float api key c = (let (p, c) = cfg_instance api c in (pt_get_float api key p, c))"

definition get_config_string :: "('p, 'f) ptree_api \<Rightarrow> bytes \<Rightarrow> 'p config_state \<Rightarrow> (string + bytes) \<times> 'p config_state" where
  "get_config_string api key c = (let (p, c) = cfg_instance api c in (pt_get_string api key p, c))"

definition get_config_pt :: "('p, 'f) ptree_api \<Rightarrow> 'p config_state \<Rightarrow> 'p \<times> 'p config_state" where
  "get_config_pt api c = cfg_instance api c"

text \<open>The new tree replaces the old one only when the file was parsed.\<close>

definition load_config :: "('p, 'f) ptree_api \<Rightarrow> bytes \<Rightarrow> 'p config_state \<Rightarrow> (string + unit) \<times> 'p config_state" where
  "load_config api path c =
     (let (_, c) = cfg_instance api c in
      case pt_read_json api path of
        Inl ex \<Rightarrow> (Inl ex, c)
      | Inr p \<Rightarrow> (Inr (), c\<lparr>cfg := Some p\<rparr>))"

lemmas config_defs = cfg_instance_def get_config_int_def get_config_float_def
  get_config_string_def get_config_pt_def load_config_def GameConfig_ctor_def

text \<open>One object, created by the first use and kept by every later one.\<close>

definition config_inv :: "'p config_state \<Rightarrow> bool" where
  "config_inv c \<longleftrightarrow> objectCount c = (if cfg c = None then 0 else 1)"

lemma config_inv_init: "config_inv config_init"
  by (simp add: config_inv_def config_init_def)

lemma config_inv_instance: "config_inv c \<Longrightarrow> config_inv (snd (cfg_instance api c))"
  by (auto simp: config_inv_def config_defs split: option.splits)

lemma cfg_instance_stable:
  "cfg_instance api (snd (cfg_instance api c)) = cfg_instance api c"
  by (auto simp: config_defs split: option.splits)

lemma cfg_after_use: "cfg (snd (cfg_instance api c)) = Some (fst (cfg_instance api c))"
  by (auto simp: config_defs split: option.splits)

lemma config_inv_ops:
  assumes "config_inv c"
  shows "config_inv (snd (get_config_int api key c))" "config_inv (snd (get_config_float api key c))"
    "config_inv (snd (get_config_string api key c))" "config_inv (snd (load_config api path c))"
proof -
  have i: "config_inv (snd (cfg_instance api c))" by (rule config_inv_instance [OF assms])
  then show "config_inv (snd (get_config_int api key c))" "config_inv (snd (get_config_float api key c))"
    "config_inv (snd (get_config_string api key c))"
    by (simp_all add: get_config_int_def get_config_float_def get_config_string_def case_prod_beta)
  have "cfg (snd (cfg_instance api c)) \<noteq> None"
    using cfg_after_use [of api c] by simp
  with i show "config_inv (snd (load_config api path c))"
    by (simp add: load_config_def case_prod_beta config_inv_def split: sum.splits)
qed

end
