(* ===== verification/Engine_Threads.thy ===== *)
theory Engine_Threads
  imports Script_Engine "HOL-Library.Sublist"
begin

text \<open>
  The interleaving of the threads that share the engine: any number of threads in
  \<open>ScriptEngine::ExecGafq\<close> (the program has one, the network thread) and the main thread
  in \<open>ScriptEngine::LoopExecute\<close> (\<^verbatim>\<open>src/script_engine.cpp\<close>). A step is one
  statement of one thread; \<open>mtx_\<close> is a mutex with one holder. The invariant gives mutual
  exclusion, and that the items are executed in the order in which they entered the list, each at
  most once and none lost. A second, smaller machine is the unsynchronised
  \<open>get_instance\<close> of \<^verbatim>\<open>src/script_engine.h\<close>.
\<close>

section \<open>The machine\<close>

text \<open>
  Where a thread stands in \<open>ExecGafq\<close>: before \<open>lock\<close>, before
  \<open>push_back\<close>, before the increment of \<open>count2\<close>, before \<open>unlock\<close>,
  before reading \<open>count\<close>, and before writing the value it read plus one.
\<close>

datatype producer_pc =
    P_idle
  | P_lock gafqItem
  | P_push gafqItem
  | P_count2
  | P_unlock
  | P_count
  | P_store "32 word"

text \<open>
  The main thread in \<open>LoopExecute\<close>: outside, before copying, before \<open>clear\<close>,
  before \<open>unlock\<close>, and executing what is left of the copied list.
\<close>

datatype main_pc =
    M_idle
  | M_copy
  | M_clear "gafqItem list"
  | M_unlock "gafqItem list"
  | M_exec "gafqItem list"

datatype owner = Producer nat | Main

record threads =
  wait_list :: "gafqItem list"
  cnt :: "32 word"
  cnt2 :: "32 word"
  mtx :: "owner option"
  ppc :: "nat \<Rightarrow> producer_pc"
  mpc :: main_pc
  submitted :: "gafqItem list"
  executed :: "gafqItem list"

definition threads_init :: threads where
  "threads_init = \<lparr>wait_list = [], cnt = 0, cnt2 = 0, mtx = None, ppc = (\<lambda>_. P_idle),
     mpc = M_idle, submitted = [], executed = []\<rparr>"

inductive thread_step :: "threads \<Rightarrow> threads \<Rightarrow> bool" where
  p_call: "ppc t i = P_idle \<Longrightarrow> thread_step t (t\<lparr>ppc := (ppc t)(i := P_lock it)\<rparr>)"
| p_lock: "ppc t i = P_lock it \<Longrightarrow> mtx t = None \<Longrightarrow>
     thread_step t (t\<lparr>mtx := Some (Producer i), ppc := (ppc t)(i := P_push it)\<rparr>)"
| p_push: "ppc t i = P_push it \<Longrightarrow>
     thread_step t (t\<lparr>wait_list := wait_list t @ [it], submitted := submitted t @ [it],
       ppc := (ppc t)(i := P_count2)\<rparr>)"
| p_count2: "ppc t i = P_count2 \<Longrightarrow>
     thread_step t (t\<lparr>cnt2 := cnt2 t + 1, ppc := (ppc t)(i := P_unlock)\<rparr>)"
| p_unlock: "ppc t i = P_unlock \<Longrightarrow>
     thread_step t (t\<lparr>mtx := None, ppc := (ppc t)(i := P_count)\<rparr>)"
| p_count: "ppc t i = P_count \<Longrightarrow> thread_step t (t\<lparr>ppc := (ppc t)(i := P_store (cnt t))\<rparr>)"
| p_store: "ppc t i = P_store c \<Longrightarrow>
     thread_step t (t\<lparr>cnt := c + 1, ppc := (ppc t)(i := P_idle)\<rparr>)"
| m_lock: "mpc t = M_idle \<Longrightarrow> mtx t = None \<Longrightarrow>
     thread_step t (t\<lparr>mtx := Some Main, mpc := M_copy\<rparr>)"
| m_copy: "mpc t = M_copy \<Longrightarrow> thread_step t (t\<lparr>mpc := M_clear (wait_list t)\<rparr>)"
| m_clear: "mpc t = M_clear its \<Longrightarrow> thread_step t (t\<lparr>wait_list := [], mpc := M_unlock its\<rparr>)"
| m_unlock: "mpc t = M_unlock its \<Longrightarrow> thread_step t (t\<lparr>mtx := None, mpc := M_exec its\<rparr>)"
| m_exec: "mpc t = M_exec (it # its) \<Longrightarrow>
     thread_step t (t\<lparr>executed := executed t @ [it], mpc := M_exec its\<rparr>)"
| m_done: "mpc t = M_exec [] \<Longrightarrow> thread_step t (t\<lparr>mpc := M_idle\<rparr>)"

inductive threads_reachable :: "threads \<Rightarrow> bool" where
  thr_start: "threads_reachable threads_init"
| thr_next: "threads_reachable t \<Longrightarrow> thread_step t u \<Longrightarrow> threads_reachable u"

section \<open>The invariant\<close>

fun p_critical :: "producer_pc \<Rightarrow> bool" where
  "p_critical (P_push _) = True"
| "p_critical P_count2 = True"
| "p_critical P_unlock = True"
| "p_critical _ = False"

fun m_critical :: "main_pc \<Rightarrow> bool" where
  "m_critical M_copy = True"
| "m_critical (M_clear _) = True"
| "m_critical (M_unlock _) = True"
| "m_critical _ = False"

text \<open>The items that have left the list but are not executed yet.\<close>

fun in_flight :: "main_pc \<Rightarrow> gafqItem list" where
  "in_flight (M_unlock its) = its"
| "in_flight (M_exec its) = its"
| "in_flight _ = []"

definition lock_inv :: "threads \<Rightarrow> bool" where
  "lock_inv t \<longleftrightarrow>
     (\<forall>i. p_critical (ppc t i) \<longleftrightarrow> mtx t = Some (Producer i))
     \<and> (m_critical (mpc t) \<longleftrightarrow> mtx t = Some Main)"

definition fifo_inv :: "threads \<Rightarrow> bool" where
  "fifo_inv t \<longleftrightarrow>
     submitted t = executed t @ in_flight (mpc t) @ wait_list t
     \<and> (\<forall>its. mpc t = M_clear its \<longrightarrow> its = wait_list t)"

text \<open>\<open>count2\<close> counts the submissions, one behind while a thread is about to count its own.\<close>

definition count2_inv :: "threads \<Rightarrow> bool" where
  "count2_inv t \<longleftrightarrow>
     cnt2 t + (if \<exists>i. ppc t i = P_count2 then 1 else 0) = of_nat (length (submitted t))"

lemma lock_inv_init: "lock_inv threads_init"
  by (simp add: lock_inv_def threads_init_def)

text \<open>A step of producer \<open>i\<close> that stays inside or outside, takes or frees the mutex.\<close>

lemma lock_inv_move:
  assumes "lock_inv t" and "p_critical (ppc t i) \<longleftrightarrow> p_critical pc"
  shows "lock_inv (t\<lparr>ppc := (ppc t)(i := pc)\<rparr>)"
  using assms by (simp add: lock_inv_def)

lemma lock_inv_take:
  assumes "lock_inv t" and "mtx t = None" and "p_critical pc"
  shows "lock_inv (t\<lparr>mtx := Some (Producer i), ppc := (ppc t)(i := pc)\<rparr>)"
  using assms by (auto simp: lock_inv_def)

lemma lock_inv_free:
  assumes "lock_inv t" and "p_critical (ppc t i)" and "\<not> p_critical pc"
  shows "lock_inv (t\<lparr>mtx := None, ppc := (ppc t)(i := pc)\<rparr>)"
  using assms by (auto simp: lock_inv_def)

lemma lock_inv_cong:
  "lock_inv t \<Longrightarrow> ppc u = ppc t \<Longrightarrow> mtx u = mtx t \<Longrightarrow> m_critical (mpc u) = m_critical (mpc t) \<Longrightarrow>
     lock_inv u"
  by (simp add: lock_inv_def)

lemma lock_inv_step: "thread_step t u \<Longrightarrow> lock_inv t \<Longrightarrow> lock_inv u"
proof (induction rule: thread_step.induct)
  case (p_call t i it)
  then show ?case by (intro lock_inv_move) simp_all
next
  case (p_lock t i it)
  then show ?case by (intro lock_inv_take) simp_all
next
  case (p_push t i it)
  from lock_inv_move [of t i P_count2] p_push show ?case by (auto intro: lock_inv_cong)
next
  case (p_count2 t i)
  from lock_inv_move [of t i P_unlock] p_count2 show ?case by (auto intro: lock_inv_cong)
next
  case (p_unlock t i)
  then show ?case by (intro lock_inv_free) simp_all
next
  case (p_count t i)
  then show ?case by (intro lock_inv_move) simp_all
next
  case (p_store t i c)
  from lock_inv_move [of t i P_idle] p_store show ?case by (auto intro: lock_inv_cong)
qed (auto simp: lock_inv_def)

lemma reachable_lock_inv: "threads_reachable t \<Longrightarrow> lock_inv t"
proof (induction rule: threads_reachable.induct)
  case thr_start
  show ?case by (rule lock_inv_init)
next
  case (thr_next t u)
  then show ?case by (blast intro: lock_inv_step)
qed

text \<open>At most one thread is in a critical section.\<close>

lemma critical_unique:
  "lock_inv t \<Longrightarrow> p_critical (ppc t i) \<Longrightarrow> p_critical (ppc t j) \<Longrightarrow> i = j"
  by (simp add: lock_inv_def)

lemma critical_not_main: "lock_inv t \<Longrightarrow> p_critical (ppc t i) \<Longrightarrow> \<not> m_critical (mpc t)"
  by (simp add: lock_inv_def)

lemma fifo_inv_step: "thread_step t u \<Longrightarrow> lock_inv t \<Longrightarrow> fifo_inv t \<Longrightarrow> fifo_inv u"
proof (induction rule: thread_step.induct)
  case (p_push t i it)
  then have "\<not> m_critical (mpc t)"
    using critical_not_main [of t i] by simp
  then show ?case
    using p_push by (cases "mpc t") (auto simp: fifo_inv_def)
qed (auto simp: fifo_inv_def)

lemma reachable_fifo_inv: "threads_reachable t \<Longrightarrow> fifo_inv t"
proof (induction rule: threads_reachable.induct)
  case thr_start
  then show ?case by (simp add: fifo_inv_def threads_init_def)
next
  case (thr_next t u)
  then show ?case by (blast intro: fifo_inv_step reachable_lock_inv)
qed

lemma ex_count2_upd:
  "ppc t i \<noteq> P_count2 \<Longrightarrow> pc \<noteq> P_count2 \<Longrightarrow>
     (\<exists>j. ((ppc t)(i := pc)) j = P_count2) \<longleftrightarrow> (\<exists>j. ppc t j = P_count2)"
  by (metis fun_upd_other fun_upd_same)

lemma count2_inv_step: "thread_step t u \<Longrightarrow> lock_inv t \<Longrightarrow> count2_inv t \<Longrightarrow> count2_inv u"
proof (induction rule: thread_step.induct)
  case (p_push t i it)
  then have "\<not> (\<exists>j. ppc t j = P_count2)"
    using critical_unique [of t _ i] by (metis p_critical.simps(1,2) producer_pc.distinct)
  moreover have "\<exists>j. ((ppc t)(i := P_count2)) j = P_count2"
    by (auto intro: exI [of _ i])
  ultimately show ?case
    using p_push by (simp add: count2_inv_def)
next
  case (p_count2 t i)
  then have "\<not> (\<exists>j. ((ppc t)(i := P_unlock)) j = P_count2)"
    using critical_unique [of t _ i] by (auto split: if_splits)
  moreover have "\<exists>j. ppc t j = P_count2" using p_count2 by blast
  ultimately show ?case
    using p_count2 by (simp add: count2_inv_def)
qed (simp_all add: count2_inv_def ex_count2_upd del: fun_upd_apply)

lemma reachable_count2_inv: "threads_reachable t \<Longrightarrow> count2_inv t"
proof (induction rule: threads_reachable.induct)
  case thr_start
  then show ?case by (simp add: count2_inv_def threads_init_def)
next
  case (thr_next t u)
  then show ?case by (blast intro: count2_inv_step reachable_lock_inv)
qed

section \<open>Refinement of an abstract queue\<close>

text \<open>
  The abstract engine: a list of executed items and a queue of pending ones; a step submits an
  item at the end of the queue or executes the one at its front.
\<close>

inductive queue_spec_step ::
    "gafqItem list \<times> gafqItem list \<Rightarrow> gafqItem list \<times> gafqItem list \<Rightarrow> bool" where
  spec_submit: "queue_spec_step (ex, q) (ex, q @ [it])"
| spec_execute: "queue_spec_step (ex, it # q) (ex @ [it], q)"

definition abs_queue :: "threads \<Rightarrow> gafqItem list \<times> gafqItem list" where
  "abs_queue t = (executed t, in_flight (mpc t) @ wait_list t)"

lemma thread_step_refines:
  "thread_step t u \<Longrightarrow> fifo_inv t \<Longrightarrow>
     abs_queue u = abs_queue t \<or> queue_spec_step (abs_queue t) (abs_queue u)"
proof (induction rule: thread_step.induct)
  case (p_push t i it)
  have "queue_spec_step (executed t, in_flight (mpc t) @ wait_list t)
      (executed t, (in_flight (mpc t) @ wait_list t) @ [it])"
    by (rule spec_submit)
  then show ?case by (simp add: abs_queue_def)
next
  case (m_exec t it its)
  then show ?case by (auto simp: abs_queue_def intro: spec_execute)
qed (auto simp: abs_queue_def fifo_inv_def)

section \<open>Progress\<close>

text \<open>
  Whatever the threads are doing, the run can go on to a state in which every item submitted so
  far has been executed: the holder of the mutex releases it within three steps of its own, and a
  round of the main thread then executes the whole list. No thread starts a new submission on the way.
\<close>

definition own_step :: "threads \<Rightarrow> threads \<Rightarrow> bool" where
  "own_step t u \<longleftrightarrow> thread_step t u \<and> (\<forall>i it. ppc u i = P_lock it \<longrightarrow> ppc t i = P_lock it)"

lemma own_step_moves:
  shows own_push: "ppc t i = P_push it \<Longrightarrow> own_step t (t\<lparr>wait_list := wait_list t @ [it],
      submitted := submitted t @ [it], ppc := (ppc t)(i := P_count2)\<rparr>)"
    and own_count2: "ppc t i = P_count2 \<Longrightarrow> own_step t (t\<lparr>cnt2 := cnt2 t + 1, ppc := (ppc t)(i := P_unlock)\<rparr>)"
    and own_unlock: "ppc t i = P_unlock \<Longrightarrow> own_step t (t\<lparr>mtx := None, ppc := (ppc t)(i := P_count)\<rparr>)"
    and own_m_lock: "mpc t = M_idle \<Longrightarrow> mtx t = None \<Longrightarrow> own_step t (t\<lparr>mtx := Some Main, mpc := M_copy\<rparr>)"
    and own_m_copy: "mpc t = M_copy \<Longrightarrow> own_step t (t\<lparr>mpc := M_clear (wait_list t)\<rparr>)"
    and own_m_clear: "mpc t = M_clear its \<Longrightarrow> own_step t (t\<lparr>wait_list := [], mpc := M_unlock its\<rparr>)"
    and own_m_unlock: "mpc t = M_unlock its \<Longrightarrow> own_step t (t\<lparr>mtx := None, mpc := M_exec its\<rparr>)"
    and own_m_exec: "mpc t = M_exec (it # its) \<Longrightarrow> own_step t (t\<lparr>executed := executed t @ [it], mpc := M_exec its\<rparr>)"
    and own_m_done: "mpc t = M_exec [] \<Longrightarrow> own_step t (t\<lparr>mpc := M_idle\<rparr>)"
  by (simp_all add: own_step_def thread_step.intros)

lemma own_steps: "own_step\<^sup>*\<^sup>* t u \<Longrightarrow> thread_step\<^sup>*\<^sup>* t u"
  by (rule rtranclp_mono [THEN predicate2D]) (auto simp: own_step_def)

lemma reachable_steps: "thread_step\<^sup>*\<^sup>* t u \<Longrightarrow> threads_reachable t \<Longrightarrow> threads_reachable u"
  by (induction rule: rtranclp_induct) (auto intro: thr_next)

lemma submitted_mono: "thread_step\<^sup>*\<^sup>* t u \<Longrightarrow> prefix (submitted t) (submitted u)"
proof (induction rule: rtranclp_induct)
  case (step u w)
  from step.hyps(2) have "prefix (submitted u) (submitted w)"
    by (cases rule: thread_step.cases) auto
  with step.IH show ?case by (rule prefix_order.trans)
qed simp

lemma step_then: "own_step t u \<Longrightarrow> \<exists>w. own_step\<^sup>*\<^sup>* u w \<and> P w \<Longrightarrow> \<exists>w. own_step\<^sup>*\<^sup>* t w \<and> P w"
  by (meson converse_rtranclp_into_rtranclp)

lemma stop_here: "P t \<Longrightarrow> \<exists>w. own_step\<^sup>*\<^sup>* t w \<and> P w"
  by blast

lemma producer_releases:
  "p_critical (ppc t i) \<Longrightarrow> \<exists>u. own_step\<^sup>*\<^sup>* t u \<and> mtx u = None \<and> mpc u = mpc t"
proof -
  have unlock: "\<exists>u. own_step\<^sup>*\<^sup>* t u \<and> mtx u = None \<and> mpc u = mpc t" if "ppc t i = P_unlock" for t
    by (rule step_then [OF own_unlock [OF that]]) (rule stop_here, simp)
  have count: "\<exists>u. own_step\<^sup>*\<^sup>* t u \<and> mtx u = None \<and> mpc u = mpc t" if "ppc t i = P_count2" for t
    using unlock [of "t\<lparr>cnt2 := cnt2 t + 1, ppc := (ppc t)(i := P_unlock)\<rparr>"]
    by (intro step_then [OF own_count2 [OF that]]) simp
  have push: "\<exists>u. own_step\<^sup>*\<^sup>* t u \<and> mtx u = None \<and> mpc u = mpc t" if "ppc t i = P_push it" for t it
    using count [of "t\<lparr>wait_list := wait_list t @ [it], submitted := submitted t @ [it],
      ppc := (ppc t)(i := P_count2)\<rparr>"]
    by (intro step_then [OF own_push [OF that]]) simp
  assume "p_critical (ppc t i)"
  then show ?thesis using unlock count push by (cases "ppc t i") auto
qed

lemma main_releases:
  "m_critical (mpc t) \<Longrightarrow> \<exists>u. own_step\<^sup>*\<^sup>* t u \<and> mtx u = None \<and> \<not> m_critical (mpc u)"
proof -
  have unlock: "\<exists>u. own_step\<^sup>*\<^sup>* t u \<and> mtx u = None \<and> \<not> m_critical (mpc u)"
    if "mpc t = M_unlock its" for t its
    by (rule step_then [OF own_m_unlock [OF that]]) (rule stop_here, simp)
  have clear: "\<exists>u. own_step\<^sup>*\<^sup>* t u \<and> mtx u = None \<and> \<not> m_critical (mpc u)"
    if "mpc t = M_clear its" for t its
    using unlock [of "t\<lparr>wait_list := [], mpc := M_unlock its\<rparr>"]
    by (intro step_then [OF own_m_clear [OF that]]) simp
  have copy: "\<exists>u. own_step\<^sup>*\<^sup>* t u \<and> mtx u = None \<and> \<not> m_critical (mpc u)" if "mpc t = M_copy" for t
    using clear [of "t\<lparr>mpc := M_clear (wait_list t)\<rparr>"]
    by (intro step_then [OF own_m_copy [OF that]]) simp
  assume "m_critical (mpc t)"
  then show ?thesis using unlock clear copy by (cases "mpc t") auto
qed

lemma mutex_released:
  assumes "lock_inv t"
  shows "\<exists>u. own_step\<^sup>*\<^sup>* t u \<and> mtx u = None \<and> \<not> m_critical (mpc u)"
proof (cases "mtx t")
  case None
  with assms show ?thesis by (auto simp: lock_inv_def)
next
  case (Some w)
  show ?thesis
  proof (cases w)
    case (Producer i)
    with Some assms have "p_critical (ppc t i)" "\<not> m_critical (mpc t)" by (auto simp: lock_inv_def)
    with producer_releases [of t i] show ?thesis by auto
  next
    case Main
    with Some assms have "m_critical (mpc t)" by (simp add: lock_inv_def)
    then show ?thesis by (rule main_releases)
  qed
qed

lemma main_executes:
  "mpc t = M_exec its \<Longrightarrow> \<exists>u. own_step\<^sup>*\<^sup>* t u \<and> mpc u = M_idle \<and> mtx u = mtx t \<and> wait_list u = wait_list t"
proof (induction its arbitrary: t)
  case Nil
  show ?case by (rule step_then [OF own_m_done [OF Nil]], rule stop_here) simp
next
  case (Cons it its)
  from Cons.IH [of "t\<lparr>executed := executed t @ [it], mpc := M_exec its\<rparr>"] show ?case
    by (intro step_then [OF own_m_exec [OF Cons.prems]]) simp
qed

lemma main_round:
  assumes "mpc t = M_idle" and "mtx t = None"
  shows "\<exists>u. own_step\<^sup>*\<^sup>* t u \<and> mpc u = M_idle \<and> wait_list u = []"
proof -
  let ?t1 = "t\<lparr>mtx := Some Main, mpc := M_copy\<rparr>"
  let ?t2 = "?t1\<lparr>mpc := M_clear (wait_list ?t1)\<rparr>"
  let ?t3 = "?t2\<lparr>wait_list := [], mpc := M_unlock (wait_list ?t1)\<rparr>"
  let ?t4 = "?t3\<lparr>mtx := None, mpc := M_exec (wait_list ?t1)\<rparr>"
  have "own_step\<^sup>*\<^sup>* t ?t1" by (rule r_into_rtranclp, rule own_m_lock [OF assms])
  then have "own_step\<^sup>*\<^sup>* t ?t2" by (rule rtranclp.rtrancl_into_rtrancl) (rule own_m_copy, simp)
  then have "own_step\<^sup>*\<^sup>* t ?t3" by (rule rtranclp.rtrancl_into_rtrancl) (rule own_m_clear, simp)
  then have "own_step\<^sup>*\<^sup>* t ?t4" by (rule rtranclp.rtrancl_into_rtrancl) (rule own_m_unlock, simp)
  moreover obtain u where "own_step\<^sup>*\<^sup>* ?t4 u" "mpc u = M_idle" "wait_list u = []"
    using main_executes [of ?t4] by auto
  ultimately show ?thesis by (blast intro: rtranclp_trans)
qed

lemma all_executed_own:
  assumes "threads_reachable t"
  shows "\<exists>u. own_step\<^sup>*\<^sup>* t u \<and> executed u = submitted u \<and> prefix (submitted t) (executed u)"
proof -
  obtain t1 where t1: "own_step\<^sup>*\<^sup>* t t1" "mtx t1 = None" "\<not> m_critical (mpc t1)"
    using mutex_released [OF reachable_lock_inv [OF assms]] by blast
  obtain t2 where t2: "own_step\<^sup>*\<^sup>* t1 t2" "mpc t2 = M_idle" "mtx t2 = None"
    using main_executes [of t1] t1 by (cases "mpc t1") auto
  obtain u where u: "own_step\<^sup>*\<^sup>* t2 u" "mpc u = M_idle" "wait_list u = []"
    using main_round [OF t2(2,3)] by blast
  have tu: "own_step\<^sup>*\<^sup>* t u" using t1(1) t2(1) u(1) by (meson rtranclp_trans)
  have "fifo_inv u" by (rule reachable_fifo_inv [OF reachable_steps [OF own_steps [OF tu] assms]])
  then have "executed u = submitted u" using u by (simp add: fifo_inv_def)
  with tu submitted_mono [OF own_steps [OF tu]] show ?thesis by auto
qed

lemma all_executed:
  assumes "threads_reachable t"
  shows "\<exists>u. thread_step\<^sup>*\<^sup>* t u \<and> executed u = submitted u \<and> prefix (submitted t) (executed u)"
  using all_executed_own [OF assms] own_steps by blast

section \<open>The unprotected counter\<close>

text \<open>
  \<open>count = count + 1\<close> runs after the mutex is released: two threads can both read the old
  value. The run below ends with two submissions counted once.
\<close>

lemma threads_step2:
  "threads_reachable t \<Longrightarrow> thread_step t u \<Longrightarrow> thread_step u w \<Longrightarrow> threads_reachable w"
  by (blast intro: threads_reachable.thr_next)

definition race_state :: "nat \<Rightarrow> threads" where
  "race_state n = threads_init\<lparr>
     wait_list := replicate n new_item, submitted := replicate n new_item, cnt2 := of_nat n,
     ppc := (\<lambda>i. if i < n then P_count else P_idle)\<rparr>"

lemma submit_run:
  assumes "threads_reachable t" and "ppc t i = P_idle" and "mtx t = None"
  shows "threads_reachable (t\<lparr>wait_list := wait_list t @ [it], submitted := submitted t @ [it],
    cnt2 := cnt2 t + 1, ppc := (ppc t)(i := P_count)\<rparr>)"
proof -
  let ?t1 = "t\<lparr>ppc := (ppc t)(i := P_lock it)\<rparr>"
  let ?t2 = "?t1\<lparr>mtx := Some (Producer i), ppc := (ppc ?t1)(i := P_push it)\<rparr>"
  let ?t3 = "?t2\<lparr>wait_list := wait_list ?t2 @ [it], submitted := submitted ?t2 @ [it],
    ppc := (ppc ?t2)(i := P_count2)\<rparr>"
  let ?t4 = "?t3\<lparr>cnt2 := cnt2 ?t3 + 1, ppc := (ppc ?t3)(i := P_unlock)\<rparr>"
  let ?t5 = "?t4\<lparr>mtx := None, ppc := (ppc ?t4)(i := P_count)\<rparr>"
  have "threads_reachable ?t1"
    by (rule thr_next [OF assms(1)], rule p_call) (rule assms(2))
  then have "threads_reachable ?t2"
    by (rule thr_next, intro p_lock) (simp_all add: assms(3))
  then have "threads_reachable ?t3" by (rule thr_next, intro p_push) simp
  then have "threads_reachable ?t4" by (rule thr_next, intro p_count2) simp
  then have "threads_reachable ?t5" by (rule thr_next, intro p_unlock) simp
  moreover have "?t5 = t\<lparr>wait_list := wait_list t @ [it], submitted := submitted t @ [it],
      cnt2 := cnt2 t + 1, ppc := (ppc t)(i := P_count)\<rparr>"
    using assms(3) by (cases t) simp
  ultimately show ?thesis by simp
qed

lemma race_state_reachable: "threads_reachable (race_state n)"
proof (induction n)
  case 0
  have "race_state 0 = threads_init" by (simp add: race_state_def threads_init_def)
  then show ?case by (simp add: thr_start)
next
  case (Suc n)
  have "threads_reachable ((race_state n)\<lparr>wait_list := wait_list (race_state n) @ [new_item],
      submitted := submitted (race_state n) @ [new_item], cnt2 := cnt2 (race_state n) + 1,
      ppc := (ppc (race_state n))(n := P_count)\<rparr>)"
    by (rule submit_run [OF Suc]) (simp_all add: race_state_def threads_init_def)
  moreover have "(\<lambda>i. if i < n then P_count else P_idle)(n := P_count)
      = (\<lambda>i. if i < Suc n then P_count else P_idle)"
    by (auto simp: fun_eq_iff)
  ultimately show ?case
    by (simp add: race_state_def threads_init_def replicate_append_same add.commute)
qed

lemma count_lost_update:
  "\<exists>t. threads_reachable t \<and> (\<forall>i. ppc t i = P_idle) \<and> length (submitted t) = 2
     \<and> cnt2 t = 2 \<and> cnt t = 1"
proof -
  let ?t0 = "race_state 2"
  let ?t1 = "?t0\<lparr>ppc := (ppc ?t0)(0 := P_store (cnt ?t0))\<rparr>"
  let ?t2 = "?t1\<lparr>ppc := (ppc ?t1)(1 := P_store (cnt ?t1))\<rparr>"
  let ?t3 = "?t2\<lparr>cnt := 0 + 1, ppc := (ppc ?t2)(0 := P_idle)\<rparr>"
  let ?t4 = "?t3\<lparr>cnt := 0 + 1, ppc := (ppc ?t3)(1 := P_idle)\<rparr>"
  have c: "cnt ?t0 = 0" and p: "ppc ?t0 0 = P_count" "ppc ?t0 (Suc 0) = P_count"
    by (simp_all add: race_state_def threads_init_def)
  have "threads_reachable ?t1"
    by (rule thr_next [OF race_state_reachable], rule p_count) (rule p)
  then have "threads_reachable ?t2" by (rule thr_next, intro p_count) (simp add: p)
  then have "threads_reachable ?t3" by (rule thr_next, intro p_store) (simp add: c)
  then have "threads_reachable ?t4" by (rule thr_next, intro p_store) (simp add: c)
  moreover have "\<forall>i. ppc ?t4 i = P_idle" "length (submitted ?t4) = 2" "cnt2 ?t4 = 2" "cnt ?t4 = 1"
    by (auto simp: race_state_def threads_init_def less_2_cases_iff)
  ultimately show ?thesis by blast
qed

section \<open>get\_instance\<close>

text \<open>
  \<open>get_instance\<close> tests the static pointer, creates an object when it is null, and reads
  the pointer again for its result, with no synchronisation. Instances are numbered in the order
  of their creation.
\<close>

datatype gi_pc = G_test | G_create | G_return | G_have nat

record singleton =
  script_eng :: "nat option"
  next_obj :: nat
  gpc :: "nat \<Rightarrow> gi_pc"

definition singleton_init :: singleton where
  "singleton_init = \<lparr>script_eng = None, next_obj = 0, gpc = (\<lambda>_. G_test)\<rparr>"

inductive gi_step :: "nat \<Rightarrow> singleton \<Rightarrow> singleton \<Rightarrow> bool" where
  g_test: "gpc s i = G_test \<Longrightarrow>
     gi_step i s (s\<lparr>gpc := (gpc s)(i := if script_eng s = None then G_create else G_return)\<rparr>)"
| g_create: "gpc s i = G_create \<Longrightarrow>
     gi_step i s (s\<lparr>script_eng := Some (next_obj s), next_obj := Suc (next_obj s),
       gpc := (gpc s)(i := G_return)\<rparr>)"
| g_return: "gpc s i = G_return \<Longrightarrow> script_eng s = Some o' \<Longrightarrow>
     gi_step i s (s\<lparr>gpc := (gpc s)(i := G_have o')\<rparr>)"

inductive gi_reachable :: "singleton \<Rightarrow> bool" where
  gi_start: "gi_reachable singleton_init"
| gi_next: "gi_reachable s \<Longrightarrow> gi_step i s u \<Longrightarrow> gi_reachable u"

lemma gi_stepI: "gi_reachable s \<Longrightarrow> gi_step i s u \<Longrightarrow> u = w \<Longrightarrow> gi_reachable w"
  by (blast intro: gi_next)

lemma get_instance_race:
  "\<exists>s. gi_reachable s \<and> gpc s 0 = G_have 0 \<and> gpc s 1 = G_have 1 \<and> next_obj s = 2"
proof -
  let ?g = "\<lambda>p q. (\<lambda>_::nat. G_test)(0 := p, 1 := q)"
  let ?s = "\<lambda>e n p q. \<lparr>script_eng = e, next_obj = n, gpc = ?g p q\<rparr>"
  have u0: "(?g p q)(0 := r) = ?g r q" and u1: "(?g p q)(1 := r) = ?g p r" for p q r
    by (auto simp: fun_eq_iff)
  have "singleton_init = ?s None 0 G_test G_test"
    by (auto simp: singleton_init_def fun_eq_iff)
  with gi_start have "gi_reachable (?s None 0 G_test G_test)" by simp
  then have "gi_reachable (?s None 0 G_create G_test)"
    using gi_next g_test [of "?s None 0 G_test G_test" 0] u0 by fastforce
  then have "gi_reachable (?s None 0 G_create G_create)"
    using gi_next g_test [of "?s None 0 G_create G_test" 1] u1 by fastforce
  then have "gi_reachable (?s (Some 0) 1 G_return G_create)"
    using gi_next g_create [of "?s None 0 G_create G_create" 0] u0 by fastforce
  then have "gi_reachable (?s (Some 0) 1 (G_have 0) G_create)"
    using gi_next g_return [of "?s (Some 0) 1 G_return G_create" 0 0] u0 by fastforce
  then have "gi_reachable (?s (Some 1) 2 (G_have 0) G_return)"
    by (rule gi_stepI [OF _ g_create [where i = 1]]) (auto simp: fun_eq_iff)
  then have "gi_reachable (?s (Some 1) 2 (G_have 0) (G_have 1))"
    using gi_next g_return [of "?s (Some 1) 2 (G_have 0) G_return" 1 1] u1 by fastforce
  then show ?thesis by (intro exI [of _ "?s (Some 1) 2 (G_have 0) (G_have 1)"]) simp
qed

end
