(* ===== verification/Game_Main.thy ===== *)
theory Game_Main
  imports Epoll_Server Game_Config Engine_Threads
begin

text \<open>
  The functions of \<^verbatim>\<open>src/game.cpp\<close> that put the server together:
  \<open>init_load_config\<close>, \<open>init_server\<close>, the C function \<open>send_data\<close> that
  scripts call, its registration, and \<open>main\<close>. Boost's option parser and file system are
  the record \<open>env_api\<close>.
\<close>

section \<open>init\_load\_config\<close>

text \<open>
  \<open>env_parse\<close> is the value of the option \<open>props\<close> on a command line, or the
  exception of the parser; \<open>env_exists\<close> is \<open>boost::filesystem::exists\<close>, which
  may throw as well.
\<close>

record env_api =
  env_parse :: "bytes list \<Rightarrow> string + bytes option"
  env_exists :: "bytes \<Rightarrow> string + bool"

definition init_load_config :: "env_api \<Rightarrow> ('p, 'f) ptree_api \<Rightarrow> bytes list \<Rightarrow> 'p config_state \<Rightarrow>
    (string + bool) \<times> 'p config_state" where
  "init_load_config env api argv c =
     (case env_parse env argv of
        Inl ex \<Rightarrow> (Inl ex, c)
      | Inr None \<Rightarrow> (Inr False, c)
      | Inr (Some props) \<Rightarrow>
          (case env_exists env props of
             Inl ex \<Rightarrow> (Inl ex, c)
           | Inr False \<Rightarrow> (Inr False, c)
           | Inr True \<Rightarrow>
               (case load_config api props c of
                  (Inl ex, c) \<Rightarrow> (Inl ex, c)
                | (Inr _, c) \<Rightarrow> (Inr True, c))))"

section \<open>send\_data\<close>

text \<open>
  The message goes through a local \<open>socket_msg\<close> whose array is uninitialised, and the
  array is printed as a C string before it is sent.
\<close>

definition send_data :: "'v gafq_api \<Rightarrow> 'k os_api \<Rightarrow> bytes \<Rightarrow> 'v \<Rightarrow> 'k \<Rightarrow> (int \<times> 'v \<times> 'k) res" where
  "send_data api os uninit v k =
     (let to = sint (word_of_int (gafq_tointeger api 1 v) :: 32 word);
          (buf, v) = gafq_tostring api 2 v;
          msg = socket_msg_ctor uninit
      in case buf of
           None \<Rightarrow> Inl Null_Deref
         | Some buf \<Rightarrow>
             let msg = set_body_length (of_nat (length (c_str buf))) msg in
             rbind (mem_read (c_str buf @ [NUL]) 0 (unat (msg_body_length msg))) (\<lambda>bs.
             rbind (copy_to_body bs msg) (\<lambda>msg.
             rbind (encode_header msg) (\<lambda>msg.
             rbind (c_string (msg_data msg)) (\<lambda>_.
             rbind (mem_read (msg_data msg) 0 (unat (msg_length msg))) (\<lambda>out.
               let k = snd (sys_send os to out k)
               in Inr (1, gafq_pushinteger api 1 v, k)))))))"

definition init_gafq_func :: "'v gafq_api \<Rightarrow> 'v script_engine \<Rightarrow> int \<times> 'v script_engine" where
  "init_gafq_func api e =
     (1, e\<lparr>se_gafqState := gafq_register api ''send_data'' ''send_data'' (get_gafq_State e)\<rparr>)"

section \<open>init\_server and main\<close>

definition init_server :: "nat \<Rightarrow> ('p, 'f) ptree_api \<Rightarrow> 'k os_api \<Rightarrow> bytes \<Rightarrow> 'p config_state \<Rightarrow>
    'v script_engine \<Rightarrow> 'k \<Rightarrow> (bool \<times> 'v script_engine \<times> 'k) res" where
  "init_server n papi os uninit c eng k =
     rbind (init_epool n os (fst (get_config_int papi ''port'' c)) uninit eng k)
       (\<lambda>(_, eng, k). Inr (True, eng, k))"

text \<open>
  The start of \<open>main\<close>, up to its endless loop. \<open>main\<close> ignores what
  \<open>init_load_config\<close> returns and catches \<open>filesystem_error\<close> only; every other
  exception terminates the process.
\<close>

datatype 'a started_or_caught = Main_running 'a | Main_caught

definition catch_fs :: "string \<Rightarrow> 'a started_or_caught res" where
  "catch_fs ex = (if ex = ''filesystem_error'' then Inr Main_caught else Inl (Uncaught ex))"

definition main_start :: "env_api \<Rightarrow> ('p, 'f) ptree_api \<Rightarrow> 'v gafq_api \<Rightarrow> bytes list \<Rightarrow>
    'p config_state \<Rightarrow> 'v \<Rightarrow> ('p config_state \<times> 'v script_engine) started_or_caught res" where
  "main_start env papi api argv c uninit =
     (case init_load_config env papi argv c of
        (Inl ex, _) \<Rightarrow> catch_fs ex
      | (Inr _, c) \<Rightarrow>
     (case get_config_string papi ''name'' c of
        (Inl ex, _) \<Rightarrow> catch_fs ex
      | (Inr _, c) \<Rightarrow>
     (case get_config_string papi ''object.currency'' c of
        (Inl ex, _) \<Rightarrow> catch_fs ex
      | (Inr _, c) \<Rightarrow>
     (case get_config_float papi ''pi'' c of
        (Inl ex, _) \<Rightarrow> catch_fs ex
      | (Inr _, c) \<Rightarrow>
          let e = get_instance uninit None;
              e = snd (Init api ''script.gafq'' e);
              e = snd (init_gafq_func api e)
          in Inr (Main_running (c, e))))))"

text \<open>\<open>n\<close> rounds of the endless loop of \<open>main\<close>, with no submission in between.\<close>

fun main_loop :: "nat \<Rightarrow> 'v gafq_api \<Rightarrow> 'v script_engine \<Rightarrow> 'v script_engine res" where
  "main_loop 0 api e = Inr e"
| "main_loop (Suc n) api e = rbind (LoopExecute api e) (main_loop n api)"

section \<open>Lemmas\<close>

lemma init_load_config_false:
  assumes "init_load_config env api argv c = (Inr False, c')"
  shows "c' = c"
  using assms
  by (auto simp: init_load_config_def split: sum.splits option.splits bool.splits prod.splits)

lemma main_loop_idle: "wait_execute_list e = [] \<Longrightarrow> main_loop n api e = Inr e"
proof (induction n)
  case (Suc n)
  then have "e\<lparr>wait_execute_list := []\<rparr> = e" by (cases e) simp
  with Suc.prems have "LoopExecute api e = Inr e"
    by (simp only: LoopExecute_eq rfold.simps)
  with Suc show ?case by simp
qed simp

text \<open>
  What \<open>send_data\<close> puts on the wire: the frame of the text, cut to 1024 bytes. It
  gets there only when a NUL is left in the uninitialised rest of the buffer, which ends the print.
\<close>

lemma no_NUL_c_str: "NUL \<notin> set (c_str b)"
  by (auto simp: c_str_def dest: set_takeWhileD)

lemma send_data_eq:
  assumes str: "gafq_tostring api 2 v = (Some buf, v')"
    and len: "length uninit = header_length + max_body_length"
    and mem: "length (c_str buf) < 2 ^ 64"
  shows "send_data api os uninit v k =
    (let t = take max_body_length (c_str buf) in
     if NUL \<in> set (drop (header_length + length t) uninit) then
       Inr (1, gafq_pushinteger api 1 v',
            snd (sys_send os (sint (word_of_int (gafq_tointeger api 1 v) :: 32 word)) (frame t) k))
     else Inl Out_Of_Bounds)"
proof -
  define t where "t = take max_body_length (c_str buf)"
  let ?m = "set_body_length (of_nat (length (c_str buf))) (socket_msg_ctor uninit)"
  have u: "unat (body_length' ?m) = length t"
    using mem unat_set_body_length [of "of_nat (length (c_str buf))" "socket_msg_ctor uninit"]
    by (simp add: unat_of_nat t_def min.commute)
  have d: "data' ?m = uninit"
    by (simp add: set_body_length_eq socket_msg_ctor_def)
  have tl: "length t \<le> max_body_length" by (simp add: t_def)
  define d' where "d' = take header_length uninit @ t @ drop (header_length + length t) uninit"
  have c: "copy_to_body t ?m = Inr (?m\<lparr>data' := d'\<rparr>)"
    using len tl by (simp add: copy_to_body_def d mem_write_ok d'_def)
  have inv: "msg_inv (?m\<lparr>data' := d'\<rparr>)"
    using len tl u by (simp add: msg_inv_def d'_def)
  obtain m' where m': "encode_header (?m\<lparr>data' := d'\<rparr>) = Inr m'"
    using encode_header_eq [OF inv] by blast
  have inv': "msg_inv m'" by (rule msg_inv_encode_header [OF inv m'])
  have d2: "data' m' = format_4d (int (length t)) @ drop header_length d'"
    using m' encode_header_eq [OF inv] u by auto
  have dd: "drop header_length d' = t @ drop (header_length + length t) uninit"
    using len by (simp add: d'_def)
  have "NUL \<notin> set t" using no_NUL_c_str [of buf] by (auto simp: t_def dest: in_set_takeD)
  moreover have "NUL \<notin> set (format_4d (int (length t)))"
    by (rule format_4d_no_NUL)
  ultimately have nul: "NUL \<in> set (data' m') \<longleftrightarrow> NUL \<in> set (drop (header_length + length t) uninit)"
    by (simp add: d2 dd)
  have cs: "rbind (c_string (data' m')) (\<lambda>_. X) =
      (if NUL \<in> set (drop (header_length + length t) uninit) then X else Inl Out_Of_Bounds)" for X :: "'x res"
    using nul by (simp add: c_string_def)
  have bb: "body_bytes (?m\<lparr>data' := d'\<rparr>) = t"
    using u by (simp add: body_bytes_def msg_body_def dd)
  have w: "mem_read (data' m') 0 (unat (msg_length m')) = Inr (frame t)"
    using wire_encode_header [OF inv m'] inv' bb
    by (simp add: mem_read_def wire_def unat_msg_length msg_inv_def msg_consts)
  have r: "mem_read (c_str buf @ [NUL]) 0 (length t) = Inr t"
    by (simp add: mem_read_def t_def min_def)
  show ?thesis
    unfolding t_def [symmetric] Let_def
    by (simp add: send_data_def str Let_def msg_body_length_def u r c m' msg_data_def w cs)
qed

text \<open>An environment with no options and no files, to start the program in.\<close>

definition empty_ptree_api :: "(unit, unit) ptree_api" where
  "empty_ptree_api = \<lparr>pt_empty = (), pt_read_json = (\<lambda>_. Inl ''json_parser_error''),
     pt_get_int = (\<lambda>_ _. Inl ''ptree_bad_path''), pt_get_float = (\<lambda>_ _. Inl ''ptree_bad_path''),
     pt_get_string = (\<lambda>_ _. Inl ''ptree_bad_path'')\<rparr>"

definition no_props_env :: env_api where
  "no_props_env = \<lparr>env_parse = (\<lambda>_. Inr None), env_exists = (\<lambda>_. Inr False)\<rparr>"

end
