(* ===== verification/Game_Script.thy ===== *)
theory Game_Script
  imports Json_Roundtrip Game_Main
begin

text \<open>
  The server's script, \<^verbatim>\<open>src/script.gafq\<close>: the function \<open>start_action\<close> that
  the engine calls for every message, with \<open>dump\<close> and \<open>update_self\<close>. A call is a
  result, an error of the interpreter or a normal return, and the list of its effects: what it
  prints, what it sends, and the reload of the script. The number formats of the interpreter and the
  outcome of \<open>require\<close> are parameters.
\<close>

section \<open>Effects\<close>

datatype 'n script_effect =
    Printed "'n json list"
  | Unload bytes
  | Require bytes
  | Send_data "'n json" bytes

type_synonym ('n, 'a) script_run = "'a lua_res \<times> 'n script_effect list"

record 'n script_env =
  sc_tonumber :: "bytes \<Rightarrow> 'n option"
  sc_number :: "int \<Rightarrow> 'n"
  sc_num_tostring :: "'n \<Rightarrow> bytes"
  sc_require :: "bytes \<Rightarrow> unit lua_res"

text \<open>Running a part after another: an error ends the call, and the effects before it stay.\<close>

definition script_bind :: "('n, 'a) script_run \<Rightarrow> ('a \<Rightarrow> ('n, 'b) script_run) \<Rightarrow> ('n, 'b) script_run" where
  "script_bind m f =
     (case m of
        (Inl e, effs) \<Rightarrow> (Inl e, effs)
      | (Inr x, effs) \<Rightarrow> (let (r, effs') = f x in (r, effs @ effs')))"

definition script_pure :: "'a lua_res \<Rightarrow> ('n, 'a) script_run" where
  "script_pure r = (r, [])"

definition emit :: "'n script_effect \<Rightarrow> ('n, unit) script_run" where
  "emit eff = (Inr (), [eff])"

definition script_then :: "('n, unit) script_run \<Rightarrow> ('n, 'b) script_run \<Rightarrow> ('n, 'b) script_run" where
  "script_then m n = script_bind m (\<lambda>_. n)"

lemma script_run_simps [simp]:
  "script_bind (script_pure (Inl e)) f = (Inl e, [])"
  "script_bind (script_pure (Inr x)) f = f x"
  "script_then (emit eff) n = (fst n, eff # snd n)"
  by (simp_all add: script_bind_def script_pure_def script_then_def emit_def split: prod.splits)

lemma script_run_sels [simp]:
  "fst (script_pure r) = r" "snd (script_pure r) = []" "fst (emit eff) = Inr ()" "snd (emit eff) = [eff]"
  by (simp_all add: script_pure_def emit_def)

section \<open>The functions of the script\<close>

definition lua_tostring :: "'n script_env \<Rightarrow> 'n json \<Rightarrow> bytes" where
  "lua_tostring env v =
     (case v of
        JNil \<Rightarrow> ''nil''
      | JBool b \<Rightarrow> bool_tostring b
      | JNum n \<Rightarrow> sc_num_tostring env n
      | JStr s \<Rightarrow> s
      | JTable t \<Rightarrow> ''table'')"

text \<open>The key in a line of \<open>dump\<close>: a string is quoted, a number converted by the concatenation.\<close>

definition dump_key :: "'n script_env \<Rightarrow> key \<Rightarrow> bytes" where
  "dump_key env k =
     (case k of KStr s \<Rightarrow> [quote] @ s @ [quote] | KInt n \<Rightarrow> sc_num_tostring env (sc_number env (int n)))"

fun dump :: "'n script_env \<Rightarrow> 'n json \<Rightarrow> bytes" where
  "dump env (JTable t) =
     ''{ '' @ concat (map (\<lambda>(k, v). ''['' @ dump_key env k @ ''] = '' @ dump env v @ '','') t) @ ''} ''"
| "dump env v = lua_tostring env v"

definition update_self :: "'n script_env \<Rightarrow> ('n, unit) script_run" where
  "update_self env =
     script_then (emit (Printed [JStr ''update_self start222!'']))
     (script_then (emit (Unload ''script''))
     (script_then (emit (Require ''script''))
     (script_bind (script_pure (sc_require env ''script''))
       (\<lambda>_. emit (Printed [JStr ''update_self end4444!''])))))"

text \<open>
  \<open>json_data.oper\<close>: a table gives the field or nil; a string is indexed through the string
  library, which has no such entry; every other value cannot be indexed.
\<close>

definition lua_index :: "'n json \<Rightarrow> bytes \<Rightarrow> 'n json lua_res" where
  "lua_index v k =
     (case v of
        JTable t \<Rightarrow> Inr (table_get (KStr k) t)
      | JStr _ \<Rightarrow> Inr JNil
      | JNil \<Rightarrow> Inl (Lua_error ''attempt to index a nil value'')
      | JBool _ \<Rightarrow> Inl (Lua_error ''attempt to index a boolean value'')
      | JNum _ \<Rightarrow> Inl (Lua_error ''attempt to index a number value''))"

definition truthy :: "'n json \<Rightarrow> bool" where
  "truthy v \<longleftrightarrow> (case v of JNil \<Rightarrow> False | JBool b \<Rightarrow> b | _ \<Rightarrow> True)"

text \<open>The sum that the C function \<open>gafq_func3\<close> of the engine computes.\<close>

definition func3_sum :: "int \<Rightarrow> int \<Rightarrow> int" where
  "func3_sum a b = sint ((word_of_int a :: 32 word) + word_of_int b)"

text \<open>The two texts of the script that are not ASCII, as their UTF-8 bytes.\<close>

definition send_data_label :: bytes where
  "send_data_label = ''send_data '' @ map char_of [0xe5, 0x8f, 0x91, 0xe7, 0xbb, 0x99, 0xe8, 0xb0, 0x81 :: nat]
     @ '', '' @ map char_of [0xe5, 0x8f, 0x91, 0xe4, 0xbb, 0x80, 0xe4, 0xb9, 0x88 :: nat]"

definition no_match_label :: bytes where
  "no_match_label = ''oper'' @ map char_of [0xe6, 0xb2, 0xa1, 0xe6, 0x9c, 0x89, 0xe5, 0x8c, 0xb9, 0xe9, 0x85, 0x8d :: nat]"

definition script_start_action :: "'n script_env \<Rightarrow> int \<Rightarrow> bytes \<Rightarrow> ('n, unit) script_run" where
  "script_start_action env fd data =
     script_then (emit (Printed [JStr ''gafq:'', JNum (sc_number env fd), JStr data]))
     (script_bind (script_pure (json_decode (sc_tonumber env) data)) (\<lambda>json_data.
      script_bind (script_pure (json_decode (sc_tonumber env) data)) (\<lambda>again.
      script_then (emit (Printed [JStr ''decode'', JStr (dump env again)]))
      (let y = func3_sum 1 2 in
       script_then (emit (Printed [JStr ''gafq_func3 y:'', JNum (sc_number env y)]))
       (script_bind (script_pure (lua_index json_data ''oper'')) (\<lambda>oper.
        script_then (emit (Printed [JStr ''oper'', oper]))
        (if \<not> truthy oper then script_pure (Inr ())
         else if oper = JStr ''update_self'' then
           script_then (emit (Printed [JStr ''update_self'', oper])) (update_self env)
         else if oper = JStr ''send_data'' then
           script_then (emit (Printed [JStr send_data_label, oper]))
           (script_bind (script_pure (lua_index json_data ''to'')) (\<lambda>to.
              emit (Send_data to data)))
         else emit (Printed [JStr no_match_label]))))))))"

section \<open>What a message makes the script do\<close>

lemma func3_sum_engine:
  "gafq_func3 api v = (1, gafq_pushinteger api (func3_sum (gafq_tointeger api 1 v) (gafq_tointeger api 2 v)) v)"
  by (simp add: gafq_func3_def gafq_func_add_def func3_sum_def Let_def)

definition sends :: "'n script_effect list \<Rightarrow> ('n json \<times> bytes) list" where
  "sends effs = concat (map (\<lambda>e. case e of Send_data to data \<Rightarrow> [(to, data)] | _ \<Rightarrow> []) effs)"

lemma sends_simps [simp]:
  "sends [] = []" "sends (Send_data to data # r) = (to, data) # sends r"
  "sends (Printed vs # r) = sends r" "sends (Unload m # r) = sends r" "sends (Require m # r) = sends r"
  by (simp_all add: sends_def)

lemma update_self_sends [simp]: "sends (snd (update_self env)) = []"
  by (cases "sc_require env ''script''") (simp_all add: update_self_def)

text \<open>The operation that a decoded message asks for.\<close>

definition operation :: "'n json \<Rightarrow> 'n json" where
  "operation j = (case j of JTable t \<Rightarrow> table_get (KStr ''oper'') t | _ \<Rightarrow> JNil)"

lemma lua_index_oper:
  "lua_index j k = Inr v \<Longrightarrow> v = (case j of JTable t \<Rightarrow> table_get (KStr k) t | _ \<Rightarrow> JNil)"
  by (auto simp: lua_index_def split: json.splits)

lemma start_action_sends:
  "sends (snd (script_start_action env fd data)) =
     (case json_decode (sc_tonumber env) data of
        Inr (JTable t) \<Rightarrow>
          if table_get (KStr ''oper'') t = JStr ''send_data'' then [(table_get (KStr ''to'') t, data)] else []
      | _ \<Rightarrow> [])"
proof (cases "json_decode (sc_tonumber env) data")
  case (Inr j)
  then show ?thesis
    by (cases j) (auto simp: script_start_action_def Let_def lua_index_def truthy_def split: json.splits)
qed (simp add: script_start_action_def)

text \<open>The outcome: a text that is not JSON, a value without fields, or a failed reload raise an error.\<close>

lemma start_action_result:
  "fst (script_start_action env fd data) =
     rbind (json_decode (sc_tonumber env) data) (\<lambda>j. rbind (lua_index j ''oper'') (\<lambda>oper.
       if oper = JStr ''update_self'' then sc_require env ''script'' else Inr ()))"
proof (cases "json_decode (sc_tonumber env) data")
  case (Inr j)
  moreover have "fst (update_self env) = sc_require env ''script''"
    by (cases "sc_require env ''script''") (simp_all add: update_self_def)
  ultimately show ?thesis
    by (cases j) (auto simp: script_start_action_def Let_def lua_index_def truthy_def split: json.splits)
qed (simp add: script_start_action_def)

section \<open>Messages that are written by the encoder\<close>

text \<open>What the script sends for the text of a value, without decoding it.\<close>

definition relayed :: "'n lua_env \<Rightarrow> 'n json \<Rightarrow> ('n json \<times> bytes) list" where
  "relayed env j =
     (case j of
        JTable t \<Rightarrow>
          if table_get (KStr ''oper'') t = JStr ''send_data'' then [(table_get (KStr ''to'') t, json_text env j)] else []
      | _ \<Rightarrow> [])"

lemma start_action_relays:
  assumes "canonical (sc_tonumber senv) env j"
  shows "sends (snd (script_start_action senv fd (json_text env j))) = relayed env j"
  using json_decode_text [OF assms] by (simp add: start_action_sends relayed_def split: json.splits)

text \<open>The effect \<open>Send_data\<close> is the C function: it puts one frame on the wire.\<close>

lemma json_text_sent:
  assumes "canonical tonumber env j" "length (json_text env j) < max_body_length"
    and "gafq_tostring api 2 v = (Some (json_text env j), v')"
    and "length uninit = header_length + max_body_length" "NUL \<in> set (drop (header_length + length (json_text env j)) uninit)"
  shows "send_data api os uninit v k = Inr (1, gafq_pushinteger api 1 v',
      snd (sys_send os (sint (word_of_int (gafq_tointeger api 1 v) :: 32 word)) (frame (json_text env j)) k))"
proof -
  have c: "c_str (json_text env j) = json_text env j"
    using json_text_no_NUL [OF assms(1)] by (auto simp: c_str_def takeWhile_eq_all_conv)
  have "take max_body_length (json_text env j) = json_text env j" "length (json_text env j) < 2 ^ 64"
    using assms(2) by (simp_all add: msg_consts)
  then show ?thesis using send_data_eq [OF assms(3,4)] assms(5) by (simp add: c Let_def)
qed

section \<open>An example\<close>

text \<open>The numbers from 0 to 9, written as one digit.\<close>

definition digit_env :: "int lua_env" where
  "digit_env = \<lparr>format_14g = (\<lambda>n. [''0123456789'' ! nat n]), is_finite = (\<lambda>n. 0 \<le> n \<and> n \<le> 9),
     num_tostring = (\<lambda>n. [''0123456789'' ! nat n]), table_length = length\<rparr>"

definition digit_script :: "int script_env" where
  "digit_script = \<lparr>
     sc_tonumber = (\<lambda>s. case s of [c] \<Rightarrow> if c \<in> set ''0123456789'' then Some (int (of_char c) - 48) else None | _ \<Rightarrow> None),
     sc_number = (\<lambda>n. n), sc_num_tostring = num_tostring digit_env, sc_require = (\<lambda>_. Inr ())\<rparr>"

definition send_five :: "int json" where
  "send_five = JTable [(KStr ''oper'', JStr ''send_data''), (KStr ''to'', JNum 5)]"

lemma send_five_canonical: "canonical (sc_tonumber digit_script) digit_env send_five"
  by (simp add: send_five_def number_ok_def digit_script_def digit_env_def delim_chars_def space_chars_def)

lemma send_five_text: "length (json_text digit_env send_five) = 27"
  by code_simp

end
