(* ===== verification/Byte_Order.thy ===== *)
theory Byte_Order
  imports Engine_Prelude
begin

text \<open>
  The integer codecs of the MySQL client headers: \<^verbatim>\<open>my_byteorder.h\<close>,
  \<^verbatim>\<open>byte_order_generic.h\<close>, \<^verbatim>\<open>byte_order_generic_x86.h\<close>,
  \<^verbatim>\<open>little_endian.h\<close> and \<^verbatim>\<open>big_endian.h\<close> under
  \<^verbatim>\<open>src/3rd/mysqlcapi/include\<close>. A memory area is a list of bytes; an access outside
  it is a fault. The specification is the number of a byte list, low byte first; the locale
  \<open>int_codec\<close> states what a pair of a load and a store promises and is interpreted for
  every width, in the portable and in the x86 version. A definition carries the suffix
  \<open>_x86\<close>, \<open>_le\<close> or \<open>_be\<close> of the header it is from where several
  headers define the same name.
\<close>

type_synonym uchars = "8 word list"

section \<open>Numbers as bytes, low byte first\<close>

fun le_val :: "uchars \<Rightarrow> nat" where
  "le_val [] = 0"
| "le_val (b # bs) = unat b + 256 * le_val bs"

fun le_bytes :: "nat \<Rightarrow> nat \<Rightarrow> uchars" where
  "le_bytes 0 n = []"
| "le_bytes (Suc k) n = of_nat n # le_bytes k (n div 256)"

lemma length_le_bytes [simp]: "length (le_bytes k n) = k"
  by (induction k arbitrary: n) auto

lemma unat_byte_lt: "unat (b :: 8 word) < 256"
  using unsigned_less [of b, where 'a = nat] by simp

lemma le_val_bound: "le_val bs < 256 ^ length bs"
proof (induction bs)
  case (Cons b bs)
  have "unat b + 256 * le_val bs < 256 + 256 * le_val bs"
    using unat_byte_lt [of b] by simp
  also have "\<dots> = 256 * Suc (le_val bs)" by simp
  also have "\<dots> \<le> 256 * 256 ^ length bs" using Cons.IH by (intro mult_left_mono) auto
  finally show ?case by simp
qed simp

lemma unat_of_nat_byte: "unat (of_nat n :: 8 word) = n mod 256"
  by (simp add: unat_of_nat)

lemma le_val_le_bytes: "le_val (le_bytes k n) = n mod 256 ^ k"
proof (induction k arbitrary: n)
  case (Suc k)
  have "n mod 256 + 256 * (n div 256 mod 256 ^ k) = n mod (256 * 256 ^ k)"
    by (metis add.commute mod_mult2_eq)
  then show ?case by (simp add: Suc.IH unat_of_nat_byte)
qed simp

lemma le_bytes_le_val: "le_bytes (length bs) (le_val bs) = bs"
proof (induction bs)
  case (Cons b bs)
  have "(of_nat (unat b + 256 * le_val bs) :: 8 word) = b"
    by (rule word_unat_eq_iff [THEN iffD2]) (simp only: unat_of_nat_byte mod_mult_self2 mod_less unat_byte_lt)
  moreover have "(unat b + 256 * le_val bs) div 256 = le_val bs"
    using unat_byte_lt [of b] by simp
  ultimately show ?case using Cons.IH by (simp only: le_val.simps list.size le_bytes.simps add_Suc_right add_0_right)
qed simp

lemma le_bytes_mod: "le_bytes k (n mod 256 ^ k) = le_bytes k n"
  using le_bytes_le_val [of "le_bytes k n"] by (simp add: le_val_le_bytes)

section \<open>Access to memory\<close>

definition byte_at :: "uchars \<Rightarrow> nat \<Rightarrow> (8 word) res" where
  "byte_at A i = (if i < length A then Inr (A ! i) else Inl Out_Of_Bounds)"

definition put_byte :: "nat \<Rightarrow> 8 word \<Rightarrow> uchars \<Rightarrow> uchars res" where
  "put_byte i b T = (if i < length T then Inr (T[i := b]) else Inl Out_Of_Bounds)"

text \<open>What an x86 does for \<open>*((uintN*) A)\<close>: the bytes of the number, low byte first.\<close>

definition x86_load :: "nat \<Rightarrow> uchars \<Rightarrow> ('a::len) word res" where
  "x86_load k A = rbind (mem_read A 0 k) (\<lambda>bs. Inr (of_nat (le_val bs)))"

definition x86_store :: "nat \<Rightarrow> uchars \<Rightarrow> ('a::len) word \<Rightarrow> uchars res" where
  "x86_store k T v = mem_write T 0 (le_bytes k (unat v))"

section \<open>The contract\<close>

text \<open>
  Storing \<open>v\<close> into \<open>T\<close> fails exactly when the area is too short; otherwise
  only its first \<open>k\<close> bytes change, and loading them gives the low \<open>k\<close>
  bytes of \<open>v\<close>.
\<close>

definition roundtrip_at :: "nat \<Rightarrow> (uchars \<Rightarrow> ('a::len) word res) \<Rightarrow> (uchars \<Rightarrow> 'a word \<Rightarrow> uchars res) \<Rightarrow>
    uchars \<Rightarrow> 'a word \<Rightarrow> bool" where
  "roundtrip_at k load store T v \<longleftrightarrow>
     (case store T v of
        Inl e \<Rightarrow> length T < k \<and> e = Out_Of_Bounds
      | Inr T' \<Rightarrow> k \<le> length T \<and> (\<exists>w. load T' = Inr w \<and> unat w = unat v mod 256 ^ k)
          \<and> length T' = length T \<and> drop k T' = drop k T)"

locale int_codec =
  fixes k :: nat and load :: "uchars \<Rightarrow> ('a::len) word res" and store :: "uchars \<Rightarrow> 'a word \<Rightarrow> uchars res"
  assumes width: "8 * k \<le> LENGTH('a)"
    and load_ok: "k \<le> length A \<Longrightarrow> load A = Inr (of_nat (le_val (take k A)))"
    and load_short: "length A < k \<Longrightarrow> load A = Inl Out_Of_Bounds"
    and store_ok: "k \<le> length T \<Longrightarrow> store T v = Inr (le_bytes k (unat v) @ drop k T)"
    and store_short: "length T < k \<Longrightarrow> store T v = Inl Out_Of_Bounds"
begin

lemma unat_loaded:
  assumes "k \<le> length A" and "load A = Inr v"
  shows "unat v = le_val (take k A)"
proof -
  have "le_val (take k A) < 256 ^ k"
    using le_val_bound [of "take k A"] assms(1) by simp
  also have "(256::nat) ^ k = 2 ^ (8 * k)" by (simp add: power_mult)
  also have "\<dots> \<le> 2 ^ LENGTH('a)" using width by (intro power_increasing) auto
  finally have "unat (of_nat (le_val (take k A)) :: 'a word) = le_val (take k A)"
    by (simp add: unat_of_nat)
  with load_ok [OF assms(1)] assms(2) show ?thesis by simp
qed

text \<open>Loading what was stored gives the low bytes of the number; nothing else is touched.\<close>

lemma load_store:
  assumes "store T v = Inr T'"
  shows "\<exists>w. load T' = Inr w \<and> unat w = unat v mod 256 ^ k \<and> length T' = length T \<and> drop k T' = drop k T"
proof -
  have k: "k \<le> length T" using assms store_short [of T v] by (cases "k \<le> length T") auto
  with assms store_ok [of T v] have T': "T' = le_bytes k (unat v) @ drop k T" by simp
  then have l: "k \<le> length T'" using k by simp
  obtain w where w: "load T' = Inr w" using load_ok [OF l] by blast
  have "unat w = unat v mod 256 ^ k"
    using unat_loaded [OF l w] by (simp add: T' le_val_le_bytes)
  with w T' k show ?thesis by simp
qed

lemma roundtrip: "roundtrip_at k load store T v"
proof (cases "k \<le> length T")
  case True
  obtain T' where "store T v = Inr T'" using store_ok [OF True] by blast
  with load_store [of T v T'] True show ?thesis by (auto simp: roundtrip_at_def)
next
  case False
  with store_short [of T v] show ?thesis by (simp add: roundtrip_at_def)
qed

text \<open>Storing what was loaded changes nothing.\<close>

lemma store_load:
  assumes "load A = Inr v"
  shows "store A v = Inr A"
proof -
  have k: "k \<le> length A" using assms load_short [of A] by (cases "k \<le> length A") auto
  have "le_bytes k (unat v) = take k A"
    using unat_loaded [OF k assms] le_bytes_le_val [of "take k A"] k by (simp add: min_absorb2)
  with store_ok [OF k, of v] show ?thesis by simp
qed

text \<open>Equal loads come from equal bytes.\<close>

lemma load_inj:
  assumes "load A = Inr v" and "load B = Inr v"
  shows "take k A = take k B"
proof -
  have a: "k \<le> length A" using assms(1) load_short [of A] by (cases "k \<le> length A") auto
  have b: "k \<le> length B" using assms(2) load_short [of B] by (cases "k \<le> length B") auto
  have "le_val (take k A) = le_val (take k B)"
    using unat_loaded [OF a assms(1)] unat_loaded [OF b assms(2)] by simp
  then show ?thesis
    using le_bytes_le_val [of "take k A"] le_bytes_le_val [of "take k B"] a b by (simp add: min_absorb2)
qed

end

text \<open>Two providers of the same contract agree on every memory, faults included.\<close>

lemma int_codec_unique:
  assumes "int_codec k load store" and "int_codec k load' store'"
  shows "load = load' \<and> store = store'"
proof -
  have "load A = load' A" for A
    using int_codec.load_ok [OF assms(1)] int_codec.load_ok [OF assms(2)]
      int_codec.load_short [OF assms(1)] int_codec.load_short [OF assms(2)]
    by (cases "k \<le> length A") simp_all
  moreover have "store T v = store' T v" for T v
    using int_codec.store_ok [OF assms(1)] int_codec.store_ok [OF assms(2)]
      int_codec.store_short [OF assms(1)] int_codec.store_short [OF assms(2)]
    by (cases "k \<le> length T") simp_all
  ultimately show ?thesis by (simp add: fun_eq_iff)
qed

lemma x86_codec:
  assumes "8 * k \<le> LENGTH('a::len)"
  shows "int_codec k (x86_load k :: uchars \<Rightarrow> 'a word res) (x86_store k)"
  using assms
  by unfold_locales (auto simp: x86_load_def x86_store_def mem_read_def mem_write_def)

section \<open>byte\_order\_generic.h\<close>

text \<open>
  Operands narrower than \<open>int\<close> are promoted to 32 bits, and the sum is cut to the
  result's width. The signed variants compute the same bits, read as a signed number.
\<close>

definition sint2korr :: "uchars \<Rightarrow> (16 word) res" where
  "sint2korr A =
     rbind (byte_at A 0) (\<lambda>a0.
     rbind (byte_at A 1) (\<lambda>a1.
       Inr (ucast ((ucast a0 :: 32 word) + push_bit 8 (ucast a1)))))"

definition sint4korr :: "uchars \<Rightarrow> (32 word) res" where
  "sint4korr A =
     rbind (byte_at A 0) (\<lambda>a0.
     rbind (byte_at A 1) (\<lambda>a1.
     rbind (byte_at A 2) (\<lambda>a2.
     rbind (byte_at A 3) (\<lambda>a3.
       Inr ((ucast a0 :: 32 word) + push_bit 8 (ucast a1) + push_bit 16 (ucast a2) + push_bit 24 (ucast a3))))))"

definition uint2korr :: "uchars \<Rightarrow> (16 word) res" where
  "uint2korr A =
     rbind (byte_at A 0) (\<lambda>a0.
     rbind (byte_at A 1) (\<lambda>a1.
       Inr (ucast ((ucast a0 :: 32 word) + push_bit 8 (ucast a1)))))"

definition uint4korr :: "uchars \<Rightarrow> (32 word) res" where
  "uint4korr A =
     rbind (byte_at A 0) (\<lambda>a0.
     rbind (byte_at A 1) (\<lambda>a1.
     rbind (byte_at A 2) (\<lambda>a2.
     rbind (byte_at A 3) (\<lambda>a3.
       Inr ((ucast a0 :: 32 word) + push_bit 8 (ucast a1) + push_bit 16 (ucast a2) + push_bit 24 (ucast a3))))))"

definition uint8korr :: "uchars \<Rightarrow> (64 word) res" where
  "uint8korr A =
     rbind (byte_at A 0) (\<lambda>a0.
     rbind (byte_at A 1) (\<lambda>a1.
     rbind (byte_at A 2) (\<lambda>a2.
     rbind (byte_at A 3) (\<lambda>a3.
     rbind (byte_at A 4) (\<lambda>a4.
     rbind (byte_at A 5) (\<lambda>a5.
     rbind (byte_at A 6) (\<lambda>a6.
     rbind (byte_at A 7) (\<lambda>a7.
       Inr ((ucast ((ucast a0 :: 32 word) + push_bit 8 (ucast a1) + push_bit 16 (ucast a2) + push_bit 24 (ucast a3)) :: 64 word)
         + push_bit 32 (ucast ((ucast a4 :: 32 word) + push_bit 8 (ucast a5) + push_bit 16 (ucast a6) + push_bit 24 (ucast a7))))))))))))"

definition sint8korr :: "uchars \<Rightarrow> (64 word) res" where
  "sint8korr A = uint8korr A"

definition int2store :: "uchars \<Rightarrow> 16 word \<Rightarrow> uchars res" where
  "int2store T A =
     (let def_temp = (ucast A :: 32 word) in
      rbind (put_byte 0 (ucast def_temp) T) (\<lambda>T.
        put_byte 1 (ucast (drop_bit 8 def_temp)) T))"

definition int4store :: "uchars \<Rightarrow> 32 word \<Rightarrow> uchars res" where
  "int4store T A =
     rbind (put_byte 0 (ucast A) T) (\<lambda>T.
     rbind (put_byte 1 (ucast (drop_bit 8 A)) T) (\<lambda>T.
     rbind (put_byte 2 (ucast (drop_bit 16 A)) T) (\<lambda>T.
       put_byte 3 (ucast (drop_bit 24 A)) T)))"

definition int8store :: "uchars \<Rightarrow> 64 word \<Rightarrow> uchars res" where
  "int8store T A =
     (let def_temp = (ucast A :: 32 word); def_temp2 = (ucast (drop_bit 32 A) :: 32 word) in
      rbind (int4store T def_temp) (\<lambda>T.
      rbind (int4store (drop 4 T) def_temp2) (\<lambda>U. Inr (take 4 T @ U))))"

section \<open>byte\_order\_generic\_x86.h\<close>

definition sint2korr_x86 :: "uchars \<Rightarrow> (16 word) res" where
  "sint2korr_x86 A = x86_load 2 A"

definition sint4korr_x86 :: "uchars \<Rightarrow> (32 word) res" where
  "sint4korr_x86 A = x86_load 4 A"

definition uint2korr_x86 :: "uchars \<Rightarrow> (16 word) res" where
  "uint2korr_x86 A = x86_load 2 A"

definition uint4korr_x86 :: "uchars \<Rightarrow> (32 word) res" where
  "uint4korr_x86 A = x86_load 4 A"

definition uint8korr_x86 :: "uchars \<Rightarrow> (64 word) res" where
  "uint8korr_x86 A = x86_load 8 A"

definition sint8korr_x86 :: "uchars \<Rightarrow> (64 word) res" where
  "sint8korr_x86 A = x86_load 8 A"

definition int2store_x86 :: "uchars \<Rightarrow> 16 word \<Rightarrow> uchars res" where
  "int2store_x86 T A = x86_store 2 T A"

definition int4store_x86 :: "uchars \<Rightarrow> 32 word \<Rightarrow> uchars res" where
  "int4store_x86 T A = x86_store 4 T A"

definition int8store_x86 :: "uchars \<Rightarrow> 64 word \<Rightarrow> uchars res" where
  "int8store_x86 T A = x86_store 8 T A"

section \<open>my\_byteorder.h: the widths 3, 5 and 6\<close>

definition sint3korr :: "uchars \<Rightarrow> (32 word) res" where
  "sint3korr A =
     rbind (byte_at A 0) (\<lambda>a0.
     rbind (byte_at A 1) (\<lambda>a1.
     rbind (byte_at A 2) (\<lambda>a2.
       Inr (if and a2 128 \<noteq> 0 then
              or (or (or (push_bit 24 255) (push_bit 16 (ucast a2))) (push_bit 8 (ucast a1))) (ucast a0)
            else or (or (push_bit 16 (ucast a2)) (push_bit 8 (ucast a1))) (ucast a0)))))"

definition uint3korr :: "uchars \<Rightarrow> (32 word) res" where
  "uint3korr A =
     rbind (byte_at A 0) (\<lambda>a0.
     rbind (byte_at A 1) (\<lambda>a1.
     rbind (byte_at A 2) (\<lambda>a2.
       Inr ((ucast a0 :: 32 word) + push_bit 8 (ucast a1) + push_bit 16 (ucast a2)))))"

definition uint5korr :: "uchars \<Rightarrow> (64 word) res" where
  "uint5korr A =
     rbind (byte_at A 0) (\<lambda>a0.
     rbind (byte_at A 1) (\<lambda>a1.
     rbind (byte_at A 2) (\<lambda>a2.
     rbind (byte_at A 3) (\<lambda>a3.
     rbind (byte_at A 4) (\<lambda>a4.
       Inr ((ucast ((ucast a0 :: 32 word) + push_bit 8 (ucast a1) + push_bit 16 (ucast a2) + push_bit 24 (ucast a3)) :: 64 word)
         + push_bit 32 (ucast a4)))))))"

definition uint6korr :: "uchars \<Rightarrow> (64 word) res" where
  "uint6korr A =
     rbind (byte_at A 0) (\<lambda>a0.
     rbind (byte_at A 1) (\<lambda>a1.
     rbind (byte_at A 2) (\<lambda>a2.
     rbind (byte_at A 3) (\<lambda>a3.
     rbind (byte_at A 4) (\<lambda>a4.
     rbind (byte_at A 5) (\<lambda>a5.
       Inr ((ucast ((ucast a0 :: 32 word) + push_bit 8 (ucast a1) + push_bit 16 (ucast a2) + push_bit 24 (ucast a3)) :: 64 word)
         + push_bit 32 (ucast a4) + push_bit 40 (ucast a5))))))))"

definition int3store :: "uchars \<Rightarrow> 32 word \<Rightarrow> uchars res" where
  "int3store T A =
     rbind (put_byte 0 (ucast A) T) (\<lambda>T.
     rbind (put_byte 1 (ucast (drop_bit 8 A)) T) (\<lambda>T.
       put_byte 2 (ucast (drop_bit 16 A)) T))"

definition int5store :: "uchars \<Rightarrow> 64 word \<Rightarrow> uchars res" where
  "int5store T A =
     rbind (put_byte 0 (ucast A) T) (\<lambda>T.
     rbind (put_byte 1 (ucast (drop_bit 8 A)) T) (\<lambda>T.
     rbind (put_byte 2 (ucast (drop_bit 16 A)) T) (\<lambda>T.
     rbind (put_byte 3 (ucast (drop_bit 24 A)) T) (\<lambda>T.
       put_byte 4 (ucast (drop_bit 32 A)) T))))"

definition int6store :: "uchars \<Rightarrow> 64 word \<Rightarrow> uchars res" where
  "int6store T A =
     rbind (put_byte 0 (ucast A) T) (\<lambda>T.
     rbind (put_byte 1 (ucast (drop_bit 8 A)) T) (\<lambda>T.
     rbind (put_byte 2 (ucast (drop_bit 16 A)) T) (\<lambda>T.
     rbind (put_byte 3 (ucast (drop_bit 24 A)) T) (\<lambda>T.
     rbind (put_byte 4 (ucast (drop_bit 32 A)) T) (\<lambda>T.
       put_byte 5 (ucast (drop_bit 40 A)) T)))))"

section \<open>The portable versions keep the contract\<close>

lemma ucast_of_unat: "(ucast (w :: 'a::len word) :: 'b::len word) = of_nat (unat w)"
  by simp

lemma ucast_of_nat:
  assumes "LENGTH('b::len) \<le> LENGTH('a::len) \<or> n < 2 ^ LENGTH('a)"
  shows "(ucast (of_nat n :: 'a word) :: 'b word) = of_nat n"
proof -
  have "n mod 2 ^ LENGTH('a) mod 2 ^ LENGTH('b) = n mod 2 ^ LENGTH('b)"
    using assms by (auto simp: mod_mod_cancel le_imp_power_dvd)
  then show ?thesis
    by (simp add: word_unat_eq_iff unat_of_nat ucast_of_unat del: of_nat_unat)
qed

lemma push_bit_of_nat: "push_bit j (of_nat n :: 'a::len word) = of_nat (2 ^ j * n)"
  by (simp add: push_bit_eq_mult mult.commute)

lemma take_bit_unat: "LENGTH('a) \<le> j \<Longrightarrow> take_bit j (unat (w :: 'a::len word)) = unat w"
proof (rule take_bit_nat_eq_self)
  assume "LENGTH('a) \<le> j"
  then have "(2::nat) ^ LENGTH('a) \<le> 2 ^ j" by (rule power_increasing) simp
  moreover have "unat w < 2 ^ LENGTH('a)" by (rule unsigned_less)
  ultimately show "unat w < 2 ^ j" by (rule less_le_trans [rotated])
qed

lemma unat_drop: "unat (drop_bit j (w :: 'a::len word)) = unat w div 2 ^ j"
  by (simp only: unsigned_drop_bit_eq) (simp add: drop_bit_eq_div take_bit_unat)

lemma byte_at_Cons [simp]: "byte_at (a # A) 0 = Inr a" "byte_at (a # A) (Suc i) = byte_at A i"
  "byte_at [] i = Inl Out_Of_Bounds"
  by (simp_all add: byte_at_def)

lemma put_byte_Cons [simp]: "put_byte 0 b (a # T) = Inr (b # T)"
  "put_byte (Suc i) b (a # T) = rbind (put_byte i b T) (\<lambda>T. Inr (a # T))" "put_byte i b [] = Inl Out_Of_Bounds"
  by (simp_all add: put_byte_def)

lemma le_bytes_numeral: "le_bytes (numeral j) n = of_nat n # le_bytes (pred_numeral j) (n div 256)"
  by (metis numeral_eq_Suc le_bytes.simps(2))

lemma byte_of: "(ucast (w :: 'a::len word) :: 8 word) = of_nat (unat w)"
  by simp

lemma div_div: "(n :: nat) div a div b = n div (a * b)"
  by (simp add: div_mult2_eq)

lemma byte_at_numeral [simp]: "byte_at (a # A) (numeral j) = byte_at A (pred_numeral j)"
  by (simp add: numeral_eq_Suc)

lemma put_byte_numeral [simp]:
  "put_byte (numeral j) b (a # T) = rbind (put_byte (pred_numeral j) b T) (\<lambda>T. Inr (a # T))"
  by (simp add: numeral_eq_Suc)

lemma unat_cast_up: "unat (ucast (w :: 16 word) :: 32 word) = unat w"
  by (simp add: unsigned_ucast_eq take_bit_unat)

lemmas store_value = Let_def le_bytes_numeral byte_of unat_drop div_div

lemma bytes4_lt: "unat (a :: 8 word) + 256 * unat (b :: 8 word) + 65536 * unat (c :: 8 word)
    + 16777216 * unat (d :: 8 word) < 4294967296"
  using unat_byte_lt [of a] unat_byte_lt [of b] unat_byte_lt [of c] unat_byte_lt [of d] by linarith

lemma sum_bytes4: "(ucast (a :: 8 word) :: 32 word) + push_bit 8 (ucast (b :: 8 word)) + push_bit 16 (ucast (c :: 8 word))
    + push_bit 24 (ucast (d :: 8 word)) = of_nat (unat a + 256 * unat b + 65536 * unat c + 16777216 * unat d)"
  unfolding ucast_of_unat [where 'a = 8] push_bit_of_nat of_nat_add [symmetric] by simp

lemma wide_bytes4: "(ucast ((ucast (a :: 8 word) :: 32 word) + push_bit 8 (ucast (b :: 8 word)) + push_bit 16 (ucast (c :: 8 word))
    + push_bit 24 (ucast (d :: 8 word))) :: 64 word) = of_nat (unat a + 256 * unat b + 65536 * unat c + 16777216 * unat d)"
  unfolding sum_bytes4 using bytes4_lt [of a b c d] by (subst ucast_of_nat) simp_all

interpretation codec2: int_codec 2 uint2korr int2store
proof unfold_locales
  fix A T :: uchars and v :: "16 word"
  show "8 * 2 \<le> LENGTH(16)" by simp
  show "uint2korr A = Inr (of_nat (le_val (take 2 A)))" if l: "2 \<le> length A"
  proof -
    obtain a0 a1 r where A: "A = a0 # a1 # r" using l by (auto simp: numeral_eq_Suc Suc_le_length_iff)
    have "(ucast ((ucast a0 :: 32 word) + push_bit 8 (ucast a1)) :: 16 word) = of_nat (unat a0 + 256 * unat a1)"
      unfolding ucast_of_unat [where 'a = 8] push_bit_of_nat of_nat_add [symmetric]
      by (subst ucast_of_nat) simp_all
    then show ?thesis by (simp add: A uint2korr_def)
  qed
  show "uint2korr A = Inl Out_Of_Bounds" if "length A < 2"
    using that by (simp add: uint2korr_def byte_at_def)
  show "int2store T v = Inr (le_bytes 2 (unat v) @ drop 2 T)" if l: "2 \<le> length T"
  proof -
    obtain a0 a1 r where T: "T = a0 # a1 # r" using l by (auto simp: numeral_eq_Suc Suc_le_length_iff)
    show ?thesis
      by (simp add: T int2store_def store_value unat_cast_up del: of_nat_unat)
  qed
  show "int2store T v = Inl Out_Of_Bounds" if "length T < 2"
    using that by (cases T) (auto simp: int2store_def Let_def put_byte_def)
qed

interpretation codec4: int_codec 4 uint4korr int4store
proof unfold_locales
  fix A T :: uchars and v :: "32 word"
  show "8 * 4 \<le> LENGTH(32)" by simp
  show "uint4korr A = Inr (of_nat (le_val (take 4 A)))" if l: "4 \<le> length A"
  proof -
    obtain a0 a1 a2 a3 r where A: "A = a0 # a1 # a2 # a3 # r"
      using l by (auto simp: numeral_eq_Suc Suc_le_length_iff)
    show ?thesis by (simp add: A uint4korr_def push_bit_eq_mult algebra_simps)
  qed
  show "uint4korr A = Inl Out_Of_Bounds" if "length A < 4"
    using that by (auto simp: uint4korr_def byte_at_def)
  show "int4store T v = Inr (le_bytes 4 (unat v) @ drop 4 T)" if l: "4 \<le> length T"
  proof -
    obtain a0 a1 a2 a3 r where T: "T = a0 # a1 # a2 # a3 # r"
      using l by (auto simp: numeral_eq_Suc Suc_le_length_iff)
    show ?thesis by (simp add: T int4store_def store_value del: of_nat_unat)
  qed
  show "int4store T v = Inl Out_Of_Bounds" if "length T < 4"
    using that by (auto simp: int4store_def put_byte_def)
qed

interpretation codec8: int_codec 8 uint8korr int8store
proof unfold_locales
  fix A T :: uchars and v :: "64 word"
  show "8 * 8 \<le> LENGTH(64)" by simp
  show "uint8korr A = Inr (of_nat (le_val (take 8 A)))" if l: "8 \<le> length A"
  proof -
    obtain a0 a1 a2 a3 a4 a5 a6 a7 r where A: "A = a0 # a1 # a2 # a3 # a4 # a5 # a6 # a7 # r"
      using l by (auto simp: numeral_eq_Suc Suc_le_length_iff)
    show ?thesis by (simp add: A uint8korr_def wide_bytes4) (simp add: push_bit_eq_mult algebra_simps)
  qed
  show "uint8korr A = Inl Out_Of_Bounds" if "length A < 8"
    using that by (auto simp: uint8korr_def byte_at_def)
  have hi: "unat (ucast (drop_bit 32 v) :: 32 word) = unat v div 4294967296"
  proof -
    have "unat v div 4294967296 < 4294967296"
      using unsigned_less [of v, where 'a = nat] by (simp add: less_mult_imp_div_less)
    then show ?thesis by (simp add: unsigned_ucast_eq unat_drop take_bit_eq_mod)
  qed
  show "int8store T v = Inr (le_bytes 8 (unat v) @ drop 8 T)" if l: "8 \<le> length T"
  proof -
    have lo: "le_bytes 4 (unat (ucast v :: 32 word)) = le_bytes 4 (unat v)"
      using le_bytes_mod [of 4 "unat v"] by (simp add: unsigned_ucast_eq take_bit_eq_mod)
    have "le_bytes 8 (unat v) = le_bytes 4 (unat v) @ le_bytes 4 (unat v div 4294967296)"
      by (simp add: le_bytes_numeral div_div)
    with l lo hi show ?thesis
      by (simp add: int8store_def codec4.store_ok)
  qed
  show "int8store T v = Inl Out_Of_Bounds" if "length T < 8"
    using that codec4.store_ok [of T] codec4.store_short
    by (cases "length T < 4") (simp_all add: int8store_def)
qed

interpretation codec3: int_codec 3 uint3korr int3store
proof unfold_locales
  fix A T :: uchars and v :: "32 word"
  show "8 * 3 \<le> LENGTH(32)" by simp
  show "uint3korr A = Inr (of_nat (le_val (take 3 A)))" if l: "3 \<le> length A"
  proof -
    obtain a0 a1 a2 r where A: "A = a0 # a1 # a2 # r"
      using l by (auto simp: numeral_eq_Suc Suc_le_length_iff)
    show ?thesis by (simp add: A uint3korr_def push_bit_eq_mult algebra_simps)
  qed
  show "uint3korr A = Inl Out_Of_Bounds" if "length A < 3"
    using that by (auto simp: uint3korr_def byte_at_def)
  show "int3store T v = Inr (le_bytes 3 (unat v) @ drop 3 T)" if l: "3 \<le> length T"
  proof -
    obtain a0 a1 a2 r where T: "T = a0 # a1 # a2 # r"
      using l by (auto simp: numeral_eq_Suc Suc_le_length_iff)
    show ?thesis by (simp add: T int3store_def store_value del: of_nat_unat)
  qed
  show "int3store T v = Inl Out_Of_Bounds" if "length T < 3"
    using that by (auto simp: int3store_def put_byte_def)
qed

interpretation codec5: int_codec 5 uint5korr int5store
proof unfold_locales
  fix A T :: uchars and v :: "64 word"
  show "8 * 5 \<le> LENGTH(64)" by simp
  show "uint5korr A = Inr (of_nat (le_val (take 5 A)))" if l: "5 \<le> length A"
  proof -
    obtain a0 a1 a2 a3 a4 r where A: "A = a0 # a1 # a2 # a3 # a4 # r"
      using l by (auto simp: numeral_eq_Suc Suc_le_length_iff)
    show ?thesis by (simp add: A uint5korr_def wide_bytes4) (simp add: push_bit_eq_mult algebra_simps)
  qed
  show "uint5korr A = Inl Out_Of_Bounds" if "length A < 5"
    using that by (auto simp: uint5korr_def byte_at_def)
  show "int5store T v = Inr (le_bytes 5 (unat v) @ drop 5 T)" if l: "5 \<le> length T"
  proof -
    obtain a0 a1 a2 a3 a4 r where T: "T = a0 # a1 # a2 # a3 # a4 # r"
      using l by (auto simp: numeral_eq_Suc Suc_le_length_iff)
    show ?thesis by (simp add: T int5store_def store_value del: of_nat_unat)
  qed
  show "int5store T v = Inl Out_Of_Bounds" if "length T < 5"
    using that by (auto simp: int5store_def put_byte_def)
qed

interpretation codec6: int_codec 6 uint6korr int6store
proof unfold_locales
  fix A T :: uchars and v :: "64 word"
  show "8 * 6 \<le> LENGTH(64)" by simp
  show "uint6korr A = Inr (of_nat (le_val (take 6 A)))" if l: "6 \<le> length A"
  proof -
    obtain a0 a1 a2 a3 a4 a5 r where A: "A = a0 # a1 # a2 # a3 # a4 # a5 # r"
      using l by (auto simp: numeral_eq_Suc Suc_le_length_iff)
    show ?thesis by (simp add: A uint6korr_def wide_bytes4) (simp add: push_bit_eq_mult algebra_simps)
  qed
  show "uint6korr A = Inl Out_Of_Bounds" if "length A < 6"
    using that by (auto simp: uint6korr_def byte_at_def)
  show "int6store T v = Inr (le_bytes 6 (unat v) @ drop 6 T)" if l: "6 \<le> length T"
  proof -
    obtain a0 a1 a2 a3 a4 a5 r where T: "T = a0 # a1 # a2 # a3 # a4 # a5 # r"
      using l by (auto simp: numeral_eq_Suc Suc_le_length_iff)
    show ?thesis by (simp add: T int6store_def store_value del: of_nat_unat)
  qed
  show "int6store T v = Inl Out_Of_Bounds" if "length T < 6"
    using that by (auto simp: int6store_def put_byte_def)
qed

interpretation codec2_x86: int_codec 2 uint2korr_x86 int2store_x86
  unfolding uint2korr_x86_def int2store_x86_def by (rule x86_codec) simp

interpretation codec4_x86: int_codec 4 uint4korr_x86 int4store_x86
  unfolding uint4korr_x86_def int4store_x86_def by (rule x86_codec) simp

interpretation codec8_x86: int_codec 8 uint8korr_x86 int8store_x86
  unfolding uint8korr_x86_def int8store_x86_def by (rule x86_codec) simp

text \<open>The optimised versions agree with the portable ones on every memory.\<close>

lemma x86_equiv:
  "uint2korr_x86 = uint2korr" "int2store_x86 = int2store" "uint4korr_x86 = uint4korr"
  "int4store_x86 = int4store" "uint8korr_x86 = uint8korr" "int8store_x86 = int8store"
  "sint2korr_x86 = sint2korr" "sint4korr_x86 = sint4korr" "sint8korr_x86 = sint8korr"
proof -
  note u = int_codec_unique
  show 2: "uint2korr_x86 = uint2korr" "int2store_x86 = int2store"
    using u [OF codec2_x86.int_codec_axioms codec2.int_codec_axioms] by simp_all
  show 4: "uint4korr_x86 = uint4korr" "int4store_x86 = int4store"
    using u [OF codec4_x86.int_codec_axioms codec4.int_codec_axioms] by simp_all
  show 8: "uint8korr_x86 = uint8korr" "int8store_x86 = int8store"
    using u [OF codec8_x86.int_codec_axioms codec8.int_codec_axioms] by simp_all
  show "sint2korr_x86 = sint2korr" "sint4korr_x86 = sint4korr" "sint8korr_x86 = sint8korr"
    using 2(1) 4(1) 8(1)
    by (simp_all add: fun_eq_iff sint2korr_def sint4korr_def sint8korr_def uint2korr_def uint4korr_def
        sint2korr_x86_def sint4korr_x86_def sint8korr_x86_def uint2korr_x86_def uint4korr_x86_def
        uint8korr_x86_def)
qed

section \<open>Signed numbers\<close>

text \<open>The signed number of a list of bytes in two's complement.\<close>

definition le_sval :: "uchars \<Rightarrow> int" where
  "le_sval bs =
     (let n = int (le_val bs); m = 256 ^ length bs in if 2 * n < m then n else n - m)"

lemma sint_word_of_int:
  assumes "- (2 ^ (LENGTH('a) - 1)) \<le> z" and "z < 2 ^ (LENGTH('a) - 1)"
  shows "sint (word_of_int z :: 'a::len word) = z"
  using assms by (simp add: sint_sbintrunc' signed_take_bit_int_eq_self)

text \<open>A full-width load, read as signed, is the signed number of its bytes.\<close>

lemma sint_le_val:
  assumes "LENGTH('a::len) = 8 * length bs"
  shows "sint (of_nat (le_val bs) :: 'a word) = le_sval bs"
proof -
  have m: "(256::int) ^ length bs = 2 * 2 ^ (LENGTH('a) - 1)"
  proof -
    have "2 * (2::int) ^ (LENGTH('a) - 1) = 2 ^ LENGTH('a)"
      by (cases "LENGTH('a)") simp_all
    then show ?thesis by (simp add: assms power_mult)
  qed
  have b: "int (le_val bs) < 256 ^ length bs"
    using le_val_bound [of bs] by (metis of_nat_less_iff of_nat_numeral of_nat_power)
  have "(word_of_int (int (le_val bs) - 2 * 2 ^ (LENGTH('a) - 1)) :: 'a word) = word_of_int (int (le_val bs))"
    by (rule word_of_int_eq_iff [THEN iffD2]) (simp add: take_bit_eq_mod flip: power_Suc)
  then have "(of_nat (le_val bs) :: 'a word) = word_of_int (le_sval bs)"
    by (simp add: le_sval_def Let_def m)
  moreover have "- (2 ^ (LENGTH('a) - 1)) \<le> le_sval bs \<and> le_sval bs < 2 ^ (LENGTH('a) - 1)"
    using b by (auto simp: le_sval_def Let_def m)
  ultimately show ?thesis by (simp only: sint_word_of_int)
qed

lemma signed_bit7: "and (a :: 8 word) 128 \<noteq> 0 \<longleftrightarrow> 128 \<le> unat a"
proof -
  have "and a (2 ^ 7) \<noteq> 0 \<longleftrightarrow> bit a 7" by (simp only: and_exp_eq_0_iff_not_bit not_not)
  also have "\<dots> \<longleftrightarrow> bit (unat a) 7" by (simp add: bit_unsigned_iff)
  also have "\<dots> \<longleftrightarrow> odd (unat a div 2 ^ 7)" by (simp only: bit_iff_odd)
  also have "\<dots> \<longleftrightarrow> 128 \<le> unat a"
  proof -
    have "unat a div 128 < 2" using unat_byte_lt [of a] by (simp add: less_mult_imp_div_less)
    then have "odd (unat a div 128) \<longleftrightarrow> unat a div 128 \<noteq> 0" by (auto simp: less_2_cases_iff)
    then show ?thesis by (simp add: div_eq_0_iff not_less)
  qed
  finally show ?thesis by simp
qed

lemma bit_cast_byte: "bit (ucast (a :: 8 word) :: 32 word) n \<longleftrightarrow> n < 8 \<and> bit a n"
  by (auto simp: bit_ucast_iff dest: bit_imp_le_length)

lemma or_bytes3:
  "or (or (push_bit 16 (ucast (c :: 8 word))) (push_bit 8 (ucast (b :: 8 word)))) (ucast (a :: 8 word) :: 32 word)
    = of_nat (unat a + 256 * unat b + 65536 * unat c)"
proof -
  let ?a = "ucast a :: 32 word" and ?b = "push_bit 8 (ucast b) :: 32 word"
    and ?c = "push_bit 16 (ucast c) :: 32 word"
  have "or ?c ?b = ?c + ?b"
    by (rule disjunctive_add [symmetric]) (auto simp: bit_push_bit_iff bit_cast_byte)
  moreover have "or (or ?c ?b) ?a = or ?c ?b + ?a"
    by (rule disjunctive_add [symmetric]) (auto simp: bit_push_bit_iff bit_cast_byte bit_or_iff)
  ultimately show ?thesis by (simp add: push_bit_eq_mult algebra_simps)
qed

lemma or_sign_byte:
  assumes "n < 2 ^ 24"
  shows "or (push_bit 24 255) (of_nat n :: 32 word) = word_of_int (int n - 2 ^ 24)"
proof -
  have "or (push_bit 24 255) (of_nat n :: 32 word) = push_bit 24 255 + of_nat n"
  proof (rule disjunctive_add [symmetric])
    fix i
    have "\<not> bit (of_nat n :: 32 word) i" if "24 \<le> i"
    proof -
      have "n < 2 ^ i" using assms power_increasing [OF that, of "2::nat"] by simp
      then have "\<not> bit n i" by (simp add: bit_iff_odd)
      then show ?thesis by (simp add: bit_of_nat_iff)
    qed
    then show "\<not> bit (push_bit 24 255 :: 32 word) i \<or> \<not> bit (of_nat n :: 32 word) i"
      by (auto simp: bit_push_bit_iff not_le [symmetric] simp del: push_bit_numeral)
  qed
  also have "\<dots> = word_of_int (int n - 2 ^ 24)" by (simp add: push_bit_eq_mult)
  finally show ?thesis .
qed

lemma sint3korr_value:
  assumes "3 \<le> length A"
  shows "\<exists>v. sint3korr A = Inr v \<and> sint v = le_sval (take 3 A)"
proof -
  obtain a0 a1 a2 r where A: "A = a0 # a1 # a2 # r"
    using assms by (auto simp: numeral_eq_Suc Suc_le_length_iff)
  define n where "n = unat a0 + 256 * unat a1 + 65536 * unat a2"
  have b: "unat a0 < 256" "unat a1 < 256" "unat a2 < 256" by (rule unat_byte_lt)+
  then have lt: "n < 2 ^ 24" by (simp add: n_def)
  have lv: "le_val (take 3 A) = n" by (simp add: A n_def)
  have sv: "le_sval (take 3 A) = (if unat a2 < 128 then int n else int n - 2 ^ 24)"
  proof -
    have "n < 8388608 \<longleftrightarrow> unat a2 < 128" using b unfolding n_def by linarith
    moreover have "length (take 3 A) = 3" using assms by simp
    ultimately show ?thesis by (simp add: le_sval_def Let_def lv)
  qed
  have "or (or (or (push_bit 24 255) (push_bit 16 (ucast a2))) (push_bit 8 (ucast a1))) (ucast a0 :: 32 word)
      = word_of_int (int n - 2 ^ 24)"
    using or_sign_byte [OF lt] or_bytes3 [of a2 a1 a0] by (simp add: n_def or.assoc)
  then have "sint3korr A = Inr (if and a2 128 \<noteq> 0 then word_of_int (int n - 2 ^ 24) else of_nat n)"
    using or_bytes3 [of a2 a1 a0] by (simp add: A sint3korr_def n_def)
  moreover have "sint (of_nat n :: 32 word) = int n"
    using sint_word_of_int [of "int n", where 'a = 32] lt by simp
  moreover have "sint (word_of_int (int n - 2 ^ 24) :: 32 word) = int n - 2 ^ 24"
    using lt by (intro sint_word_of_int) auto
  moreover have "and a2 128 \<noteq> 0 \<longleftrightarrow> \<not> unat a2 < 128" using signed_bit7 [of a2] by (simp add: not_less)
  ultimately show ?thesis unfolding sv by auto
qed

lemma sint_korr_values:
  "2 \<le> length A \<Longrightarrow> \<exists>v. sint2korr A = Inr v \<and> sint v = le_sval (take 2 A)"
  "4 \<le> length A \<Longrightarrow> \<exists>v. sint4korr A = Inr v \<and> sint v = le_sval (take 4 A)"
  "8 \<le> length A \<Longrightarrow> \<exists>v. sint8korr A = Inr v \<and> sint v = le_sval (take 8 A)"
proof -
  have "sint2korr A = uint2korr A" "sint4korr A = uint4korr A" "sint8korr A = uint8korr A"
    by (simp_all add: sint2korr_def uint2korr_def sint4korr_def uint4korr_def sint8korr_def)
  then show "2 \<le> length A \<Longrightarrow> \<exists>v. sint2korr A = Inr v \<and> sint v = le_sval (take 2 A)"
    "4 \<le> length A \<Longrightarrow> \<exists>v. sint4korr A = Inr v \<and> sint v = le_sval (take 4 A)"
    "8 \<le> length A \<Longrightarrow> \<exists>v. sint8korr A = Inr v \<and> sint v = le_sval (take 8 A)"
    using codec2.load_ok [of A] codec4.load_ok [of A] codec8.load_ok [of A]
      sint_le_val [of "take 2 A", where 'a = 16] sint_le_val [of "take 4 A", where 'a = 32]
      sint_le_val [of "take 8 A", where 'a = 64]
    by (simp_all add: min_absorb2)
qed

text \<open>Three bytes carry every number of 24 bits, the sign included.\<close>

lemma le_sval_le_bytes:
  assumes "0 < k" and "- (256 ^ k) \<le> 2 * z" and "2 * z < 256 ^ k"
  shows "le_sval (le_bytes k (nat (z mod 256 ^ k))) = z"
proof -
  have m: "(0::int) < 256 ^ k" by simp
  have "int (nat (z mod 256 ^ k) mod 256 ^ k) = z mod 256 ^ k"
    using m by (simp add: zmod_int)
  moreover have "z mod 256 ^ k = (if 0 \<le> z then z else z + 256 ^ k)"
  proof (cases "0 \<le> z")
    case True
    with assms show ?thesis by (simp add: mod_pos_pos_trivial)
  next
    case False
    have "z mod 256 ^ k = (z + 256 ^ k) mod 256 ^ k" by simp
    also have "\<dots> = z + 256 ^ k" using False assms by (intro mod_pos_pos_trivial) auto
    finally show ?thesis using False by simp
  qed
  ultimately show ?thesis
    using assms by (auto simp: le_sval_def Let_def le_val_le_bytes)
qed

lemma int3_roundtrip:
  assumes "- (2 ^ 23) \<le> z" and "z < 2 ^ 23" and "3 \<le> length T"
  shows "\<exists>T' v. int3store T (word_of_int z) = Inr T' \<and> sint3korr T' = Inr v \<and> sint v = z"
proof -
  let ?T = "le_bytes 3 (unat (word_of_int z :: 32 word)) @ drop 3 T"
  have "int3store T (word_of_int z) = Inr ?T" by (rule codec3.store_ok [OF assms(3)])
  moreover obtain v where "sint3korr ?T = Inr v" "sint v = le_sval (take 3 ?T)"
    using sint3korr_value [of ?T] by auto
  moreover have "unat (word_of_int z :: 32 word) mod 256 ^ 3 = nat (z mod 256 ^ 3)"
  proof -
    have "int (unat (word_of_int z :: 32 word) mod 256 ^ 3) = z mod 2 ^ 32 mod 256 ^ 3"
      by (simp add: zmod_int uint_word_of_int)
    also have "\<dots> = z mod 256 ^ 3" by (rule mod_mod_cancel) simp
    finally show ?thesis by simp
  qed
  then have "le_bytes 3 (unat (word_of_int z :: 32 word)) = le_bytes 3 (nat (z mod 256 ^ 3))"
    by (metis le_bytes_mod)
  then have "le_sval (take 3 ?T) = z"
    using le_sval_le_bytes [of 3 z] assms by simp
  ultimately show ?thesis by auto
qed

end
