(* ===== verification/Endian_Headers.thy ===== *)
theory Endian_Headers
  imports Byte_Order
begin

text \<open>
  The headers \<^verbatim>\<open>little_endian.h\<close> and \<^verbatim>\<open>big_endian.h\<close>, of which
  \<^verbatim>\<open>my_byteorder.h\<close> includes one, and the overloads for \<open>char\<close> pointers. A float
  or double is its object representation, a list of four or eight bytes in the machine's order;
  an integer variable is its value. \<open>get\<close> functions return the new content of the variable,
  \<open>store\<close> functions the memory after the store. The main results: both headers store
  numbers and floats so that the machine that wrote them reads them back, and the portable float
  format is the same on both kinds of machine.
\<close>

section \<open>little\_endian.h\<close>

definition float4get_le :: "uchars \<Rightarrow> uchars res" where
  "float4get_le M = mem_read M 0 4"

definition float4store_le :: "uchars \<Rightarrow> uchars \<Rightarrow> uchars res" where
  "float4store_le V M = rbind (mem_read M 0 4) (mem_write V 0)"

definition float8get_le :: "uchars \<Rightarrow> uchars res" where
  "float8get_le M = mem_read M 0 8"

definition float8store_le :: "uchars \<Rightarrow> uchars \<Rightarrow> uchars res" where
  "float8store_le V M = rbind (mem_read M 0 8) (mem_write V 0)"

definition floatget_le :: "uchars \<Rightarrow> uchars res" where
  "floatget_le M = float4get_le M"

definition floatstore_le :: "uchars \<Rightarrow> uchars \<Rightarrow> uchars res" where
  "floatstore_le V M = float4store_le V M"

text \<open>The variant for machines whose floats are big-endian: the two words are exchanged.\<close>

text \<open>The byte assignments \<open>T[i] = V[j]\<close> in the order of the pairs \<open>(i, j)\<close>.\<close>

fun copy_bytes :: "(nat \<times> nat) list \<Rightarrow> uchars \<Rightarrow> uchars \<Rightarrow> uchars res" where
  "copy_bytes [] V T = Inr T"
| "copy_bytes ((i, j) # ps) V T =
     rbind (byte_at V j) (\<lambda>b. rbind (put_byte i b T) (copy_bytes ps V))"

definition doublestore_fbe :: "uchars \<Rightarrow> uchars \<Rightarrow> uchars res" where
  "doublestore_fbe T V =
     copy_bytes [(0, 4), (1, 5), (2, 6), (3, 7), (4, 0), (5, 1), (6, 2), (7, 3)] V T"

definition doubleget_fbe :: "uchars \<Rightarrow> uchars res" where
  "doubleget_fbe M =
     copy_bytes [(0, 4), (1, 5), (2, 6), (3, 7), (4, 0), (5, 1), (6, 2), (7, 3)] M (replicate 8 0)"

definition doublestore_le :: "uchars \<Rightarrow> uchars \<Rightarrow> uchars res" where
  "doublestore_le T V = rbind (mem_read V 0 8) (mem_write T 0)"

definition doubleget_le :: "uchars \<Rightarrow> uchars res" where
  "doubleget_le M = mem_read M 0 8"

definition ushortget_le :: "uchars \<Rightarrow> (16 word) res" where
  "ushortget_le pM = uint2korr pM"

definition shortget_le :: "uchars \<Rightarrow> (16 word) res" where
  "shortget_le pM = sint2korr pM"

definition longget_le :: "uchars \<Rightarrow> (32 word) res" where
  "longget_le pM = sint4korr pM"

definition ulongget_le :: "uchars \<Rightarrow> (32 word) res" where
  "ulongget_le pM = uint4korr pM"

definition shortstore_le :: "uchars \<Rightarrow> 16 word \<Rightarrow> uchars res" where
  "shortstore_le T V = int2store T V"

definition longstore_le :: "uchars \<Rightarrow> 32 word \<Rightarrow> uchars res" where
  "longstore_le T V = int4store T V"

definition longlongget_le :: "uchars \<Rightarrow> (64 word) res" where
  "longlongget_le M = rbind (mem_read M 0 8) (\<lambda>bs. Inr (of_nat (le_val bs)))"

definition longlongstore_le :: "uchars \<Rightarrow> 64 word \<Rightarrow> uchars res" where
  "longlongstore_le T V = mem_write T 0 (le_bytes 8 (unat V))"

section \<open>big\_endian.h\<close>

definition float4store_be :: "uchars \<Rightarrow> uchars \<Rightarrow> uchars res" where
  "float4store_be T A = copy_bytes [(0, 3), (1, 2), (2, 1), (3, 0)] A T"

definition float4get_be :: "uchars \<Rightarrow> uchars res" where
  "float4get_be M = copy_bytes [(0, 3), (1, 2), (2, 1), (3, 0)] M (replicate 4 0)"

definition float8store_be :: "uchars \<Rightarrow> uchars \<Rightarrow> uchars res" where
  "float8store_be T V =
     copy_bytes [(0, 7), (1, 6), (2, 5), (3, 4), (4, 3), (5, 2), (6, 1), (7, 0)] V T"

definition float8get_be :: "uchars \<Rightarrow> uchars res" where
  "float8get_be M =
     copy_bytes [(0, 7), (1, 6), (2, 5), (3, 4), (4, 3), (5, 2), (6, 1), (7, 0)] M (replicate 8 0)"

definition ushortget_be :: "uchars \<Rightarrow> (16 word) res" where
  "ushortget_be pM =
     rbind (byte_at pM 1) (\<lambda>a1. rbind (byte_at pM 0) (\<lambda>a0.
       Inr (ucast ((ucast a1 :: 32 word) + push_bit 8 (ucast a0)))))"

definition shortget_be :: "uchars \<Rightarrow> (16 word) res" where
  "shortget_be pM =
     rbind (byte_at pM 1) (\<lambda>a1. rbind (byte_at pM 0) (\<lambda>a0.
       Inr (ucast ((ucast a1 :: 32 word) + push_bit 8 (ucast a0)))))"

text \<open>A variable that is filled byte by byte on a big-endian machine: high byte first.\<close>

definition be_val :: "uchars \<Rightarrow> nat" where
  "be_val bs = le_val (rev bs)"

definition be_bytes :: "nat \<Rightarrow> nat \<Rightarrow> uchars" where
  "be_bytes k n = rev (le_bytes k n)"

definition longget_be :: "uchars \<Rightarrow> (32 word) res" where
  "longget_be pM =
     rbind (copy_bytes [(0, 0), (1, 1), (2, 2), (3, 3)] pM (replicate 4 0)) (\<lambda>def_temp.
       Inr (of_nat (be_val def_temp)))"

definition ulongget_be :: "uchars \<Rightarrow> (32 word) res" where
  "ulongget_be pM =
     rbind (copy_bytes [(0, 0), (1, 1), (2, 2), (3, 3)] pM (replicate 4 0)) (\<lambda>def_temp.
       Inr (of_nat (be_val def_temp)))"

text \<open>The arguments are signed: \<open>A\<close> is sign-extended, and its right shifts are arithmetic.\<close>

definition shortstore_be :: "uchars \<Rightarrow> 16 word \<Rightarrow> uchars res" where
  "shortstore_be T A =
     (let def_temp = (scast A :: 32 word) in
      rbind (put_byte 1 (ucast def_temp) T) (\<lambda>T.
        put_byte 0 (ucast (drop_bit 8 def_temp)) T))"

definition longstore_be :: "uchars \<Rightarrow> 32 word \<Rightarrow> uchars res" where
  "longstore_be T A =
     rbind (put_byte 3 (ucast A) T) (\<lambda>T.
     rbind (put_byte 2 (ucast (signed_drop_bit 8 A)) T) (\<lambda>T.
     rbind (put_byte 1 (ucast (signed_drop_bit 16 A)) T) (\<lambda>T.
       put_byte 0 (ucast (signed_drop_bit 24 A)) T)))"

definition floatget_be :: "uchars \<Rightarrow> uchars res" where
  "floatget_be M = mem_read M 0 4"

definition floatstore_be :: "uchars \<Rightarrow> uchars \<Rightarrow> uchars res" where
  "floatstore_be T V = rbind (mem_read V 0 4) (mem_write T 0)"

definition doubleget_be :: "uchars \<Rightarrow> uchars res" where
  "doubleget_be M = mem_read M 0 8"

definition doublestore_be :: "uchars \<Rightarrow> uchars \<Rightarrow> uchars res" where
  "doublestore_be T V = rbind (mem_read V 0 8) (mem_write T 0)"

definition longlongget_be :: "uchars \<Rightarrow> (64 word) res" where
  "longlongget_be M = rbind (mem_read M 0 8) (\<lambda>bs. Inr (of_nat (be_val bs)))"

definition longlongstore_be :: "uchars \<Rightarrow> 64 word \<Rightarrow> uchars res" where
  "longlongstore_be T V = mem_write T 0 (be_bytes 8 (unat V))"

section \<open>my\_byteorder.h: char pointers\<close>

text \<open>The casts between \<open>char*\<close> and \<open>uchar*\<close> reinterpret the bytes.\<close>

definition as_uchars :: "bytes \<Rightarrow> uchars" where
  "as_uchars = map (\<lambda>c. of_nat (of_char c))"

definition as_chars :: "uchars \<Rightarrow> bytes" where
  "as_chars = map (\<lambda>w. char_of (unat w))"

definition on_chars :: "(uchars \<Rightarrow> uchars res) \<Rightarrow> bytes \<Rightarrow> bytes res" where
  "on_chars f T = rbind (f (as_uchars T)) (\<lambda>T. Inr (as_chars T))"

definition sint2korr_char :: "bytes \<Rightarrow> (16 word) res" where
  "sint2korr_char pT = sint2korr (as_uchars pT)"

definition uint2korr_char :: "bytes \<Rightarrow> (16 word) res" where
  "uint2korr_char pT = uint2korr (as_uchars pT)"

definition uint3korr_char :: "bytes \<Rightarrow> (32 word) res" where
  "uint3korr_char pT = uint3korr (as_uchars pT)"

definition sint3korr_char :: "bytes \<Rightarrow> (32 word) res" where
  "sint3korr_char pT = sint3korr (as_uchars pT)"

definition uint4korr_char :: "bytes \<Rightarrow> (32 word) res" where
  "uint4korr_char pT = uint4korr (as_uchars pT)"

definition sint4korr_char :: "bytes \<Rightarrow> (32 word) res" where
  "sint4korr_char pT = sint4korr (as_uchars pT)"

definition uint6korr_char :: "bytes \<Rightarrow> (64 word) res" where
  "uint6korr_char pT = uint6korr (as_uchars pT)"

definition uint8korr_char :: "bytes \<Rightarrow> (64 word) res" where
  "uint8korr_char pT = uint8korr (as_uchars pT)"

definition sint8korr_char :: "bytes \<Rightarrow> (64 word) res" where
  "sint8korr_char pT = sint8korr (as_uchars pT)"

definition int2store_char :: "bytes \<Rightarrow> 16 word \<Rightarrow> bytes res" where
  "int2store_char pT A = on_chars (\<lambda>T. int2store T A) pT"

definition int3store_char :: "bytes \<Rightarrow> 32 word \<Rightarrow> bytes res" where
  "int3store_char pT A = on_chars (\<lambda>T. int3store T A) pT"

definition int4store_char :: "bytes \<Rightarrow> 32 word \<Rightarrow> bytes res" where
  "int4store_char pT A = on_chars (\<lambda>T. int4store T A) pT"

definition int5store_char :: "bytes \<Rightarrow> 64 word \<Rightarrow> bytes res" where
  "int5store_char pT A = on_chars (\<lambda>T. int5store T A) pT"

definition int6store_char :: "bytes \<Rightarrow> 64 word \<Rightarrow> bytes res" where
  "int6store_char pT A = on_chars (\<lambda>T. int6store T A) pT"

definition int8store_char :: "bytes \<Rightarrow> 64 word \<Rightarrow> bytes res" where
  "int8store_char pT A = on_chars (\<lambda>T. int8store T A) pT"

definition float4store_char :: "bytes \<Rightarrow> uchars \<Rightarrow> bytes res" where
  "float4store_char V M = on_chars (\<lambda>T. float4store_le T M) V"

definition float8get_char :: "bytes \<Rightarrow> uchars res" where
  "float8get_char M = float8get_le (as_uchars M)"

definition float8store_char :: "bytes \<Rightarrow> uchars \<Rightarrow> bytes res" where
  "float8store_char V M = on_chars (\<lambda>T. float8store_le T M) V"

lemma as_uchars_chars: "as_uchars (as_chars T) = T"
proof -
  have "(of_nat (of_char (char_of (unat w))) :: 8 word) = w" for w :: "8 word"
    using unat_byte_lt [of w] by simp
  then show ?thesis by (simp add: as_uchars_def as_chars_def map_idI)
qed

lemma length_as_uchars [simp]: "length (as_uchars T) = length T" "length (as_chars A) = length A"
  by (simp_all add: as_uchars_def as_chars_def)

section \<open>The contract of a variable in memory\<close>

locale var_codec =
  fixes k :: nat and get :: "uchars \<Rightarrow> 'v res" and store :: "uchars \<Rightarrow> 'v \<Rightarrow> uchars res"
    and valid :: "'v \<Rightarrow> bool"
  assumes store_get: "valid v \<Longrightarrow> k \<le> length T \<Longrightarrow>
      \<exists>T'. store T v = Inr T' \<and> get T' = Inr v \<and> length T' = length T \<and> drop k T' = drop k T"
    and store_short: "valid v \<Longrightarrow> length T < k \<Longrightarrow> store T v = Inl Out_Of_Bounds"
begin

text \<open>The last store wins, and the memory behind the variable is never touched.\<close>

lemma store_twice:
  assumes "valid v" and "valid w" and "store T v = Inr T1" and "store T1 w = Inr T2"
  shows "get T2 = Inr w \<and> drop k T2 = drop k T"
proof -
  have k: "k \<le> length T" using assms(1,3) store_short [of v T] by (cases "k \<le> length T") auto
  have "length T1 = length T" "drop k T1 = drop k T"
    using store_get [OF assms(1) k] assms(3) by auto
  with store_get [OF assms(2), of T1] assms(4) k show ?thesis by auto
qed

text \<open>On \<open>char\<close> memory the contract gives the same round trip.\<close>

lemma char_roundtrip:
  assumes "valid v" and "k \<le> length T"
  shows "\<exists>T'. on_chars (\<lambda>T. store T v) T = Inr T' \<and> get (as_uchars T') = Inr v \<and> length T' = length T"
  using store_get [OF assms(1), of "as_uchars T"] assms(2)
  by (auto simp: on_chars_def as_uchars_chars)

end

section \<open>Both headers keep the contract\<close>

text \<open>An integer codec of full width is a variable codec.\<close>

lemma int_var_codec:
  assumes "int_codec k load store" and "LENGTH('a::len) = 8 * k"
  shows "var_codec k load (store :: uchars \<Rightarrow> 'a word \<Rightarrow> uchars res) (\<lambda>_. True)"
proof
  fix v :: "'a word" and T :: uchars
  assume k: "k \<le> length T"
  obtain T' where T': "store T v = Inr T'" using int_codec.store_ok [OF assms(1) k] by blast
  obtain w where w: "load T' = Inr w" "unat w = unat v mod 256 ^ k" "length T' = length T" "drop k T' = drop k T"
    using int_codec.load_store [OF assms(1) T'] by blast
  have "unat v < 2 ^ LENGTH('a)" by (rule unsigned_less)
  moreover have "(256::nat) ^ k = 2 ^ LENGTH('a)" by (simp add: assms(2) power_mult)
  ultimately have "w = v" using w(2) by (simp add: word_unat_eq_iff)
  with T' w show "\<exists>T'. store T v = Inr T' \<and> load T' = Inr v \<and> length T' = length T \<and> drop k T' = drop k T"
    by blast
qed (rule int_codec.store_short [OF assms(1)])

lemma sint_uint_korr: "sint2korr = uint2korr" "sint4korr = uint4korr" "sint8korr = uint8korr"
  by (simp_all add: fun_eq_iff sint2korr_def uint2korr_def sint4korr_def uint4korr_def sint8korr_def)

interpretation short_le: var_codec 2 shortget_le shortstore_le "\<lambda>_. True"
  unfolding shortget_le_def shortstore_le_def sint_uint_korr
  by (rule int_var_codec [OF codec2.int_codec_axioms]) simp

interpretation long_le: var_codec 4 longget_le longstore_le "\<lambda>_. True"
  unfolding longget_le_def longstore_le_def sint_uint_korr
  by (rule int_var_codec [OF codec4.int_codec_axioms]) simp

lemma longlong_x86: "longlongget_le = x86_load 8" "longlongstore_le = x86_store 8"
  by (simp_all add: fun_eq_iff longlongget_le_def longlongstore_le_def x86_load_def x86_store_def)

interpretation longlong_le: var_codec 8 longlongget_le longlongstore_le "\<lambda>_. True"
  unfolding longlong_x86 by (rule int_var_codec [OF x86_codec]) simp_all

text \<open>Object representations copied as they are.\<close>

lemma copy_codec:
  "var_codec k (\<lambda>M. mem_read M 0 k) (\<lambda>T V. rbind (mem_read V 0 k) (mem_write T 0)) (\<lambda>f. length f = k)"
  by unfold_locales (auto simp: mem_read_def mem_write_def)

interpretation float4_le: var_codec 4 float4get_le float4store_le "\<lambda>f. length f = 4"
  unfolding float4get_le_def float4store_le_def by (rule copy_codec)

interpretation float8_le: var_codec 8 float8get_le float8store_le "\<lambda>f. length f = 8"
  unfolding float8get_le_def float8store_le_def by (rule copy_codec)

interpretation double_le: var_codec 8 doubleget_le doublestore_le "\<lambda>f. length f = 8"
  unfolding doubleget_le_def doublestore_le_def by (rule copy_codec)

interpretation float_be: var_codec 4 floatget_be floatstore_be "\<lambda>f. length f = 4"
  unfolding floatget_be_def floatstore_be_def by (rule copy_codec)

interpretation double_be: var_codec 8 doubleget_be doublestore_be "\<lambda>f. length f = 8"
  unfolding doubleget_be_def doublestore_be_def by (rule copy_codec)

lemma list4: "length f = 4 \<Longrightarrow> \<exists>a b c d. f = [a, b, c, d]"
  by (auto simp: numeral_eq_Suc length_Suc_conv)

lemma list8: "length f = 8 \<Longrightarrow> \<exists>a b c d e g h i. f = [a, b, c, d, e, g, h, i]"
  by (auto simp: numeral_eq_Suc length_Suc_conv)

lemma prefix4: "4 \<le> length T \<Longrightarrow> \<exists>a b c d r. T = a # b # c # d # r"
  by (auto simp: numeral_eq_Suc Suc_le_length_iff)

lemma prefix8: "8 \<le> length T \<Longrightarrow> \<exists>a b c d e g h i r. T = a # b # c # d # e # g # h # i # r"
  by (auto simp: numeral_eq_Suc Suc_le_length_iff)

lemma replicate48: "replicate 4 (0 :: 8 word) = [0, 0, 0, 0]" "replicate 8 (0 :: 8 word) = [0, 0, 0, 0, 0, 0, 0, 0]"
  by (simp_all add: numeral_eq_Suc)

text \<open>A permutation of the bytes faults as soon as one of its targets is outside.\<close>

lemma copy_bytes_short:
  "(i, j) \<in> set ps \<Longrightarrow> length T \<le> i \<Longrightarrow> copy_bytes ps V T = Inl Out_Of_Bounds"
proof (induction ps V T rule: copy_bytes.induct)
  case (2 i' j' ps V T)
  then show ?case
    by (cases "j' < length V \<and> i' < length T") (auto simp: byte_at_def put_byte_def)
qed simp

interpretation float4_be: var_codec 4 float4get_be float4store_be "\<lambda>f. length f = 4"
proof unfold_locales
  fix f T :: uchars
  assume f: "length f = 4"
  show "\<exists>T'. float4store_be T f = Inr T' \<and> float4get_be T' = Inr f \<and> length T' = length T \<and> drop 4 T' = drop 4 T"
    if "4 \<le> length T"
    using list4 [OF f] prefix4 [OF that]
    by (auto simp: float4store_be_def float4get_be_def replicate48)
  show "float4store_be T f = Inl Out_Of_Bounds" if "length T < 4"
    unfolding float4store_be_def by (rule copy_bytes_short [of 3 0]) (use that in simp_all)
qed

interpretation float8_be: var_codec 8 float8get_be float8store_be "\<lambda>f. length f = 8"
proof unfold_locales
  fix f T :: uchars
  assume f: "length f = 8"
  show "\<exists>T'. float8store_be T f = Inr T' \<and> float8get_be T' = Inr f \<and> length T' = length T \<and> drop 8 T' = drop 8 T"
    if "8 \<le> length T"
    using list8 [OF f] prefix8 [OF that]
    by (auto simp: float8store_be_def float8get_be_def replicate48)
  show "float8store_be T f = Inl Out_Of_Bounds" if "length T < 8"
    unfolding float8store_be_def by (rule copy_bytes_short [of 7 0]) (use that in simp_all)
qed

interpretation double_fbe: var_codec 8 doubleget_fbe doublestore_fbe "\<lambda>f. length f = 8"
proof unfold_locales
  fix f T :: uchars
  assume f: "length f = 8"
  show "\<exists>T'. doublestore_fbe T f = Inr T' \<and> doubleget_fbe T' = Inr f \<and> length T' = length T \<and> drop 8 T' = drop 8 T"
    if "8 \<le> length T"
    using list8 [OF f] prefix8 [OF that]
    by (auto simp: doublestore_fbe_def doubleget_fbe_def replicate48)
  show "doublestore_fbe T f = Inl Out_Of_Bounds" if "length T < 8"
    unfolding doublestore_fbe_def by (rule copy_bytes_short [of 7 3]) (use that in simp_all)
qed

text \<open>Integers of a big-endian machine.\<close>

lemma be_val_bytes: "be_val (be_bytes k n) = n mod 256 ^ k"
  by (simp add: be_val_def be_bytes_def le_val_le_bytes)

lemma shifted_byte:
  assumes "j \<le> 24"
  shows "(ucast (signed_drop_bit j (A :: 32 word)) :: 8 word) = of_nat (unat A div 2 ^ j)"
proof -
  have "(ucast (signed_drop_bit j A) :: 8 word) = ucast (drop_bit j A)"
    using assms by (intro bit_word_eqI) (auto simp: bit_ucast_iff bit_signed_drop_bit_iff bit_drop_bit_eq)
  also have "\<dots> = of_nat (unat A div 2 ^ j)" by (simp only: byte_of unat_drop)
  finally show ?thesis .
qed

lemma extended_byte:
  assumes "j \<le> 8"
  shows "(ucast (drop_bit j (scast (A :: 16 word) :: 32 word)) :: 8 word) = of_nat (unat A div 2 ^ j)"
proof -
  have "(ucast (drop_bit j (scast A :: 32 word)) :: 8 word) = ucast (drop_bit j A)"
    using assms by (intro bit_word_eqI) (auto simp: bit_ucast_iff bit_drop_bit_eq bit_signed_iff)
  also have "\<dots> = of_nat (unat A div 2 ^ j)" by (simp only: byte_of unat_drop)
  finally show ?thesis .
qed

lemma longget_be_eq: "4 \<le> length M \<Longrightarrow> longget_be M = Inr (of_nat (be_val (take 4 M)))"
  by (drule prefix4) (auto simp: longget_be_def replicate48)

lemma longstore_be_eq:
  assumes "4 \<le> length T"
  shows "longstore_be T A = Inr (be_bytes 4 (unat A) @ drop 4 T)"
proof -
  obtain a b c d r where T: "T = a # b # c # d # r" using prefix4 [OF assms] by blast
  have "(ucast A :: 8 word) = of_nat (unat A)" by (rule byte_of)
  then show ?thesis
    using shifted_byte [of 8 A] shifted_byte [of 16 A] shifted_byte [of 24 A]
    by (simp add: T longstore_be_def be_bytes_def le_bytes_numeral div_div del: of_nat_unat)
qed

lemma shortstore_be_eq:
  assumes "2 \<le> length T"
  shows "shortstore_be T A = Inr (be_bytes 2 (unat A) @ drop 2 T)"
proof -
  obtain a b r where T: "T = a # b # r" using assms by (auto simp: numeral_eq_Suc Suc_le_length_iff)
  show ?thesis
    using extended_byte [of 0 A] extended_byte [of 8 A]
    by (simp add: T shortstore_be_def Let_def be_bytes_def le_bytes_numeral del: of_nat_unat)
qed

lemma shortget_be_eq:
  assumes "2 \<le> length M"
  shows "shortget_be M = Inr (of_nat (be_val (take 2 M)))"
proof -
  obtain a b r where M: "M = a # b # r" using assms by (auto simp: numeral_eq_Suc Suc_le_length_iff)
  have "uint2korr [b, a] = shortget_be M" by (simp add: M uint2korr_def shortget_be_def)
  with codec2.load_ok [of "[b, a]"] show ?thesis by (simp add: M be_val_def)
qed

text \<open>Full-width big-endian loads and stores are inverse.\<close>

lemma be_var_codec:
  fixes get :: "uchars \<Rightarrow> ('a::len) word res"
  assumes g: "\<And>M. k \<le> length M \<Longrightarrow> get M = Inr (of_nat (be_val (take k M)))"
    and s: "\<And>T v. k \<le> length T \<Longrightarrow> store T v = Inr (be_bytes k (unat v) @ drop k T)"
    and f: "\<And>T v. length T < k \<Longrightarrow> store T v = Inl Out_Of_Bounds" and w: "LENGTH('a) = 8 * k"
  shows "var_codec k get store (\<lambda>_. True)"
proof
  fix v :: "'a word" and T :: uchars
  assume k: "k \<le> length T"
  have l: "length (be_bytes k n) = k" for n by (simp add: be_bytes_def)
  have "unat v < 2 ^ LENGTH('a)" by (rule unsigned_less)
  moreover have "(256::nat) ^ k = 2 ^ LENGTH('a)" by (simp add: w power_mult)
  ultimately have "get (be_bytes k (unat v) @ drop k T) = Inr v"
    using g [of "be_bytes k (unat v) @ drop k T"] by (simp add: l be_val_bytes)
  with s [OF k] k l show "\<exists>T'. store T v = Inr T' \<and> get T' = Inr v \<and> length T' = length T \<and> drop k T' = drop k T"
    by simp
qed (rule f)

interpretation short_be: var_codec 2 shortget_be shortstore_be "\<lambda>_. True"
  by (rule be_var_codec [OF shortget_be_eq shortstore_be_eq])
    (auto simp: shortstore_be_def Let_def put_byte_def)

interpretation long_be: var_codec 4 longget_be longstore_be "\<lambda>_. True"
  by (rule be_var_codec [OF longget_be_eq longstore_be_eq])
    (auto simp: longstore_be_def put_byte_def)

interpretation longlong_be: var_codec 8 longlongget_be longlongstore_be "\<lambda>_. True"
  by (rule be_var_codec)
    (auto simp: longlongget_be_def longlongstore_be_def mem_read_def mem_write_def be_bytes_def)

text \<open>
  The portable float format: a machine of either kind writes the same bytes for the same number,
  whose object representations are each other's reversal.
\<close>

lemma float_formats_agree:
  "length f = 4 \<Longrightarrow> 4 \<le> length T \<Longrightarrow> float4store_be T (rev f) = float4store_le T f"
  "length g = 8 \<Longrightarrow> 8 \<le> length T \<Longrightarrow> float8store_be T (rev g) = float8store_le T g"
proof -
  assume f: "length f = 4" and T: "4 \<le> length T"
  show "float4store_be T (rev f) = float4store_le T f"
    using list4 [OF f] prefix4 [OF T]
    by (auto simp: float4store_be_def float4store_le_def mem_read_def mem_write_def)
next
  assume g: "length g = 8" and T: "8 \<le> length T"
  show "float8store_be T (rev g) = float8store_le T g"
    using list8 [OF g] prefix8 [OF T]
    by (auto simp: float8store_be_def float8store_le_def mem_read_def mem_write_def)
qed

end
