(* ===== verification/Psi_Core.thy ===== *)
theory Psi_Core
  imports Engine_Prelude "HOL-Library.State_Monad"
begin

text \<open>
  The common part of the instrumented wrappers of the MySQL headers
  (\<^verbatim>\<open>src/3rd/mysqlcapi/include/mysql/psi\<close>). A wrapper calls the native operation and
  tells the performance schema service (PSI) when it starts and ends. The service and the native
  operations are parameters; the service acts on a state \<open>'p\<close>, the native operations on a
  world \<open>'w\<close>, and a trace records the order of the calls. The locale
  \<open>instrumented\<close> is the contract the headers promise with the word drop-in: a wrapper
  returns what the native operation returns, changes the world in the same way, calls it exactly
  once, and closes every wait that it opened.
\<close>

section \<open>State\<close>

text \<open>
  \<open>Ev_start l\<close> is a call of the service that opened the wait \<open>l\<close>,
  \<open>Ev_end l\<close> the call that closed it; \<open>Ev_psi\<close> is every other call of the service.
\<close>

datatype psi_event = Ev_start nat | Ev_native | Ev_end nat | Ev_psi

record ('p, 'w) psi_state =
  psi_part :: 'p
  world_part :: 'w
  calls :: "psi_event list"

type_synonym ('p, 'w, 'a) psi_op = "(('p, 'w) psi_state, 'a) state"

definition native :: "('w \<Rightarrow> 'a \<times> 'w) \<Rightarrow> ('p, 'w, 'a) psi_op" where
  "native f = State (\<lambda>s.
     let (a, w) = f (world_part s)
     in (a, s\<lparr>world_part := w, calls := calls s @ [Ev_native]\<rparr>))"

definition psi_call :: "('p \<Rightarrow> 'a \<times> 'p) \<Rightarrow> ('p, 'w, 'a) psi_op" where
  "psi_call f = State (\<lambda>s.
     let (a, p) = f (psi_part s) in (a, s\<lparr>psi_part := p, calls := calls s @ [Ev_psi]\<rparr>))"

definition psi_do :: "('p \<Rightarrow> 'p) \<Rightarrow> ('p, 'w, unit) psi_op" where
  "psi_do f = psi_call (\<lambda>p. ((), f p))"

text \<open>A call that may open a wait, and the one that closes it.\<close>

definition start_wait :: "('p \<Rightarrow> nat option \<times> 'p) \<Rightarrow> ('p, 'w, nat option) psi_op" where
  "start_wait f = State (\<lambda>s.
     let (l, p) = f (psi_part s)
     in (l, s\<lparr>psi_part := p, calls := calls s @ [case l of Some l \<Rightarrow> Ev_start l | None \<Rightarrow> Ev_psi]\<rparr>))"

definition end_wait :: "nat \<Rightarrow> ('p \<Rightarrow> 'p) \<Rightarrow> ('p, 'w, unit) psi_op" where
  "end_wait l f = State (\<lambda>s.
     ((), s\<lparr>psi_part := f (psi_part s), calls := calls s @ [Ev_end l]\<rparr>))"

text \<open>The end of a wait that also returns a value.\<close>

definition end_wait_val :: "nat \<Rightarrow> ('p \<Rightarrow> 'a \<times> 'p) \<Rightarrow> ('p, 'w, 'a) psi_op" where
  "end_wait_val l f = State (\<lambda>s.
     let (a, p) = f (psi_part s) in (a, s\<lparr>psi_part := p, calls := calls s @ [Ev_end l]\<rparr>))"

section \<open>Operations and states, as \<^verbatim>\<open>psi.h\<close> lists them\<close>

datatype PSI_mutex_operation
  = PSI_MUTEX_LOCK | PSI_MUTEX_TRYLOCK

datatype PSI_rwlock_operation
  = PSI_RWLOCK_READLOCK | PSI_RWLOCK_WRITELOCK | PSI_RWLOCK_TRYREADLOCK
  | PSI_RWLOCK_TRYWRITELOCK | PSI_RWLOCK_SHAREDLOCK | PSI_RWLOCK_SHAREDEXCLUSIVELOCK
  | PSI_RWLOCK_EXCLUSIVELOCK | PSI_RWLOCK_TRYSHAREDLOCK | PSI_RWLOCK_TRYSHAREDEXCLUSIVELOCK
  | PSI_RWLOCK_TRYEXCLUSIVELOCK

datatype PSI_cond_operation
  = PSI_COND_WAIT | PSI_COND_TIMEDWAIT

datatype PSI_file_operation
  = PSI_FILE_CREATE | PSI_FILE_CREATE_TMP | PSI_FILE_OPEN | PSI_FILE_STREAM_OPEN
  | PSI_FILE_CLOSE | PSI_FILE_STREAM_CLOSE | PSI_FILE_READ | PSI_FILE_WRITE | PSI_FILE_SEEK
  | PSI_FILE_TELL | PSI_FILE_FLUSH | PSI_FILE_STAT | PSI_FILE_FSTAT | PSI_FILE_CHSIZE
  | PSI_FILE_DELETE | PSI_FILE_RENAME | PSI_FILE_SYNC

datatype PSI_socket_state
  = PSI_SOCKET_STATE_IDLE | PSI_SOCKET_STATE_ACTIVE

datatype PSI_socket_operation
  = PSI_SOCKET_CREATE | PSI_SOCKET_CONNECT | PSI_SOCKET_BIND | PSI_SOCKET_CLOSE
  | PSI_SOCKET_SEND | PSI_SOCKET_RECV | PSI_SOCKET_SENDTO | PSI_SOCKET_RECVFROM
  | PSI_SOCKET_SENDMSG | PSI_SOCKET_RECVMSG | PSI_SOCKET_SEEK | PSI_SOCKET_OPT
  | PSI_SOCKET_STAT | PSI_SOCKET_SHUTDOWN | PSI_SOCKET_SELECT

text \<open>A position in the source, passed on to the service.\<close>

type_synonym src_pos = "bytes \<times> nat"

section \<open>The shapes of the wrappers\<close>

text \<open>The hook of an object, when the interface is compiled in.\<close>

definition hook :: "bool \<Rightarrow> nat option \<Rightarrow> nat option" where
  "hook have_psi m_psi = (if have_psi then m_psi else None)"

text \<open>Threads and sockets: the object's hook decides, then the service may open a wait.\<close>

definition psi_wait :: "nat option \<Rightarrow> (nat \<Rightarrow> 'p \<Rightarrow> nat option \<times> 'p) \<Rightarrow> (nat \<Rightarrow> 'a \<Rightarrow> 'p \<Rightarrow> 'p) \<Rightarrow>
    ('w \<Rightarrow> 'a \<times> 'w) \<Rightarrow> ('p, 'w, 'a) psi_op" where
  "psi_wait m_psi start finish raw =
     (case m_psi of
        None \<Rightarrow> native raw
      | Some h \<Rightarrow> do {
          locker \<leftarrow> start_wait (start h);
          result \<leftarrow> native raw;
          (case locker of None \<Rightarrow> State_Monad.return () | Some l \<Rightarrow> end_wait l (finish l result));
          State_Monad.return result
        })"

text \<open>Operations that only notify the service before the native call.\<close>

definition psi_notify :: "nat option \<Rightarrow> (nat \<Rightarrow> 'p \<Rightarrow> 'p) \<Rightarrow> ('w \<Rightarrow> 'a \<times> 'w) \<Rightarrow> ('p, 'w, 'a) psi_op" where
  "psi_notify m_psi note raw =
     (case m_psi of
        None \<Rightarrow> native raw
      | Some h \<Rightarrow> do { psi_do (note h); native raw })"

text \<open>
  Files: the service is asked for a locker; with one, the wait is started and ended around the
  native call.
\<close>

definition file_wait :: "bool \<Rightarrow> ('p \<Rightarrow> nat option \<times> 'p) \<Rightarrow> (nat \<Rightarrow> 'p \<Rightarrow> 'p) \<Rightarrow>
    (nat \<Rightarrow> 'a \<Rightarrow> 'p \<Rightarrow> 'p) \<Rightarrow> ('w \<Rightarrow> 'a \<times> 'w) \<Rightarrow> ('p, 'w, 'a) psi_op" where
  "file_wait have_psi get_locker start finish raw =
     (if have_psi then do {
        locker \<leftarrow> start_wait get_locker;
        (case locker of
           Some l \<Rightarrow> do {
             psi_do (start l);
             result \<leftarrow> native raw;
             end_wait l (finish l result);
             State_Monad.return result
           }
         | None \<Rightarrow> native raw)
      }
      else native raw)"

section \<open>Balanced traces\<close>

text \<open>Every wait is closed by its own end, one at a time.\<close>

fun balanced_from :: "nat option \<Rightarrow> psi_event list \<Rightarrow> bool" where
  "balanced_from u [] \<longleftrightarrow> u = None"
| "balanced_from u (Ev_start l # es) \<longleftrightarrow> u = None \<and> balanced_from (Some l) es"
| "balanced_from u (Ev_end l # es) \<longleftrightarrow> u = Some l \<and> balanced_from None es"
| "balanced_from u (Ev_native # es) \<longleftrightarrow> balanced_from u es"
| "balanced_from u (Ev_psi # es) \<longleftrightarrow> balanced_from u es"

definition balanced :: "psi_event list \<Rightarrow> bool" where
  "balanced es \<longleftrightarrow> balanced_from None es"

lemma balanced_from_append: "balanced_from u xs \<Longrightarrow> balanced ys \<Longrightarrow> balanced_from u (xs @ ys)"
  unfolding balanced_def by (induction u xs rule: balanced_from.induct) auto

lemma balanced_append: "balanced xs \<Longrightarrow> balanced ys \<Longrightarrow> balanced (xs @ ys)"
  using balanced_from_append [of None xs ys] by (simp add: balanced_def)

section \<open>The contract\<close>

locale instrumented =
  fixes wrapper :: "('p, 'w, 'a) psi_op" and raw :: "'w \<Rightarrow> 'a \<times> 'w"
  assumes transparent: "run_state wrapper s = (a, s') \<Longrightarrow> raw (world_part s) = (a, world_part s')"
    and bracketed: "run_state wrapper s = (a, s') \<Longrightarrow>
      \<exists>es. calls s' = calls s @ es \<and> balanced es \<and> count_list es Ev_native = 1"
begin

lemma result: "fst (run_state wrapper s) = fst (raw (world_part s))"
  using transparent [of s "fst (run_state wrapper s)" "snd (run_state wrapper s)"] by simp

lemma world: "world_part (snd (run_state wrapper s)) = snd (raw (world_part s))"
  using transparent [of s "fst (run_state wrapper s)" "snd (run_state wrapper s)"] by simp

text \<open>A balanced trace stays balanced.\<close>

lemma keeps_balanced:
  assumes "balanced (calls s)"
  shows "balanced (calls (snd (run_state wrapper s)))"
proof -
  obtain es where "calls (snd (run_state wrapper s)) = calls s @ es" "balanced es"
    using bracketed [of s "fst (run_state wrapper s)" "snd (run_state wrapper s)"] by auto
  with assms show ?thesis by (simp add: balanced_append)
qed

end

lemmas psi_prims = native_def psi_call_def psi_do_def start_wait_def end_wait_def end_wait_val_def
  State_Monad.bind_def State_Monad.return_def

lemma psi_wait_instrumented: "instrumented (psi_wait h start finish raw) raw"
proof
  fix s a s'
  assume r: "run_state (psi_wait h start finish raw) s = (a, s')"
  show "raw (world_part s) = (a, world_part s')"
    using r by (auto simp: psi_wait_def psi_prims split: option.splits prod.splits)
  show "\<exists>es. calls s' = calls s @ es \<and> balanced es \<and> count_list es Ev_native = 1"
    using r by (auto simp: psi_wait_def psi_prims balanced_def split: option.splits prod.splits)
qed

lemma psi_notify_instrumented: "instrumented (psi_notify h note raw) raw"
proof
  fix s a s'
  assume r: "run_state (psi_notify h note raw) s = (a, s')"
  show "raw (world_part s) = (a, world_part s')"
    using r by (auto simp: psi_notify_def psi_prims split: option.splits prod.splits)
  show "\<exists>es. calls s' = calls s @ es \<and> balanced es \<and> count_list es Ev_native = 1"
    using r by (auto simp: psi_notify_def psi_prims balanced_def split: option.splits prod.splits)
qed

lemma file_wait_instrumented: "instrumented (file_wait have get start finish raw) raw"
proof
  fix s a s'
  assume r: "run_state (file_wait have get start finish raw) s = (a, s')"
  show "raw (world_part s) = (a, world_part s')"
    using r by (auto simp: file_wait_def psi_prims split: option.splits prod.splits if_splits)
  show "\<exists>es. calls s' = calls s @ es \<and> balanced es \<and> count_list es Ev_native = 1"
    using r by (auto simp: file_wait_def psi_prims balanced_def split: option.splits prod.splits if_splits)
qed

section \<open>Sequences of calls\<close>

text \<open>A thread that makes one call after the other, with wrappers and with native operations.\<close>

fun run_wrappers :: "('p, 'w, 'a) psi_op list \<Rightarrow> ('p, 'w) psi_state \<Rightarrow> 'a list \<times> ('p, 'w) psi_state" where
  "run_wrappers [] s = ([], s)"
| "run_wrappers (m # ms) s =
     (let (a, s) = run_state m s; (as, s) = run_wrappers ms s in (a # as, s))"

fun run_natives :: "('w \<Rightarrow> 'a \<times> 'w) list \<Rightarrow> 'w \<Rightarrow> 'a list \<times> 'w" where
  "run_natives [] w = ([], w)"
| "run_natives (f # fs) w = (let (a, w) = f w; (as, w) = run_natives fs w in (a # as, w))"

lemma wrappers_transparent:
  "list_all2 instrumented ms fs \<Longrightarrow> run_wrappers ms s = (as, s') \<Longrightarrow>
     run_natives fs (world_part s) = (as, world_part s')
     \<and> (\<exists>es. calls s' = calls s @ es \<and> balanced es \<and> count_list es Ev_native = length ms)"
proof (induction ms fs arbitrary: s as rule: list_all2_induct)
  case Nil
  then show ?case by (auto simp: balanced_def)
next
  case (Cons m ms f fs)
  obtain a s1 where r: "run_state m s = (a, s1)" by fastforce
  obtain bs where bs: "run_wrappers ms s1 = (bs, s')" and as: "as = a # bs"
    using Cons.prems r by (auto simp: Let_def split: prod.splits)
  from Cons.IH [OF bs] obtain es where
    IH: "run_natives fs (world_part s1) = (bs, world_part s')" and
    es: "calls s' = calls s1 @ es" "balanced es" "count_list es Ev_native = length ms"
    by blast
  obtain es0 where es0: "calls s1 = calls s @ es0" "balanced es0" "count_list es0 Ev_native = 1"
    using instrumented.bracketed [OF Cons.hyps(1) r] by blast
  have "run_natives (f # fs) (world_part s) = (as, world_part s')"
    using instrumented.transparent [OF Cons.hyps(1) r] IH as by simp
  moreover have "calls s' = calls s @ (es0 @ es)" using es(1) es0(1) by simp
  moreover have "balanced (es0 @ es)" using es(2) es0(2) by (rule balanced_append [rotated])
  ultimately show ?case using es(3) es0(3) by auto
qed

text \<open>
  Two families of operations, indexed by calls: whatever the calls, the wrappers give the results of the plain
  operations and leave the same world; they make one native call each and close every wait they open.
\<close>

definition replaces_calls :: "('c \<Rightarrow> ('p, 'w, 'a) psi_op) \<Rightarrow> ('c \<Rightarrow> 'w \<Rightarrow> 'a \<times> 'w) \<Rightarrow> bool" where
  "replaces_calls wrapper plain \<longleftrightarrow> (\<forall>cs s as s'. run_wrappers (map wrapper cs) s = (as, s') \<longrightarrow>
     run_natives (map plain cs) (world_part s) = (as, world_part s')
     \<and> (\<exists>es. calls s' = calls s @ es \<and> balanced es \<and> count_list es Ev_native = length cs))"

lemma replaces_callsI:
  assumes "\<And>c. instrumented (wrapper c) (plain c)"
  shows "replaces_calls wrapper plain"
  unfolding replaces_calls_def
proof (intro allI impI)
  fix cs s as s'
  assume "run_wrappers (map wrapper cs) s = (as, s')"
  with wrappers_transparent [of "map wrapper cs" "map plain cs" s as s'] assms
  show "run_natives (map plain cs) (world_part s) = (as, world_part s')
     \<and> (\<exists>es. calls s' = calls s @ es \<and> balanced es \<and> count_list es Ev_native = length cs)"
    by (simp add: list_all2_map1 list_all2_map2 list_all2_same)
qed

end
