(* ===== verification/Psi_File.thy ===== *)
theory Psi_File
  imports Psi_Core
begin

text \<open>
  The inline functions of \<^verbatim>\<open>mysql/psi/mysql_file.h\<close>. A stream is the address of its
  \<open>MYSQL_FILE\<close>, the native stream and the hook; buffers, lists of arguments and areas for
  results are addresses into the world. \<open>size_t\<close>, \<open>my_off_t\<close> and \<open>myf\<close> keep
  their widths.
\<close>

section \<open>The service and the native operations\<close>

record ('p, 'i) psi_file_api =
  have_file :: bool
  register_file :: "bytes \<Rightarrow> 'i \<Rightarrow> int \<Rightarrow> 'p \<Rightarrow> 'p"
  get_thread_file_stream_locker :: "nat option \<Rightarrow> PSI_file_operation \<Rightarrow> 'p \<Rightarrow> nat option \<times> 'p"
  get_thread_file_descriptor_locker :: "int \<Rightarrow> PSI_file_operation \<Rightarrow> 'p \<Rightarrow> nat option \<times> 'p"
  get_thread_file_name_locker :: "nat \<Rightarrow> PSI_file_operation \<Rightarrow> bytes option \<Rightarrow> 'p \<Rightarrow> nat option \<times> 'p"
  start_file_wait :: "nat \<Rightarrow> size_t \<Rightarrow> src_pos \<Rightarrow> 'p \<Rightarrow> 'p"
  end_file_wait :: "nat \<Rightarrow> size_t \<Rightarrow> 'p \<Rightarrow> 'p"
  start_file_open_wait :: "nat \<Rightarrow> src_pos \<Rightarrow> 'p \<Rightarrow> 'p"
  end_file_open_wait :: "nat \<Rightarrow> nat option \<Rightarrow> 'p \<Rightarrow> nat option \<times> 'p"
  end_file_open_wait_and_bind_to_descriptor :: "nat \<Rightarrow> int \<Rightarrow> 'p \<Rightarrow> 'p"
  end_temp_file_open_wait_and_bind_to_descriptor :: "nat \<Rightarrow> int \<Rightarrow> nat \<Rightarrow> 'p \<Rightarrow> 'p"
  start_file_close_wait :: "nat \<Rightarrow> src_pos \<Rightarrow> 'p \<Rightarrow> 'p"
  end_file_close_wait :: "nat \<Rightarrow> int \<Rightarrow> 'p \<Rightarrow> 'p"

text \<open>\<open>fgets\<close> returns the string it stored, or a null pointer.\<close>

record 'w file_api =
  fs_fgets :: "nat \<Rightarrow> int \<Rightarrow> nat \<Rightarrow> 'w \<Rightarrow> bytes option \<times> 'w"
  fs_fgetc :: "nat \<Rightarrow> 'w \<Rightarrow> int \<times> 'w"
  fs_fputs :: "bytes option \<Rightarrow> nat \<Rightarrow> 'w \<Rightarrow> int \<times> 'w"
  fs_fputc :: "char \<Rightarrow> nat \<Rightarrow> 'w \<Rightarrow> int \<times> 'w"
  fs_vfprintf :: "nat \<Rightarrow> bytes \<Rightarrow> nat \<Rightarrow> 'w \<Rightarrow> int \<times> 'w"
  fs_fflush :: "nat \<Rightarrow> 'w \<Rightarrow> int \<times> 'w"
  fs_feof :: "nat \<Rightarrow> 'w \<Rightarrow> int \<times> 'w"
  my_fstat :: "int \<Rightarrow> nat \<Rightarrow> 32 word \<Rightarrow> 'w \<Rightarrow> int \<times> 'w"
  my_stat :: "bytes \<Rightarrow> nat \<Rightarrow> 32 word \<Rightarrow> 'w \<Rightarrow> nat option \<times> 'w"
  my_chsize :: "int \<Rightarrow> 64 word \<Rightarrow> int \<Rightarrow> 32 word \<Rightarrow> 'w \<Rightarrow> int \<times> 'w"
  my_malloc :: "'w \<Rightarrow> nat option \<times> 'w"
  my_free :: "nat \<Rightarrow> 'w \<Rightarrow> 'w"
  my_fopen :: "bytes \<Rightarrow> int \<Rightarrow> 32 word \<Rightarrow> 'w \<Rightarrow> nat option \<times> 'w"
  my_fclose :: "nat \<Rightarrow> 32 word \<Rightarrow> 'w \<Rightarrow> int \<times> 'w"
  my_fread :: "nat \<Rightarrow> nat \<Rightarrow> size_t \<Rightarrow> 32 word \<Rightarrow> 'w \<Rightarrow> size_t \<times> 'w"
  my_fwrite :: "nat \<Rightarrow> nat \<Rightarrow> size_t \<Rightarrow> 32 word \<Rightarrow> 'w \<Rightarrow> size_t \<times> 'w"
  my_fseek :: "nat \<Rightarrow> 64 word \<Rightarrow> int \<Rightarrow> 32 word \<Rightarrow> 'w \<Rightarrow> 64 word \<times> 'w"
  my_ftell :: "nat \<Rightarrow> 32 word \<Rightarrow> 'w \<Rightarrow> 64 word \<times> 'w"
  my_create :: "bytes \<Rightarrow> int \<Rightarrow> int \<Rightarrow> 32 word \<Rightarrow> 'w \<Rightarrow> int \<times> 'w"
  create_temp_file :: "nat \<Rightarrow> bytes \<Rightarrow> bytes \<Rightarrow> int \<Rightarrow> 32 word \<Rightarrow> 'w \<Rightarrow> int \<times> 'w"
  my_open :: "bytes \<Rightarrow> int \<Rightarrow> 32 word \<Rightarrow> 'w \<Rightarrow> int \<times> 'w"
  my_close :: "int \<Rightarrow> 32 word \<Rightarrow> 'w \<Rightarrow> int \<times> 'w"
  my_read :: "int \<Rightarrow> nat \<Rightarrow> size_t \<Rightarrow> 32 word \<Rightarrow> 'w \<Rightarrow> size_t \<times> 'w"
  my_write :: "int \<Rightarrow> nat \<Rightarrow> size_t \<Rightarrow> 32 word \<Rightarrow> 'w \<Rightarrow> size_t \<times> 'w"
  my_pread :: "int \<Rightarrow> nat \<Rightarrow> size_t \<Rightarrow> 64 word \<Rightarrow> 32 word \<Rightarrow> 'w \<Rightarrow> size_t \<times> 'w"
  my_pwrite :: "int \<Rightarrow> nat \<Rightarrow> size_t \<Rightarrow> 64 word \<Rightarrow> 32 word \<Rightarrow> 'w \<Rightarrow> size_t \<times> 'w"
  my_seek :: "int \<Rightarrow> 64 word \<Rightarrow> int \<Rightarrow> 32 word \<Rightarrow> 'w \<Rightarrow> 64 word \<times> 'w"
  my_tell :: "int \<Rightarrow> 32 word \<Rightarrow> 'w \<Rightarrow> 64 word \<times> 'w"
  my_delete :: "bytes \<Rightarrow> 32 word \<Rightarrow> 'w \<Rightarrow> int \<times> 'w"
  my_rename :: "bytes \<Rightarrow> bytes \<Rightarrow> 32 word \<Rightarrow> 'w \<Rightarrow> int \<times> 'w"
  my_create_with_symlink :: "bytes \<Rightarrow> bytes \<Rightarrow> int \<Rightarrow> int \<Rightarrow> 32 word \<Rightarrow> 'w \<Rightarrow> int \<times> 'w"
  my_delete_with_symlink :: "bytes \<Rightarrow> 32 word \<Rightarrow> 'w \<Rightarrow> int \<times> 'w"
  my_rename_with_symlink :: "bytes \<Rightarrow> bytes \<Rightarrow> 32 word \<Rightarrow> 'w \<Rightarrow> int \<times> 'w"
  my_sync :: "int \<Rightarrow> 32 word \<Rightarrow> 'w \<Rightarrow> int \<times> 'w"

definition MY_FILE_ERROR :: size_t where "MY_FILE_ERROR = - 1"
definition MY_FNABP :: "32 word" where "MY_FNABP = 2"
definition MY_NABP :: "32 word" where "MY_NABP = 4"

record mysql_file =
  file_addr :: nat
  m_file :: nat
  file_psi :: "nat option"

text \<open>
  How many bytes a read or write is reported to have moved: with the flags \<open>MY_NABP\<close> or
  \<open>MY_FNABP\<close> the native function returns 0 for success, otherwise the number of bytes.
\<close>

definition moved_bytes :: "32 word \<Rightarrow> size_t \<Rightarrow> size_t \<Rightarrow> size_t" where
  "moved_bytes flags count result =
     (if and flags (or MY_NABP MY_FNABP) \<noteq> 0 then (if result = 0 then count else 0)
      else (if result \<noteq> MY_FILE_ERROR then result else 0))"

section \<open>Streams\<close>

definition inline_mysql_file_register :: "('p, 'i) psi_file_api \<Rightarrow> bytes \<Rightarrow> 'i \<Rightarrow> int \<Rightarrow> ('p, 'w, unit) psi_op" where
  "inline_mysql_file_register api category info count =
     (if have_file api then psi_do (register_file api category info count) else State_Monad.return ())"

definition inline_mysql_file_fgets :: "('p, 'i) psi_file_api \<Rightarrow> 'w file_api \<Rightarrow> nat \<Rightarrow> int \<Rightarrow> mysql_file \<Rightarrow> src_pos \<Rightarrow> ('p, 'w, bytes option) psi_op" where
  "inline_mysql_file_fgets api fs str n file src =
     file_wait (have_file api) (get_thread_file_stream_locker api (file_psi file) PSI_FILE_READ)
       (\<lambda>l. start_file_wait api l (word_of_int n) src)
       (\<lambda>l result. end_file_wait api l (case result of Some r \<Rightarrow> of_nat (length (c_str r)) | None \<Rightarrow> 0))
       (fs_fgets fs str n (m_file file))"

definition inline_mysql_file_fgetc :: "('p, 'i) psi_file_api \<Rightarrow> 'w file_api \<Rightarrow> mysql_file \<Rightarrow> src_pos \<Rightarrow> ('p, 'w, int) psi_op" where
  "inline_mysql_file_fgetc api fs file src =
     file_wait (have_file api) (get_thread_file_stream_locker api (file_psi file) PSI_FILE_READ)
       (\<lambda>l. start_file_wait api l 1 src)
       (\<lambda>l result. end_file_wait api l 1)
       (fs_fgetc fs (m_file file))"

definition inline_mysql_file_fputs :: "('p, 'i) psi_file_api \<Rightarrow> 'w file_api \<Rightarrow> bytes option \<Rightarrow> mysql_file \<Rightarrow> src_pos \<Rightarrow> ('p, 'w, int) psi_op" where
  "inline_mysql_file_fputs api fs str file src =
     file_wait (have_file api) (get_thread_file_stream_locker api (file_psi file) PSI_FILE_WRITE)
       (\<lambda>l. start_file_wait api l (case str of Some r \<Rightarrow> of_nat (length (c_str r)) | None \<Rightarrow> 0) src)
       (\<lambda>l result. end_file_wait api l (case str of Some r \<Rightarrow> of_nat (length (c_str r)) | None \<Rightarrow> 0))
       (fs_fputs fs str (m_file file))"

definition inline_mysql_file_fputc :: "('p, 'i) psi_file_api \<Rightarrow> 'w file_api \<Rightarrow> char \<Rightarrow> mysql_file \<Rightarrow> src_pos \<Rightarrow> ('p, 'w, int) psi_op" where
  "inline_mysql_file_fputc api fs c file src =
     file_wait (have_file api) (get_thread_file_stream_locker api (file_psi file) PSI_FILE_WRITE)
       (\<lambda>l. start_file_wait api l 1 src)
       (\<lambda>l result. end_file_wait api l 1)
       (fs_fputc fs c (m_file file))"

text \<open>\<open>fprintf\<close> has no source position of its caller: it passes its own.\<close>

definition inline_mysql_file_fprintf :: "('p, 'i) psi_file_api \<Rightarrow> 'w file_api \<Rightarrow> mysql_file \<Rightarrow> bytes \<Rightarrow> nat \<Rightarrow> ('p, 'w, int) psi_op" where
  "inline_mysql_file_fprintf api fs file format args =
     file_wait (have_file api) (get_thread_file_stream_locker api (file_psi file) PSI_FILE_WRITE)
       (\<lambda>l. start_file_wait api l 0 (''mysql_file.h'', 650))
       (\<lambda>l result. end_file_wait api l (word_of_int result))
       (fs_vfprintf fs (m_file file) format args)"

definition inline_mysql_file_vfprintf :: "('p, 'i) psi_file_api \<Rightarrow> 'w file_api \<Rightarrow> mysql_file \<Rightarrow> bytes \<Rightarrow> nat \<Rightarrow> src_pos \<Rightarrow> ('p, 'w, int) psi_op" where
  "inline_mysql_file_vfprintf api fs file format args src =
     file_wait (have_file api) (get_thread_file_stream_locker api (file_psi file) PSI_FILE_WRITE)
       (\<lambda>l. start_file_wait api l 0 src)
       (\<lambda>l result. end_file_wait api l (word_of_int result))
       (fs_vfprintf fs (m_file file) format args)"

definition inline_mysql_file_fflush :: "('p, 'i) psi_file_api \<Rightarrow> 'w file_api \<Rightarrow> mysql_file \<Rightarrow> src_pos \<Rightarrow> ('p, 'w, int) psi_op" where
  "inline_mysql_file_fflush api fs file src =
     file_wait (have_file api) (get_thread_file_stream_locker api (file_psi file) PSI_FILE_FLUSH)
       (\<lambda>l. start_file_wait api l 0 src)
       (\<lambda>l result. end_file_wait api l 0)
       (fs_fflush fs (m_file file))"

definition inline_mysql_file_feof :: "'w file_api \<Rightarrow> mysql_file \<Rightarrow> ('p, 'w, int) psi_op" where
  "inline_mysql_file_feof fs file = native (fs_feof fs (m_file file))"

definition inline_mysql_file_fread :: "('p, 'i) psi_file_api \<Rightarrow> 'w file_api \<Rightarrow> mysql_file \<Rightarrow> nat \<Rightarrow> size_t \<Rightarrow> 32 word \<Rightarrow> src_pos \<Rightarrow> ('p, 'w, size_t) psi_op" where
  "inline_mysql_file_fread api fs file buffer count flags src =
     file_wait (have_file api) (get_thread_file_stream_locker api (file_psi file) PSI_FILE_READ)
       (\<lambda>l. start_file_wait api l count src)
       (\<lambda>l result. end_file_wait api l (moved_bytes flags count result))
       (my_fread fs (m_file file) buffer count flags)"

definition inline_mysql_file_fwrite :: "('p, 'i) psi_file_api \<Rightarrow> 'w file_api \<Rightarrow> mysql_file \<Rightarrow> nat \<Rightarrow> size_t \<Rightarrow> 32 word \<Rightarrow> src_pos \<Rightarrow> ('p, 'w, size_t) psi_op" where
  "inline_mysql_file_fwrite api fs file buffer count flags src =
     file_wait (have_file api) (get_thread_file_stream_locker api (file_psi file) PSI_FILE_WRITE)
       (\<lambda>l. start_file_wait api l count src)
       (\<lambda>l result. end_file_wait api l (moved_bytes flags count result))
       (my_fwrite fs (m_file file) buffer count flags)"

definition inline_mysql_file_fseek :: "('p, 'i) psi_file_api \<Rightarrow> 'w file_api \<Rightarrow> mysql_file \<Rightarrow> 64 word \<Rightarrow> int \<Rightarrow> 32 word \<Rightarrow> src_pos \<Rightarrow> ('p, 'w, 64 word) psi_op" where
  "inline_mysql_file_fseek api fs file pos whence flags src =
     file_wait (have_file api) (get_thread_file_stream_locker api (file_psi file) PSI_FILE_SEEK)
       (\<lambda>l. start_file_wait api l 0 src)
       (\<lambda>l result. end_file_wait api l 0)
       (my_fseek fs (m_file file) pos whence flags)"

definition inline_mysql_file_ftell :: "('p, 'i) psi_file_api \<Rightarrow> 'w file_api \<Rightarrow> mysql_file \<Rightarrow> 32 word \<Rightarrow> src_pos \<Rightarrow> ('p, 'w, 64 word) psi_op" where
  "inline_mysql_file_ftell api fs file flags src =
     file_wait (have_file api) (get_thread_file_stream_locker api (file_psi file) PSI_FILE_TELL)
       (\<lambda>l. start_file_wait api l 0 src)
       (\<lambda>l result. end_file_wait api l 0)
       (my_ftell fs (m_file file) flags)"

text \<open>
  Opening a stream allocates its structure; when the native open fails the structure is freed.
  Closing frees it.
\<close>

definition inline_mysql_file_fopen :: "('p, 'i) psi_file_api \<Rightarrow> 'w file_api \<Rightarrow> nat \<Rightarrow> bytes \<Rightarrow> int \<Rightarrow> 32 word \<Rightarrow>
    src_pos \<Rightarrow> ('p, 'w, mysql_file option) psi_op" where
  "inline_mysql_file_fopen api fs key filename flags myFlags src =
     do {
       that \<leftarrow> native (my_malloc fs);
       (case that of
          None \<Rightarrow> State_Monad.return None
        | Some that \<Rightarrow> do {
            locker \<leftarrow> (if have_file api
              then start_wait (get_thread_file_name_locker api key PSI_FILE_STREAM_OPEN (Some filename))
              else State_Monad.return None);
            (case locker of
               Some l \<Rightarrow> do {
                 psi_do (start_file_open_wait api l src);
                 f \<leftarrow> native (my_fopen fs filename flags myFlags);
                 h \<leftarrow> end_wait_val l (end_file_open_wait api l f);
                 (case f of
                    None \<Rightarrow> do { native (\<lambda>w. ((), my_free fs that w)); State_Monad.return None }
                  | Some f \<Rightarrow> State_Monad.return (Some \<lparr>file_addr = that, m_file = f, file_psi = h\<rparr>))
               }
             | None \<Rightarrow> do {
                 f \<leftarrow> native (my_fopen fs filename flags myFlags);
                 (case f of
                    None \<Rightarrow> do { native (\<lambda>w. ((), my_free fs that w)); State_Monad.return None }
                  | Some f \<Rightarrow> State_Monad.return (Some \<lparr>file_addr = that, m_file = f, file_psi = None\<rparr>))
               })
          })
     }"

definition inline_mysql_file_fclose :: "('p, 'i) psi_file_api \<Rightarrow> 'w file_api \<Rightarrow> mysql_file option \<Rightarrow> 32 word \<Rightarrow>
    src_pos \<Rightarrow> ('p, 'w, int) psi_op" where
  "inline_mysql_file_fclose api fs file flags src =
     (case file of
        None \<Rightarrow> State_Monad.return 0
      | Some file \<Rightarrow> do {
          result \<leftarrow> file_wait (have_file api)
            (get_thread_file_stream_locker api (file_psi file) PSI_FILE_STREAM_CLOSE)
            (\<lambda>l. start_file_close_wait api l src) (end_file_close_wait api)
            (my_fclose fs (m_file file) flags);
          native (\<lambda>w. ((), my_free fs (file_addr file) w));
          State_Monad.return result
        })"

section \<open>Descriptors\<close>

definition inline_mysql_file_fstat :: "('p, 'i) psi_file_api \<Rightarrow> 'w file_api \<Rightarrow> int \<Rightarrow> nat \<Rightarrow> 32 word \<Rightarrow> src_pos \<Rightarrow> ('p, 'w, int) psi_op" where
  "inline_mysql_file_fstat api fs filenr stat_area flags src =
     file_wait (have_file api) (get_thread_file_descriptor_locker api filenr PSI_FILE_FSTAT)
       (\<lambda>l. start_file_wait api l 0 src)
       (\<lambda>l result. end_file_wait api l 0)
       (my_fstat fs filenr stat_area flags)"

definition inline_mysql_file_chsize :: "('p, 'i) psi_file_api \<Rightarrow> 'w file_api \<Rightarrow> int \<Rightarrow> 64 word \<Rightarrow> int \<Rightarrow> 32 word \<Rightarrow> src_pos \<Rightarrow> ('p, 'w, int) psi_op" where
  "inline_mysql_file_chsize api fs file newlength filler flags src =
     file_wait (have_file api) (get_thread_file_descriptor_locker api file PSI_FILE_CHSIZE)
       (\<lambda>l. start_file_wait api l newlength src)
       (\<lambda>l result. end_file_wait api l newlength)
       (my_chsize fs file newlength filler flags)"

definition inline_mysql_file_close :: "('p, 'i) psi_file_api \<Rightarrow> 'w file_api \<Rightarrow> int \<Rightarrow> 32 word \<Rightarrow> src_pos \<Rightarrow> ('p, 'w, int) psi_op" where
  "inline_mysql_file_close api fs file flags src =
     file_wait (have_file api) (get_thread_file_descriptor_locker api file PSI_FILE_CLOSE)
       (\<lambda>l. start_file_close_wait api l src)
       (end_file_close_wait api)
       (my_close fs file flags)"

definition inline_mysql_file_read :: "('p, 'i) psi_file_api \<Rightarrow> 'w file_api \<Rightarrow> int \<Rightarrow> nat \<Rightarrow> size_t \<Rightarrow> 32 word \<Rightarrow> src_pos \<Rightarrow> ('p, 'w, size_t) psi_op" where
  "inline_mysql_file_read api fs file buffer count flags src =
     file_wait (have_file api) (get_thread_file_descriptor_locker api file PSI_FILE_READ)
       (\<lambda>l. start_file_wait api l count src)
       (\<lambda>l result. end_file_wait api l (moved_bytes flags count result))
       (my_read fs file buffer count flags)"

definition inline_mysql_file_write :: "('p, 'i) psi_file_api \<Rightarrow> 'w file_api \<Rightarrow> int \<Rightarrow> nat \<Rightarrow> size_t \<Rightarrow> 32 word \<Rightarrow> src_pos \<Rightarrow> ('p, 'w, size_t) psi_op" where
  "inline_mysql_file_write api fs file buffer count flags src =
     file_wait (have_file api) (get_thread_file_descriptor_locker api file PSI_FILE_WRITE)
       (\<lambda>l. start_file_wait api l count src)
       (\<lambda>l result. end_file_wait api l (moved_bytes flags count result))
       (my_write fs file buffer count flags)"

definition inline_mysql_file_pread :: "('p, 'i) psi_file_api \<Rightarrow> 'w file_api \<Rightarrow> int \<Rightarrow> nat \<Rightarrow> size_t \<Rightarrow> 64 word \<Rightarrow> 32 word \<Rightarrow> src_pos \<Rightarrow> ('p, 'w, size_t) psi_op" where
  "inline_mysql_file_pread api fs file buffer count offset flags src =
     file_wait (have_file api) (get_thread_file_descriptor_locker api file PSI_FILE_READ)
       (\<lambda>l. start_file_wait api l count src)
       (\<lambda>l result. end_file_wait api l (moved_bytes flags count result))
       (my_pread fs file buffer count offset flags)"

definition inline_mysql_file_pwrite :: "('p, 'i) psi_file_api \<Rightarrow> 'w file_api \<Rightarrow> int \<Rightarrow> nat \<Rightarrow> size_t \<Rightarrow> 64 word \<Rightarrow> 32 word \<Rightarrow> src_pos \<Rightarrow> ('p, 'w, size_t) psi_op" where
  "inline_mysql_file_pwrite api fs file buffer count offset flags src =
     file_wait (have_file api) (get_thread_file_descriptor_locker api file PSI_FILE_WRITE)
       (\<lambda>l. start_file_wait api l count src)
       (\<lambda>l result. end_file_wait api l (moved_bytes flags count result))
       (my_pwrite fs file buffer count offset flags)"

definition inline_mysql_file_seek :: "('p, 'i) psi_file_api \<Rightarrow> 'w file_api \<Rightarrow> int \<Rightarrow> 64 word \<Rightarrow> int \<Rightarrow> 32 word \<Rightarrow> src_pos \<Rightarrow> ('p, 'w, 64 word) psi_op" where
  "inline_mysql_file_seek api fs file pos whence flags src =
     file_wait (have_file api) (get_thread_file_descriptor_locker api file PSI_FILE_SEEK)
       (\<lambda>l. start_file_wait api l 0 src)
       (\<lambda>l result. end_file_wait api l 0)
       (my_seek fs file pos whence flags)"

definition inline_mysql_file_tell :: "('p, 'i) psi_file_api \<Rightarrow> 'w file_api \<Rightarrow> int \<Rightarrow> 32 word \<Rightarrow> src_pos \<Rightarrow> ('p, 'w, 64 word) psi_op" where
  "inline_mysql_file_tell api fs file flags src =
     file_wait (have_file api) (get_thread_file_descriptor_locker api file PSI_FILE_TELL)
       (\<lambda>l. start_file_wait api l 0 src)
       (\<lambda>l result. end_file_wait api l 0)
       (my_tell fs file flags)"

definition inline_mysql_file_sync :: "('p, 'i) psi_file_api \<Rightarrow> 'w file_api \<Rightarrow> int \<Rightarrow> 32 word \<Rightarrow> src_pos \<Rightarrow> ('p, 'w, int) psi_op" where
  "inline_mysql_file_sync api fs fd flags src =
     file_wait (have_file api) (get_thread_file_descriptor_locker api fd PSI_FILE_SYNC)
       (\<lambda>l. start_file_wait api l 0 src)
       (\<lambda>l result. end_file_wait api l 0)
       (my_sync fs fd flags)"

section \<open>File names\<close>

definition inline_mysql_file_stat :: "('p, 'i) psi_file_api \<Rightarrow> 'w file_api \<Rightarrow> nat \<Rightarrow> bytes \<Rightarrow> nat \<Rightarrow> 32 word \<Rightarrow> src_pos \<Rightarrow> ('p, 'w, nat option) psi_op" where
  "inline_mysql_file_stat api fs key path stat_area flags src =
     file_wait (have_file api) (get_thread_file_name_locker api key PSI_FILE_STAT (Some path))
       (\<lambda>l. start_file_open_wait api l src)
       (\<lambda>l result p. snd (end_file_open_wait api l result p))
       (my_stat fs path stat_area flags)"

definition inline_mysql_file_create :: "('p, 'i) psi_file_api \<Rightarrow> 'w file_api \<Rightarrow> nat \<Rightarrow> bytes \<Rightarrow> int \<Rightarrow> int \<Rightarrow> 32 word \<Rightarrow> src_pos \<Rightarrow> ('p, 'w, int) psi_op" where
  "inline_mysql_file_create api fs key filename create_flags access_flags myFlags src =
     file_wait (have_file api) (get_thread_file_name_locker api key PSI_FILE_CREATE (Some filename))
       (\<lambda>l. start_file_open_wait api l src)
       (end_file_open_wait_and_bind_to_descriptor api)
       (my_create fs filename create_flags access_flags myFlags)"

definition inline_mysql_file_create_temp :: "('p, 'i) psi_file_api \<Rightarrow> 'w file_api \<Rightarrow> nat \<Rightarrow> nat \<Rightarrow> bytes \<Rightarrow> bytes \<Rightarrow> int \<Rightarrow> 32 word \<Rightarrow> src_pos \<Rightarrow> ('p, 'w, int) psi_op" where
  "inline_mysql_file_create_temp api fs key to dir pfx mode myFlags src =
     file_wait (have_file api) (get_thread_file_name_locker api key PSI_FILE_CREATE None)
       (\<lambda>l. start_file_open_wait api l src)
       (\<lambda>l file. end_temp_file_open_wait_and_bind_to_descriptor api l file to)
       (create_temp_file fs to dir pfx mode myFlags)"

definition inline_mysql_file_open :: "('p, 'i) psi_file_api \<Rightarrow> 'w file_api \<Rightarrow> nat \<Rightarrow> bytes \<Rightarrow> int \<Rightarrow> 32 word \<Rightarrow> src_pos \<Rightarrow> ('p, 'w, int) psi_op" where
  "inline_mysql_file_open api fs key filename flags myFlags src =
     file_wait (have_file api) (get_thread_file_name_locker api key PSI_FILE_OPEN (Some filename))
       (\<lambda>l. start_file_open_wait api l src)
       (end_file_open_wait_and_bind_to_descriptor api)
       (my_open fs filename flags myFlags)"

definition inline_mysql_file_delete :: "('p, 'i) psi_file_api \<Rightarrow> 'w file_api \<Rightarrow> nat \<Rightarrow> bytes \<Rightarrow> 32 word \<Rightarrow> src_pos \<Rightarrow> ('p, 'w, int) psi_op" where
  "inline_mysql_file_delete api fs key name flags src =
     file_wait (have_file api) (get_thread_file_name_locker api key PSI_FILE_DELETE (Some name))
       (\<lambda>l. start_file_close_wait api l src)
       (end_file_close_wait api)
       (my_delete fs name flags)"

definition inline_mysql_file_rename :: "('p, 'i) psi_file_api \<Rightarrow> 'w file_api \<Rightarrow> nat \<Rightarrow> bytes \<Rightarrow> bytes \<Rightarrow> 32 word \<Rightarrow> src_pos \<Rightarrow> ('p, 'w, int) psi_op" where
  "inline_mysql_file_rename api fs key from to flags src =
     file_wait (have_file api) (get_thread_file_name_locker api key PSI_FILE_RENAME (Some to))
       (\<lambda>l. start_file_wait api l 0 src)
       (\<lambda>l result. end_file_wait api l 0)
       (my_rename fs from to flags)"

definition inline_mysql_file_create_with_symlink :: "('p, 'i) psi_file_api \<Rightarrow> 'w file_api \<Rightarrow> nat \<Rightarrow> bytes \<Rightarrow> bytes \<Rightarrow> int \<Rightarrow> int \<Rightarrow> 32 word \<Rightarrow> src_pos \<Rightarrow> ('p, 'w, int) psi_op" where
  "inline_mysql_file_create_with_symlink api fs key linkname filename create_flags access_flags flags src =
     file_wait (have_file api) (get_thread_file_name_locker api key PSI_FILE_CREATE (Some filename))
       (\<lambda>l. start_file_open_wait api l src)
       (end_file_open_wait_and_bind_to_descriptor api)
       (my_create_with_symlink fs linkname filename create_flags access_flags flags)"

definition inline_mysql_file_delete_with_symlink :: "('p, 'i) psi_file_api \<Rightarrow> 'w file_api \<Rightarrow> nat \<Rightarrow> bytes \<Rightarrow> 32 word \<Rightarrow> src_pos \<Rightarrow> ('p, 'w, int) psi_op" where
  "inline_mysql_file_delete_with_symlink api fs key name flags src =
     file_wait (have_file api) (get_thread_file_name_locker api key PSI_FILE_DELETE (Some name))
       (\<lambda>l. start_file_close_wait api l src)
       (end_file_close_wait api)
       (my_delete_with_symlink fs name flags)"

definition inline_mysql_file_rename_with_symlink :: "('p, 'i) psi_file_api \<Rightarrow> 'w file_api \<Rightarrow> nat \<Rightarrow> bytes \<Rightarrow> bytes \<Rightarrow> 32 word \<Rightarrow> src_pos \<Rightarrow> ('p, 'w, int) psi_op" where
  "inline_mysql_file_rename_with_symlink api fs key from to flags src =
     file_wait (have_file api) (get_thread_file_name_locker api key PSI_FILE_RENAME (Some to))
       (\<lambda>l. start_file_wait api l 0 src)
       (\<lambda>l result. end_file_wait api l 0)
       (my_rename_with_symlink fs from to flags)"

section \<open>The wrappers keep the contract\<close>

interpretation file_fgets: instrumented "inline_mysql_file_fgets api fs str n file src" "fs_fgets fs str n (m_file file)"
  for api fs "str" "n" "file" "src"
  unfolding inline_mysql_file_fgets_def by (rule file_wait_instrumented)

interpretation file_fgetc: instrumented "inline_mysql_file_fgetc api fs file src" "fs_fgetc fs (m_file file)"
  for api fs "file" "src"
  unfolding inline_mysql_file_fgetc_def by (rule file_wait_instrumented)

interpretation file_fputs: instrumented "inline_mysql_file_fputs api fs str file src" "fs_fputs fs str (m_file file)"
  for api fs "str" "file" "src"
  unfolding inline_mysql_file_fputs_def by (rule file_wait_instrumented)

interpretation file_fputc: instrumented "inline_mysql_file_fputc api fs c file src" "fs_fputc fs c (m_file file)"
  for api fs "c" "file" "src"
  unfolding inline_mysql_file_fputc_def by (rule file_wait_instrumented)

interpretation file_fprintf: instrumented "inline_mysql_file_fprintf api fs file format args" "fs_vfprintf fs (m_file file) format args"
  for api fs "file" "format" "args"
  unfolding inline_mysql_file_fprintf_def by (rule file_wait_instrumented)

interpretation file_vfprintf: instrumented "inline_mysql_file_vfprintf api fs file format args src" "fs_vfprintf fs (m_file file) format args"
  for api fs "file" "format" "args" "src"
  unfolding inline_mysql_file_vfprintf_def by (rule file_wait_instrumented)

interpretation file_fflush: instrumented "inline_mysql_file_fflush api fs file src" "fs_fflush fs (m_file file)"
  for api fs "file" "src"
  unfolding inline_mysql_file_fflush_def by (rule file_wait_instrumented)

interpretation file_fread: instrumented "inline_mysql_file_fread api fs file buffer count flags src" "my_fread fs (m_file file) buffer count flags"
  for api fs "file" "buffer" "count" "flags" "src"
  unfolding inline_mysql_file_fread_def by (rule file_wait_instrumented)

interpretation file_fwrite: instrumented "inline_mysql_file_fwrite api fs file buffer count flags src" "my_fwrite fs (m_file file) buffer count flags"
  for api fs "file" "buffer" "count" "flags" "src"
  unfolding inline_mysql_file_fwrite_def by (rule file_wait_instrumented)

interpretation file_fseek: instrumented "inline_mysql_file_fseek api fs file pos whence flags src" "my_fseek fs (m_file file) pos whence flags"
  for api fs "file" "pos" "whence" "flags" "src"
  unfolding inline_mysql_file_fseek_def by (rule file_wait_instrumented)

interpretation file_ftell: instrumented "inline_mysql_file_ftell api fs file flags src" "my_ftell fs (m_file file) flags"
  for api fs "file" "flags" "src"
  unfolding inline_mysql_file_ftell_def by (rule file_wait_instrumented)

interpretation file_fstat: instrumented "inline_mysql_file_fstat api fs filenr stat_area flags src" "my_fstat fs filenr stat_area flags"
  for api fs "filenr" "stat_area" "flags" "src"
  unfolding inline_mysql_file_fstat_def by (rule file_wait_instrumented)

interpretation file_chsize: instrumented "inline_mysql_file_chsize api fs file newlength filler flags src" "my_chsize fs file newlength filler flags"
  for api fs "file" "newlength" "filler" "flags" "src"
  unfolding inline_mysql_file_chsize_def by (rule file_wait_instrumented)

interpretation file_close: instrumented "inline_mysql_file_close api fs file flags src" "my_close fs file flags"
  for api fs "file" "flags" "src"
  unfolding inline_mysql_file_close_def by (rule file_wait_instrumented)

interpretation file_read: instrumented "inline_mysql_file_read api fs file buffer count flags src" "my_read fs file buffer count flags"
  for api fs "file" "buffer" "count" "flags" "src"
  unfolding inline_mysql_file_read_def by (rule file_wait_instrumented)

interpretation file_write: instrumented "inline_mysql_file_write api fs file buffer count flags src" "my_write fs file buffer count flags"
  for api fs "file" "buffer" "count" "flags" "src"
  unfolding inline_mysql_file_write_def by (rule file_wait_instrumented)

interpretation file_pread: instrumented "inline_mysql_file_pread api fs file buffer count offset flags src" "my_pread fs file buffer count offset flags"
  for api fs "file" "buffer" "count" "offset" "flags" "src"
  unfolding inline_mysql_file_pread_def by (rule file_wait_instrumented)

interpretation file_pwrite: instrumented "inline_mysql_file_pwrite api fs file buffer count offset flags src" "my_pwrite fs file buffer count offset flags"
  for api fs "file" "buffer" "count" "offset" "flags" "src"
  unfolding inline_mysql_file_pwrite_def by (rule file_wait_instrumented)

interpretation file_seek: instrumented "inline_mysql_file_seek api fs file pos whence flags src" "my_seek fs file pos whence flags"
  for api fs "file" "pos" "whence" "flags" "src"
  unfolding inline_mysql_file_seek_def by (rule file_wait_instrumented)

interpretation file_tell: instrumented "inline_mysql_file_tell api fs file flags src" "my_tell fs file flags"
  for api fs "file" "flags" "src"
  unfolding inline_mysql_file_tell_def by (rule file_wait_instrumented)

interpretation file_sync: instrumented "inline_mysql_file_sync api fs fd flags src" "my_sync fs fd flags"
  for api fs "fd" "flags" "src"
  unfolding inline_mysql_file_sync_def by (rule file_wait_instrumented)

interpretation file_stat: instrumented "inline_mysql_file_stat api fs key path stat_area flags src" "my_stat fs path stat_area flags"
  for api fs "key" "path" "stat_area" "flags" "src"
  unfolding inline_mysql_file_stat_def by (rule file_wait_instrumented)

interpretation file_create: instrumented "inline_mysql_file_create api fs key filename create_flags access_flags myFlags src" "my_create fs filename create_flags access_flags myFlags"
  for api fs "key" "filename" "create_flags" "access_flags" "myFlags" "src"
  unfolding inline_mysql_file_create_def by (rule file_wait_instrumented)

interpretation file_create_temp: instrumented "inline_mysql_file_create_temp api fs key to dir pfx mode myFlags src" "create_temp_file fs to dir pfx mode myFlags"
  for api fs "key" "to" "dir" "pfx" "mode" "myFlags" "src"
  unfolding inline_mysql_file_create_temp_def by (rule file_wait_instrumented)

interpretation file_open: instrumented "inline_mysql_file_open api fs key filename flags myFlags src" "my_open fs filename flags myFlags"
  for api fs "key" "filename" "flags" "myFlags" "src"
  unfolding inline_mysql_file_open_def by (rule file_wait_instrumented)

interpretation file_delete: instrumented "inline_mysql_file_delete api fs key name flags src" "my_delete fs name flags"
  for api fs "key" "name" "flags" "src"
  unfolding inline_mysql_file_delete_def by (rule file_wait_instrumented)

interpretation file_rename: instrumented "inline_mysql_file_rename api fs key from to flags src" "my_rename fs from to flags"
  for api fs "key" "from" "to" "flags" "src"
  unfolding inline_mysql_file_rename_def by (rule file_wait_instrumented)

interpretation file_create_with_symlink: instrumented "inline_mysql_file_create_with_symlink api fs key linkname filename create_flags access_flags flags src" "my_create_with_symlink fs linkname filename create_flags access_flags flags"
  for api fs "key" "linkname" "filename" "create_flags" "access_flags" "flags" "src"
  unfolding inline_mysql_file_create_with_symlink_def by (rule file_wait_instrumented)

interpretation file_delete_with_symlink: instrumented "inline_mysql_file_delete_with_symlink api fs key name flags src" "my_delete_with_symlink fs name flags"
  for api fs "key" "name" "flags" "src"
  unfolding inline_mysql_file_delete_with_symlink_def by (rule file_wait_instrumented)

interpretation file_rename_with_symlink: instrumented "inline_mysql_file_rename_with_symlink api fs key from to flags src" "my_rename_with_symlink fs from to flags"
  for api fs "key" "from" "to" "flags" "src"
  unfolding inline_mysql_file_rename_with_symlink_def by (rule file_wait_instrumented)

text \<open>
  The number of bytes reported to the service is at most the number asked for, whenever the native
  function keeps to its own documentation: without the flags it returns at most
  \<open>count\<close>, or the error value.
\<close>

lemma moved_bytes_bound:
  assumes "and flags (or MY_NABP MY_FNABP) = 0 \<Longrightarrow> result \<le> count \<or> result = MY_FILE_ERROR"
  shows "moved_bytes flags count result \<le> count"
  using assms by (auto simp: moved_bytes_def)

lemma moved_bytes_error: "and flags (or MY_NABP MY_FNABP) = 0 \<Longrightarrow> moved_bytes flags count MY_FILE_ERROR = 0"
  by (simp add: moved_bytes_def)

text \<open>
  Opening and closing a stream: the same native calls as without the service, and no structure is
  left behind by a failed open.
\<close>

definition native_fopen :: "'w file_api \<Rightarrow> bytes \<Rightarrow> int \<Rightarrow> 32 word \<Rightarrow> 'w \<Rightarrow> (nat \<times> nat) option \<times> 'w" where
  "native_fopen fs filename flags myFlags w =
     (case my_malloc fs w of
        (None, w) \<Rightarrow> (None, w)
      | (Some a, w) \<Rightarrow>
          (case my_fopen fs filename flags myFlags w of
             (None, w) \<Rightarrow> (None, my_free fs a w)
           | (Some f, w) \<Rightarrow> (Some (a, f), w)))"

lemma fopen_transparent:
  assumes "run_state (inline_mysql_file_fopen api fs key filename flags myFlags src) s = (r, s')"
  shows "native_fopen fs filename flags myFlags (world_part s)
      = (map_option (\<lambda>f. (file_addr f, m_file f)) r, world_part s')
    \<and> (\<exists>es. calls s' = calls s @ es \<and> balanced es)"
proof
  show "native_fopen fs filename flags myFlags (world_part s)
      = (map_option (\<lambda>f. (file_addr f, m_file f)) r, world_part s')"
    using assms
    by (auto simp: inline_mysql_file_fopen_def native_fopen_def psi_prims split: option.splits prod.splits if_splits)
  show "\<exists>es. calls s' = calls s @ es \<and> balanced es"
    using assms
    by (auto simp: inline_mysql_file_fopen_def psi_prims balanced_def split: option.splits prod.splits if_splits)
qed

lemma fclose_transparent:
  assumes "run_state (inline_mysql_file_fclose api fs (Some file) flags src) s = (r, s')"
  shows "my_fclose fs (m_file file) flags (world_part s) = (r, w) \<longrightarrow>
    world_part s' = my_free fs (file_addr file) w"
  using assms
  by (auto simp: inline_mysql_file_fclose_def file_wait_def psi_prims split: option.splits prod.splits if_splits)

section \<open>Programs\<close>

text \<open>The calls a program makes on files, with their results in one type.\<close>

datatype file_value = V_int int | V_word "64 word" | V_str "bytes option" | V_stat "nat option"

definition wrap_value :: "('a \<Rightarrow> file_value) \<Rightarrow> ('p, 'w, 'a) psi_op \<Rightarrow> ('p, 'w, file_value) psi_op" where
  "wrap_value g m = do { a \<leftarrow> m; State_Monad.return (g a) }"

definition native_value :: "('a \<Rightarrow> file_value) \<Rightarrow> ('w \<Rightarrow> 'a \<times> 'w) \<Rightarrow> 'w \<Rightarrow> file_value \<times> 'w" where
  "native_value g f w = (let (a, w) = f w in (g a, w))"

lemma wrap_value_instrumented:
  assumes "instrumented m f"
  shows "instrumented (wrap_value g m) (native_value g f)"
proof
  fix s a s'
  assume "run_state (wrap_value g m) s = (a, s')"
  then obtain b where b: "run_state m s = (b, s')" "a = g b"
    by (auto simp: wrap_value_def psi_prims split: prod.splits)
  show "native_value g f (world_part s) = (a, world_part s')"
    using instrumented.transparent [OF assms b(1)] b(2) by (simp add: native_value_def)
  show "\<exists>es. calls s' = calls s @ es \<and> balanced es \<and> count_list es Ev_native = 1"
    by (rule instrumented.bracketed [OF assms b(1)])
qed

datatype file_call
  = Call_file_fgets nat int mysql_file src_pos
  | Call_file_fgetc mysql_file src_pos
  | Call_file_fputs "bytes option" mysql_file src_pos
  | Call_file_fputc char mysql_file src_pos
  | Call_file_fprintf mysql_file bytes nat
  | Call_file_vfprintf mysql_file bytes nat src_pos
  | Call_file_fflush mysql_file src_pos
  | Call_file_fread mysql_file nat size_t "32 word" src_pos
  | Call_file_fwrite mysql_file nat size_t "32 word" src_pos
  | Call_file_fseek mysql_file "64 word" int "32 word" src_pos
  | Call_file_ftell mysql_file "32 word" src_pos
  | Call_file_fstat int nat "32 word" src_pos
  | Call_file_chsize int "64 word" int "32 word" src_pos
  | Call_file_close int "32 word" src_pos
  | Call_file_read int nat size_t "32 word" src_pos
  | Call_file_write int nat size_t "32 word" src_pos
  | Call_file_pread int nat size_t "64 word" "32 word" src_pos
  | Call_file_pwrite int nat size_t "64 word" "32 word" src_pos
  | Call_file_seek int "64 word" int "32 word" src_pos
  | Call_file_tell int "32 word" src_pos
  | Call_file_sync int "32 word" src_pos
  | Call_file_stat nat bytes nat "32 word" src_pos
  | Call_file_create nat bytes int int "32 word" src_pos
  | Call_file_create_temp nat nat bytes bytes int "32 word" src_pos
  | Call_file_open nat bytes int "32 word" src_pos
  | Call_file_delete nat bytes "32 word" src_pos
  | Call_file_rename nat bytes bytes "32 word" src_pos
  | Call_file_create_with_symlink nat bytes bytes int int "32 word" src_pos
  | Call_file_delete_with_symlink nat bytes "32 word" src_pos
  | Call_file_rename_with_symlink nat bytes bytes "32 word" src_pos

fun file_wrapper :: "('p, 'i) psi_file_api \<Rightarrow> 'w file_api \<Rightarrow> file_call \<Rightarrow> ('p, 'w, file_value) psi_op" where
  "file_wrapper api fs (Call_file_fgets str n file src) = wrap_value V_str (inline_mysql_file_fgets api fs str n file src)"
| "file_wrapper api fs (Call_file_fgetc file src) = wrap_value V_int (inline_mysql_file_fgetc api fs file src)"
| "file_wrapper api fs (Call_file_fputs str file src) = wrap_value V_int (inline_mysql_file_fputs api fs str file src)"
| "file_wrapper api fs (Call_file_fputc c file src) = wrap_value V_int (inline_mysql_file_fputc api fs c file src)"
| "file_wrapper api fs (Call_file_fprintf file format args) = wrap_value V_int (inline_mysql_file_fprintf api fs file format args)"
| "file_wrapper api fs (Call_file_vfprintf file format args src) = wrap_value V_int (inline_mysql_file_vfprintf api fs file format args src)"
| "file_wrapper api fs (Call_file_fflush file src) = wrap_value V_int (inline_mysql_file_fflush api fs file src)"
| "file_wrapper api fs (Call_file_fread file buffer count flags src) = wrap_value V_word (inline_mysql_file_fread api fs file buffer count flags src)"
| "file_wrapper api fs (Call_file_fwrite file buffer count flags src) = wrap_value V_word (inline_mysql_file_fwrite api fs file buffer count flags src)"
| "file_wrapper api fs (Call_file_fseek file pos whence flags src) = wrap_value V_word (inline_mysql_file_fseek api fs file pos whence flags src)"
| "file_wrapper api fs (Call_file_ftell file flags src) = wrap_value V_word (inline_mysql_file_ftell api fs file flags src)"
| "file_wrapper api fs (Call_file_fstat filenr stat_area flags src) = wrap_value V_int (inline_mysql_file_fstat api fs filenr stat_area flags src)"
| "file_wrapper api fs (Call_file_chsize file newlength filler flags src) = wrap_value V_int (inline_mysql_file_chsize api fs file newlength filler flags src)"
| "file_wrapper api fs (Call_file_close file flags src) = wrap_value V_int (inline_mysql_file_close api fs file flags src)"
| "file_wrapper api fs (Call_file_read file buffer count flags src) = wrap_value V_word (inline_mysql_file_read api fs file buffer count flags src)"
| "file_wrapper api fs (Call_file_write file buffer count flags src) = wrap_value V_word (inline_mysql_file_write api fs file buffer count flags src)"
| "file_wrapper api fs (Call_file_pread file buffer count offset flags src) = wrap_value V_word (inline_mysql_file_pread api fs file buffer count offset flags src)"
| "file_wrapper api fs (Call_file_pwrite file buffer count offset flags src) = wrap_value V_word (inline_mysql_file_pwrite api fs file buffer count offset flags src)"
| "file_wrapper api fs (Call_file_seek file pos whence flags src) = wrap_value V_word (inline_mysql_file_seek api fs file pos whence flags src)"
| "file_wrapper api fs (Call_file_tell file flags src) = wrap_value V_word (inline_mysql_file_tell api fs file flags src)"
| "file_wrapper api fs (Call_file_sync fd flags src) = wrap_value V_int (inline_mysql_file_sync api fs fd flags src)"
| "file_wrapper api fs (Call_file_stat key path stat_area flags src) = wrap_value V_stat (inline_mysql_file_stat api fs key path stat_area flags src)"
| "file_wrapper api fs (Call_file_create key filename create_flags access_flags myFlags src) = wrap_value V_int (inline_mysql_file_create api fs key filename create_flags access_flags myFlags src)"
| "file_wrapper api fs (Call_file_create_temp key to dir pfx mode myFlags src) = wrap_value V_int (inline_mysql_file_create_temp api fs key to dir pfx mode myFlags src)"
| "file_wrapper api fs (Call_file_open key filename flags myFlags src) = wrap_value V_int (inline_mysql_file_open api fs key filename flags myFlags src)"
| "file_wrapper api fs (Call_file_delete key name flags src) = wrap_value V_int (inline_mysql_file_delete api fs key name flags src)"
| "file_wrapper api fs (Call_file_rename key from to flags src) = wrap_value V_int (inline_mysql_file_rename api fs key from to flags src)"
| "file_wrapper api fs (Call_file_create_with_symlink key linkname filename create_flags access_flags flags src) = wrap_value V_int (inline_mysql_file_create_with_symlink api fs key linkname filename create_flags access_flags flags src)"
| "file_wrapper api fs (Call_file_delete_with_symlink key name flags src) = wrap_value V_int (inline_mysql_file_delete_with_symlink api fs key name flags src)"
| "file_wrapper api fs (Call_file_rename_with_symlink key from to flags src) = wrap_value V_int (inline_mysql_file_rename_with_symlink api fs key from to flags src)"

fun file_native :: "'w file_api \<Rightarrow> file_call \<Rightarrow> 'w \<Rightarrow> file_value \<times> 'w" where
  "file_native fs (Call_file_fgets str n file src) = native_value V_str (fs_fgets fs str n (m_file file))"
| "file_native fs (Call_file_fgetc file src) = native_value V_int (fs_fgetc fs (m_file file))"
| "file_native fs (Call_file_fputs str file src) = native_value V_int (fs_fputs fs str (m_file file))"
| "file_native fs (Call_file_fputc c file src) = native_value V_int (fs_fputc fs c (m_file file))"
| "file_native fs (Call_file_fprintf file format args) = native_value V_int (fs_vfprintf fs (m_file file) format args)"
| "file_native fs (Call_file_vfprintf file format args src) = native_value V_int (fs_vfprintf fs (m_file file) format args)"
| "file_native fs (Call_file_fflush file src) = native_value V_int (fs_fflush fs (m_file file))"
| "file_native fs (Call_file_fread file buffer count flags src) = native_value V_word (my_fread fs (m_file file) buffer count flags)"
| "file_native fs (Call_file_fwrite file buffer count flags src) = native_value V_word (my_fwrite fs (m_file file) buffer count flags)"
| "file_native fs (Call_file_fseek file pos whence flags src) = native_value V_word (my_fseek fs (m_file file) pos whence flags)"
| "file_native fs (Call_file_ftell file flags src) = native_value V_word (my_ftell fs (m_file file) flags)"
| "file_native fs (Call_file_fstat filenr stat_area flags src) = native_value V_int (my_fstat fs filenr stat_area flags)"
| "file_native fs (Call_file_chsize file newlength filler flags src) = native_value V_int (my_chsize fs file newlength filler flags)"
| "file_native fs (Call_file_close file flags src) = native_value V_int (my_close fs file flags)"
| "file_native fs (Call_file_read file buffer count flags src) = native_value V_word (my_read fs file buffer count flags)"
| "file_native fs (Call_file_write file buffer count flags src) = native_value V_word (my_write fs file buffer count flags)"
| "file_native fs (Call_file_pread file buffer count offset flags src) = native_value V_word (my_pread fs file buffer count offset flags)"
| "file_native fs (Call_file_pwrite file buffer count offset flags src) = native_value V_word (my_pwrite fs file buffer count offset flags)"
| "file_native fs (Call_file_seek file pos whence flags src) = native_value V_word (my_seek fs file pos whence flags)"
| "file_native fs (Call_file_tell file flags src) = native_value V_word (my_tell fs file flags)"
| "file_native fs (Call_file_sync fd flags src) = native_value V_int (my_sync fs fd flags)"
| "file_native fs (Call_file_stat key path stat_area flags src) = native_value V_stat (my_stat fs path stat_area flags)"
| "file_native fs (Call_file_create key filename create_flags access_flags myFlags src) = native_value V_int (my_create fs filename create_flags access_flags myFlags)"
| "file_native fs (Call_file_create_temp key to dir pfx mode myFlags src) = native_value V_int (create_temp_file fs to dir pfx mode myFlags)"
| "file_native fs (Call_file_open key filename flags myFlags src) = native_value V_int (my_open fs filename flags myFlags)"
| "file_native fs (Call_file_delete key name flags src) = native_value V_int (my_delete fs name flags)"
| "file_native fs (Call_file_rename key from to flags src) = native_value V_int (my_rename fs from to flags)"
| "file_native fs (Call_file_create_with_symlink key linkname filename create_flags access_flags flags src) = native_value V_int (my_create_with_symlink fs linkname filename create_flags access_flags flags)"
| "file_native fs (Call_file_delete_with_symlink key name flags src) = native_value V_int (my_delete_with_symlink fs name flags)"
| "file_native fs (Call_file_rename_with_symlink key from to flags src) = native_value V_int (my_rename_with_symlink fs from to flags)"

lemma file_call_instrumented: "instrumented (file_wrapper api fs c) (file_native fs c)"
  by (cases c) (simp_all add: wrap_value_instrumented [OF file_fgets.instrumented_axioms]
    wrap_value_instrumented [OF file_fgetc.instrumented_axioms]
    wrap_value_instrumented [OF file_fputs.instrumented_axioms]
    wrap_value_instrumented [OF file_fputc.instrumented_axioms]
    wrap_value_instrumented [OF file_fprintf.instrumented_axioms]
    wrap_value_instrumented [OF file_vfprintf.instrumented_axioms]
    wrap_value_instrumented [OF file_fflush.instrumented_axioms]
    wrap_value_instrumented [OF file_fread.instrumented_axioms]
    wrap_value_instrumented [OF file_fwrite.instrumented_axioms]
    wrap_value_instrumented [OF file_fseek.instrumented_axioms]
    wrap_value_instrumented [OF file_ftell.instrumented_axioms]
    wrap_value_instrumented [OF file_fstat.instrumented_axioms]
    wrap_value_instrumented [OF file_chsize.instrumented_axioms]
    wrap_value_instrumented [OF file_close.instrumented_axioms]
    wrap_value_instrumented [OF file_read.instrumented_axioms]
    wrap_value_instrumented [OF file_write.instrumented_axioms]
    wrap_value_instrumented [OF file_pread.instrumented_axioms]
    wrap_value_instrumented [OF file_pwrite.instrumented_axioms]
    wrap_value_instrumented [OF file_seek.instrumented_axioms]
    wrap_value_instrumented [OF file_tell.instrumented_axioms]
    wrap_value_instrumented [OF file_sync.instrumented_axioms]
    wrap_value_instrumented [OF file_stat.instrumented_axioms]
    wrap_value_instrumented [OF file_create.instrumented_axioms]
    wrap_value_instrumented [OF file_create_temp.instrumented_axioms]
    wrap_value_instrumented [OF file_open.instrumented_axioms]
    wrap_value_instrumented [OF file_delete.instrumented_axioms]
    wrap_value_instrumented [OF file_rename.instrumented_axioms]
    wrap_value_instrumented [OF file_create_with_symlink.instrumented_axioms]
    wrap_value_instrumented [OF file_delete_with_symlink.instrumented_axioms]
    wrap_value_instrumented [OF file_rename_with_symlink.instrumented_axioms])

text \<open>A program of such calls cannot tell the wrappers from the native operations.\<close>

lemma file_call_program:
  "run_wrappers (map (file_wrapper api fs) cs) s = (as, s') \<Longrightarrow>
     run_natives (map (file_native fs) cs) (world_part s) = (as, world_part s')
     \<and> (\<exists>es. calls s' = calls s @ es \<and> balanced es \<and> count_list es Ev_native = length cs)"
  using wrappers_transparent [of "map (file_wrapper api fs) cs" "map (file_native fs) cs" s as s']
  by (simp add: list_all2_map1 list_all2_map2 list_all2_same file_call_instrumented)

end
