(* ===== verification/Psi_Socket.thy ===== *)
theory Psi_Socket
  imports Psi_Core
begin

text \<open>
  The inline functions of \<^verbatim>\<open>mysql/psi/mysql_socket.h\<close>, as they compile on Linux. A
  socket is its descriptor and its hook. Buffers, addresses and areas for results are addresses
  into the world; the length that \<open>accept\<close> writes back is a value, because it decides what the
  caller and the service see.
\<close>

unbundle bit_operations_syntax

section \<open>The service and the native operations\<close>

type_synonym socklen = "32 word"

record ('p, 'i) psi_socket_api =
  have_socket :: bool
  register_socket :: "bytes \<Rightarrow> 'i \<Rightarrow> int \<Rightarrow> 'p \<Rightarrow> 'p"
  init_socket :: "nat \<Rightarrow> int \<Rightarrow> nat option \<Rightarrow> socklen \<Rightarrow> 'p \<Rightarrow> nat option \<times> 'p"
  destroy_socket :: "nat \<Rightarrow> 'p \<Rightarrow> 'p"
  start_socket_wait :: "nat \<Rightarrow> PSI_socket_operation \<Rightarrow> size_t \<Rightarrow> src_pos \<Rightarrow> 'p \<Rightarrow> nat option \<times> 'p"
  end_socket_wait :: "nat \<Rightarrow> size_t \<Rightarrow> 'p \<Rightarrow> 'p"
  set_socket_state :: "nat \<Rightarrow> PSI_socket_state \<Rightarrow> 'p \<Rightarrow> 'p"
  set_socket_info :: "nat \<Rightarrow> int option \<Rightarrow> nat option \<Rightarrow> socklen \<Rightarrow> 'p \<Rightarrow> 'p"
  set_socket_thread_owner :: "nat \<Rightarrow> 'p \<Rightarrow> 'p"

text \<open>\<open>sk_accept\<close> gets the value of the length and returns the value it leaves there.\<close>

record 'w socket_calls =
  sk_socket :: "int \<Rightarrow> int \<Rightarrow> int \<Rightarrow> 'w \<Rightarrow> int \<times> 'w"
  sk_bind :: "int \<Rightarrow> nat option \<Rightarrow> socklen \<Rightarrow> 'w \<Rightarrow> int \<times> 'w"
  sk_getsockname :: "int \<Rightarrow> nat option \<Rightarrow> nat \<Rightarrow> 'w \<Rightarrow> int \<times> 'w"
  sk_connect :: "int \<Rightarrow> nat option \<Rightarrow> socklen \<Rightarrow> 'w \<Rightarrow> int \<times> 'w"
  sk_getpeername :: "int \<Rightarrow> nat option \<Rightarrow> nat \<Rightarrow> 'w \<Rightarrow> int \<times> 'w"
  sk_send :: "int \<Rightarrow> nat \<Rightarrow> size_t \<Rightarrow> int \<Rightarrow> 'w \<Rightarrow> int \<times> 'w"
  sk_recv :: "int \<Rightarrow> nat \<Rightarrow> size_t \<Rightarrow> int \<Rightarrow> 'w \<Rightarrow> int \<times> 'w"
  sk_sendto :: "int \<Rightarrow> nat \<Rightarrow> size_t \<Rightarrow> int \<Rightarrow> nat option \<Rightarrow> socklen \<Rightarrow> 'w \<Rightarrow> int \<times> 'w"
  sk_recvfrom :: "int \<Rightarrow> nat \<Rightarrow> size_t \<Rightarrow> int \<Rightarrow> nat option \<Rightarrow> nat option \<Rightarrow> 'w \<Rightarrow> int \<times> 'w"
  sk_getsockopt :: "int \<Rightarrow> int \<Rightarrow> int \<Rightarrow> nat \<Rightarrow> nat \<Rightarrow> 'w \<Rightarrow> int \<times> 'w"
  sk_setsockopt :: "int \<Rightarrow> int \<Rightarrow> int \<Rightarrow> nat \<Rightarrow> socklen \<Rightarrow> 'w \<Rightarrow> int \<times> 'w"
  sk_fcntl_getfl :: "int \<Rightarrow> 'w \<Rightarrow> int \<times> 'w"
  sk_fcntl_setfl :: "int \<Rightarrow> int \<Rightarrow> 'w \<Rightarrow> int \<times> 'w"
  sk_errno :: "'w \<Rightarrow> int"
  sk_listen :: "int \<Rightarrow> int \<Rightarrow> 'w \<Rightarrow> int \<times> 'w"
  sk_accept :: "int \<Rightarrow> nat option \<Rightarrow> socklen \<Rightarrow> 'w \<Rightarrow> (int \<times> socklen) \<times> 'w"
  sk_close :: "int \<Rightarrow> 'w \<Rightarrow> int \<times> 'w"
  sk_shutdown :: "int \<Rightarrow> int \<Rightarrow> 'w \<Rightarrow> int \<times> 'w"

definition INVALID_SOCKET :: int where "INVALID_SOCKET = - 1"
definition O_NONBLOCK :: int where "O_NONBLOCK = 2048"

section \<open>The instrumented socket\<close>

record mysql_socket =
  sock_fd :: int
  sock_psi :: "nat option"

definition mysql_socket_invalid :: mysql_socket where
  "mysql_socket_invalid = \<lparr>sock_fd = INVALID_SOCKET, sock_psi = None\<rparr>"

definition mysql_socket_set_address :: "('p, 'i) psi_socket_api \<Rightarrow> mysql_socket \<Rightarrow> nat option \<Rightarrow> socklen \<Rightarrow>
    ('p, 'w, unit) psi_op" where
  "mysql_socket_set_address api sock addr addr_len =
     (case hook (have_socket api) (sock_psi sock) of
        Some h \<Rightarrow> psi_do (set_socket_info api h None addr addr_len)
      | None \<Rightarrow> State_Monad.return ())"

definition mysql_socket_set_thread_owner :: "('p, 'i) psi_socket_api \<Rightarrow> mysql_socket \<Rightarrow> ('p, 'w, unit) psi_op" where
  "mysql_socket_set_thread_owner api sock =
     (case hook (have_socket api) (sock_psi sock) of
        Some h \<Rightarrow> psi_do (set_socket_thread_owner api h)
      | None \<Rightarrow> State_Monad.return ())"

definition mysql_socket_getfd :: "mysql_socket \<Rightarrow> int" where
  "mysql_socket_getfd sock = sock_fd sock"

text \<open>The argument is a pointer; a null pointer is left alone.\<close>

definition mysql_socket_setfd :: "mysql_socket option \<Rightarrow> int \<Rightarrow> mysql_socket option" where
  "mysql_socket_setfd sock fd = (case sock of Some s \<Rightarrow> Some (s\<lparr>sock_fd := fd\<rparr>) | None \<Rightarrow> None)"

text \<open>The helpers of the macros for waits, compiled only with the interface.\<close>

definition inline_mysql_start_socket_wait :: "('p, 'i) psi_socket_api \<Rightarrow> mysql_socket \<Rightarrow> PSI_socket_operation \<Rightarrow>
    size_t \<Rightarrow> src_pos \<Rightarrow> ('p, 'w, nat option) psi_op" where
  "inline_mysql_start_socket_wait api sock opr byte_count src =
     (case sock_psi sock of
        Some h \<Rightarrow> start_wait (start_socket_wait api h opr byte_count src)
      | None \<Rightarrow> State_Monad.return None)"

definition inline_mysql_end_socket_wait :: "('p, 'i) psi_socket_api \<Rightarrow> nat option \<Rightarrow> size_t \<Rightarrow> ('p, 'w, unit) psi_op" where
  "inline_mysql_end_socket_wait api locker byte_count =
     (case locker of
        Some l \<Rightarrow> end_wait l (end_socket_wait api l byte_count)
      | None \<Rightarrow> State_Monad.return ())"

definition inline_mysql_socket_set_state :: "('p, 'i) psi_socket_api \<Rightarrow> mysql_socket \<Rightarrow> PSI_socket_state \<Rightarrow>
    ('p, 'w, unit) psi_op" where
  "inline_mysql_socket_set_state api sock st =
     (case sock_psi sock of
        Some h \<Rightarrow> psi_do (set_socket_state api h st)
      | None \<Rightarrow> State_Monad.return ())"

section \<open>Operations\<close>

text \<open>The number of bytes that is reported for a transfer.\<close>

definition transferred :: "int \<Rightarrow> size_t" where
  "transferred result = (if result > - 1 then word_of_int result else 0)"

definition inline_mysql_socket_register :: "('p, 'i) psi_socket_api \<Rightarrow> bytes \<Rightarrow> 'i \<Rightarrow> int \<Rightarrow> ('p, 'w, unit) psi_op" where
  "inline_mysql_socket_register api category info count = psi_do (register_socket api category info count)"

definition inline_mysql_socket_socket :: "('p, 'i) psi_socket_api \<Rightarrow> 'w socket_calls \<Rightarrow> nat \<Rightarrow> int \<Rightarrow> int \<Rightarrow> int \<Rightarrow>
    ('p, 'w, mysql_socket) psi_op" where
  "inline_mysql_socket_socket api sk key domain type protocol =
     do {
       fd \<leftarrow> native (sk_socket sk domain type protocol);
       h \<leftarrow> (if have_socket api \<and> fd \<noteq> INVALID_SOCKET then psi_call (init_socket api key fd None 0)
             else State_Monad.return None);
       State_Monad.return (mysql_socket_invalid\<lparr>sock_fd := fd, sock_psi := h\<rparr>)
     }"

definition inline_mysql_socket_bind :: "('p, 'i) psi_socket_api \<Rightarrow> 'w socket_calls \<Rightarrow> mysql_socket \<Rightarrow> nat option \<Rightarrow>
    socklen \<Rightarrow> src_pos \<Rightarrow> ('p, 'w, int) psi_op" where
  "inline_mysql_socket_bind api sk sock addr len src =
     (case hook (have_socket api) (sock_psi sock) of
        Some h \<Rightarrow> do {
          locker \<leftarrow> start_wait (start_socket_wait api h PSI_SOCKET_BIND 0 src);
          result \<leftarrow> native (sk_bind sk (sock_fd sock) addr len);
          (if result = 0 then psi_do (set_socket_info api h None addr len) else State_Monad.return ());
          (case locker of Some l \<Rightarrow> end_wait l (end_socket_wait api l 0) | None \<Rightarrow> State_Monad.return ());
          State_Monad.return result
        }
      | None \<Rightarrow> native (sk_bind sk (sock_fd sock) addr len))"

definition inline_mysql_socket_getsockname :: "('p, 'i) psi_socket_api \<Rightarrow> 'w socket_calls \<Rightarrow> mysql_socket \<Rightarrow> nat option \<Rightarrow> nat \<Rightarrow> src_pos \<Rightarrow> ('p, 'w, int) psi_op" where
  "inline_mysql_socket_getsockname api sk sock addr len src =
     psi_wait (hook (have_socket api) (sock_psi sock)) (\<lambda>h. start_socket_wait api h PSI_SOCKET_BIND 0 src)
       (\<lambda>l result. end_socket_wait api l 0) (sk_getsockname sk (sock_fd sock) addr len)"

definition inline_mysql_socket_connect :: "('p, 'i) psi_socket_api \<Rightarrow> 'w socket_calls \<Rightarrow> mysql_socket \<Rightarrow> nat option \<Rightarrow> socklen \<Rightarrow> src_pos \<Rightarrow> ('p, 'w, int) psi_op" where
  "inline_mysql_socket_connect api sk sock addr len src =
     psi_wait (hook (have_socket api) (sock_psi sock)) (\<lambda>h. start_socket_wait api h PSI_SOCKET_CONNECT 0 src)
       (\<lambda>l result. end_socket_wait api l 0) (sk_connect sk (sock_fd sock) addr len)"

definition inline_mysql_socket_getpeername :: "('p, 'i) psi_socket_api \<Rightarrow> 'w socket_calls \<Rightarrow> mysql_socket \<Rightarrow> nat option \<Rightarrow> nat \<Rightarrow> src_pos \<Rightarrow> ('p, 'w, int) psi_op" where
  "inline_mysql_socket_getpeername api sk sock addr len src =
     psi_wait (hook (have_socket api) (sock_psi sock)) (\<lambda>h. start_socket_wait api h PSI_SOCKET_BIND 0 src)
       (\<lambda>l result. end_socket_wait api l 0) (sk_getpeername sk (sock_fd sock) addr len)"

definition inline_mysql_socket_send :: "('p, 'i) psi_socket_api \<Rightarrow> 'w socket_calls \<Rightarrow> mysql_socket \<Rightarrow> nat \<Rightarrow> size_t \<Rightarrow> int \<Rightarrow> src_pos \<Rightarrow> ('p, 'w, int) psi_op" where
  "inline_mysql_socket_send api sk sock buf n flags src =
     psi_wait (hook (have_socket api) (sock_psi sock)) (\<lambda>h. start_socket_wait api h PSI_SOCKET_SEND n src)
       (\<lambda>l result. end_socket_wait api l (transferred result)) (sk_send sk (sock_fd sock) buf n flags)"

definition inline_mysql_socket_recv :: "('p, 'i) psi_socket_api \<Rightarrow> 'w socket_calls \<Rightarrow> mysql_socket \<Rightarrow> nat \<Rightarrow> size_t \<Rightarrow> int \<Rightarrow> src_pos \<Rightarrow> ('p, 'w, int) psi_op" where
  "inline_mysql_socket_recv api sk sock buf n flags src =
     psi_wait (hook (have_socket api) (sock_psi sock)) (\<lambda>h. start_socket_wait api h PSI_SOCKET_RECV 0 src)
       (\<lambda>l result. end_socket_wait api l (transferred result)) (sk_recv sk (sock_fd sock) buf n flags)"

definition inline_mysql_socket_sendto :: "('p, 'i) psi_socket_api \<Rightarrow> 'w socket_calls \<Rightarrow> mysql_socket \<Rightarrow> nat \<Rightarrow> size_t \<Rightarrow> int \<Rightarrow> nat option \<Rightarrow> socklen \<Rightarrow> src_pos \<Rightarrow> ('p, 'w, int) psi_op" where
  "inline_mysql_socket_sendto api sk sock buf n flags addr addr_len src =
     psi_wait (hook (have_socket api) (sock_psi sock)) (\<lambda>h. start_socket_wait api h PSI_SOCKET_SEND n src)
       (\<lambda>l result. end_socket_wait api l (transferred result)) (sk_sendto sk (sock_fd sock) buf n flags addr addr_len)"

definition inline_mysql_socket_recvfrom :: "('p, 'i) psi_socket_api \<Rightarrow> 'w socket_calls \<Rightarrow> mysql_socket \<Rightarrow> nat \<Rightarrow> size_t \<Rightarrow> int \<Rightarrow> nat option \<Rightarrow> nat option \<Rightarrow> src_pos \<Rightarrow> ('p, 'w, int) psi_op" where
  "inline_mysql_socket_recvfrom api sk sock buf n flags addr addr_len src =
     psi_wait (hook (have_socket api) (sock_psi sock)) (\<lambda>h. start_socket_wait api h PSI_SOCKET_RECV 0 src)
       (\<lambda>l result. end_socket_wait api l (transferred result)) (sk_recvfrom sk (sock_fd sock) buf n flags addr addr_len)"

definition inline_mysql_socket_getsockopt :: "('p, 'i) psi_socket_api \<Rightarrow> 'w socket_calls \<Rightarrow> mysql_socket \<Rightarrow> int \<Rightarrow> int \<Rightarrow> nat \<Rightarrow> nat \<Rightarrow> src_pos \<Rightarrow> ('p, 'w, int) psi_op" where
  "inline_mysql_socket_getsockopt api sk sock level optname optval optlen src =
     psi_wait (hook (have_socket api) (sock_psi sock)) (\<lambda>h. start_socket_wait api h PSI_SOCKET_OPT 0 src)
       (\<lambda>l result. end_socket_wait api l 0) (sk_getsockopt sk (sock_fd sock) level optname optval optlen)"

definition inline_mysql_socket_setsockopt :: "('p, 'i) psi_socket_api \<Rightarrow> 'w socket_calls \<Rightarrow> mysql_socket \<Rightarrow> int \<Rightarrow> int \<Rightarrow> nat \<Rightarrow> socklen \<Rightarrow> src_pos \<Rightarrow> ('p, 'w, int) psi_op" where
  "inline_mysql_socket_setsockopt api sk sock level optname optval optlen src =
     psi_wait (hook (have_socket api) (sock_psi sock)) (\<lambda>h. start_socket_wait api h PSI_SOCKET_OPT 0 src)
       (\<lambda>l result. end_socket_wait api l 0) (sk_setsockopt sk (sock_fd sock) level optname optval optlen)"

text \<open>Reading the flags, adding the non-blocking one and writing them back.\<close>

definition set_socket_nonblock :: "'w socket_calls \<Rightarrow> int \<Rightarrow> 'w \<Rightarrow> int \<times> 'w" where
  "set_socket_nonblock sk fd w =
     (let (fd_flags, w) = sk_fcntl_getfl sk fd w in
      if fd_flags < 0 then (sk_errno sk w, w)
      else
        (let fd_flags = fd_flags OR O_NONBLOCK;
             (r, w) = sk_fcntl_setfl sk fd fd_flags w
         in (if r = - 1 then sk_errno sk w else 0, w)))"

definition inline_mysql_sock_set_nonblocking :: "('p, 'i) psi_socket_api \<Rightarrow> 'w socket_calls \<Rightarrow> mysql_socket \<Rightarrow> src_pos \<Rightarrow> ('p, 'w, int) psi_op" where
  "inline_mysql_sock_set_nonblocking api sk sock src =
     psi_wait (hook (have_socket api) (sock_psi sock)) (\<lambda>h. start_socket_wait api h PSI_SOCKET_OPT 0 src)
       (\<lambda>l result. end_socket_wait api l 0) (set_socket_nonblock sk (sock_fd sock))"

definition inline_mysql_socket_listen :: "('p, 'i) psi_socket_api \<Rightarrow> 'w socket_calls \<Rightarrow> mysql_socket \<Rightarrow> int \<Rightarrow> src_pos \<Rightarrow> ('p, 'w, int) psi_op" where
  "inline_mysql_socket_listen api sk sock backlog src =
     psi_wait (hook (have_socket api) (sock_psi sock)) (\<lambda>h. start_socket_wait api h PSI_SOCKET_CONNECT 0 src)
       (\<lambda>l result. end_socket_wait api l 0) (sk_listen sk (sock_fd sock) backlog)"

text \<open>
  \<open>addr_len\<close> is the caller's variable, or a null pointer. The native call works on a copy; the
  second part of the result is what the caller's variable holds afterwards.
\<close>

definition inline_mysql_socket_accept :: "('p, 'i) psi_socket_api \<Rightarrow> 'w socket_calls \<Rightarrow> nat \<Rightarrow> mysql_socket \<Rightarrow>
    nat option \<Rightarrow> socklen option \<Rightarrow> src_pos \<Rightarrow> ('p, 'w, mysql_socket \<times> socklen option) psi_op" where
  "inline_mysql_socket_accept api sk key socket_listen addr addr_len src =
     do {
       let addr_length = (case addr_len of Some n \<Rightarrow> n | None \<Rightarrow> 0);
       r \<leftarrow> psi_wait (hook (have_socket api) (sock_psi socket_listen))
              (\<lambda>h. start_socket_wait api h PSI_SOCKET_CONNECT 0 src)
              (\<lambda>l result. end_socket_wait api l 0)
              (sk_accept sk (sock_fd socket_listen) addr addr_length);
       h \<leftarrow> (if have_socket api \<and> fst r \<noteq> INVALID_SOCKET
              then psi_call (init_socket api key (fst r) addr (snd r))
              else State_Monad.return None);
       State_Monad.return (mysql_socket_invalid\<lparr>sock_fd := fst r, sock_psi := h\<rparr>, addr_len)
     }"

definition inline_mysql_socket_close :: "('p, 'i) psi_socket_api \<Rightarrow> 'w socket_calls \<Rightarrow> mysql_socket \<Rightarrow> src_pos \<Rightarrow>
    ('p, 'w, int) psi_op" where
  "inline_mysql_socket_close api sk sock src =
     (case hook (have_socket api) (sock_psi sock) of
        Some h \<Rightarrow> do {
          locker \<leftarrow> start_wait (start_socket_wait api h PSI_SOCKET_CLOSE 0 src);
          result \<leftarrow> native (sk_close sk (sock_fd sock));
          (case locker of Some l \<Rightarrow> end_wait l (end_socket_wait api l 0) | None \<Rightarrow> State_Monad.return ());
          psi_do (destroy_socket api h);
          State_Monad.return result
        }
      | None \<Rightarrow> native (sk_close sk (sock_fd sock)))"

definition inline_mysql_socket_shutdown :: "('p, 'i) psi_socket_api \<Rightarrow> 'w socket_calls \<Rightarrow> mysql_socket \<Rightarrow> int \<Rightarrow> src_pos \<Rightarrow> ('p, 'w, int) psi_op" where
  "inline_mysql_socket_shutdown api sk sock how src =
     psi_wait (hook (have_socket api) (sock_psi sock)) (\<lambda>h. start_socket_wait api h PSI_SOCKET_SHUTDOWN 0 src)
       (\<lambda>l result. end_socket_wait api l 0) (sk_shutdown sk (sock_fd sock) how)"

section \<open>The wrappers keep the contract\<close>

interpretation socket_getsockname: instrumented "inline_mysql_socket_getsockname api sk sock addr len src" "sk_getsockname sk (sock_fd sock) addr len"
  for api sk sock "addr" "len" "src"
  unfolding inline_mysql_socket_getsockname_def by (rule psi_wait_instrumented)

interpretation socket_connect: instrumented "inline_mysql_socket_connect api sk sock addr len src" "sk_connect sk (sock_fd sock) addr len"
  for api sk sock "addr" "len" "src"
  unfolding inline_mysql_socket_connect_def by (rule psi_wait_instrumented)

interpretation socket_getpeername: instrumented "inline_mysql_socket_getpeername api sk sock addr len src" "sk_getpeername sk (sock_fd sock) addr len"
  for api sk sock "addr" "len" "src"
  unfolding inline_mysql_socket_getpeername_def by (rule psi_wait_instrumented)

interpretation socket_send: instrumented "inline_mysql_socket_send api sk sock buf n flags src" "sk_send sk (sock_fd sock) buf n flags"
  for api sk sock "buf" "n" "flags" "src"
  unfolding inline_mysql_socket_send_def by (rule psi_wait_instrumented)

interpretation socket_recv: instrumented "inline_mysql_socket_recv api sk sock buf n flags src" "sk_recv sk (sock_fd sock) buf n flags"
  for api sk sock "buf" "n" "flags" "src"
  unfolding inline_mysql_socket_recv_def by (rule psi_wait_instrumented)

interpretation socket_sendto: instrumented "inline_mysql_socket_sendto api sk sock buf n flags addr addr_len src" "sk_sendto sk (sock_fd sock) buf n flags addr addr_len"
  for api sk sock "buf" "n" "flags" "addr" "addr_len" "src"
  unfolding inline_mysql_socket_sendto_def by (rule psi_wait_instrumented)

interpretation socket_recvfrom: instrumented "inline_mysql_socket_recvfrom api sk sock buf n flags addr addr_len src" "sk_recvfrom sk (sock_fd sock) buf n flags addr addr_len"
  for api sk sock "buf" "n" "flags" "addr" "addr_len" "src"
  unfolding inline_mysql_socket_recvfrom_def by (rule psi_wait_instrumented)

interpretation socket_getsockopt: instrumented "inline_mysql_socket_getsockopt api sk sock level optname optval optlen src" "sk_getsockopt sk (sock_fd sock) level optname optval optlen"
  for api sk sock "level" "optname" "optval" "optlen" "src"
  unfolding inline_mysql_socket_getsockopt_def by (rule psi_wait_instrumented)

interpretation socket_setsockopt: instrumented "inline_mysql_socket_setsockopt api sk sock level optname optval optlen src" "sk_setsockopt sk (sock_fd sock) level optname optval optlen"
  for api sk sock "level" "optname" "optval" "optlen" "src"
  unfolding inline_mysql_socket_setsockopt_def by (rule psi_wait_instrumented)

interpretation socket_set_nonblocking: instrumented "inline_mysql_sock_set_nonblocking api sk sock src" "set_socket_nonblock sk (sock_fd sock)"
  for api sk sock "src"
  unfolding inline_mysql_sock_set_nonblocking_def by (rule psi_wait_instrumented)

interpretation socket_listen: instrumented "inline_mysql_socket_listen api sk sock backlog src" "sk_listen sk (sock_fd sock) backlog"
  for api sk sock "backlog" "src"
  unfolding inline_mysql_socket_listen_def by (rule psi_wait_instrumented)

interpretation socket_shutdown: instrumented "inline_mysql_socket_shutdown api sk sock how src" "sk_shutdown sk (sock_fd sock) how"
  for api sk sock "how" "src"
  unfolding inline_mysql_socket_shutdown_def by (rule psi_wait_instrumented)

interpretation socket_bind: instrumented "inline_mysql_socket_bind api sk sock addr len src"
    "sk_bind sk (sock_fd sock) addr len"
  for api sk sock addr len src
proof
  fix s a s'
  assume r: "run_state (inline_mysql_socket_bind api sk sock addr len src) s = (a, s')"
  show "sk_bind sk (sock_fd sock) addr len (world_part s) = (a, world_part s')"
    using r by (auto simp: inline_mysql_socket_bind_def psi_prims split: option.splits prod.splits if_splits)
  show "\<exists>es. calls s' = calls s @ es \<and> balanced es \<and> count_list es Ev_native = 1"
    using r by (auto simp: inline_mysql_socket_bind_def psi_prims balanced_def
        split: option.splits prod.splits if_splits)
qed

interpretation socket_close: instrumented "inline_mysql_socket_close api sk sock src" "sk_close sk (sock_fd sock)"
  for api sk sock src
proof
  fix s a s'
  assume r: "run_state (inline_mysql_socket_close api sk sock src) s = (a, s')"
  show "sk_close sk (sock_fd sock) (world_part s) = (a, world_part s')"
    using r by (auto simp: inline_mysql_socket_close_def psi_prims split: option.splits prod.splits)
  show "\<exists>es. calls s' = calls s @ es \<and> balanced es \<and> count_list es Ev_native = 1"
    using r by (auto simp: inline_mysql_socket_close_def psi_prims balanced_def split: option.splits prod.splits)
qed

section \<open>New sockets\<close>

text \<open>A new socket has a hook only when the native call gave a descriptor.\<close>

lemma socket_result:
  "run_state (inline_mysql_socket_socket api sk key domain type protocol) s = (sock, s') \<Longrightarrow>
     sk_socket sk domain type protocol (world_part s) = (sock_fd sock, world_part s')
     \<and> (sock_fd sock = INVALID_SOCKET \<longrightarrow> sock = mysql_socket_invalid)"
  by (auto simp: inline_mysql_socket_socket_def psi_prims mysql_socket_invalid_def
      split: prod.splits if_splits)

text \<open>
  \<open>accept\<close> makes the same native call, but the caller's length keeps its value whatever the
  native call wrote.
\<close>

lemma accept_result:
  assumes "run_state (inline_mysql_socket_accept api sk key socket_listen addr addr_len src) s = ((sock, n), s')"
  shows "(\<exists>m. sk_accept sk (sock_fd socket_listen) addr (case addr_len of Some k \<Rightarrow> k | None \<Rightarrow> 0) (world_part s)
            = ((sock_fd sock, m), world_part s'))
    \<and> n = addr_len \<and> (sock_fd sock = INVALID_SOCKET \<longrightarrow> sock = mysql_socket_invalid)
    \<and> (\<exists>es. calls s' = calls s @ es \<and> balanced es \<and> count_list es Ev_native = 1)"
proof (intro conjI)
  note defs = inline_mysql_socket_accept_def psi_wait_def psi_prims mysql_socket_invalid_def Let_def
  show "\<exists>m. sk_accept sk (sock_fd socket_listen) addr (case addr_len of Some k \<Rightarrow> k | None \<Rightarrow> 0) (world_part s)
            = ((sock_fd sock, m), world_part s')"
    using assms by (auto simp: defs split: prod.splits if_splits option.splits)
  show "n = addr_len"
    using assms by (auto simp: defs split: prod.splits)
  show "sock_fd sock = INVALID_SOCKET \<longrightarrow> sock = mysql_socket_invalid"
    using assms by (auto simp: defs split: prod.splits if_splits)
  show "\<exists>es. calls s' = calls s @ es \<and> balanced es \<and> count_list es Ev_native = 1"
    using assms by (auto simp: defs balanced_def split: prod.splits if_splits option.splits)
qed

section \<open>Non-blocking mode\<close>

text \<open>
  The flags that are written back have the non-blocking bit, keep every bit that was set, and set no
  other one.
\<close>

lemma nonblock_flags:
  fixes fd_flags :: int
  shows "bit (fd_flags OR O_NONBLOCK) i \<longleftrightarrow> bit fd_flags i \<or> i = 11"
proof -
  have "bit O_NONBLOCK i \<longleftrightarrow> i = 11"
    using bit_exp_iff [where 'a = int, of 11 i] by (simp add: O_NONBLOCK_def)
  then show ?thesis by (simp add: bit_or_iff)
qed

lemma set_socket_nonblock_ok:
  assumes "set_socket_nonblock sk fd w = (0, w')" and "\<And>w. sk_errno sk w \<noteq> 0"
  shows "\<exists>fl w1 r. sk_fcntl_getfl sk fd w = (fl, w1) \<and> 0 \<le> fl
    \<and> sk_fcntl_setfl sk fd (fl OR O_NONBLOCK) w1 = (r, w') \<and> r \<noteq> - 1"
  using assms by (auto simp: set_socket_nonblock_def Let_def split: prod.splits if_splits)

lemma transferred_value: "result < 2 ^ 63 \<Longrightarrow> uint (transferred result) = max result 0"
  by (simp add: transferred_def uint_word_of_int take_bit_int_eq_self flip: take_bit_eq_mod)

section \<open>Programs\<close>

text \<open>The calls a program makes on its sockets.\<close>

datatype socket_call
  = Call_socket_getsockname mysql_socket "nat option" nat src_pos
  | Call_socket_connect mysql_socket "nat option" socklen src_pos
  | Call_socket_getpeername mysql_socket "nat option" nat src_pos
  | Call_socket_send mysql_socket nat size_t int src_pos
  | Call_socket_recv mysql_socket nat size_t int src_pos
  | Call_socket_sendto mysql_socket nat size_t int "nat option" socklen src_pos
  | Call_socket_recvfrom mysql_socket nat size_t int "nat option" "nat option" src_pos
  | Call_socket_getsockopt mysql_socket int int nat nat src_pos
  | Call_socket_setsockopt mysql_socket int int nat socklen src_pos
  | Call_socket_set_nonblocking mysql_socket src_pos
  | Call_socket_listen mysql_socket int src_pos
  | Call_socket_shutdown mysql_socket int src_pos
  | Call_socket_bind mysql_socket "nat option" socklen src_pos
  | Call_socket_close mysql_socket src_pos

fun socket_wrapper :: "('p, 'i) psi_socket_api \<Rightarrow> 'w socket_calls \<Rightarrow> socket_call \<Rightarrow> ('p, 'w, int) psi_op" where
  "socket_wrapper api sk (Call_socket_getsockname sock addr len src) = inline_mysql_socket_getsockname api sk sock addr len src"
| "socket_wrapper api sk (Call_socket_connect sock addr len src) = inline_mysql_socket_connect api sk sock addr len src"
| "socket_wrapper api sk (Call_socket_getpeername sock addr len src) = inline_mysql_socket_getpeername api sk sock addr len src"
| "socket_wrapper api sk (Call_socket_send sock buf n flags src) = inline_mysql_socket_send api sk sock buf n flags src"
| "socket_wrapper api sk (Call_socket_recv sock buf n flags src) = inline_mysql_socket_recv api sk sock buf n flags src"
| "socket_wrapper api sk (Call_socket_sendto sock buf n flags addr addr_len src) = inline_mysql_socket_sendto api sk sock buf n flags addr addr_len src"
| "socket_wrapper api sk (Call_socket_recvfrom sock buf n flags addr addr_len src) = inline_mysql_socket_recvfrom api sk sock buf n flags addr addr_len src"
| "socket_wrapper api sk (Call_socket_getsockopt sock level optname optval optlen src) = inline_mysql_socket_getsockopt api sk sock level optname optval optlen src"
| "socket_wrapper api sk (Call_socket_setsockopt sock level optname optval optlen src) = inline_mysql_socket_setsockopt api sk sock level optname optval optlen src"
| "socket_wrapper api sk (Call_socket_set_nonblocking sock src) = inline_mysql_sock_set_nonblocking api sk sock src"
| "socket_wrapper api sk (Call_socket_listen sock backlog src) = inline_mysql_socket_listen api sk sock backlog src"
| "socket_wrapper api sk (Call_socket_shutdown sock how src) = inline_mysql_socket_shutdown api sk sock how src"
| "socket_wrapper api sk (Call_socket_bind sock addr len src) = inline_mysql_socket_bind api sk sock addr len src"
| "socket_wrapper api sk (Call_socket_close sock src) = inline_mysql_socket_close api sk sock src"

fun socket_native :: "'w socket_calls \<Rightarrow> socket_call \<Rightarrow> 'w \<Rightarrow> int \<times> 'w" where
  "socket_native sk (Call_socket_getsockname sock addr len src) = sk_getsockname sk (sock_fd sock) addr len"
| "socket_native sk (Call_socket_connect sock addr len src) = sk_connect sk (sock_fd sock) addr len"
| "socket_native sk (Call_socket_getpeername sock addr len src) = sk_getpeername sk (sock_fd sock) addr len"
| "socket_native sk (Call_socket_send sock buf n flags src) = sk_send sk (sock_fd sock) buf n flags"
| "socket_native sk (Call_socket_recv sock buf n flags src) = sk_recv sk (sock_fd sock) buf n flags"
| "socket_native sk (Call_socket_sendto sock buf n flags addr addr_len src) = sk_sendto sk (sock_fd sock) buf n flags addr addr_len"
| "socket_native sk (Call_socket_recvfrom sock buf n flags addr addr_len src) = sk_recvfrom sk (sock_fd sock) buf n flags addr addr_len"
| "socket_native sk (Call_socket_getsockopt sock level optname optval optlen src) = sk_getsockopt sk (sock_fd sock) level optname optval optlen"
| "socket_native sk (Call_socket_setsockopt sock level optname optval optlen src) = sk_setsockopt sk (sock_fd sock) level optname optval optlen"
| "socket_native sk (Call_socket_set_nonblocking sock src) = set_socket_nonblock sk (sock_fd sock)"
| "socket_native sk (Call_socket_listen sock backlog src) = sk_listen sk (sock_fd sock) backlog"
| "socket_native sk (Call_socket_shutdown sock how src) = sk_shutdown sk (sock_fd sock) how"
| "socket_native sk (Call_socket_bind sock addr len src) = sk_bind sk (sock_fd sock) addr len"
| "socket_native sk (Call_socket_close sock src) = sk_close sk (sock_fd sock)"

lemma socket_call_instrumented: "instrumented (socket_wrapper api sk c) (socket_native sk c)"
  by (cases c) (simp_all add: socket_getsockname.instrumented_axioms
    socket_connect.instrumented_axioms
    socket_getpeername.instrumented_axioms
    socket_send.instrumented_axioms
    socket_recv.instrumented_axioms
    socket_sendto.instrumented_axioms
    socket_recvfrom.instrumented_axioms
    socket_getsockopt.instrumented_axioms
    socket_setsockopt.instrumented_axioms
    socket_set_nonblocking.instrumented_axioms
    socket_listen.instrumented_axioms
    socket_shutdown.instrumented_axioms
    socket_bind.instrumented_axioms
    socket_close.instrumented_axioms)

text \<open>A program of such calls cannot tell the wrappers from the native operations.\<close>

lemma socket_call_program:
  "run_wrappers (map (socket_wrapper api sk) cs) s = (as, s') \<Longrightarrow>
     run_natives (map (socket_native sk) cs) (world_part s) = (as, world_part s')
     \<and> (\<exists>es. calls s' = calls s @ es \<and> balanced es \<and> count_list es Ev_native = length cs)"
  using wrappers_transparent [of "map (socket_wrapper api sk) cs" "map (socket_native sk) cs" s as s']
  by (simp add: list_all2_map1 list_all2_map2 list_all2_same socket_call_instrumented)

end
