(* ===== verification/Psi_Events.thy ===== *)
theory Psi_Events
  imports Psi_Core
begin

text \<open>
  The inline functions of \<^verbatim>\<open>mysql_statement.h\<close>, \<^verbatim>\<open>mysql_transaction.h\<close>,
  \<^verbatim>\<open>mysql_stage.h\<close>, \<^verbatim>\<open>mysql_idle.h\<close>, \<^verbatim>\<open>mysql_table.h\<close>,
  \<^verbatim>\<open>mysql_mdl.h\<close>, \<^verbatim>\<open>mysql_sp.h\<close>, \<^verbatim>\<open>mysql_ps.h\<close> and
  \<^verbatim>\<open>mysql_memory.h\<close> under \<^verbatim>\<open>mysql/psi\<close>. They only talk to the performance
  schema service, which is a parameter: it answers a request, one of the calls below with its
  arguments, with a pointer or null. A trace records the requests and the answers. A pointer that the
  code compares with null is an option.
\<close>

section \<open>Requests\<close>

datatype (plugins only: size code) psi_request =
    Register_statement bytes nat int
  | Digest_start nat
  | Digest_end nat nat
  | Get_thread_statement_locker nat nat nat "nat option"
  | Start_statement nat bytes nat src_pos
  | Refine_statement nat nat
  | Set_statement_text nat bytes nat
  | Set_statement_lock_time nat "64 word"
  | Set_statement_rows_sent nat "64 word"
  | Set_statement_rows_examined nat "64 word"
  | End_statement nat nat
  | Register_stage bytes nat int
  | Start_stage nat src_pos
  | End_stage
  | Get_thread_transaction_locker nat nat nat int bool bool
  | Start_transaction nat src_pos
  | Set_transaction_gtid nat nat nat
  | Set_transaction_xid nat nat int
  | Set_transaction_xa_state nat int
  | Set_transaction_trxid nat nat
  | Inc_transaction_savepoints nat "64 word"
  | Inc_transaction_rollback_to_savepoint nat "64 word"
  | Inc_transaction_release_savepoint nat "64 word"
  | End_transaction nat bool
  | Start_idle_wait nat src_pos
  | End_idle_wait nat
  | Start_table_lock_wait nat nat nat "64 word" src_pos
  | End_table_lock_wait nat
  | Unlock_table nat
  | Create_metadata_lock nat nat nat nat nat src_pos
  | Set_metadata_lock_status nat nat
  | Destroy_metadata_lock nat
  | Start_sp nat "nat option"
  | End_sp nat
  | Drop_sp nat bytes nat bytes nat
  | Get_sp_share nat bytes nat bytes nat
  | Create_prepared_stmt nat nat nat bytes nat bytes nat
  | Execute_prepared_stmt nat nat
  | Destroy_prepared_stmt nat
  | Reprepare_prepared_stmt nat
  | Register_memory bytes nat int

type_synonym 'p service = "psi_request \<Rightarrow> 'p \<Rightarrow> nat option \<times> 'p"
type_synonym exchange = "psi_request \<times> nat option"

record 'p ev_state =
  ev_service :: 'p
  ev_trace :: "exchange list"

type_synonym ('p, 'a) ev_op = "('p ev_state, 'a) state"

definition request :: "'p service \<Rightarrow> psi_request \<Rightarrow> ('p, nat option) ev_op" where
  "request svc r = State (\<lambda>s.
     let (a, p) = svc r (ev_service s) in (a, s\<lparr>ev_service := p, ev_trace := ev_trace s @ [(r, a)]\<rparr>))"

definition tell :: "'p service \<Rightarrow> psi_request \<Rightarrow> ('p, unit) ev_op" where
  "tell svc r = do { _ \<leftarrow> request svc r; State_Monad.return () }"

text \<open>\<open>if (likely(locker != NULL)) PSI_CALL(f)(locker, ...)\<close>.\<close>

definition tell_if :: "'p service \<Rightarrow> nat option \<Rightarrow> (nat \<Rightarrow> psi_request) \<Rightarrow> ('p, unit) ev_op" where
  "tell_if svc locker r = (case locker of Some l \<Rightarrow> tell svc (r l) | None \<Rightarrow> State_Monad.return ())"

section \<open>Statements\<close>

definition inline_mysql_statement_register :: "'p service \<Rightarrow> bytes \<Rightarrow> nat \<Rightarrow> int \<Rightarrow> ('p, unit) ev_op" where
  "inline_mysql_statement_register svc category info count = tell svc (Register_statement category info count)"

definition inline_mysql_digest_start :: "'p service \<Rightarrow> nat option \<Rightarrow> ('p, nat option) ev_op" where
  "inline_mysql_digest_start svc locker =
     (case locker of Some l \<Rightarrow> request svc (Digest_start l) | None \<Rightarrow> State_Monad.return None)"

definition inline_mysql_digest_end :: "'p service \<Rightarrow> nat option \<Rightarrow> nat \<Rightarrow> ('p, unit) ev_op" where
  "inline_mysql_digest_end svc locker digest = tell_if svc locker (\<lambda>l. Digest_end l digest)"

definition inline_mysql_start_statement :: "'p service \<Rightarrow> nat \<Rightarrow> nat \<Rightarrow> bytes \<Rightarrow> nat \<Rightarrow> nat \<Rightarrow> nat option \<Rightarrow>
    src_pos \<Rightarrow> ('p, nat option) ev_op" where
  "inline_mysql_start_statement svc state key db db_len charset sp_share src = do {
     locker \<leftarrow> request svc (Get_thread_statement_locker state key charset sp_share);
     tell_if svc locker (\<lambda>l. Start_statement l db db_len src);
     State_Monad.return locker
   }"

definition inline_mysql_refine_statement :: "'p service \<Rightarrow> nat option \<Rightarrow> nat \<Rightarrow> ('p, nat option) ev_op" where
  "inline_mysql_refine_statement svc locker key =
     (case locker of Some l \<Rightarrow> request svc (Refine_statement l key) | None \<Rightarrow> State_Monad.return None)"

definition inline_mysql_set_statement_text :: "'p service \<Rightarrow> nat option \<Rightarrow> bytes \<Rightarrow> nat \<Rightarrow> ('p, unit) ev_op" where
  "inline_mysql_set_statement_text svc locker text text_len =
     tell_if svc locker (\<lambda>l. Set_statement_text l text text_len)"

definition inline_mysql_set_statement_lock_time :: "'p service \<Rightarrow> nat option \<Rightarrow> 64 word \<Rightarrow> ('p, unit) ev_op" where
  "inline_mysql_set_statement_lock_time svc locker count = tell_if svc locker (\<lambda>l. Set_statement_lock_time l count)"

definition inline_mysql_set_statement_rows_sent :: "'p service \<Rightarrow> nat option \<Rightarrow> 64 word \<Rightarrow> ('p, unit) ev_op" where
  "inline_mysql_set_statement_rows_sent svc locker count = tell_if svc locker (\<lambda>l. Set_statement_rows_sent l count)"

definition inline_mysql_set_statement_rows_examined :: "'p service \<Rightarrow> nat option \<Rightarrow> 64 word \<Rightarrow> ('p, unit) ev_op" where
  "inline_mysql_set_statement_rows_examined svc locker count =
     tell_if svc locker (\<lambda>l. Set_statement_rows_examined l count)"

definition inline_mysql_end_statement :: "'p service \<Rightarrow> nat option \<Rightarrow> nat \<Rightarrow> ('p, unit) ev_op" where
  "inline_mysql_end_statement svc locker stmt_da = do {
     tell svc End_stage;
     tell_if svc locker (\<lambda>l. End_statement l stmt_da)
   }"

section \<open>Transactions\<close>

definition inline_mysql_start_transaction :: "'p service \<Rightarrow> nat \<Rightarrow> nat \<Rightarrow> nat \<Rightarrow> int \<Rightarrow> bool \<Rightarrow> bool \<Rightarrow>
    src_pos \<Rightarrow> ('p, nat option) ev_op" where
  "inline_mysql_start_transaction svc state xid trxid isolation_level read_only autocommit src = do {
     locker \<leftarrow> request svc (Get_thread_transaction_locker state xid trxid isolation_level read_only autocommit);
     tell_if svc locker (\<lambda>l. Start_transaction l src);
     State_Monad.return locker
   }"

definition inline_mysql_set_transaction_gtid :: "'p service \<Rightarrow> nat option \<Rightarrow> nat \<Rightarrow> nat \<Rightarrow> ('p, unit) ev_op" where
  "inline_mysql_set_transaction_gtid svc locker sid gtid_spec =
     tell_if svc locker (\<lambda>l. Set_transaction_gtid l sid gtid_spec)"

definition inline_mysql_set_transaction_xid :: "'p service \<Rightarrow> nat option \<Rightarrow> nat \<Rightarrow> int \<Rightarrow> ('p, unit) ev_op" where
  "inline_mysql_set_transaction_xid svc locker xid xa_state =
     tell_if svc locker (\<lambda>l. Set_transaction_xid l xid xa_state)"

definition inline_mysql_set_transaction_xa_state :: "'p service \<Rightarrow> nat option \<Rightarrow> int \<Rightarrow> ('p, unit) ev_op" where
  "inline_mysql_set_transaction_xa_state svc locker xa_state =
     tell_if svc locker (\<lambda>l. Set_transaction_xa_state l xa_state)"

definition inline_mysql_set_transaction_trxid :: "'p service \<Rightarrow> nat option \<Rightarrow> nat \<Rightarrow> ('p, unit) ev_op" where
  "inline_mysql_set_transaction_trxid svc locker trxid = tell_if svc locker (\<lambda>l. Set_transaction_trxid l trxid)"

definition inline_mysql_inc_transaction_savepoints :: "'p service \<Rightarrow> nat option \<Rightarrow> 64 word \<Rightarrow> ('p, unit) ev_op" where
  "inline_mysql_inc_transaction_savepoints svc locker count =
     tell_if svc locker (\<lambda>l. Inc_transaction_savepoints l count)"

definition inline_mysql_inc_transaction_rollback_to_savepoint :: "'p service \<Rightarrow> nat option \<Rightarrow> 64 word \<Rightarrow>
    ('p, unit) ev_op" where
  "inline_mysql_inc_transaction_rollback_to_savepoint svc locker count =
     tell_if svc locker (\<lambda>l. Inc_transaction_rollback_to_savepoint l count)"

definition inline_mysql_inc_transaction_release_savepoint :: "'p service \<Rightarrow> nat option \<Rightarrow> 64 word \<Rightarrow>
    ('p, unit) ev_op" where
  "inline_mysql_inc_transaction_release_savepoint svc locker count =
     tell_if svc locker (\<lambda>l. Inc_transaction_release_savepoint l count)"

definition inline_mysql_rollback_transaction :: "'p service \<Rightarrow> nat option \<Rightarrow> ('p, unit) ev_op" where
  "inline_mysql_rollback_transaction svc locker = tell_if svc locker (\<lambda>l. End_transaction l False)"

definition inline_mysql_commit_transaction :: "'p service \<Rightarrow> nat option \<Rightarrow> ('p, unit) ev_op" where
  "inline_mysql_commit_transaction svc locker = tell_if svc locker (\<lambda>l. End_transaction l True)"

section \<open>Stages\<close>

text \<open>
  The progress of a stage is an object of the service; \<open>None\<close> is a null pointer to it. The
  setters test the pointer, the getters do not.
\<close>

record PSI_stage_progress =
  m_work_completed :: "64 word"
  m_work_estimated :: "64 word"

definition inline_mysql_stage_register :: "'p service \<Rightarrow> bytes \<Rightarrow> nat \<Rightarrow> int \<Rightarrow> ('p, unit) ev_op" where
  "inline_mysql_stage_register svc category info count = tell svc (Register_stage category info count)"

definition inline_mysql_set_stage :: "'p service \<Rightarrow> nat \<Rightarrow> src_pos \<Rightarrow> ('p, nat option) ev_op" where
  "inline_mysql_set_stage svc key src = request svc (Start_stage key src)"

definition inline_mysql_end_stage :: "'p service \<Rightarrow> ('p, unit) ev_op" where
  "inline_mysql_end_stage svc = tell svc End_stage"

definition inline_mysql_stage_set_work_completed :: "64 word \<Rightarrow> PSI_stage_progress option \<Rightarrow> PSI_stage_progress option" where
  "inline_mysql_stage_set_work_completed val progress =
     (case progress of None \<Rightarrow> None | Some p \<Rightarrow> Some (p\<lparr>m_work_completed := val\<rparr>))"

definition inline_mysql_stage_get_work_completed :: "PSI_stage_progress option \<Rightarrow> 64 word res" where
  "inline_mysql_stage_get_work_completed progress =
     (case progress of None \<Rightarrow> Inl Null_Deref | Some p \<Rightarrow> Inr (m_work_completed p))"

definition inline_mysql_stage_inc_work_completed :: "64 word \<Rightarrow> PSI_stage_progress option \<Rightarrow> PSI_stage_progress option" where
  "inline_mysql_stage_inc_work_completed val progress =
     (case progress of None \<Rightarrow> None | Some p \<Rightarrow> Some (p\<lparr>m_work_completed := m_work_completed p + val\<rparr>))"

definition inline_mysql_stage_set_work_estimated :: "64 word \<Rightarrow> PSI_stage_progress option \<Rightarrow> PSI_stage_progress option" where
  "inline_mysql_stage_set_work_estimated val progress =
     (case progress of None \<Rightarrow> None | Some p \<Rightarrow> Some (p\<lparr>m_work_estimated := val\<rparr>))"

definition inline_mysql_stage_get_work_estimated :: "PSI_stage_progress option \<Rightarrow> 64 word res" where
  "inline_mysql_stage_get_work_estimated progress =
     (case progress of None \<Rightarrow> Inl Null_Deref | Some p \<Rightarrow> Inr (m_work_estimated p))"

section \<open>Idle waits, tables, metadata locks\<close>

definition inline_mysql_start_idle_wait :: "'p service \<Rightarrow> nat \<Rightarrow> src_pos \<Rightarrow> ('p, nat option) ev_op" where
  "inline_mysql_start_idle_wait svc state src = request svc (Start_idle_wait state src)"

definition inline_mysql_end_idle_wait :: "'p service \<Rightarrow> nat option \<Rightarrow> ('p, unit) ev_op" where
  "inline_mysql_end_idle_wait svc locker = tell_if svc locker End_idle_wait"

definition inline_mysql_start_table_lock_wait :: "'p service \<Rightarrow> nat \<Rightarrow> nat option \<Rightarrow> nat \<Rightarrow> 64 word \<Rightarrow> src_pos \<Rightarrow>
    ('p, nat option) ev_op" where
  "inline_mysql_start_table_lock_wait svc state psi op flags src =
     (case psi of
        Some t \<Rightarrow> request svc (Start_table_lock_wait state t op flags src)
      | None \<Rightarrow> State_Monad.return None)"

definition inline_mysql_end_table_lock_wait :: "'p service \<Rightarrow> nat option \<Rightarrow> ('p, unit) ev_op" where
  "inline_mysql_end_table_lock_wait svc locker = tell_if svc locker End_table_lock_wait"

definition inline_mysql_unlock_table :: "'p service \<Rightarrow> nat option \<Rightarrow> ('p, unit) ev_op" where
  "inline_mysql_unlock_table svc table = tell_if svc table Unlock_table"

definition inline_mysql_mdl_create :: "'p service \<Rightarrow> nat \<Rightarrow> nat \<Rightarrow> nat \<Rightarrow> nat \<Rightarrow> nat \<Rightarrow> src_pos \<Rightarrow> ('p, nat option) ev_op" where
  "inline_mysql_mdl_create svc identity mdl_key mdl_type mdl_duration mdl_status src =
     request svc (Create_metadata_lock identity mdl_key mdl_type mdl_duration mdl_status src)"

definition inline_mysql_mdl_set_status :: "'p service \<Rightarrow> nat option \<Rightarrow> nat \<Rightarrow> ('p, unit) ev_op" where
  "inline_mysql_mdl_set_status svc psi mdl_status = tell_if svc psi (\<lambda>l. Set_metadata_lock_status l mdl_status)"

definition inline_mysql_mdl_destroy :: "'p service \<Rightarrow> nat option \<Rightarrow> src_pos \<Rightarrow> ('p, unit) ev_op" where
  "inline_mysql_mdl_destroy svc psi src = tell_if svc psi Destroy_metadata_lock"

section \<open>Stored programs, prepared statements, memory\<close>

definition inline_mysql_start_sp :: "'p service \<Rightarrow> nat \<Rightarrow> nat option \<Rightarrow> ('p, nat option) ev_op" where
  "inline_mysql_start_sp svc state sp_share = request svc (Start_sp state sp_share)"

definition inline_mysql_end_sp :: "'p service \<Rightarrow> nat option \<Rightarrow> ('p, unit) ev_op" where
  "inline_mysql_end_sp svc locker = tell_if svc locker End_sp"

definition inline_mysql_drop_sp :: "'p service \<Rightarrow> nat \<Rightarrow> bytes \<Rightarrow> nat \<Rightarrow> bytes \<Rightarrow> nat \<Rightarrow> ('p, unit) ev_op" where
  "inline_mysql_drop_sp svc sp_type schema_name schema_name_length object_name object_name_length =
     tell svc (Drop_sp sp_type schema_name schema_name_length object_name object_name_length)"

definition inline_mysql_get_sp_share :: "'p service \<Rightarrow> nat \<Rightarrow> bytes \<Rightarrow> nat \<Rightarrow> bytes \<Rightarrow> nat \<Rightarrow> ('p, nat option) ev_op" where
  "inline_mysql_get_sp_share svc sp_type schema_name schema_name_length object_name object_name_length =
     request svc (Get_sp_share sp_type schema_name schema_name_length object_name object_name_length)"

definition inline_mysql_create_prepared_stmt :: "'p service \<Rightarrow> nat \<Rightarrow> nat \<Rightarrow> nat option \<Rightarrow> bytes \<Rightarrow> nat \<Rightarrow> bytes \<Rightarrow> nat \<Rightarrow>
    ('p, nat option) ev_op" where
  "inline_mysql_create_prepared_stmt svc identity stmt_id locker stmt_name stmt_name_length sqltext sqltext_length =
     (case locker of
        None \<Rightarrow> State_Monad.return None
      | Some l \<Rightarrow> request svc (Create_prepared_stmt identity stmt_id l stmt_name stmt_name_length sqltext sqltext_length))"

definition inline_mysql_execute_prepared_stmt :: "'p service \<Rightarrow> nat option \<Rightarrow> nat option \<Rightarrow> ('p, unit) ev_op" where
  "inline_mysql_execute_prepared_stmt svc locker prepared_stmt =
     (case prepared_stmt of
        Some ps \<Rightarrow> tell_if svc locker (\<lambda>l. Execute_prepared_stmt l ps)
      | None \<Rightarrow> State_Monad.return ())"

definition inline_mysql_destroy_prepared_stmt :: "'p service \<Rightarrow> nat option \<Rightarrow> ('p, unit) ev_op" where
  "inline_mysql_destroy_prepared_stmt svc prepared_stmt = tell_if svc prepared_stmt Destroy_prepared_stmt"

definition inline_mysql_reprepare_prepared_stmt :: "'p service \<Rightarrow> nat option \<Rightarrow> ('p, unit) ev_op" where
  "inline_mysql_reprepare_prepared_stmt svc prepared_stmt = tell_if svc prepared_stmt Reprepare_prepared_stmt"

definition inline_mysql_memory_register :: "bool \<Rightarrow> 'p service \<Rightarrow> bytes \<Rightarrow> nat \<Rightarrow> int \<Rightarrow> ('p, unit) ev_op" where
  "inline_mysql_memory_register have_memory svc category info count =
     (if have_memory then tell svc (Register_memory category info count) else State_Monad.return ())"

section \<open>The protocol of a locker\<close>

text \<open>
  How a request stands to the locker of an event: it asks for one, starts the event, uses its
  locker, replaces it, or ends the event.
\<close>

datatype locker_use = Open | Start nat | Use nat | Refine nat | Finish nat | Other

fun statement_use :: "psi_request \<Rightarrow> locker_use" where
  "statement_use (Get_thread_statement_locker _ _ _ _) = Open"
| "statement_use (Start_statement l _ _ _) = Start l"
| "statement_use (Refine_statement l _) = Refine l"
| "statement_use (Set_statement_text l _ _) = Use l"
| "statement_use (Set_statement_lock_time l _) = Use l"
| "statement_use (Set_statement_rows_sent l _) = Use l"
| "statement_use (Set_statement_rows_examined l _) = Use l"
| "statement_use (Digest_start l) = Use l"
| "statement_use (End_statement l _) = Finish l"
| "statement_use _ = Other"

fun transaction_use :: "psi_request \<Rightarrow> locker_use" where
  "transaction_use (Get_thread_transaction_locker _ _ _ _ _ _) = Open"
| "transaction_use (Start_transaction l _) = Start l"
| "transaction_use (Set_transaction_gtid l _ _) = Use l"
| "transaction_use (Set_transaction_xid l _ _) = Use l"
| "transaction_use (Set_transaction_xa_state l _) = Use l"
| "transaction_use (Set_transaction_trxid l _) = Use l"
| "transaction_use (Inc_transaction_savepoints l _) = Use l"
| "transaction_use (Inc_transaction_rollback_to_savepoint l _) = Use l"
| "transaction_use (Inc_transaction_release_savepoint l _) = Use l"
| "transaction_use (End_transaction l _) = Finish l"
| "transaction_use _ = Other"

text \<open>The service's view: no event, an event that was not started yet, a running event.\<close>

datatype phase = Closed | Opened nat | Active nat

definition phase_of :: "nat option \<Rightarrow> phase" where
  "phase_of locker = (case locker of None \<Rightarrow> Closed | Some l \<Rightarrow> Active l)"

fun phase_step :: "phase \<Rightarrow> locker_use \<Rightarrow> nat option \<Rightarrow> phase option" where
  "phase_step p Other a = Some p"
| "phase_step Closed Open a = Some (case a of None \<Rightarrow> Closed | Some l \<Rightarrow> Opened l)"
| "phase_step (Opened l) (Start l') a = (if l' = l then Some (Active l) else None)"
| "phase_step (Active l) (Use l') a = (if l' = l then Some (Active l) else None)"
| "phase_step (Active l) (Refine l') a = (if l' = l then Some (phase_of a) else None)"
| "phase_step (Active l) (Finish l') a = (if l' = l then Some Closed else None)"
| "phase_step p u a = None"

fun protocol :: "(psi_request \<Rightarrow> locker_use) \<Rightarrow> phase \<Rightarrow> exchange list \<Rightarrow> phase option" where
  "protocol f p [] = Some p"
| "protocol f p ((r, a) # es) = (case phase_step p (f r) a of None \<Rightarrow> None | Some p \<Rightarrow> protocol f p es)"

lemma protocol_append:
  "protocol f p es = Some q \<Longrightarrow> protocol f p (es @ fs) = protocol f q fs"
  by (induction f p es rule: protocol.induct) (auto split: option.splits)

section \<open>A client thread\<close>

text \<open>
  A thread keeps the lockers that the start functions return and passes them to the other functions;
  after the end of an event it forgets the locker. It starts an event only when none of its kind is
  running.
\<close>

datatype (plugins only: size code) client_call =
    Cl_start_statement nat nat bytes nat nat "nat option" src_pos
  | Cl_refine nat
  | Cl_text bytes nat
  | Cl_lock_time "64 word"
  | Cl_rows_sent "64 word"
  | Cl_rows_examined "64 word"
  | Cl_digest
  | Cl_end_statement nat
  | Cl_start_transaction nat nat nat int bool bool src_pos
  | Cl_gtid nat nat
  | Cl_xid nat int
  | Cl_xa_state int
  | Cl_trxid nat
  | Cl_savepoints "64 word"
  | Cl_rollback_to "64 word"
  | Cl_release "64 word"
  | Cl_rollback
  | Cl_commit
  | Cl_stage nat src_pos

record client =
  stmt_locker :: "nat option"
  trx_locker :: "nat option"
  in_statement :: bool
  in_transaction :: bool

definition keep :: "'c \<Rightarrow> ('p, 'a) ev_op \<Rightarrow> ('p, 'c) ev_op" where
  "keep c m = do { _ \<leftarrow> m; State_Monad.return c }"

fun perform_call :: "'p service \<Rightarrow> client_call \<Rightarrow> client \<Rightarrow> ('p, client) ev_op" where
  "perform_call svc (Cl_start_statement state key db n cs sp src) c = do {
     l \<leftarrow> inline_mysql_start_statement svc state key db n cs sp src;
     State_Monad.return (c\<lparr>stmt_locker := l, in_statement := True\<rparr>) }"
| "perform_call svc (Cl_refine key) c = do {
     l \<leftarrow> inline_mysql_refine_statement svc (stmt_locker c) key;
     State_Monad.return (c\<lparr>stmt_locker := l\<rparr>) }"
| "perform_call svc (Cl_text t n) c = keep c (inline_mysql_set_statement_text svc (stmt_locker c) t n)"
| "perform_call svc (Cl_lock_time n) c = keep c (inline_mysql_set_statement_lock_time svc (stmt_locker c) n)"
| "perform_call svc (Cl_rows_sent n) c = keep c (inline_mysql_set_statement_rows_sent svc (stmt_locker c) n)"
| "perform_call svc (Cl_rows_examined n) c = keep c (inline_mysql_set_statement_rows_examined svc (stmt_locker c) n)"
| "perform_call svc Cl_digest c = keep c (inline_mysql_digest_start svc (stmt_locker c))"
| "perform_call svc (Cl_end_statement da) c =
     keep (c\<lparr>stmt_locker := None, in_statement := False\<rparr>) (inline_mysql_end_statement svc (stmt_locker c) da)"
| "perform_call svc (Cl_start_transaction state xid trxid lvl ro ac src) c = do {
     l \<leftarrow> inline_mysql_start_transaction svc state xid trxid lvl ro ac src;
     State_Monad.return (c\<lparr>trx_locker := l, in_transaction := True\<rparr>) }"
| "perform_call svc (Cl_gtid sid spec) c = keep c (inline_mysql_set_transaction_gtid svc (trx_locker c) sid spec)"
| "perform_call svc (Cl_xid xid st) c = keep c (inline_mysql_set_transaction_xid svc (trx_locker c) xid st)"
| "perform_call svc (Cl_xa_state st) c = keep c (inline_mysql_set_transaction_xa_state svc (trx_locker c) st)"
| "perform_call svc (Cl_trxid x) c = keep c (inline_mysql_set_transaction_trxid svc (trx_locker c) x)"
| "perform_call svc (Cl_savepoints n) c = keep c (inline_mysql_inc_transaction_savepoints svc (trx_locker c) n)"
| "perform_call svc (Cl_rollback_to n) c = keep c (inline_mysql_inc_transaction_rollback_to_savepoint svc (trx_locker c) n)"
| "perform_call svc (Cl_release n) c = keep c (inline_mysql_inc_transaction_release_savepoint svc (trx_locker c) n)"
| "perform_call svc Cl_rollback c =
     keep (c\<lparr>trx_locker := None, in_transaction := False\<rparr>) (inline_mysql_rollback_transaction svc (trx_locker c))"
| "perform_call svc Cl_commit c =
     keep (c\<lparr>trx_locker := None, in_transaction := False\<rparr>) (inline_mysql_commit_transaction svc (trx_locker c))"
| "perform_call svc (Cl_stage key src) c = keep c (inline_mysql_set_stage svc key src)"

fun run_client :: "'p service \<Rightarrow> client_call list \<Rightarrow> client \<Rightarrow> ('p, client) ev_op" where
  "run_client svc [] c = State_Monad.return c"
| "run_client svc (x # xs) c = do { c \<leftarrow> perform_call svc x c; run_client svc xs c }"

fun disciplined :: "bool \<Rightarrow> bool \<Rightarrow> client_call list \<Rightarrow> bool" where
  "disciplined st tr [] \<longleftrightarrow> True"
| "disciplined st tr (Cl_start_statement _ _ _ _ _ _ _ # xs) \<longleftrightarrow> \<not> st \<and> disciplined True tr xs"
| "disciplined st tr (Cl_end_statement _ # xs) \<longleftrightarrow> disciplined False tr xs"
| "disciplined st tr (Cl_start_transaction _ _ _ _ _ _ _ # xs) \<longleftrightarrow> \<not> tr \<and> disciplined st True xs"
| "disciplined st tr (Cl_rollback # xs) \<longleftrightarrow> disciplined st False xs"
| "disciplined st tr (Cl_commit # xs) \<longleftrightarrow> disciplined st False xs"
| "disciplined st tr (_ # xs) \<longleftrightarrow> disciplined st tr xs"

definition client_ok :: "client \<Rightarrow> bool" where
  "client_ok c \<longleftrightarrow> (\<not> in_statement c \<longrightarrow> stmt_locker c = None) \<and> (\<not> in_transaction c \<longrightarrow> trx_locker c = None)"

definition advances :: "client \<Rightarrow> exchange list \<Rightarrow> client \<Rightarrow> bool" where
  "advances c es c' \<longleftrightarrow>
     protocol statement_use (phase_of (stmt_locker c)) es = Some (phase_of (stmt_locker c'))
   \<and> protocol transaction_use (phase_of (trx_locker c)) es = Some (phase_of (trx_locker c'))"

lemma advances_trans: "advances c es c' \<Longrightarrow> advances c' fs c'' \<Longrightarrow> advances c (es @ fs) c''"
  by (simp add: advances_def protocol_append)

lemmas ev_prims = request_def tell_def tell_if_def keep_def State_Monad.bind_def State_Monad.return_def

lemmas inline_event_defs =
  inline_mysql_start_statement_def inline_mysql_refine_statement_def inline_mysql_set_statement_text_def
  inline_mysql_set_statement_lock_time_def inline_mysql_set_statement_rows_sent_def
  inline_mysql_set_statement_rows_examined_def inline_mysql_digest_start_def inline_mysql_end_statement_def
  inline_mysql_start_transaction_def inline_mysql_set_transaction_gtid_def inline_mysql_set_transaction_xid_def
  inline_mysql_set_transaction_xa_state_def inline_mysql_set_transaction_trxid_def
  inline_mysql_inc_transaction_savepoints_def inline_mysql_inc_transaction_rollback_to_savepoint_def
  inline_mysql_inc_transaction_release_savepoint_def inline_mysql_rollback_transaction_def
  inline_mysql_commit_transaction_def inline_mysql_set_stage_def

lemma perform_call_step:
  assumes "run_state (perform_call svc x c) s = (c', s')" "client_ok c"
    and "disciplined (in_statement c) (in_transaction c) (x # xs)"
  shows "client_ok c' \<and> disciplined (in_statement c') (in_transaction c') xs
    \<and> (\<exists>es. ev_trace s' = ev_trace s @ es \<and> advances c es c')"
  using assms
  by (cases x; cases "stmt_locker c"; cases "trx_locker c")
    (auto simp: inline_event_defs ev_prims client_ok_def advances_def phase_of_def split: prod.splits option.splits)

lemma run_client_protocol:
  "run_state (run_client svc xs c) s = (c', s') \<Longrightarrow> client_ok c \<Longrightarrow>
     disciplined (in_statement c) (in_transaction c) xs \<Longrightarrow>
     client_ok c' \<and> (\<exists>es. ev_trace s' = ev_trace s @ es \<and> advances c es c')"
proof (induction xs arbitrary: c s)
  case Nil
  then show ?case by (auto simp: State_Monad.return_def advances_def)
next
  case (Cons x xs)
  obtain c1 s1 where x: "run_state (perform_call svc x c) s = (c1, s1)" by fastforce
  then have xs: "run_state (run_client svc xs c1) s1 = (c', s')"
    using Cons.prems(1) by (simp add: State_Monad.bind_def)
  from perform_call_step [OF x Cons.prems(2,3)] obtain es where
    1: "client_ok c1" "disciplined (in_statement c1) (in_transaction c1) xs" "ev_trace s1 = ev_trace s @ es" "advances c es c1"
    by blast
  from Cons.IH [OF xs 1(1,2)] obtain fs where
    2: "client_ok c'" "ev_trace s' = ev_trace s1 @ fs" "advances c1 fs c'"
    by blast
  from 1(3) 2(2) have "ev_trace s' = ev_trace s @ (es @ fs)" by simp
  with 2(1) advances_trans [OF 1(4) 2(3)] show ?case by blast
qed

text \<open>A null pointer is never passed on: the guarded functions then say nothing.\<close>

lemma null_is_silent:
  "run_state (tell_if svc None r) s = ((), s)"
  "run_state (inline_mysql_digest_start svc None) s = (None, s)"
  "run_state (inline_mysql_refine_statement svc None key) s = (None, s)"
  "run_state (inline_mysql_start_table_lock_wait svc state None op flags src) s = (None, s)"
  "run_state (inline_mysql_create_prepared_stmt svc i n None a b d e) s = (None, s)"
  "run_state (inline_mysql_execute_prepared_stmt svc l None) s = ((), s)"
  "run_state (inline_mysql_execute_prepared_stmt svc None ps) s = ((), s)"
  by (simp_all add: tell_if_def inline_mysql_digest_start_def inline_mysql_refine_statement_def
      inline_mysql_start_table_lock_wait_def inline_mysql_create_prepared_stmt_def
      inline_mysql_execute_prepared_stmt_def State_Monad.return_def split: option.split)

text \<open>Progress: the sum of the increments modulo 2^64; a null pointer is ignored by the setters.\<close>

lemma stage_work_sum:
  "fold inline_mysql_stage_inc_work_completed vs (Some p) = Some (p\<lparr>m_work_completed := m_work_completed p + sum_list vs\<rparr>)"
  by (induction vs arbitrary: p) (simp_all add: inline_mysql_stage_inc_work_completed_def add.assoc)

lemma stage_work_null: "fold inline_mysql_stage_inc_work_completed vs None = None"
  by (induction vs) (simp_all add: inline_mysql_stage_inc_work_completed_def)

end
