(* ===== verification/Psi_Thread.thy ===== *)
theory Psi_Thread
  imports Psi_Core
begin

text \<open>
  The inline functions of \<^verbatim>\<open>mysql/psi/mysql_thread.h\<close>: instrumented mutexes, read-write
  locks, reader-preferring locks, conditions and thread creation. A lock is the address of its
  native object and its hook. The source location that is passed on to the service is the
  argument \<open>src\<close>. A build without an interface is the value \<open>False\<close> of the record's
  \<open>have\<close> field.
\<close>

section \<open>The service and the native operations\<close>

record ('p, 'i) psi_mutex_api =
  have_mutex :: bool
  register_mutex :: "bytes \<Rightarrow> 'i \<Rightarrow> int \<Rightarrow> 'p \<Rightarrow> 'p"
  init_mutex :: "nat \<Rightarrow> nat \<Rightarrow> 'p \<Rightarrow> nat option \<times> 'p"
  destroy_mutex :: "nat \<Rightarrow> 'p \<Rightarrow> 'p"
  start_mutex_wait :: "nat \<Rightarrow> PSI_mutex_operation \<Rightarrow> src_pos \<Rightarrow> 'p \<Rightarrow> nat option \<times> 'p"
  end_mutex_wait :: "nat \<Rightarrow> int \<Rightarrow> 'p \<Rightarrow> 'p"
  unlock_mutex :: "nat \<Rightarrow> 'p \<Rightarrow> 'p"

record ('p, 'i) psi_rwlock_api =
  have_rwlock :: bool
  register_rwlock :: "bytes \<Rightarrow> 'i \<Rightarrow> int \<Rightarrow> 'p \<Rightarrow> 'p"
  init_rwlock :: "nat \<Rightarrow> nat \<Rightarrow> 'p \<Rightarrow> nat option \<times> 'p"
  destroy_rwlock :: "nat \<Rightarrow> 'p \<Rightarrow> 'p"
  start_rwlock_rdwait :: "nat \<Rightarrow> PSI_rwlock_operation \<Rightarrow> src_pos \<Rightarrow> 'p \<Rightarrow> nat option \<times> 'p"
  end_rwlock_rdwait :: "nat \<Rightarrow> int \<Rightarrow> 'p \<Rightarrow> 'p"
  start_rwlock_wrwait :: "nat \<Rightarrow> PSI_rwlock_operation \<Rightarrow> src_pos \<Rightarrow> 'p \<Rightarrow> nat option \<times> 'p"
  end_rwlock_wrwait :: "nat \<Rightarrow> int \<Rightarrow> 'p \<Rightarrow> 'p"
  unlock_rwlock :: "nat \<Rightarrow> 'p \<Rightarrow> 'p"

record ('p, 'i) psi_cond_api =
  have_cond :: bool
  register_cond :: "bytes \<Rightarrow> 'i \<Rightarrow> int \<Rightarrow> 'p \<Rightarrow> 'p"
  init_cond :: "nat \<Rightarrow> nat \<Rightarrow> 'p \<Rightarrow> nat option \<times> 'p"
  destroy_cond :: "nat \<Rightarrow> 'p \<Rightarrow> 'p"
  start_cond_wait :: "nat \<Rightarrow> nat option \<Rightarrow> PSI_cond_operation \<Rightarrow> src_pos \<Rightarrow> 'p \<Rightarrow> nat option \<times> 'p"
  end_cond_wait :: "nat \<Rightarrow> int \<Rightarrow> 'p \<Rightarrow> 'p"
  signal_cond :: "nat \<Rightarrow> 'p \<Rightarrow> 'p"
  broadcast_cond :: "nat \<Rightarrow> 'p \<Rightarrow> 'p"

text \<open>Threads are created by the service itself, which calls the native function.\<close>

record ('p, 'w, 'i) psi_thread_api =
  have_thread :: bool
  register_thread :: "bytes \<Rightarrow> 'i \<Rightarrow> int \<Rightarrow> 'p \<Rightarrow> 'p"
  spawn_thread :: "nat \<Rightarrow> nat \<Rightarrow> nat \<Rightarrow> nat \<Rightarrow> nat \<Rightarrow> 'p \<times> 'w \<Rightarrow> int \<times> 'p \<times> 'w"
  get_thread :: "'p \<Rightarrow> nat option \<times> 'p"
  set_thread_id :: "nat option \<Rightarrow> nat \<Rightarrow> 'p \<Rightarrow> 'p"
  set_thread_THD :: "nat option \<Rightarrow> nat \<Rightarrow> 'p \<Rightarrow> 'p"

text \<open>The native operations, on the address of the native object.\<close>

record 'w thr_api =
  my_mutex_init :: "nat \<Rightarrow> nat \<Rightarrow> 'w \<Rightarrow> int \<times> 'w"
  my_mutex_destroy :: "nat \<Rightarrow> 'w \<Rightarrow> int \<times> 'w"
  my_mutex_lock :: "nat \<Rightarrow> 'w \<Rightarrow> int \<times> 'w"
  my_mutex_trylock :: "nat \<Rightarrow> 'w \<Rightarrow> int \<times> 'w"
  my_mutex_unlock :: "nat \<Rightarrow> 'w \<Rightarrow> int \<times> 'w"
  native_rw_init :: "nat \<Rightarrow> 'w \<Rightarrow> int \<times> 'w"
  native_rw_destroy :: "nat \<Rightarrow> 'w \<Rightarrow> int \<times> 'w"
  native_rw_rdlock :: "nat \<Rightarrow> 'w \<Rightarrow> int \<times> 'w"
  native_rw_wrlock :: "nat \<Rightarrow> 'w \<Rightarrow> int \<times> 'w"
  native_rw_tryrdlock :: "nat \<Rightarrow> 'w \<Rightarrow> int \<times> 'w"
  native_rw_trywrlock :: "nat \<Rightarrow> 'w \<Rightarrow> int \<times> 'w"
  native_rw_unlock :: "nat \<Rightarrow> 'w \<Rightarrow> int \<times> 'w"
  rw_pr_init :: "nat \<Rightarrow> 'w \<Rightarrow> int \<times> 'w"
  rw_pr_destroy :: "nat \<Rightarrow> 'w \<Rightarrow> int \<times> 'w"
  rw_pr_rdlock :: "nat \<Rightarrow> 'w \<Rightarrow> int \<times> 'w"
  rw_pr_wrlock :: "nat \<Rightarrow> 'w \<Rightarrow> int \<times> 'w"
  rw_pr_unlock :: "nat \<Rightarrow> 'w \<Rightarrow> int \<times> 'w"
  native_cond_init :: "nat \<Rightarrow> 'w \<Rightarrow> int \<times> 'w"
  native_cond_destroy :: "nat \<Rightarrow> 'w \<Rightarrow> int \<times> 'w"
  my_cond_wait :: "nat \<Rightarrow> nat \<Rightarrow> 'w \<Rightarrow> int \<times> 'w"
  my_cond_timedwait :: "nat \<Rightarrow> nat \<Rightarrow> int \<Rightarrow> 'w \<Rightarrow> int \<times> 'w"
  native_cond_signal :: "nat \<Rightarrow> 'w \<Rightarrow> int \<times> 'w"
  native_cond_broadcast :: "nat \<Rightarrow> 'w \<Rightarrow> int \<times> 'w"

section \<open>The instrumented objects\<close>

record mysql_mutex =
  m_mutex :: nat
  mutex_psi :: "nat option"

record mysql_rwlock =
  m_rwlock :: nat
  rwlock_psi :: "nat option"

record mysql_prlock =
  m_prlock :: nat
  prlock_psi :: "nat option"

record mysql_cond =
  m_cond :: nat
  cond_psi :: "nat option"


section \<open>Mutexes\<close>

definition inline_mysql_mutex_register :: "('p, 'i) psi_mutex_api \<Rightarrow> bytes \<Rightarrow> 'i \<Rightarrow> int \<Rightarrow> ('p, 'w, unit) psi_op" where
  "inline_mysql_mutex_register api category info count =
     (if have_mutex api then psi_do (register_mutex api category info count) else State_Monad.return ())"

definition inline_mysql_mutex_init :: "('p, 'i) psi_mutex_api \<Rightarrow> 'w thr_api \<Rightarrow> nat \<Rightarrow> mysql_mutex \<Rightarrow> nat \<Rightarrow> ('p, 'w, int \<times> mysql_mutex) psi_op" where
  "inline_mysql_mutex_init api thr key that attr =
     do {
       h \<leftarrow> (if have_mutex api then psi_call (init_mutex api key (m_mutex that)) else State_Monad.return None);
       result \<leftarrow> native (my_mutex_init thr (m_mutex that) attr);
       State_Monad.return (result, that\<lparr>mutex_psi := h\<rparr>)
     }"

definition inline_mysql_mutex_destroy :: "('p, 'i) psi_mutex_api \<Rightarrow> 'w thr_api \<Rightarrow> mysql_mutex \<Rightarrow> ('p, 'w, int \<times> mysql_mutex) psi_op" where
  "inline_mysql_mutex_destroy api thr that =
     do {
       that \<leftarrow> (case hook (have_mutex api) (mutex_psi that) of
          Some h \<Rightarrow> do { psi_do (destroy_mutex api h); State_Monad.return (that\<lparr>mutex_psi := None\<rparr>) }
        | None \<Rightarrow> State_Monad.return that);
       result \<leftarrow> native (my_mutex_destroy thr (m_mutex that));
       State_Monad.return (result, that)
     }"

definition inline_mysql_mutex_lock :: "('p, 'i) psi_mutex_api \<Rightarrow> 'w thr_api \<Rightarrow> mysql_mutex \<Rightarrow> src_pos \<Rightarrow> ('p, 'w, int) psi_op" where
  "inline_mysql_mutex_lock api thr that src =
     psi_wait (hook (have_mutex api) (mutex_psi that)) (\<lambda>h. start_mutex_wait api h PSI_MUTEX_LOCK src)
       (end_mutex_wait api) (my_mutex_lock thr (m_mutex that))"

definition inline_mysql_mutex_trylock :: "('p, 'i) psi_mutex_api \<Rightarrow> 'w thr_api \<Rightarrow> mysql_mutex \<Rightarrow> src_pos \<Rightarrow> ('p, 'w, int) psi_op" where
  "inline_mysql_mutex_trylock api thr that src =
     psi_wait (hook (have_mutex api) (mutex_psi that)) (\<lambda>h. start_mutex_wait api h PSI_MUTEX_TRYLOCK src)
       (end_mutex_wait api) (my_mutex_trylock thr (m_mutex that))"

definition inline_mysql_mutex_unlock :: "('p, 'i) psi_mutex_api \<Rightarrow> 'w thr_api \<Rightarrow> mysql_mutex \<Rightarrow> ('p, 'w, int) psi_op" where
  "inline_mysql_mutex_unlock api thr that =
     psi_notify (hook (have_mutex api) (mutex_psi that)) (unlock_mutex api) (my_mutex_unlock thr (m_mutex that))"


section \<open>Read-write locks\<close>

definition inline_mysql_rwlock_register :: "('p, 'i) psi_rwlock_api \<Rightarrow> bytes \<Rightarrow> 'i \<Rightarrow> int \<Rightarrow> ('p, 'w, unit) psi_op" where
  "inline_mysql_rwlock_register api category info count =
     (if have_rwlock api then psi_do (register_rwlock api category info count) else State_Monad.return ())"

definition inline_mysql_rwlock_init :: "('p, 'i) psi_rwlock_api \<Rightarrow> 'w thr_api \<Rightarrow> nat \<Rightarrow> mysql_rwlock \<Rightarrow> ('p, 'w, int \<times> mysql_rwlock) psi_op" where
  "inline_mysql_rwlock_init api thr key that =
     do {
       h \<leftarrow> (if have_rwlock api then psi_call (init_rwlock api key (m_rwlock that)) else State_Monad.return None);
       result \<leftarrow> native (native_rw_init thr (m_rwlock that));
       State_Monad.return (result, that\<lparr>rwlock_psi := h\<rparr>)
     }"

definition inline_mysql_rwlock_destroy :: "('p, 'i) psi_rwlock_api \<Rightarrow> 'w thr_api \<Rightarrow> mysql_rwlock \<Rightarrow> ('p, 'w, int \<times> mysql_rwlock) psi_op" where
  "inline_mysql_rwlock_destroy api thr that =
     do {
       that \<leftarrow> (case hook (have_rwlock api) (rwlock_psi that) of
          Some h \<Rightarrow> do { psi_do (destroy_rwlock api h); State_Monad.return (that\<lparr>rwlock_psi := None\<rparr>) }
        | None \<Rightarrow> State_Monad.return that);
       result \<leftarrow> native (native_rw_destroy thr (m_rwlock that));
       State_Monad.return (result, that)
     }"

definition inline_mysql_rwlock_rdlock :: "('p, 'i) psi_rwlock_api \<Rightarrow> 'w thr_api \<Rightarrow> mysql_rwlock \<Rightarrow> src_pos \<Rightarrow> ('p, 'w, int) psi_op" where
  "inline_mysql_rwlock_rdlock api thr that src =
     psi_wait (hook (have_rwlock api) (rwlock_psi that)) (\<lambda>h. start_rwlock_rdwait api h PSI_RWLOCK_READLOCK src)
       (end_rwlock_rdwait api) (native_rw_rdlock thr (m_rwlock that))"

definition inline_mysql_rwlock_wrlock :: "('p, 'i) psi_rwlock_api \<Rightarrow> 'w thr_api \<Rightarrow> mysql_rwlock \<Rightarrow> src_pos \<Rightarrow> ('p, 'w, int) psi_op" where
  "inline_mysql_rwlock_wrlock api thr that src =
     psi_wait (hook (have_rwlock api) (rwlock_psi that)) (\<lambda>h. start_rwlock_wrwait api h PSI_RWLOCK_WRITELOCK src)
       (end_rwlock_wrwait api) (native_rw_wrlock thr (m_rwlock that))"

definition inline_mysql_rwlock_tryrdlock :: "('p, 'i) psi_rwlock_api \<Rightarrow> 'w thr_api \<Rightarrow> mysql_rwlock \<Rightarrow> src_pos \<Rightarrow> ('p, 'w, int) psi_op" where
  "inline_mysql_rwlock_tryrdlock api thr that src =
     psi_wait (hook (have_rwlock api) (rwlock_psi that)) (\<lambda>h. start_rwlock_rdwait api h PSI_RWLOCK_TRYREADLOCK src)
       (end_rwlock_rdwait api) (native_rw_tryrdlock thr (m_rwlock that))"

definition inline_mysql_rwlock_trywrlock :: "('p, 'i) psi_rwlock_api \<Rightarrow> 'w thr_api \<Rightarrow> mysql_rwlock \<Rightarrow> src_pos \<Rightarrow> ('p, 'w, int) psi_op" where
  "inline_mysql_rwlock_trywrlock api thr that src =
     psi_wait (hook (have_rwlock api) (rwlock_psi that)) (\<lambda>h. start_rwlock_wrwait api h PSI_RWLOCK_TRYWRITELOCK src)
       (end_rwlock_wrwait api) (native_rw_trywrlock thr (m_rwlock that))"

definition inline_mysql_rwlock_unlock :: "('p, 'i) psi_rwlock_api \<Rightarrow> 'w thr_api \<Rightarrow> mysql_rwlock \<Rightarrow> ('p, 'w, int) psi_op" where
  "inline_mysql_rwlock_unlock api thr that =
     psi_notify (hook (have_rwlock api) (rwlock_psi that)) (unlock_rwlock api) (native_rw_unlock thr (m_rwlock that))"


section \<open>Reader-preferring locks\<close>

definition inline_mysql_prlock_init :: "('p, 'i) psi_rwlock_api \<Rightarrow> 'w thr_api \<Rightarrow> nat \<Rightarrow> mysql_prlock \<Rightarrow> ('p, 'w, int \<times> mysql_prlock) psi_op" where
  "inline_mysql_prlock_init api thr key that =
     do {
       h \<leftarrow> (if have_rwlock api then psi_call (init_rwlock api key (m_prlock that)) else State_Monad.return None);
       result \<leftarrow> native (rw_pr_init thr (m_prlock that));
       State_Monad.return (result, that\<lparr>prlock_psi := h\<rparr>)
     }"

definition inline_mysql_prlock_destroy :: "('p, 'i) psi_rwlock_api \<Rightarrow> 'w thr_api \<Rightarrow> mysql_prlock \<Rightarrow> ('p, 'w, int \<times> mysql_prlock) psi_op" where
  "inline_mysql_prlock_destroy api thr that =
     do {
       that \<leftarrow> (case hook (have_rwlock api) (prlock_psi that) of
          Some h \<Rightarrow> do { psi_do (destroy_rwlock api h); State_Monad.return (that\<lparr>prlock_psi := None\<rparr>) }
        | None \<Rightarrow> State_Monad.return that);
       result \<leftarrow> native (rw_pr_destroy thr (m_prlock that));
       State_Monad.return (result, that)
     }"

definition inline_mysql_prlock_rdlock :: "('p, 'i) psi_rwlock_api \<Rightarrow> 'w thr_api \<Rightarrow> mysql_prlock \<Rightarrow> src_pos \<Rightarrow> ('p, 'w, int) psi_op" where
  "inline_mysql_prlock_rdlock api thr that src =
     psi_wait (hook (have_rwlock api) (prlock_psi that)) (\<lambda>h. start_rwlock_rdwait api h PSI_RWLOCK_READLOCK src)
       (end_rwlock_rdwait api) (rw_pr_rdlock thr (m_prlock that))"

definition inline_mysql_prlock_wrlock :: "('p, 'i) psi_rwlock_api \<Rightarrow> 'w thr_api \<Rightarrow> mysql_prlock \<Rightarrow> src_pos \<Rightarrow> ('p, 'w, int) psi_op" where
  "inline_mysql_prlock_wrlock api thr that src =
     psi_wait (hook (have_rwlock api) (prlock_psi that)) (\<lambda>h. start_rwlock_wrwait api h PSI_RWLOCK_WRITELOCK src)
       (end_rwlock_wrwait api) (rw_pr_wrlock thr (m_prlock that))"

definition inline_mysql_prlock_unlock :: "('p, 'i) psi_rwlock_api \<Rightarrow> 'w thr_api \<Rightarrow> mysql_prlock \<Rightarrow> ('p, 'w, int) psi_op" where
  "inline_mysql_prlock_unlock api thr that =
     psi_notify (hook (have_rwlock api) (prlock_psi that)) (unlock_rwlock api) (rw_pr_unlock thr (m_prlock that))"


section \<open>Conditions\<close>

definition inline_mysql_cond_register :: "('p, 'i) psi_cond_api \<Rightarrow> bytes \<Rightarrow> 'i \<Rightarrow> int \<Rightarrow> ('p, 'w, unit) psi_op" where
  "inline_mysql_cond_register api category info count =
     (if have_cond api then psi_do (register_cond api category info count) else State_Monad.return ())"

definition inline_mysql_cond_init :: "('p, 'i) psi_cond_api \<Rightarrow> 'w thr_api \<Rightarrow> nat \<Rightarrow> mysql_cond \<Rightarrow> ('p, 'w, int \<times> mysql_cond) psi_op" where
  "inline_mysql_cond_init api thr key that =
     do {
       h \<leftarrow> (if have_cond api then psi_call (init_cond api key (m_cond that)) else State_Monad.return None);
       result \<leftarrow> native (native_cond_init thr (m_cond that));
       State_Monad.return (result, that\<lparr>cond_psi := h\<rparr>)
     }"

definition inline_mysql_cond_destroy :: "('p, 'i) psi_cond_api \<Rightarrow> 'w thr_api \<Rightarrow> mysql_cond \<Rightarrow> ('p, 'w, int \<times> mysql_cond) psi_op" where
  "inline_mysql_cond_destroy api thr that =
     do {
       that \<leftarrow> (case hook (have_cond api) (cond_psi that) of
          Some h \<Rightarrow> do { psi_do (destroy_cond api h); State_Monad.return (that\<lparr>cond_psi := None\<rparr>) }
        | None \<Rightarrow> State_Monad.return that);
       result \<leftarrow> native (native_cond_destroy thr (m_cond that));
       State_Monad.return (result, that)
     }"

definition inline_mysql_cond_wait :: "('p, 'i) psi_cond_api \<Rightarrow> 'w thr_api \<Rightarrow> mysql_cond \<Rightarrow> mysql_mutex \<Rightarrow>
    src_pos \<Rightarrow> ('p, 'w, int) psi_op" where
  "inline_mysql_cond_wait api thr that mutex src =
     psi_wait (hook (have_cond api) (cond_psi that))
       (\<lambda>h. start_cond_wait api h (mutex_psi mutex) PSI_COND_WAIT src)
       (end_cond_wait api) (my_cond_wait thr (m_cond that) (m_mutex mutex))"

definition inline_mysql_cond_timedwait :: "('p, 'i) psi_cond_api \<Rightarrow> 'w thr_api \<Rightarrow> mysql_cond \<Rightarrow> mysql_mutex \<Rightarrow>
    int \<Rightarrow> src_pos \<Rightarrow> ('p, 'w, int) psi_op" where
  "inline_mysql_cond_timedwait api thr that mutex abstime src =
     psi_wait (hook (have_cond api) (cond_psi that))
       (\<lambda>h. start_cond_wait api h (mutex_psi mutex) PSI_COND_TIMEDWAIT src)
       (end_cond_wait api) (my_cond_timedwait thr (m_cond that) (m_mutex mutex) abstime)"

definition inline_mysql_cond_signal :: "('p, 'i) psi_cond_api \<Rightarrow> 'w thr_api \<Rightarrow> mysql_cond \<Rightarrow> ('p, 'w, int) psi_op" where
  "inline_mysql_cond_signal api thr that =
     psi_notify (hook (have_cond api) (cond_psi that)) (signal_cond api) (native_cond_signal thr (m_cond that))"

definition inline_mysql_cond_broadcast :: "('p, 'i) psi_cond_api \<Rightarrow> 'w thr_api \<Rightarrow> mysql_cond \<Rightarrow> ('p, 'w, int) psi_op" where
  "inline_mysql_cond_broadcast api thr that =
     psi_notify (hook (have_cond api) (cond_psi that)) (broadcast_cond api) (native_cond_broadcast thr (m_cond that))"


section \<open>Threads\<close>

definition inline_mysql_thread_register :: "('p, 'w, 'i) psi_thread_api \<Rightarrow> bytes \<Rightarrow> 'i \<Rightarrow> int \<Rightarrow> ('p, 'w, unit) psi_op" where
  "inline_mysql_thread_register api category info count =
     (if have_thread api then psi_do (register_thread api category info count) else State_Monad.return ())"

definition inline_mysql_thread_create :: "('p, 'w, 'i) psi_thread_api \<Rightarrow> nat \<Rightarrow> nat \<Rightarrow> nat \<Rightarrow> nat \<Rightarrow> nat \<Rightarrow>
    ('p, 'w, int) psi_op" where
  "inline_mysql_thread_create api key thread attr start_routine arg = State (\<lambda>s.
     let (result, p, w) = spawn_thread api key thread attr start_routine arg (psi_part s, world_part s)
     in (result, s\<lparr>psi_part := p, world_part := w, calls := calls s @ [Ev_psi]\<rparr>))"

definition inline_mysql_thread_set_psi_id :: "('p, 'w, 'i) psi_thread_api \<Rightarrow> nat \<Rightarrow> ('p, 'w, unit) psi_op" where
  "inline_mysql_thread_set_psi_id api id' =
     do { psi \<leftarrow> psi_call (get_thread api); psi_do (set_thread_id api psi id') }"

definition inline_mysql_thread_set_psi_THD :: "('p, 'w, 'i) psi_thread_api \<Rightarrow> nat \<Rightarrow> ('p, 'w, unit) psi_op" where
  "inline_mysql_thread_set_psi_THD api thd =
     do { psi \<leftarrow> psi_call (get_thread api); psi_do (set_thread_THD api psi thd) }"

section \<open>The wrappers keep the contract\<close>

interpretation mutex_lock: instrumented "inline_mysql_mutex_lock api thr that src" "my_mutex_lock thr (m_mutex that)" for api thr that src
  unfolding inline_mysql_mutex_lock_def by (rule psi_wait_instrumented)

interpretation mutex_trylock: instrumented "inline_mysql_mutex_trylock api thr that src" "my_mutex_trylock thr (m_mutex that)" for api thr that src
  unfolding inline_mysql_mutex_trylock_def by (rule psi_wait_instrumented)

interpretation mutex_unlock: instrumented "inline_mysql_mutex_unlock api thr that" "my_mutex_unlock thr (m_mutex that)" for api thr that
  unfolding inline_mysql_mutex_unlock_def by (rule psi_notify_instrumented)

interpretation rwlock_rdlock: instrumented "inline_mysql_rwlock_rdlock api thr that src" "native_rw_rdlock thr (m_rwlock that)" for api thr that src
  unfolding inline_mysql_rwlock_rdlock_def by (rule psi_wait_instrumented)

interpretation rwlock_wrlock: instrumented "inline_mysql_rwlock_wrlock api thr that src" "native_rw_wrlock thr (m_rwlock that)" for api thr that src
  unfolding inline_mysql_rwlock_wrlock_def by (rule psi_wait_instrumented)

interpretation rwlock_tryrdlock: instrumented "inline_mysql_rwlock_tryrdlock api thr that src" "native_rw_tryrdlock thr (m_rwlock that)" for api thr that src
  unfolding inline_mysql_rwlock_tryrdlock_def by (rule psi_wait_instrumented)

interpretation rwlock_trywrlock: instrumented "inline_mysql_rwlock_trywrlock api thr that src" "native_rw_trywrlock thr (m_rwlock that)" for api thr that src
  unfolding inline_mysql_rwlock_trywrlock_def by (rule psi_wait_instrumented)

interpretation rwlock_unlock: instrumented "inline_mysql_rwlock_unlock api thr that" "native_rw_unlock thr (m_rwlock that)" for api thr that
  unfolding inline_mysql_rwlock_unlock_def by (rule psi_notify_instrumented)

interpretation prlock_rdlock: instrumented "inline_mysql_prlock_rdlock api thr that src" "rw_pr_rdlock thr (m_prlock that)" for api thr that src
  unfolding inline_mysql_prlock_rdlock_def by (rule psi_wait_instrumented)

interpretation prlock_wrlock: instrumented "inline_mysql_prlock_wrlock api thr that src" "rw_pr_wrlock thr (m_prlock that)" for api thr that src
  unfolding inline_mysql_prlock_wrlock_def by (rule psi_wait_instrumented)

interpretation prlock_unlock: instrumented "inline_mysql_prlock_unlock api thr that" "rw_pr_unlock thr (m_prlock that)" for api thr that
  unfolding inline_mysql_prlock_unlock_def by (rule psi_notify_instrumented)

interpretation cond_wait: instrumented "inline_mysql_cond_wait api thr that mutex src" "my_cond_wait thr (m_cond that) (m_mutex mutex)" for api thr that mutex src
  unfolding inline_mysql_cond_wait_def by (rule psi_wait_instrumented)

interpretation cond_timedwait: instrumented "inline_mysql_cond_timedwait api thr that mutex abstime src" "my_cond_timedwait thr (m_cond that) (m_mutex mutex) abstime" for api thr that mutex abstime src
  unfolding inline_mysql_cond_timedwait_def by (rule psi_wait_instrumented)

interpretation cond_signal: instrumented "inline_mysql_cond_signal api thr that" "native_cond_signal thr (m_cond that)" for api thr that
  unfolding inline_mysql_cond_signal_def by (rule psi_notify_instrumented)

interpretation cond_broadcast: instrumented "inline_mysql_cond_broadcast api thr that" "native_cond_broadcast thr (m_cond that)" for api thr that
  unfolding inline_mysql_cond_broadcast_def by (rule psi_notify_instrumented)


text \<open>
  Creating and destroying an object: the native result and effect are those of the native
  operation, the object keeps its address, and after \<open>destroy\<close> it has no hook when the
  interface is compiled in.
\<close>

lemma mutex_init_destroy:
  "run_state (inline_mysql_mutex_init api thr key that attr) s = ((r, that'), s') \<Longrightarrow>
     my_mutex_init thr (m_mutex that) attr (world_part s) = (r, world_part s') \<and> m_mutex that' = m_mutex that"
  "run_state (inline_mysql_mutex_destroy api thr that) s = ((r, that'), s') \<Longrightarrow>
     my_mutex_destroy thr (m_mutex that) (world_part s) = (r, world_part s')
     \<and> m_mutex that' = m_mutex that \<and> hook (have_mutex api) (mutex_psi that') = None"
  by (auto simp: inline_mysql_mutex_init_def inline_mysql_mutex_destroy_def hook_def psi_prims
      split: if_splits option.splits prod.splits)


lemma rwlock_init_destroy:
  "run_state (inline_mysql_rwlock_init api thr key that) s = ((r, that'), s') \<Longrightarrow>
     native_rw_init thr (m_rwlock that) (world_part s) = (r, world_part s') \<and> m_rwlock that' = m_rwlock that"
  "run_state (inline_mysql_rwlock_destroy api thr that) s = ((r, that'), s') \<Longrightarrow>
     native_rw_destroy thr (m_rwlock that) (world_part s) = (r, world_part s')
     \<and> m_rwlock that' = m_rwlock that \<and> hook (have_rwlock api) (rwlock_psi that') = None"
  by (auto simp: inline_mysql_rwlock_init_def inline_mysql_rwlock_destroy_def hook_def psi_prims
      split: if_splits option.splits prod.splits)


lemma prlock_init_destroy:
  "run_state (inline_mysql_prlock_init api thr key that) s = ((r, that'), s') \<Longrightarrow>
     rw_pr_init thr (m_prlock that) (world_part s) = (r, world_part s') \<and> m_prlock that' = m_prlock that"
  "run_state (inline_mysql_prlock_destroy api thr that) s = ((r, that'), s') \<Longrightarrow>
     rw_pr_destroy thr (m_prlock that) (world_part s) = (r, world_part s')
     \<and> m_prlock that' = m_prlock that \<and> hook (have_rwlock api) (prlock_psi that') = None"
  by (auto simp: inline_mysql_prlock_init_def inline_mysql_prlock_destroy_def hook_def psi_prims
      split: if_splits option.splits prod.splits)


lemma cond_init_destroy:
  "run_state (inline_mysql_cond_init api thr key that) s = ((r, that'), s') \<Longrightarrow>
     native_cond_init thr (m_cond that) (world_part s) = (r, world_part s') \<and> m_cond that' = m_cond that"
  "run_state (inline_mysql_cond_destroy api thr that) s = ((r, that'), s') \<Longrightarrow>
     native_cond_destroy thr (m_cond that) (world_part s) = (r, world_part s')
     \<and> m_cond that' = m_cond that \<and> hook (have_cond api) (cond_psi that') = None"
  by (auto simp: inline_mysql_cond_init_def inline_mysql_cond_destroy_def hook_def psi_prims
      split: if_splits option.splits prod.splits)

section \<open>Programs\<close>

text \<open>The calls a thread makes on locks and conditions.\<close>

datatype thr_call
  = Call_mutex_lock mysql_mutex src_pos
  | Call_mutex_trylock mysql_mutex src_pos
  | Call_mutex_unlock mysql_mutex
  | Call_rwlock_rdlock mysql_rwlock src_pos
  | Call_rwlock_wrlock mysql_rwlock src_pos
  | Call_rwlock_tryrdlock mysql_rwlock src_pos
  | Call_rwlock_trywrlock mysql_rwlock src_pos
  | Call_rwlock_unlock mysql_rwlock
  | Call_prlock_rdlock mysql_prlock src_pos
  | Call_prlock_wrlock mysql_prlock src_pos
  | Call_prlock_unlock mysql_prlock
  | Call_cond_wait mysql_cond mysql_mutex src_pos
  | Call_cond_timedwait mysql_cond mysql_mutex int src_pos
  | Call_cond_signal mysql_cond
  | Call_cond_broadcast mysql_cond

fun thr_wrapper :: "('p, 'i) psi_mutex_api \<Rightarrow> ('p, 'j) psi_rwlock_api \<Rightarrow> ('p, 'k) psi_cond_api \<Rightarrow> 'w thr_api \<Rightarrow> thr_call \<Rightarrow> ('p, 'w, int) psi_op" where
  "thr_wrapper mapi rapi capi thr (Call_mutex_lock that src) = inline_mysql_mutex_lock mapi thr that src"
| "thr_wrapper mapi rapi capi thr (Call_mutex_trylock that src) = inline_mysql_mutex_trylock mapi thr that src"
| "thr_wrapper mapi rapi capi thr (Call_mutex_unlock that) = inline_mysql_mutex_unlock mapi thr that"
| "thr_wrapper mapi rapi capi thr (Call_rwlock_rdlock that src) = inline_mysql_rwlock_rdlock rapi thr that src"
| "thr_wrapper mapi rapi capi thr (Call_rwlock_wrlock that src) = inline_mysql_rwlock_wrlock rapi thr that src"
| "thr_wrapper mapi rapi capi thr (Call_rwlock_tryrdlock that src) = inline_mysql_rwlock_tryrdlock rapi thr that src"
| "thr_wrapper mapi rapi capi thr (Call_rwlock_trywrlock that src) = inline_mysql_rwlock_trywrlock rapi thr that src"
| "thr_wrapper mapi rapi capi thr (Call_rwlock_unlock that) = inline_mysql_rwlock_unlock rapi thr that"
| "thr_wrapper mapi rapi capi thr (Call_prlock_rdlock that src) = inline_mysql_prlock_rdlock rapi thr that src"
| "thr_wrapper mapi rapi capi thr (Call_prlock_wrlock that src) = inline_mysql_prlock_wrlock rapi thr that src"
| "thr_wrapper mapi rapi capi thr (Call_prlock_unlock that) = inline_mysql_prlock_unlock rapi thr that"
| "thr_wrapper mapi rapi capi thr (Call_cond_wait that mutex src) = inline_mysql_cond_wait capi thr that mutex src"
| "thr_wrapper mapi rapi capi thr (Call_cond_timedwait that mutex abstime src) = inline_mysql_cond_timedwait capi thr that mutex abstime src"
| "thr_wrapper mapi rapi capi thr (Call_cond_signal that) = inline_mysql_cond_signal capi thr that"
| "thr_wrapper mapi rapi capi thr (Call_cond_broadcast that) = inline_mysql_cond_broadcast capi thr that"

fun thr_native :: "'w thr_api \<Rightarrow> thr_call \<Rightarrow> 'w \<Rightarrow> int \<times> 'w" where
  "thr_native thr (Call_mutex_lock that src) = my_mutex_lock thr (m_mutex that)"
| "thr_native thr (Call_mutex_trylock that src) = my_mutex_trylock thr (m_mutex that)"
| "thr_native thr (Call_mutex_unlock that) = my_mutex_unlock thr (m_mutex that)"
| "thr_native thr (Call_rwlock_rdlock that src) = native_rw_rdlock thr (m_rwlock that)"
| "thr_native thr (Call_rwlock_wrlock that src) = native_rw_wrlock thr (m_rwlock that)"
| "thr_native thr (Call_rwlock_tryrdlock that src) = native_rw_tryrdlock thr (m_rwlock that)"
| "thr_native thr (Call_rwlock_trywrlock that src) = native_rw_trywrlock thr (m_rwlock that)"
| "thr_native thr (Call_rwlock_unlock that) = native_rw_unlock thr (m_rwlock that)"
| "thr_native thr (Call_prlock_rdlock that src) = rw_pr_rdlock thr (m_prlock that)"
| "thr_native thr (Call_prlock_wrlock that src) = rw_pr_wrlock thr (m_prlock that)"
| "thr_native thr (Call_prlock_unlock that) = rw_pr_unlock thr (m_prlock that)"
| "thr_native thr (Call_cond_wait that mutex src) = my_cond_wait thr (m_cond that) (m_mutex mutex)"
| "thr_native thr (Call_cond_timedwait that mutex abstime src) = my_cond_timedwait thr (m_cond that) (m_mutex mutex) abstime"
| "thr_native thr (Call_cond_signal that) = native_cond_signal thr (m_cond that)"
| "thr_native thr (Call_cond_broadcast that) = native_cond_broadcast thr (m_cond that)"

lemma thr_call_instrumented: "instrumented (thr_wrapper mapi rapi capi thr c) (thr_native thr c)"
  by (cases c) (simp_all add: mutex_lock.instrumented_axioms
    mutex_trylock.instrumented_axioms
    mutex_unlock.instrumented_axioms
    rwlock_rdlock.instrumented_axioms
    rwlock_wrlock.instrumented_axioms
    rwlock_tryrdlock.instrumented_axioms
    rwlock_trywrlock.instrumented_axioms
    rwlock_unlock.instrumented_axioms
    prlock_rdlock.instrumented_axioms
    prlock_wrlock.instrumented_axioms
    prlock_unlock.instrumented_axioms
    cond_wait.instrumented_axioms
    cond_timedwait.instrumented_axioms
    cond_signal.instrumented_axioms
    cond_broadcast.instrumented_axioms)

text \<open>A program of such calls cannot tell the wrappers from the native operations.\<close>

lemma thr_call_program:
  "run_wrappers (map (thr_wrapper mapi rapi capi thr) cs) s = (as, s') \<Longrightarrow>
     run_natives (map (thr_native thr) cs) (world_part s) = (as, world_part s')
     \<and> (\<exists>es. calls s' = calls s @ es \<and> balanced es \<and> count_list es Ev_native = length cs)"
  using wrappers_transparent [of "map (thr_wrapper mapi rapi capi thr) cs" "map (thr_native thr) cs" s as s']
  by (simp add: list_all2_map1 list_all2_map2 list_all2_same thr_call_instrumented)

end
