(* ===== verification/My_Global.thy ===== *)
theory My_Global
  imports Engine_Prelude "HOL-Library.Signed_Division"
begin

unbundle bit_operations_syntax

text \<open>
  The inline functions and arithmetic macros of \<^verbatim>\<open>my_global.h\<close>: time
  specifications, alignment, comparisons and the trimming of an error text, with the conversion of
  a time specification to a timeout in \<^verbatim>\<open>thr_cond.h\<close>. The clock is a parameter. The
  configuration of this repository has \<open>struct timespec\<close> and 64 bit times; the other variants
  of the code are modelled too.
\<close>

section \<open>General macros\<close>

definition MY_MAX :: "'a::linorder \<Rightarrow> 'a \<Rightarrow> 'a" where "MY_MAX a b = (if a > b then a else b)"
definition MY_MIN :: "'a::linorder \<Rightarrow> 'a \<Rightarrow> 'a" where "MY_MIN a b = (if a < b then a else b)"

text \<open>The new value of the variable \<open>a\<close>.\<close>

definition set_if_bigger :: "'a::linorder \<Rightarrow> 'a \<Rightarrow> 'a" where "set_if_bigger a b = (if a < b then b else a)"
definition set_if_smaller :: "'a::linorder \<Rightarrow> 'a \<Rightarrow> 'a" where "set_if_smaller a b = (if a > b then b else a)"

definition swap_variables :: "'a \<times> 'a \<Rightarrow> 'a \<times> 'a" where
  "swap_variables = (\<lambda>(a, b). let dummy = a; a = b; b = dummy in (a, b))"

definition test_all_bits :: "64 word \<Rightarrow> 64 word \<Rightarrow> bool" where
  "test_all_bits a b \<longleftrightarrow> a AND b = b"

definition MY_ALIGN :: "64 word \<Rightarrow> 64 word \<Rightarrow> 64 word" where
  "MY_ALIGN A L = (A + L - 1) AND NOT (L - 1)"

definition ALIGN_SIZE :: "64 word \<Rightarrow> 64 word" where
  "ALIGN_SIZE A = MY_ALIGN A 8"

definition YESNO :: "bool \<Rightarrow> string" where "YESNO X = (if X then ''yes'' else ''no'')"

section \<open>Limits\<close>

definition INT_MIN64 :: int where "INT_MIN64 = NOT 0x7FFFFFFFFFFFFFFF"
definition INT_MAX64 :: int where "INT_MAX64 = 0x7FFFFFFFFFFFFFFF"
definition INT_MIN32 :: int where "INT_MIN32 = NOT 0x7FFFFFFF"
definition INT_MAX32 :: int where "INT_MAX32 = 0x7FFFFFFF"
definition UINT_MAX32 :: int where "UINT_MAX32 = 0xFFFFFFFF"
definition INT_MIN24 :: int where "INT_MIN24 = NOT 0x007FFFFF"
definition INT_MAX24 :: int where "INT_MAX24 = 0x007FFFFF"
definition UINT_MAX24 :: int where "UINT_MAX24 = 0x00FFFFFF"
definition INT_MIN16 :: int where "INT_MIN16 = NOT 0x7FFF"
definition INT_MAX16 :: int where "INT_MAX16 = 0x7FFF"
definition UINT_MAX16 :: int where "UINT_MAX16 = 0xFFFF"
definition INT_MIN8 :: int where "INT_MIN8 = NOT 0x7F"
definition INT_MAX8 :: int where "INT_MAX8 = 0x7F"
definition UINT_MAX8 :: int where "UINT_MAX8 = 0xFF"

lemmas int_limit_defs = INT_MIN64_def INT_MAX64_def INT_MIN32_def INT_MAX32_def UINT_MAX32_def
  INT_MIN24_def INT_MAX24_def UINT_MAX24_def INT_MIN16_def INT_MAX16_def UINT_MAX16_def
  INT_MIN8_def INT_MAX8_def UINT_MAX8_def

section \<open>Time specifications\<close>

record timespec =
  tv_sec :: int
  tv_nsec :: int

text \<open>
  \<open>set_timespec_nsec\<close>: \<open>systime\<close> is what \<open>my_getsystime\<close> returns, in units of
  100 ns; with a \<open>time_t\<close> shorter than \<open>long long\<close> the seconds are cut.
\<close>

definition set_timespec_nsec :: "bool \<Rightarrow> 64 word \<Rightarrow> 64 word \<Rightarrow> timespec" where
  "set_timespec_nsec short_time_t systime nsec =
     (let now = systime + nsec div 100;
          sec = now div 10000000;
          sec = (if short_time_t then MY_MIN sec (word_of_int INT_MAX32) else sec)
      in \<lparr>tv_sec = sint sec, tv_nsec = sint ((now mod 10000000) * 100 + nsec mod 100)\<rparr>)"

definition set_timespec :: "bool \<Rightarrow> 64 word \<Rightarrow> 64 word \<Rightarrow> timespec" where
  "set_timespec short_time_t systime sec = set_timespec_nsec short_time_t systime (sec * 1000000000)"

definition cmp_timespec :: "timespec \<Rightarrow> timespec \<Rightarrow> int" where
  "cmp_timespec ts1 ts2 =
     (if tv_sec ts1 > tv_sec ts2 \<or> tv_sec ts1 = tv_sec ts2 \<and> tv_nsec ts1 > tv_nsec ts2 then 1
      else if tv_sec ts1 < tv_sec ts2 \<or> tv_sec ts1 = tv_sec ts2 \<and> tv_nsec ts1 < tv_nsec ts2 then - 1
      else 0)"

definition diff_timespec :: "timespec \<Rightarrow> timespec \<Rightarrow> 64 word" where
  "diff_timespec ts1 ts2 =
     word_of_int (tv_sec ts1 - tv_sec ts2) * 1000000000 + word_of_int (tv_nsec ts1) - word_of_int (tv_nsec ts2)"

text \<open>
  Without \<open>struct timespec\<close>: a 64 bit count of 100 ns and the longest timeout in
  milliseconds, cut to 31 bits when \<open>long\<close> is shorter than \<open>long long\<close>.
\<close>

record timespec_ft =
  tv_i64 :: "64 word"
  max_timeout_msec :: int

definition set_timespec_nsec_ft :: "bool \<Rightarrow> 64 word \<Rightarrow> 64 word \<Rightarrow> timespec_ft" where
  "set_timespec_nsec_ft short_long filetime nsec =
     (let msec = nsec div 1000000;
          msec' = (if short_long then MY_MIN msec (word_of_int INT_MAX32) else msec)
      in \<lparr>tv_i64 = filetime + nsec div 100, max_timeout_msec = sint msec'\<rparr>)"

definition cmp_timespec_ft :: "timespec_ft \<Rightarrow> timespec_ft \<Rightarrow> int" where
  "cmp_timespec_ft ts1 ts2 =
     (if sint (tv_i64 ts1) > sint (tv_i64 ts2) then 1 else if sint (tv_i64 ts1) < sint (tv_i64 ts2) then - 1 else 0)"

definition diff_timespec_ft :: "timespec_ft \<Rightarrow> timespec_ft \<Rightarrow> 64 word" where
  "diff_timespec_ft ts1 ts2 = (tv_i64 ts1 - tv_i64 ts2) * 100"

section \<open>Timeouts of \<^verbatim>\<open>thr_cond.h\<close>\<close>

definition INFINITE :: "32 word" where "INFINITE = 0xFFFFFFFF"

text \<open>The signed division truncates towards zero.\<close>

definition get_milliseconds_ft :: "timespec_ft option \<Rightarrow> 64 word \<Rightarrow> 32 word" where
  "get_milliseconds_ft abstime now =
     (case abstime of
        None \<Rightarrow> INFINITE
      | Some ts \<Rightarrow>
          let millis = sint (tv_i64 ts - now) sdiv 10000 in
          if millis < 0 then 0
          else
            let millis = (if millis > max_timeout_msec ts then max_timeout_msec ts else millis);
                millis = (if millis > UINT_MAX32 then UINT_MAX32 else millis)
            in word_of_int millis)"

definition get_milliseconds :: "timespec \<Rightarrow> 64 word \<Rightarrow> 32 word" where
  "get_milliseconds abstime systime =
     (let future = (word_of_int (tv_sec abstime * 1000 + tv_nsec abstime sdiv 1000000) :: 64 word);
          now = systime div 10000
      in if future < now then 0 else ucast (future - now))"

section \<open>The text of a system error\<close>

text \<open>
  \<open>DLERROR_GENERATE\<close> removes trailing characters of a set written as a string literal with an
  embedded NUL, so that \<open>strchr\<close> sees only the part before it (and the NUL itself).
\<close>

definition trim_set :: "bytes" where
  "trim_set = [CHR 0x0D, CHR 0x0A, CHR 0x09] @ [NUL] @ ''x20''"

definition strchr_found :: "bytes \<Rightarrow> char \<Rightarrow> bool" where
  "strchr_found lit c \<longleftrightarrow> c \<in> set (takeWhile (\<lambda>x. x \<noteq> NUL) lit) \<or> c = NUL"

definition DLERROR_GENERATE :: "bytes option \<Rightarrow> bytes" where
  "DLERROR_GENERATE formatted =
     (case formatted of
        None \<Rightarrow> []
      | Some msg \<Rightarrow> rev (dropWhile (strchr_found trim_set) (rev msg)))"

section \<open>Comparisons, bits and alignment\<close>

lemma MY_MAX_MIN: "MY_MAX a b = max a b" "MY_MIN a b = min a b" "set_if_bigger a b = max a b" "set_if_smaller a b = min a b"
  by (auto simp: MY_MAX_def MY_MIN_def set_if_bigger_def set_if_smaller_def max_def min_def)

lemma test_all_bits_iff: "test_all_bits a b \<longleftrightarrow> (\<forall>n < 64. bit b n \<longrightarrow> bit a n)"
  by (auto simp: test_all_bits_def bit_eq_iff bit_simps)

lemma and_not_mask_unat: "unat (x AND NOT (mask k) :: 64 word) = unat x div 2 ^ k * 2 ^ k"
proof -
  have "x AND NOT (mask k) = push_bit k (drop_bit k x)"
    by (rule bit_word_eqI) (auto simp: bit_simps)
  moreover have "unat x div 2 ^ k * 2 ^ k < 2 ^ 64"
    using unsigned_less [of x, where 'a = nat] div_times_less_eq_dividend [of "unat x" "2 ^ k"] by (simp del: div_times_less_eq_dividend)
  moreover have "unat (push_bit k (drop_bit k x)) = take_bit 64 (push_bit k (drop_bit k (unat x)))"
    by (simp only: unsigned_push_bit_eq unat_drop_bit_eq) simp
  ultimately show ?thesis
    by (simp only: push_bit_eq_mult drop_bit_eq_div take_bit_nat_eq_self_iff)
qed

text \<open>The least multiple of a power of two that is at least \<open>A\<close>.\<close>

lemma MY_ALIGN_unat:
  assumes "k < 64" "unat A + 2 ^ k \<le> 2 ^ 64"
  shows "unat (MY_ALIGN A (2 ^ k)) = (unat A + (2 ^ k - 1)) div 2 ^ k * 2 ^ k"
proof -
  have m: "(2 ^ k - 1 :: 64 word) = mask k" by (simp add: mask_eq_decr_exp)
  have "(2 :: nat) ^ k < 2 ^ 64" using assms(1) by (rule power_strict_increasing) simp
  then have "unat (of_nat (2 ^ k) :: 64 word) = 2 ^ k" by (rule unat_of_nat_size_t)
  then have p: "unat (2 ^ k :: 64 word) = 2 ^ k" by simp
  then have "(2 ^ k :: 64 word) \<noteq> 0" by (metis power_not_zero unsigned_0 zero_neq_numeral)
  then have "unat (mask k :: 64 word) = 2 ^ k - 1" using p by (simp add: unat_minus_one flip: m)
  then have "unat (A + mask k) = unat A + (2 ^ k - 1)"
    using assms(2) by (subst unat_plus_simple [THEN iffD1]) (simp_all add: no_olen_add_nat)
  moreover have "MY_ALIGN A (2 ^ k) = (A + mask k) AND NOT (mask k)"
    by (simp add: MY_ALIGN_def m [symmetric] add_diff_eq)
  ultimately show ?thesis by (simp add: and_not_mask_unat)
qed

lemma MY_ALIGN_spec:
  assumes "k < 64" "unat A + 2 ^ k \<le> 2 ^ 64"
  defines "n \<equiv> unat (MY_ALIGN A (2 ^ k))"
  shows "2 ^ k dvd n" "unat A \<le> n" "n < unat A + 2 ^ k" "2 ^ k dvd unat A \<Longrightarrow> n = unat A"
proof -
  let ?x = "unat A + (2 ^ k - 1)"
  have n: "n = ?x div 2 ^ k * 2 ^ k" unfolding n_def using assms(1,2) by (rule MY_ALIGN_unat)
  have d: "?x = ?x div 2 ^ k * 2 ^ k + ?x mod 2 ^ k" by (rule div_mult_mod_eq [symmetric])
  have m: "?x mod 2 ^ k < 2 ^ k" by simp
  have p: "(0::nat) < 2 ^ k" by simp
  show "2 ^ k dvd n" by (simp add: n)
  show "unat A \<le> n" using d m unfolding n [symmetric] by linarith
  show "n < unat A + 2 ^ k" using d p unfolding n [symmetric] by linarith
  show "n = unat A" if dv: "2 ^ k dvd unat A"
  proof -
    obtain q where "unat A = 2 ^ k * q" using dv by blast
    moreover have "(2 ^ k * q + (2 ^ k - 1)) div 2 ^ k = q" by (subst div_mult_self4) simp_all
    ultimately show ?thesis unfolding n by (simp only: mult.commute)
  qed
qed

section \<open>Lemmas on time specifications\<close>

text \<open>The time in nanoseconds.\<close>

definition total_nsec :: "timespec \<Rightarrow> int" where
  "total_nsec ts = tv_sec ts * 1000000000 + tv_nsec ts"

definition normal_ts :: "timespec \<Rightarrow> bool" where
  "normal_ts ts \<longleftrightarrow> 0 \<le> tv_nsec ts \<and> tv_nsec ts < 1000000000"

lemma sint_small: "unat (w :: 64 word) < 2 ^ 63 \<Longrightarrow> sint w = int (unat w)"
proof -
  assume "unat w < 2 ^ 63"
  then have "uint w < 2 ^ 63" using of_nat_less_iff [of "unat w" "2 ^ 63", where 'a = int] by simp
  moreover have "- (2 ^ 63) \<le> uint w" by (rule order_trans [of _ 0]) simp_all
  ultimately show ?thesis using signed_take_bit_int_eq_self [of 63 "uint w"] by (simp add: sint_uint)
qed

lemma unat_word_of_int: "0 \<le> z \<Longrightarrow> z < 2 ^ 64 \<Longrightarrow> int (unat (word_of_int z :: 64 word)) = z"
  by (simp add: uint_word_of_int)

lemma set_timespec_nsec_eq:
  assumes "unat t + unat n div 100 < 2 ^ 63"
  shows "set_timespec_nsec False t n =
    \<lparr>tv_sec = int ((unat t + unat n div 100) div 10000000),
     tv_nsec = int ((unat t + unat n div 100) mod 10000000 * 100 + unat n mod 100)\<rparr>"
proof -
  let ?now = "unat t + unat n div 100"
  have d: "unat (n div 100) = unat n div 100" by (simp add: unat_div)
  have now: "unat (t + n div 100) = ?now"
    using assms d by (subst unat_plus_simple [THEN iffD1]) (simp_all add: no_olen_add_nat)
  have sec: "unat ((t + n div 100) div 10000000) = ?now div 10000000" by (simp add: unat_div now)
  have m: "?now mod 10000000 \<le> 9999999" "unat n mod 100 \<le> 99" by simp_all
  have "unat ((t + n div 100) mod 10000000) = ?now mod 10000000" "unat (n mod 100) = unat n mod 100"
    by (simp_all add: unat_mod now)
  then have ns: "unat ((t + n div 100) mod 10000000 * 100 + n mod 100) = ?now mod 10000000 * 100 + unat n mod 100"
    using m by (simp add: unat_word_ariths)
  have "?now div 10000000 < 2 ^ 63" using assms by simp
  moreover have "?now mod 10000000 * 100 + unat n mod 100 < 2 ^ 63" using m by simp
  ultimately show ?thesis
    using sint_small [of "(t + n div 100) div 10000000"] sint_small [of "(t + n div 100) mod 10000000 * 100 + n mod 100"]
    unfolding sec ns by (simp add: set_timespec_nsec_def Let_def)
qed

lemma set_timespec_nsec_spec:
  assumes "unat t + unat n div 100 < 2 ^ 63"
  shows "total_nsec (set_timespec_nsec False t n) = 100 * int (unat t) + int (unat n)"
    and "normal_ts (set_timespec_nsec False t n)"
proof -
  let ?now = "unat t + unat n div 100"
  have "?now div 10000000 * 1000000000 + (?now mod 10000000 * 100 + unat n mod 100) = 100 * unat t + unat n"
    using div_mult_mod_eq [of ?now 10000000] div_mult_mod_eq [of "unat n" 100] by linarith
  then show "total_nsec (set_timespec_nsec False t n) = 100 * int (unat t) + int (unat n)"
    unfolding set_timespec_nsec_eq [OF assms] total_nsec_def timespec.simps by linarith
  have "?now mod 10000000 \<le> 9999999" "unat n mod 100 \<le> 99" by simp_all
  then show "normal_ts (set_timespec_nsec False t n)"
    unfolding set_timespec_nsec_eq [OF assms] normal_ts_def timespec.simps by linarith
qed

text \<open>On normal specifications the comparison is that of the times, and the difference is exact modulo 2^64.\<close>

lemma cmp_timespec_sgn:
  assumes "normal_ts a" "normal_ts b"
  shows "cmp_timespec a b = sgn (total_nsec a - total_nsec b)"
proof -
  consider "tv_sec a > tv_sec b" | "tv_sec a < tv_sec b" | "tv_sec a = tv_sec b" by linarith
  then show ?thesis
    using assms by cases (auto simp: cmp_timespec_def total_nsec_def normal_ts_def sgn_if)
qed

lemma diff_timespec_word: "diff_timespec a b = word_of_int (total_nsec a - total_nsec b)"
  by (simp add: diff_timespec_def total_nsec_def algebra_simps flip: wi_hom_mult wi_hom_sub wi_hom_add)

lemma diff_timespec_exact:
  assumes "normal_ts a" "normal_ts b" "cmp_timespec a b = 1" "total_nsec a - total_nsec b < 2 ^ 64"
  shows "int (unat (diff_timespec a b)) = total_nsec a - total_nsec b"
proof -
  have "0 < total_nsec a - total_nsec b"
    using assms(3) unfolding cmp_timespec_sgn [OF assms(1,2)] by (simp add: sgn_if split: if_splits)
  then show ?thesis
    using assms(4) unfolding diff_timespec_word by (intro unat_word_of_int) simp_all
qed

text \<open>
  The timeout of a deadline: the difference of the two times in whole milliseconds, modulo 2^32.
\<close>

lemma sdiv_nonneg: "0 \<le> a \<Longrightarrow> 0 \<le> b \<Longrightarrow> a sdiv b = a div (b :: int)"
  by (cases "a = 0"; cases "b = 0") (auto simp: signed_divide_int_def)

lemma get_milliseconds_unat:
  assumes "normal_ts ts" "0 \<le> tv_sec ts" "total_nsec ts < 2 ^ 70"
  shows "int (unat (get_milliseconds ts t)) = max 0 (total_nsec ts div 1000000 - int (unat t) div 10000) mod 2 ^ 32"
proof -
  define f where "f = total_nsec ts div 1000000"
  have f0: "0 \<le> total_nsec ts" using assms(1,2) by (simp add: total_nsec_def normal_ts_def)
  have fsum: "tv_sec ts * 1000 + tv_nsec ts sdiv 1000000 = f"
    using assms(1) by (simp add: sdiv_nonneg normal_ts_def f_def total_nsec_def)
  have f: "0 \<le> f" "f < 2 ^ 64" using f0 assms(3) by (simp_all add: f_def)
  let ?f = "word_of_int f :: 64 word" and ?n = "t div 10000"
  have uf: "int (unat ?f) = f" using f by (rule unat_word_of_int)
  have un: "int (unat ?n) = int (unat t) div 10000" by (simp add: unat_div zdiv_int)
  show ?thesis
  proof (cases "?f < ?n")
    case True
    then have "int (unat ?f) < int (unat ?n)" unfolding word_less_nat_alt by (simp only: of_nat_less_iff)
    then have "f < int (unat t) div 10000" unfolding uf un .
    then show ?thesis using True by (simp add: get_milliseconds_def fsum f_def [symmetric])
  next
    case False
    then have le: "unat ?n \<le> unat ?f" by (simp add: word_less_nat_alt)
    then have "unat (?f - ?n) = unat ?f - unat ?n" by (simp add: unat_sub word_le_nat_alt)
    moreover have "unat (ucast (?f - ?n) :: 32 word) = unat (?f - ?n) mod 2 ^ 32"
      by (simp add: unsigned_ucast_eq take_bit_eq_mod)
    ultimately have "int (unat (ucast (?f - ?n) :: 32 word)) = (f - int (unat t) div 10000) mod 2 ^ 32"
      using le uf un by (simp add: of_nat_mod of_nat_diff)
    moreover have "int (unat ?n) \<le> int (unat ?f)" using le by (simp only: of_nat_le_iff)
    then have "max 0 (f - int (unat t) div 10000) = f - int (unat t) div 10000" unfolding uf un by simp
    ultimately show ?thesis using False by (simp add: get_milliseconds_def fsum f_def [symmetric] Let_def)
  qed
qed

lemma whole_milliseconds: "\<bar>y + 1000000 * (x div 1000000 - y div 1000000) - x\<bar> < (1000000 :: int)"
proof -
  have "y + 1000000 * (x div 1000000 - y div 1000000) - x = y mod 1000000 - x mod 1000000"
    by (simp add: right_diff_distrib minus_mod_eq_mult_div [symmetric])
  moreover have "0 \<le> x mod 1000000" "x mod 1000000 < 1000000" "0 \<le> y mod 1000000" "y mod 1000000 < 1000000" by simp_all
  ultimately show ?thesis by linarith
qed

lemma get_milliseconds_deadline:
  assumes "unat t + unat n div 100 < 2 ^ 63" "unat t \<le> unat t'" "100 * unat t' \<le> 100 * unat t + unat n"
    and "100 * int (unat t) + int (unat n) - 100 * int (unat t') < (2 ^ 32 - 1) * 1000000"
  shows "\<bar>100 * int (unat t') + 1000000 * int (unat (get_milliseconds (set_timespec_nsec False t n) t'))
    - (100 * int (unat t) + int (unat n))\<bar> < 1000000"
proof -
  let ?ts = "set_timespec_nsec False t n" and ?T = "100 * int (unat t) + int (unat n)" and ?T' = "100 * int (unat t')"
  have tot: "total_nsec ?ts = ?T" and norm: "normal_ts ?ts" using set_timespec_nsec_spec [OF assms(1)] by simp_all
  have sec: "0 \<le> tv_sec ?ts" using set_timespec_nsec_eq [OF assms(1)] by simp
  have "unat t < 2 ^ 63" using assms(1) by linarith
  then have "int (unat t) < int (2 ^ 63)" by (simp only: of_nat_less_iff)
  moreover have "int (unat n) < 2 ^ 64" using unsigned_less [of n, where 'a = int] by simp
  ultimately have bound: "total_nsec ?ts < 2 ^ 70" unfolding tot by simp
  define r where "r = ?T div 1000000 - ?T' div 1000000"
  have d: "int (unat t') div 10000 = ?T' div 1000000" using div_mult_mult1 [of 100 "int (unat t')" 10000] by simp
  have T: "?T div 1000000 * 1000000 + ?T mod 1000000 = ?T" "?T' div 1000000 * 1000000 + ?T' mod 1000000 = ?T'"
    "0 \<le> ?T mod 1000000" "?T mod 1000000 < 1000000" "0 \<le> ?T' mod 1000000" "?T' mod 1000000 < 1000000"
    by (rule div_mult_mod_eq pos_mod_sign pos_mod_bound; simp)+
  have "int (100 * unat t') \<le> int (100 * unat t + unat n)" using assms(3) by (simp only: of_nat_le_iff)
  then have le: "?T' \<le> ?T" by simp
  have "(2 ^ 32 - 1) * 1000000 = (4294967295000000 :: int)" by simp
  with assms(4) have "?T - ?T' < 4294967295000000" by (simp only:)
  then have r: "0 \<le> r" "r < 4294967296" using le T unfolding r_def by linarith+
  have "int (unat (get_milliseconds ?ts t')) = r"
    unfolding get_milliseconds_unat [OF norm sec bound] tot d r_def [symmetric] using r by simp
  then show ?thesis unfolding r_def by (simp only: whole_milliseconds)
qed

text \<open>The variant without \<open>struct timespec\<close> never returns the code of an endless wait for a deadline.\<close>

lemma get_milliseconds_ft_bound:
  assumes "0 \<le> max_timeout_msec ts" "max_timeout_msec ts \<le> INT_MAX32"
  shows "get_milliseconds_ft (Some ts) now < INFINITE"
    and "int (unat (get_milliseconds_ft (Some ts) now)) \<le> max_timeout_msec ts"
proof -
  define m where "m = sint (tv_i64 ts - now) sdiv 10000"
  define k where "k = (if m > max_timeout_msec ts then max_timeout_msec ts else m)"
  have k: "get_milliseconds_ft (Some ts) now = (if m < 0 then 0 else word_of_int k)"
    using assms by (auto simp: get_milliseconds_ft_def m_def [symmetric] Let_def k_def int_limit_defs)
  have "int (unat (word_of_int k :: 32 word)) = k" if "0 \<le> m"
    using that assms by (simp add: uint_word_of_int k_def int_limit_defs)
  then have "int (unat (get_milliseconds_ft (Some ts) now)) \<le> max_timeout_msec ts"
    using assms(1) by (auto simp: k k_def)
  then show "int (unat (get_milliseconds_ft (Some ts) now)) \<le> max_timeout_msec ts" .
  then have "uint (get_milliseconds_ft (Some ts) now) < uint INFINITE"
    using assms(2) by (simp add: INFINITE_def int_limit_defs)
  then show "get_milliseconds_ft (Some ts) now < INFINITE" by (simp add: word_less_def)
qed

lemma set_timespec_nsec_ft_max:
  "0 \<le> max_timeout_msec (set_timespec_nsec_ft True t n)" "max_timeout_msec (set_timespec_nsec_ft True t n) \<le> INT_MAX32"
proof -
  let ?w = "MY_MIN (n div 1000000) (word_of_int INT_MAX32)"
  have "unat ?w \<le> 0x7FFFFFFF" by (auto simp: MY_MIN_def word_less_nat_alt int_limit_defs)
  then have "sint ?w = int (unat ?w)" "int (unat ?w) \<le> int 0x7FFFFFFF"
    using sint_small [of ?w] by (simp, simp only: of_nat_le_iff)
  then show "0 \<le> max_timeout_msec (set_timespec_nsec_ft True t n)"
    "max_timeout_msec (set_timespec_nsec_ft True t n) \<le> INT_MAX32"
    by (simp_all add: set_timespec_nsec_ft_def Let_def INT_MAX32_def)
qed

text \<open>Trimming an error text: a trailing blank stays, although the literal was meant to contain one.\<close>

lemma strchr_trim_set: "strchr_found trim_set c \<longleftrightarrow> c \<in> {CHR 0x0D, CHR 0x0A, CHR 0x09, NUL}"
  by (auto simp: strchr_found_def trim_set_def)

lemma DLERROR_GENERATE_spec:
  assumes "DLERROR_GENERATE (Some msg) = s"
  shows "\<exists>t. msg = s @ t \<and> (\<forall>c \<in> set t. strchr_found trim_set c) \<and> (s \<noteq> [] \<longrightarrow> \<not> strchr_found trim_set (last s))"
proof (intro exI conjI)
  let ?t = "rev (takeWhile (strchr_found trim_set) (rev msg))"
  have s: "s = rev (dropWhile (strchr_found trim_set) (rev msg))" using assms by (simp add: DLERROR_GENERATE_def)
  show "msg = s @ ?t" by (metis s rev_append rev_rev_ident takeWhile_dropWhile_id)
  show "\<forall>c \<in> set ?t. strchr_found trim_set c" by (auto dest: set_takeWhileD)
  show "s \<noteq> [] \<longrightarrow> \<not> strchr_found trim_set (last s)"
    using hd_dropWhile [of "strchr_found trim_set" "rev msg"] by (simp add: s last_rev)
qed

lemma DLERROR_keeps_blank: "DLERROR_GENERATE (Some (s @ '' '')) = s @ '' ''"
  by (simp add: DLERROR_GENERATE_def strchr_trim_set)

end
