(* ===== verification/Thr_Native.thy ===== *)
theory Thr_Native
  imports Psi_Thread My_Global
begin

text \<open>
  The layers below the instrumented locks: \<^verbatim>\<open>thr_mutex.h\<close>,
  \<^verbatim>\<open>thr_rwlock.h\<close>, \<^verbatim>\<open>thr_cond.h\<close>, \<^verbatim>\<open>my_thread.h\<close> and
  \<^verbatim>\<open>my_thread_local.h\<close>. The primitives of the operating system are parameters, one
  record for each platform; \<open>platform\<close> is the choice that \<open>_WIN32\<close> makes. The functions
  of the debugging mutexes are parameters as well, and \<open>SAFE_MUTEX\<close> is the question whether they
  are there.
\<close>

section \<open>The primitives\<close>

record 'w pthread_api =
  pthread_mutex_init :: "nat \<Rightarrow> nat \<Rightarrow> 'w \<Rightarrow> int \<times> 'w"
  pthread_mutex_lock :: "nat \<Rightarrow> 'w \<Rightarrow> int \<times> 'w"
  pthread_mutex_trylock :: "nat \<Rightarrow> 'w \<Rightarrow> int \<times> 'w"
  pthread_mutex_unlock :: "nat \<Rightarrow> 'w \<Rightarrow> int \<times> 'w"
  pthread_mutex_destroy :: "nat \<Rightarrow> 'w \<Rightarrow> int \<times> 'w"
  pthread_rwlock_init :: "nat \<Rightarrow> 'w \<Rightarrow> int \<times> 'w"
  pthread_rwlock_destroy :: "nat \<Rightarrow> 'w \<Rightarrow> int \<times> 'w"
  pthread_rwlock_rdlock :: "nat \<Rightarrow> 'w \<Rightarrow> int \<times> 'w"
  pthread_rwlock_tryrdlock :: "nat \<Rightarrow> 'w \<Rightarrow> int \<times> 'w"
  pthread_rwlock_wrlock :: "nat \<Rightarrow> 'w \<Rightarrow> int \<times> 'w"
  pthread_rwlock_trywrlock :: "nat \<Rightarrow> 'w \<Rightarrow> int \<times> 'w"
  pthread_rwlock_unlock :: "nat \<Rightarrow> 'w \<Rightarrow> int \<times> 'w"
  pthread_cond_init :: "nat \<Rightarrow> 'w \<Rightarrow> int \<times> 'w"
  pthread_cond_destroy :: "nat \<Rightarrow> 'w \<Rightarrow> int \<times> 'w"
  pthread_cond_timedwait :: "nat \<Rightarrow> nat \<Rightarrow> int \<Rightarrow> 'w \<Rightarrow> int \<times> 'w"
  pthread_cond_wait :: "nat \<Rightarrow> nat \<Rightarrow> 'w \<Rightarrow> int \<times> 'w"
  pthread_cond_signal :: "nat \<Rightarrow> 'w \<Rightarrow> int \<times> 'w"
  pthread_cond_broadcast :: "nat \<Rightarrow> 'w \<Rightarrow> int \<times> 'w"
  pthread_self :: "'w \<Rightarrow> nat"
  pthread_equal :: "nat \<Rightarrow> nat \<Rightarrow> bool"
  pthread_key_create :: "nat \<Rightarrow> 'w \<Rightarrow> (int \<times> nat) \<times> 'w"
  pthread_key_delete :: "nat \<Rightarrow> 'w \<Rightarrow> int \<times> 'w"
  pthread_getspecific :: "nat \<Rightarrow> 'w \<Rightarrow> nat option"
  pthread_setspecific :: "nat \<Rightarrow> nat option \<Rightarrow> 'w \<Rightarrow> int \<times> 'w"

text \<open>
  The Windows functions. The flag \<open>have_exclusive_srwlock\<close> is a field of the lock object,
  which has its own accessors. \<open>timespec_at\<close> is the object that the pointer \<open>abstime\<close>
  refers to.
\<close>

record 'w win32_api =
  InitializeCriticalSection :: "nat \<Rightarrow> 'w \<Rightarrow> 'w"
  EnterCriticalSection :: "nat \<Rightarrow> 'w \<Rightarrow> 'w"
  TryEnterCriticalSection :: "nat \<Rightarrow> 'w \<Rightarrow> bool \<times> 'w"
  RecursionCount :: "nat \<Rightarrow> 'w \<Rightarrow> int"
  LeaveCriticalSection :: "nat \<Rightarrow> 'w \<Rightarrow> 'w"
  DeleteCriticalSection :: "nat \<Rightarrow> 'w \<Rightarrow> 'w"
  InitializeSRWLock :: "nat \<Rightarrow> 'w \<Rightarrow> 'w"
  AcquireSRWLockShared :: "nat \<Rightarrow> 'w \<Rightarrow> 'w"
  TryAcquireSRWLockShared :: "nat \<Rightarrow> 'w \<Rightarrow> bool \<times> 'w"
  AcquireSRWLockExclusive :: "nat \<Rightarrow> 'w \<Rightarrow> 'w"
  TryAcquireSRWLockExclusive :: "nat \<Rightarrow> 'w \<Rightarrow> bool \<times> 'w"
  ReleaseSRWLockExclusive :: "nat \<Rightarrow> 'w \<Rightarrow> 'w"
  ReleaseSRWLockShared :: "nat \<Rightarrow> 'w \<Rightarrow> 'w"
  have_exclusive_srwlock :: "nat \<Rightarrow> 'w \<Rightarrow> bool"
  set_have_exclusive_srwlock :: "nat \<Rightarrow> bool \<Rightarrow> 'w \<Rightarrow> 'w"
  InitializeConditionVariable :: "nat \<Rightarrow> 'w \<Rightarrow> 'w"
  SleepConditionVariableCS :: "nat \<Rightarrow> nat \<Rightarrow> 32 word \<Rightarrow> 'w \<Rightarrow> bool \<times> 'w"
  WakeConditionVariable :: "nat \<Rightarrow> 'w \<Rightarrow> 'w"
  WakeAllConditionVariable :: "nat \<Rightarrow> 'w \<Rightarrow> 'w"
  timespec_at :: "int \<Rightarrow> 'w \<Rightarrow> timespec"
  my_getsystime :: "'w \<Rightarrow> 64 word"
  GetCurrentThreadId :: "'w \<Rightarrow> nat"
  TlsAlloc :: "'w \<Rightarrow> nat option \<times> 'w"
  TlsFree :: "nat \<Rightarrow> 'w \<Rightarrow> bool \<times> 'w"
  TlsGetValue :: "nat \<Rightarrow> 'w \<Rightarrow> nat option"
  TlsSetValue :: "nat \<Rightarrow> nat option \<Rightarrow> 'w \<Rightarrow> bool \<times> 'w"

datatype 'w platform = Posix "'w pthread_api" | Win32 "'w win32_api"

text \<open>The error numbers of \<open>errno.h\<close>; \<open>my_thread.h\<close> defines the second one where it is missing.\<close>

definition EBUSY :: int where "EBUSY = 16"
definition ETIMEDOUT :: int where "ETIMEDOUT = 145"

section \<open>Mutexes\<close>

definition native_mutex_init :: "'w platform \<Rightarrow> nat \<Rightarrow> nat \<Rightarrow> 'w \<Rightarrow> int \<times> 'w" where
  "native_mutex_init pf mutex attr w =
     (case pf of
        Win32 os \<Rightarrow> (0, InitializeCriticalSection os mutex w)
      | Posix os \<Rightarrow> pthread_mutex_init os mutex attr w)"

definition native_mutex_lock :: "'w platform \<Rightarrow> nat \<Rightarrow> 'w \<Rightarrow> int \<times> 'w" where
  "native_mutex_lock pf mutex w =
     (case pf of
        Win32 os \<Rightarrow> (0, EnterCriticalSection os mutex w)
      | Posix os \<Rightarrow> pthread_mutex_lock os mutex w)"

definition native_mutex_trylock :: "'w platform \<Rightarrow> nat \<Rightarrow> 'w \<Rightarrow> int \<times> 'w" where
  "native_mutex_trylock pf mutex w =
     (case pf of
        Win32 os \<Rightarrow>
          (let (ok, w) = TryEnterCriticalSection os mutex w in
           if ok then
             if RecursionCount os mutex w > 1 then (EBUSY, LeaveCriticalSection os mutex w)
             else (0, w)
           else (EBUSY, w))
      | Posix os \<Rightarrow> pthread_mutex_trylock os mutex w)"

definition native_mutex_unlock :: "'w platform \<Rightarrow> nat \<Rightarrow> 'w \<Rightarrow> int \<times> 'w" where
  "native_mutex_unlock pf mutex w =
     (case pf of
        Win32 os \<Rightarrow> (0, LeaveCriticalSection os mutex w)
      | Posix os \<Rightarrow> pthread_mutex_unlock os mutex w)"

definition native_mutex_destroy :: "'w platform \<Rightarrow> nat \<Rightarrow> 'w \<Rightarrow> int \<times> 'w" where
  "native_mutex_destroy pf mutex w =
     (case pf of
        Win32 os \<Rightarrow> (0, DeleteCriticalSection os mutex w)
      | Posix os \<Rightarrow> pthread_mutex_destroy os mutex w)"

text \<open>The debugging mutexes: \<open>try_lock\<close> is an argument of the lock function.\<close>

record 'w safe_mutex_api =
  safe_mutex_init :: "nat \<Rightarrow> nat \<Rightarrow> src_pos \<Rightarrow> 'w \<Rightarrow> int \<times> 'w"
  safe_mutex_lock :: "nat \<Rightarrow> bool \<Rightarrow> src_pos \<Rightarrow> 'w \<Rightarrow> int \<times> 'w"
  safe_mutex_unlock :: "nat \<Rightarrow> src_pos \<Rightarrow> 'w \<Rightarrow> int \<times> 'w"
  safe_mutex_destroy :: "nat \<Rightarrow> src_pos \<Rightarrow> 'w \<Rightarrow> int \<times> 'w"
  safe_cond_wait :: "nat \<Rightarrow> nat \<Rightarrow> src_pos \<Rightarrow> 'w \<Rightarrow> int \<times> 'w"
  safe_cond_timedwait :: "nat \<Rightarrow> nat \<Rightarrow> int \<Rightarrow> src_pos \<Rightarrow> 'w \<Rightarrow> int \<times> 'w"

type_synonym 'w layer = "'w safe_mutex_api option \<times> 'w platform"

definition my_mutex_init_f :: "'w layer \<Rightarrow> src_pos \<Rightarrow> nat \<Rightarrow> nat \<Rightarrow> 'w \<Rightarrow> int \<times> 'w" where
  "my_mutex_init_f ly src mp attr =
     (case fst ly of Some safe \<Rightarrow> safe_mutex_init safe mp attr src | None \<Rightarrow> native_mutex_init (snd ly) mp attr)"

definition my_mutex_lock_f :: "'w layer \<Rightarrow> src_pos \<Rightarrow> nat \<Rightarrow> 'w \<Rightarrow> int \<times> 'w" where
  "my_mutex_lock_f ly src mp =
     (case fst ly of Some safe \<Rightarrow> safe_mutex_lock safe mp False src | None \<Rightarrow> native_mutex_lock (snd ly) mp)"

definition my_mutex_trylock_f :: "'w layer \<Rightarrow> src_pos \<Rightarrow> nat \<Rightarrow> 'w \<Rightarrow> int \<times> 'w" where
  "my_mutex_trylock_f ly src mp =
     (case fst ly of Some safe \<Rightarrow> safe_mutex_lock safe mp True src | None \<Rightarrow> native_mutex_trylock (snd ly) mp)"

definition my_mutex_unlock_f :: "'w layer \<Rightarrow> src_pos \<Rightarrow> nat \<Rightarrow> 'w \<Rightarrow> int \<times> 'w" where
  "my_mutex_unlock_f ly src mp =
     (case fst ly of Some safe \<Rightarrow> safe_mutex_unlock safe mp src | None \<Rightarrow> native_mutex_unlock (snd ly) mp)"

definition my_mutex_destroy_f :: "'w layer \<Rightarrow> src_pos \<Rightarrow> nat \<Rightarrow> 'w \<Rightarrow> int \<times> 'w" where
  "my_mutex_destroy_f ly src mp =
     (case fst ly of Some safe \<Rightarrow> safe_mutex_destroy safe mp src | None \<Rightarrow> native_mutex_destroy (snd ly) mp)"

text \<open>The object of a debugging mutex, as far as the header looks at it.\<close>

record st_safe_mutex =
  sm_count :: nat
  sm_thread :: nat

section \<open>Threads\<close>

definition my_thread_self :: "'w platform \<Rightarrow> 'w \<Rightarrow> nat" where
  "my_thread_self pf w = (case pf of Win32 os \<Rightarrow> GetCurrentThreadId os w | Posix os \<Rightarrow> pthread_self os w)"

definition my_thread_equal :: "'w platform \<Rightarrow> nat \<Rightarrow> nat \<Rightarrow> bool" where
  "my_thread_equal pf t1 t2 \<longleftrightarrow> (case pf of Win32 os \<Rightarrow> t1 = t2 | Posix os \<Rightarrow> pthread_equal os t1 t2)"

text \<open>An assertion that fails aborts the program; the value says whether it holds.\<close>

definition safe_mutex_assert_owner :: "'w platform \<Rightarrow> st_safe_mutex \<Rightarrow> 'w \<Rightarrow> bool" where
  "safe_mutex_assert_owner pf mp w \<longleftrightarrow> sm_count mp > 0 \<and> my_thread_equal pf (my_thread_self pf w) (sm_thread mp)"

definition safe_mutex_assert_not_owner :: "'w platform \<Rightarrow> st_safe_mutex \<Rightarrow> 'w \<Rightarrow> bool" where
  "safe_mutex_assert_not_owner pf mp w \<longleftrightarrow>
     sm_count mp = 0 \<or> \<not> my_thread_equal pf (my_thread_self pf w) (sm_thread mp)"

record st_rw_pr_lock =
  active_readers :: "32 word"
  writers_waiting_readers :: "32 word"
  active_writer :: bool
  writer_thread :: nat

definition rw_pr_lock_assert_write_owner :: "bool \<Rightarrow> 'w platform \<Rightarrow> st_rw_pr_lock \<Rightarrow> 'w \<Rightarrow> bool" where
  "rw_pr_lock_assert_write_owner safe pf rwlock w \<longleftrightarrow>
     (safe \<longrightarrow> active_writer rwlock \<and> my_thread_equal pf (my_thread_self pf w) (writer_thread rwlock))"

definition rw_pr_lock_assert_not_write_owner :: "bool \<Rightarrow> 'w platform \<Rightarrow> st_rw_pr_lock \<Rightarrow> 'w \<Rightarrow> bool" where
  "rw_pr_lock_assert_not_write_owner safe pf rwlock w \<longleftrightarrow>
     (safe \<longrightarrow> \<not> active_writer rwlock \<or> \<not> my_thread_equal pf (my_thread_self pf w) (writer_thread rwlock))"

text \<open>The attributes of a thread on Windows: the size of the stack is a 32 bit number.\<close>

record win_thread_attr =
  dwStackSize :: "32 word"
  detachstate :: int

definition MY_THREAD_CREATE_JOINABLE :: int where "MY_THREAD_CREATE_JOINABLE = 0"
definition MY_THREAD_CREATE_DETACHED :: int where "MY_THREAD_CREATE_DETACHED = 1"

definition my_thread_attr_init :: "win_thread_attr \<Rightarrow> int \<times> win_thread_attr" where
  "my_thread_attr_init attr = (0, attr\<lparr>dwStackSize := 0, detachstate := MY_THREAD_CREATE_JOINABLE\<rparr>)"

definition my_thread_attr_destroy :: "win_thread_attr \<Rightarrow> int \<times> win_thread_attr" where
  "my_thread_attr_destroy attr = (0, attr\<lparr>dwStackSize := 0, detachstate := MY_THREAD_CREATE_JOINABLE\<rparr>)"

definition my_thread_attr_setstacksize :: "size_t \<Rightarrow> win_thread_attr \<Rightarrow> int \<times> win_thread_attr" where
  "my_thread_attr_setstacksize stacksize attr = (0, attr\<lparr>dwStackSize := ucast stacksize\<rparr>)"

definition my_thread_attr_setdetachstate :: "int \<Rightarrow> win_thread_attr \<Rightarrow> int \<times> win_thread_attr" where
  "my_thread_attr_setdetachstate st attr = (0, attr\<lparr>detachstate := st\<rparr>)"

definition my_thread_attr_getstacksize :: "win_thread_attr \<Rightarrow> int \<times> size_t" where
  "my_thread_attr_getstacksize attr = (0, ucast (dwStackSize attr))"

section \<open>Keys of thread-local storage\<close>

definition my_create_thread_local_key :: "'w platform \<Rightarrow> nat \<Rightarrow> 'w \<Rightarrow> (int \<times> nat option) \<times> 'w" where
  "my_create_thread_local_key pf destructor w =
     (case pf of
        Win32 os \<Rightarrow> (let (key, w) = TlsAlloc os w in ((if key = None then 1 else 0, key), w))
      | Posix os \<Rightarrow> (let ((r, key), w) = pthread_key_create os destructor w in ((r, Some key), w)))"

definition my_delete_thread_local_key :: "'w platform \<Rightarrow> nat \<Rightarrow> 'w \<Rightarrow> int \<times> 'w" where
  "my_delete_thread_local_key pf key w =
     (case pf of
        Win32 os \<Rightarrow> (let (ok, w) = TlsFree os key w in (if ok then 0 else 1, w))
      | Posix os \<Rightarrow> pthread_key_delete os key w)"

definition my_get_thread_local :: "'w platform \<Rightarrow> nat \<Rightarrow> 'w \<Rightarrow> nat option" where
  "my_get_thread_local pf key w = (case pf of Win32 os \<Rightarrow> TlsGetValue os key w | Posix os \<Rightarrow> pthread_getspecific os key w)"

definition my_set_thread_local :: "'w platform \<Rightarrow> nat \<Rightarrow> nat option \<Rightarrow> 'w \<Rightarrow> int \<times> 'w" where
  "my_set_thread_local pf key value w =
     (case pf of
        Win32 os \<Rightarrow> (let (ok, w) = TlsSetValue os key value w in (if ok then 0 else 1, w))
      | Posix os \<Rightarrow> pthread_setspecific os key value w)"

section \<open>Read-write locks\<close>

definition native_rw_init_f :: "'w platform \<Rightarrow> nat \<Rightarrow> 'w \<Rightarrow> int \<times> 'w" where
  "native_rw_init_f pf rwp w =
     (case pf of
        Win32 os \<Rightarrow> (0, set_have_exclusive_srwlock os rwp False (InitializeSRWLock os rwp w))
      | Posix os \<Rightarrow> pthread_rwlock_init os rwp w)"

definition native_rw_destroy_f :: "'w platform \<Rightarrow> nat \<Rightarrow> 'w \<Rightarrow> int \<times> 'w" where
  "native_rw_destroy_f pf rwp w = (case pf of Win32 os \<Rightarrow> (0, w) | Posix os \<Rightarrow> pthread_rwlock_destroy os rwp w)"

definition native_rw_rdlock_f :: "'w platform \<Rightarrow> nat \<Rightarrow> 'w \<Rightarrow> int \<times> 'w" where
  "native_rw_rdlock_f pf rwp w =
     (case pf of Win32 os \<Rightarrow> (0, AcquireSRWLockShared os rwp w) | Posix os \<Rightarrow> pthread_rwlock_rdlock os rwp w)"

definition native_rw_tryrdlock_f :: "'w platform \<Rightarrow> nat \<Rightarrow> 'w \<Rightarrow> int \<times> 'w" where
  "native_rw_tryrdlock_f pf rwp w =
     (case pf of
        Win32 os \<Rightarrow> (let (ok, w) = TryAcquireSRWLockShared os rwp w in (if ok then 0 else EBUSY, w))
      | Posix os \<Rightarrow> pthread_rwlock_tryrdlock os rwp w)"

definition native_rw_wrlock_f :: "'w platform \<Rightarrow> nat \<Rightarrow> 'w \<Rightarrow> int \<times> 'w" where
  "native_rw_wrlock_f pf rwp w =
     (case pf of
        Win32 os \<Rightarrow> (0, set_have_exclusive_srwlock os rwp True (AcquireSRWLockExclusive os rwp w))
      | Posix os \<Rightarrow> pthread_rwlock_wrlock os rwp w)"

definition native_rw_trywrlock_f :: "'w platform \<Rightarrow> nat \<Rightarrow> 'w \<Rightarrow> int \<times> 'w" where
  "native_rw_trywrlock_f pf rwp w =
     (case pf of
        Win32 os \<Rightarrow>
          (let (ok, w) = TryAcquireSRWLockExclusive os rwp w in
           if ok then (0, set_have_exclusive_srwlock os rwp True w) else (EBUSY, w))
      | Posix os \<Rightarrow> pthread_rwlock_trywrlock os rwp w)"

definition native_rw_unlock_f :: "'w platform \<Rightarrow> nat \<Rightarrow> 'w \<Rightarrow> int \<times> 'w" where
  "native_rw_unlock_f pf rwp w =
     (case pf of
        Win32 os \<Rightarrow>
          if have_exclusive_srwlock os rwp w
          then (0, ReleaseSRWLockExclusive os rwp (set_have_exclusive_srwlock os rwp False w))
          else (0, ReleaseSRWLockShared os rwp w)
      | Posix os \<Rightarrow> pthread_rwlock_unlock os rwp w)"

section \<open>Conditions\<close>

definition native_cond_init_f :: "'w platform \<Rightarrow> nat \<Rightarrow> 'w \<Rightarrow> int \<times> 'w" where
  "native_cond_init_f pf cond w =
     (case pf of Win32 os \<Rightarrow> (0, InitializeConditionVariable os cond w) | Posix os \<Rightarrow> pthread_cond_init os cond w)"

definition native_cond_destroy_f :: "'w platform \<Rightarrow> nat \<Rightarrow> 'w \<Rightarrow> int \<times> 'w" where
  "native_cond_destroy_f pf cond w = (case pf of Win32 os \<Rightarrow> (0, w) | Posix os \<Rightarrow> pthread_cond_destroy os cond w)"

definition native_cond_timedwait :: "'w platform \<Rightarrow> nat \<Rightarrow> nat \<Rightarrow> int \<Rightarrow> 'w \<Rightarrow> int \<times> 'w" where
  "native_cond_timedwait pf cond mutex abstime w =
     (case pf of
        Win32 os \<Rightarrow>
          (let timeout = get_milliseconds (timespec_at os abstime w) (my_getsystime os w);
               (ok, w) = SleepConditionVariableCS os cond mutex timeout w
           in (if ok then 0 else ETIMEDOUT, w))
      | Posix os \<Rightarrow> pthread_cond_timedwait os cond mutex abstime w)"

definition native_cond_wait :: "'w platform \<Rightarrow> nat \<Rightarrow> nat \<Rightarrow> 'w \<Rightarrow> int \<times> 'w" where
  "native_cond_wait pf cond mutex w =
     (case pf of
        Win32 os \<Rightarrow>
          (let (ok, w) = SleepConditionVariableCS os cond mutex INFINITE w in (if ok then 0 else ETIMEDOUT, w))
      | Posix os \<Rightarrow> pthread_cond_wait os cond mutex w)"

definition native_cond_signal_f :: "'w platform \<Rightarrow> nat \<Rightarrow> 'w \<Rightarrow> int \<times> 'w" where
  "native_cond_signal_f pf cond w =
     (case pf of Win32 os \<Rightarrow> (0, WakeConditionVariable os cond w) | Posix os \<Rightarrow> pthread_cond_signal os cond w)"

definition native_cond_broadcast_f :: "'w platform \<Rightarrow> nat \<Rightarrow> 'w \<Rightarrow> int \<times> 'w" where
  "native_cond_broadcast_f pf cond w =
     (case pf of Win32 os \<Rightarrow> (0, WakeAllConditionVariable os cond w) | Posix os \<Rightarrow> pthread_cond_broadcast os cond w)"

definition my_cond_timedwait_f :: "'w layer \<Rightarrow> src_pos \<Rightarrow> nat \<Rightarrow> nat \<Rightarrow> int \<Rightarrow> 'w \<Rightarrow> int \<times> 'w" where
  "my_cond_timedwait_f ly src cond mp abstime =
     (case fst ly of
        Some safe \<Rightarrow> safe_cond_timedwait safe cond mp abstime src
      | None \<Rightarrow> native_cond_timedwait (snd ly) cond mp abstime)"

definition my_cond_wait_f :: "'w layer \<Rightarrow> src_pos \<Rightarrow> nat \<Rightarrow> nat \<Rightarrow> 'w \<Rightarrow> int \<times> 'w" where
  "my_cond_wait_f ly src cond mp =
     (case fst ly of
        Some safe \<Rightarrow> safe_cond_wait safe cond mp src
      | None \<Rightarrow> native_cond_wait (snd ly) cond mp)"

section \<open>The layers together\<close>

text \<open>
  The operations that the instrumented functions of \<open>Psi_Thread\<close> call, made of the functions
  above. The reader-preferring locks are in a source file of the library and stay parameters.
\<close>

definition thr_of :: "'w layer \<Rightarrow> src_pos \<Rightarrow> 'w thr_api \<Rightarrow> 'w thr_api" where
  "thr_of ly src pr = pr\<lparr>
     my_mutex_init := my_mutex_init_f ly src,
     my_mutex_destroy := my_mutex_destroy_f ly src,
     my_mutex_lock := my_mutex_lock_f ly src,
     my_mutex_trylock := my_mutex_trylock_f ly src,
     my_mutex_unlock := my_mutex_unlock_f ly src,
     native_rw_init := native_rw_init_f (snd ly),
     native_rw_destroy := native_rw_destroy_f (snd ly),
     native_rw_rdlock := native_rw_rdlock_f (snd ly),
     native_rw_wrlock := native_rw_wrlock_f (snd ly),
     native_rw_tryrdlock := native_rw_tryrdlock_f (snd ly),
     native_rw_trywrlock := native_rw_trywrlock_f (snd ly),
     native_rw_unlock := native_rw_unlock_f (snd ly),
     native_cond_init := native_cond_init_f (snd ly),
     native_cond_destroy := native_cond_destroy_f (snd ly),
     my_cond_wait := my_cond_wait_f ly src,
     my_cond_timedwait := my_cond_timedwait_f ly src,
     native_cond_signal := native_cond_signal_f (snd ly),
     native_cond_broadcast := native_cond_broadcast_f (snd ly)\<rparr>"

fun posix_call :: "'w pthread_api \<Rightarrow> 'w thr_api \<Rightarrow> thr_call \<Rightarrow> 'w \<Rightarrow> int \<times> 'w" where
  "posix_call os pr (Call_mutex_lock that src) = pthread_mutex_lock os (m_mutex that)"
| "posix_call os pr (Call_mutex_trylock that src) = pthread_mutex_trylock os (m_mutex that)"
| "posix_call os pr (Call_mutex_unlock that) = pthread_mutex_unlock os (m_mutex that)"
| "posix_call os pr (Call_rwlock_rdlock that src) = pthread_rwlock_rdlock os (m_rwlock that)"
| "posix_call os pr (Call_rwlock_wrlock that src) = pthread_rwlock_wrlock os (m_rwlock that)"
| "posix_call os pr (Call_rwlock_tryrdlock that src) = pthread_rwlock_tryrdlock os (m_rwlock that)"
| "posix_call os pr (Call_rwlock_trywrlock that src) = pthread_rwlock_trywrlock os (m_rwlock that)"
| "posix_call os pr (Call_rwlock_unlock that) = pthread_rwlock_unlock os (m_rwlock that)"
| "posix_call os pr (Call_prlock_rdlock that src) = rw_pr_rdlock pr (m_prlock that)"
| "posix_call os pr (Call_prlock_wrlock that src) = rw_pr_wrlock pr (m_prlock that)"
| "posix_call os pr (Call_prlock_unlock that) = rw_pr_unlock pr (m_prlock that)"
| "posix_call os pr (Call_cond_wait that mutex src) = pthread_cond_wait os (m_cond that) (m_mutex mutex)"
| "posix_call os pr (Call_cond_timedwait that mutex abstime src) = pthread_cond_timedwait os (m_cond that) (m_mutex mutex) abstime"
| "posix_call os pr (Call_cond_signal that) = pthread_cond_signal os (m_cond that)"
| "posix_call os pr (Call_cond_broadcast that) = pthread_cond_broadcast os (m_cond that)"

lemmas layer_defs = thr_of_def my_mutex_lock_f_def my_mutex_trylock_f_def my_mutex_unlock_f_def
  native_mutex_lock_def native_mutex_trylock_def native_mutex_unlock_def
  native_rw_rdlock_f_def native_rw_wrlock_f_def native_rw_tryrdlock_f_def native_rw_trywrlock_f_def
  native_rw_unlock_f_def my_cond_wait_f_def my_cond_timedwait_f_def native_cond_wait_def
  native_cond_timedwait_def native_cond_signal_f_def native_cond_broadcast_f_def

lemma thr_native_posix: "thr_native (thr_of (None, Posix os) src pr) c = posix_call os pr c"
  by (cases c) (simp_all add: layer_defs fun_eq_iff)

text \<open>All three layers: a program of instrumented calls is a program of \<open>pthread\<close> calls.\<close>

lemma posix_program:
  "run_wrappers (map (thr_wrapper mapi rapi capi (thr_of (None, Posix os) src pr)) cs) s = (as, s') \<Longrightarrow>
     run_natives (map (posix_call os pr) cs) (world_part s) = (as, world_part s')
     \<and> (\<exists>es. calls s' = calls s @ es \<and> balanced es \<and> count_list es Ev_native = length cs)"
  using thr_call_program [of mapi rapi capi "thr_of (None, Posix os) src pr" cs s as s']
  by (simp add: thr_native_posix [abs_def])

section \<open>Trying to lock on Windows\<close>

text \<open>
  A critical section can be entered again by its owner. \<open>held\<close> is what the documentation calls
  its owner and count; the laws describe the calls of the thread \<open>me\<close>.
\<close>

definition critical_section_laws :: "'w win32_api \<Rightarrow> (nat \<Rightarrow> 'w \<Rightarrow> (nat \<times> int) option) \<Rightarrow> nat \<Rightarrow> bool" where
  "critical_section_laws os held me \<longleftrightarrow>
     (\<forall>m w ok w'. TryEnterCriticalSection os m w = (ok, w') \<longrightarrow>
        (case held m w of
           None \<Rightarrow> ok \<and> held m w' = Some (me, 1)
         | Some (t, n) \<Rightarrow>
             if t = me then ok \<and> held m w' = Some (me, n + 1) else \<not> ok \<and> held m w' = held m w))
   \<and> (\<forall>m w t n. held m w = Some (t, n) \<longrightarrow> 1 \<le> n \<and> RecursionCount os m w = n)
   \<and> (\<forall>m w n. held m w = Some (me, n) \<longrightarrow>
        held m (LeaveCriticalSection os m w) = (if n = 1 then None else Some (me, n - 1)))"

lemma win32_trylock:
  assumes laws: "critical_section_laws os held me" and call: "native_mutex_trylock (Win32 os) m w = (r, w')"
  shows "if held m w = None then r = 0 \<and> held m w' = Some (me, 1) else r = EBUSY \<and> held m w' = held m w"
proof -
  obtain ok w1 where t: "TryEnterCriticalSection os m w = (ok, w1)" by fastforce
  have enter: "case held m w of
           None \<Rightarrow> ok \<and> held m w1 = Some (me, 1)
         | Some (t, n) \<Rightarrow>
             if t = me then ok \<and> held m w1 = Some (me, n + 1) else \<not> ok \<and> held m w1 = held m w"
    using laws t unfolding critical_section_laws_def by blast
  have count: "held m w1 = Some (t, n) \<Longrightarrow> 1 \<le> n \<and> RecursionCount os m w1 = n"
    and count0: "held m w = Some (t, n) \<Longrightarrow> 1 \<le> n" for t n
    using laws unfolding critical_section_laws_def by blast+
  have leave: "held m w1 = Some (me, n) \<Longrightarrow>
      held m (LeaveCriticalSection os m w1) = (if n = 1 then None else Some (me, n - 1))" for n
    using laws unfolding critical_section_laws_def by blast
  show ?thesis
    using call enter count count0 leave
    by (auto simp: native_mutex_trylock_def t split: option.splits if_splits prod.splits)
qed

text \<open>Windows with critical sections only: each has an owner and how often it has entered again.\<close>

type_synonym sections = "nat \<Rightarrow> (nat \<times> nat) option"

definition section_held :: "nat \<Rightarrow> sections \<Rightarrow> (nat \<times> int) option" where
  "section_held m w = map_option (\<lambda>(t, n). (t, int n + 1)) (w m)"

definition section_enter :: "nat \<Rightarrow> nat \<Rightarrow> sections \<Rightarrow> bool \<times> sections" where
  "section_enter me m w =
     (case w m of
        None \<Rightarrow> (True, w(m \<mapsto> (me, 0)))
      | Some (t, n) \<Rightarrow> if t = me then (True, w(m \<mapsto> (me, n + 1))) else (False, w))"

definition section_leave :: "nat \<Rightarrow> nat \<Rightarrow> sections \<Rightarrow> sections" where
  "section_leave me m w =
     (case w m of
        Some (t, Suc n) \<Rightarrow> if t = me then w(m \<mapsto> (me, n)) else w
      | _ \<Rightarrow> w(m := None))"

definition sections_api :: "nat \<Rightarrow> sections win32_api" where
  "sections_api me = \<lparr>
     InitializeCriticalSection = (\<lambda>m w. w(m := None)),
     EnterCriticalSection = (\<lambda>m w. snd (section_enter me m w)),
     TryEnterCriticalSection = section_enter me,
     RecursionCount = (\<lambda>m w. case w m of Some (t, n) \<Rightarrow> int n + 1 | None \<Rightarrow> 0),
     LeaveCriticalSection = section_leave me,
     DeleteCriticalSection = (\<lambda>m w. w(m := None)),
     InitializeSRWLock = (\<lambda>_ w. w), AcquireSRWLockShared = (\<lambda>_ w. w),
     TryAcquireSRWLockShared = (\<lambda>_ w. (False, w)), AcquireSRWLockExclusive = (\<lambda>_ w. w),
     TryAcquireSRWLockExclusive = (\<lambda>_ w. (False, w)), ReleaseSRWLockExclusive = (\<lambda>_ w. w),
     ReleaseSRWLockShared = (\<lambda>_ w. w), have_exclusive_srwlock = (\<lambda>_ _. False),
     set_have_exclusive_srwlock = (\<lambda>_ _ w. w), InitializeConditionVariable = (\<lambda>_ w. w),
     SleepConditionVariableCS = (\<lambda>_ _ _ w. (False, w)), WakeConditionVariable = (\<lambda>_ w. w),
     WakeAllConditionVariable = (\<lambda>_ w. w), timespec_at = (\<lambda>_ _. \<lparr>tv_sec = 0, tv_nsec = 0\<rparr>),
     my_getsystime = (\<lambda>_. 0), GetCurrentThreadId = (\<lambda>_. me), TlsAlloc = (\<lambda>w. (None, w)),
     TlsFree = (\<lambda>_ w. (False, w)), TlsGetValue = (\<lambda>_ _. None), TlsSetValue = (\<lambda>_ _ w. (False, w))\<rparr>"

lemma sections_laws: "critical_section_laws (sections_api me) section_held me"
  unfolding critical_section_laws_def
  by (auto simp: sections_api_def section_held_def section_enter_def section_leave_def
      split: option.splits prod.splits if_splits nat.splits)

section \<open>The exclusive flag of the Windows locks\<close>

text \<open>
  Threads that lock and unlock one read-write lock on Windows, step by step: the acquisition and
  the write of \<open>have_exclusive_srwlock\<close> are two steps, and so are its reset and the release. The
  mode \<open>Srw_broken\<close> is a release in the wrong mode, which has undefined behaviour.
\<close>

datatype srw_mode = Srw_free | Srw_shared nat | Srw_exclusive | Srw_broken

datatype srw_pc = Pc_idle | Pc_reading | Pc_acquired | Pc_writing | Pc_clear | Pc_release_exclusive | Pc_release_shared

record srw_state =
  srw_lock :: srw_mode
  srw_flag :: bool
  srw_pc :: "nat \<Rightarrow> srw_pc"

definition release_exclusive :: "srw_mode \<Rightarrow> srw_mode" where
  "release_exclusive m = (if m = Srw_exclusive then Srw_free else Srw_broken)"

definition release_shared :: "srw_mode \<Rightarrow> srw_mode" where
  "release_shared m =
     (case m of Srw_shared (Suc 0) \<Rightarrow> Srw_free | Srw_shared (Suc (Suc n)) \<Rightarrow> Srw_shared (Suc n) | _ \<Rightarrow> Srw_broken)"

inductive srw_step :: "srw_state \<Rightarrow> srw_state \<Rightarrow> bool" where
  acquire_shared_free: "srw_pc s t = Pc_idle \<Longrightarrow> srw_lock s = Srw_free \<Longrightarrow>
    srw_step s (s\<lparr>srw_lock := Srw_shared 1, srw_pc := (srw_pc s)(t := Pc_reading)\<rparr>)"
| acquire_shared: "srw_pc s t = Pc_idle \<Longrightarrow> srw_lock s = Srw_shared n \<Longrightarrow>
    srw_step s (s\<lparr>srw_lock := Srw_shared (Suc n), srw_pc := (srw_pc s)(t := Pc_reading)\<rparr>)"
| acquire_exclusive: "srw_pc s t = Pc_idle \<Longrightarrow> srw_lock s = Srw_free \<Longrightarrow>
    srw_step s (s\<lparr>srw_lock := Srw_exclusive, srw_pc := (srw_pc s)(t := Pc_acquired)\<rparr>)"
| set_flag: "srw_pc s t = Pc_acquired \<Longrightarrow>
    srw_step s (s\<lparr>srw_flag := True, srw_pc := (srw_pc s)(t := Pc_writing)\<rparr>)"
| test_flag: "srw_pc s t \<in> {Pc_reading, Pc_writing} \<Longrightarrow>
    srw_step s (s\<lparr>srw_pc := (srw_pc s)(t := (if srw_flag s then Pc_clear else Pc_release_shared))\<rparr>)"
| clear_flag: "srw_pc s t = Pc_clear \<Longrightarrow>
    srw_step s (s\<lparr>srw_flag := False, srw_pc := (srw_pc s)(t := Pc_release_exclusive)\<rparr>)"
| do_release_exclusive: "srw_pc s t = Pc_release_exclusive \<Longrightarrow>
    srw_step s (s\<lparr>srw_lock := release_exclusive (srw_lock s), srw_pc := (srw_pc s)(t := Pc_idle)\<rparr>)"
| do_release_shared: "srw_pc s t = Pc_release_shared \<Longrightarrow>
    srw_step s (s\<lparr>srw_lock := release_shared (srw_lock s), srw_pc := (srw_pc s)(t := Pc_idle)\<rparr>)"

definition srw_init :: srw_state where
  "srw_init = \<lparr>srw_lock = Srw_free, srw_flag = False, srw_pc = (\<lambda>_. Pc_idle)\<rparr>"

definition writers :: "(nat \<Rightarrow> srw_pc) \<Rightarrow> nat set" where
  "writers pc = {t. pc t \<in> {Pc_acquired, Pc_writing, Pc_clear, Pc_release_exclusive}}"

definition readers :: "(nat \<Rightarrow> srw_pc) \<Rightarrow> nat set" where
  "readers pc = {t. pc t \<in> {Pc_reading, Pc_release_shared}}"

lemma writers_upd [simp]:
  "writers (pc(t := p)) =
     (if p \<in> {Pc_acquired, Pc_writing, Pc_clear, Pc_release_exclusive} then insert t (writers pc) else writers pc - {t})"
  by (auto simp: writers_def)

lemma readers_upd [simp]:
  "readers (pc(t := p)) = (if p \<in> {Pc_reading, Pc_release_shared} then insert t (readers pc) else readers pc - {t})"
  by (auto simp: readers_def)

definition srw_inv :: "srw_state \<Rightarrow> bool" where
  "srw_inv s \<longleftrightarrow> (case srw_lock s of
     Srw_free \<Rightarrow> writers (srw_pc s) = {} \<and> readers (srw_pc s) = {} \<and> \<not> srw_flag s
   | Srw_shared n \<Rightarrow> writers (srw_pc s) = {} \<and> finite (readers (srw_pc s)) \<and> card (readers (srw_pc s)) = n
       \<and> 0 < n \<and> \<not> srw_flag s
   | Srw_exclusive \<Rightarrow> readers (srw_pc s) = {} \<and> (\<exists>t. writers (srw_pc s) = {t}
       \<and> (srw_flag s \<longleftrightarrow> srw_pc s t \<in> {Pc_writing, Pc_clear}))
   | Srw_broken \<Rightarrow> False)"

lemma srw_inv_step:
  assumes "srw_step s s'" "srw_inv s"
  shows "srw_inv s'"
  using assms
proof (cases rule: srw_step.cases)
  case (acquire_shared_free t)
  then show ?thesis using assms(2) by (auto simp: srw_inv_def)
next
  case (acquire_shared t n)
  have "t \<notin> readers (srw_pc s)" using acquire_shared by (simp add: readers_def)
  with acquire_shared show ?thesis using assms(2) by (auto simp: srw_inv_def)
next
  case (acquire_exclusive t)
  then show ?thesis using assms(2) by (auto simp: srw_inv_def)
next
  case (set_flag t)
  have "t \<in> writers (srw_pc s)" using set_flag by (simp add: writers_def)
  with set_flag show ?thesis using assms(2) by (auto simp: srw_inv_def split: srw_mode.splits)
next
  case (test_flag t)
  then have "srw_pc s t = Pc_reading \<and> t \<in> readers (srw_pc s) \<or> srw_pc s t = Pc_writing \<and> t \<in> writers (srw_pc s)"
    by (auto simp: readers_def writers_def)
  with test_flag show ?thesis using assms(2) by (auto simp: srw_inv_def insert_absorb split: srw_mode.splits)
next
  case (clear_flag t)
  have "t \<in> writers (srw_pc s)" using clear_flag by (simp add: writers_def)
  with clear_flag show ?thesis using assms(2) by (auto simp: srw_inv_def split: srw_mode.splits)
next
  case (do_release_exclusive t)
  have "t \<in> writers (srw_pc s)" using do_release_exclusive by (simp add: writers_def)
  with do_release_exclusive show ?thesis
    using assms(2) by (auto simp: srw_inv_def release_exclusive_def split: srw_mode.splits)
next
  case (do_release_shared t)
  have "t \<in> readers (srw_pc s)" using do_release_shared by (simp add: readers_def)
  with do_release_shared show ?thesis
    using assms(2) by (auto simp: srw_inv_def release_shared_def card_Diff_singleton card_1_singleton_iff split: srw_mode.splits nat.splits)
qed

lemma srw_reachable_inv: "srw_step\<^sup>*\<^sup>* srw_init s \<Longrightarrow> srw_inv s"
proof (induction rule: rtranclp_induct)
  case base
  then show ?case by (simp add: srw_inv_def srw_init_def writers_def readers_def)
qed (rule srw_inv_step)

text \<open>
  So a release has always the mode of the acquisition: the thread that is about to release the
  exclusive lock is alone with it, and a reader releases a shared lock.
\<close>

lemma srw_inv_release:
  assumes "srw_inv s"
  shows "srw_pc s t = Pc_release_exclusive \<Longrightarrow> srw_lock s = Srw_exclusive \<and> writers (srw_pc s) = {t} \<and> readers (srw_pc s) = {}"
    and "srw_pc s t = Pc_release_shared \<Longrightarrow> \<exists>n. srw_lock s = Srw_shared (Suc n) \<and> writers (srw_pc s) = {}"
proof -
  assume "srw_pc s t = Pc_release_exclusive"
  then have "t \<in> writers (srw_pc s)" by (simp add: writers_def)
  then show "srw_lock s = Srw_exclusive \<and> writers (srw_pc s) = {t} \<and> readers (srw_pc s) = {}"
    using assms by (auto simp: srw_inv_def split: srw_mode.splits)
next
  assume "srw_pc s t = Pc_release_shared"
  then have "t \<in> readers (srw_pc s)" by (simp add: readers_def)
  then show "\<exists>n. srw_lock s = Srw_shared (Suc n) \<and> writers (srw_pc s) = {}"
    using assms by (auto simp: srw_inv_def gr0_conv_Suc split: srw_mode.splits)
qed

section \<open>Attributes of threads\<close>

lemma stacksize_roundtrip:
  "unat (snd (my_thread_attr_getstacksize (snd (my_thread_attr_setstacksize n attr)))) = unat n mod 2 ^ 32"
  by (simp add: my_thread_attr_getstacksize_def my_thread_attr_setstacksize_def unsigned_ucast_eq take_bit_eq_mod unat_mod)

end
