(* ===== verification/M_String.thy ===== *)
theory M_String
  imports Byte_Order
begin

text \<open>
  The inline functions of \<^verbatim>\<open>m_string.h\<close>: the two versions of
  \<open>skip_trailing_space\<close>, the copying of C strings and the setters of \<open>LEX_STRING\<close>. A
  pointer into a string is an index into its bytes; the version for SPARC looks at the address of
  the string as well, which is an argument. Both versions return the index behind the last byte that
  is not a space, and neither reads outside of the string.
\<close>

section \<open>Trailing spaces\<close>

definition space_byte :: "8 word" where "space_byte = 0x20"

text \<open>The reference: the length without the trailing spaces.\<close>

definition trimmed_length :: "uchars \<Rightarrow> nat" where
  "trimmed_length s = length (dropWhile (\<lambda>c. c = space_byte) (rev s))"

text \<open>\<open>while (end > ptr && end[-1] == 0x20) end--\<close>.\<close>

fun skip_bytes :: "uchars \<Rightarrow> nat \<Rightarrow> nat res" where
  "skip_bytes s 0 = Inr 0"
| "skip_bytes s (Suc e) = rbind (byte_at s e) (\<lambda>c. if c = space_byte then skip_bytes s e else Inr (Suc e))"

text \<open>\<open>while (end - ptr >= 8)\<close>, eight bytes at a time.\<close>

function skip_words8 :: "uchars \<Rightarrow> nat \<Rightarrow> nat res" where
  "skip_words8 s e =
     (if e \<ge> 8 then
        rbind (uint8korr (drop (e - 8) s)) (\<lambda>v.
          if v \<noteq> 0x2020202020202020 then Inr e else skip_words8 s (e - 8))
      else Inr e)"
  by pat_completeness auto
termination by (relation "measure snd") auto

declare skip_words8.simps [simp del]

definition skip_trailing_space :: "uchars \<Rightarrow> nat res" where
  "skip_trailing_space s = rbind (skip_words8 s (length s)) (skip_bytes s)"

text \<open>
  The version for SPARC, with \<open>SIZEOF_INT\<close> 4: the byte loop down to the last multiple of 4
  of the address, the word loop down to the first one, then the byte loop again. The 32 bit loads
  are of the big-endian machine; a word of spaces has no byte order.
\<close>

fun skip_bytes_to :: "uchars \<Rightarrow> nat \<Rightarrow> nat \<Rightarrow> nat res" where
  "skip_bytes_to s lo 0 = Inr 0"
| "skip_bytes_to s lo (Suc e) =
     (if Suc e > lo then
        rbind (byte_at s e) (\<lambda>c. if c = space_byte then skip_bytes_to s lo e else Inr (Suc e))
      else Inr (Suc e))"

definition load_be4 :: "uchars \<Rightarrow> nat \<Rightarrow> (32 word) res" where
  "load_be4 s i =
     rbind (byte_at s i) (\<lambda>a. rbind (byte_at s (i + 1)) (\<lambda>b. rbind (byte_at s (i + 2)) (\<lambda>c. rbind (byte_at s (i + 3)) (\<lambda>d.
       Inr (of_nat (le_val [d, c, b, a]))))))"

function skip_words4 :: "uchars \<Rightarrow> nat \<Rightarrow> nat \<Rightarrow> nat res" where
  "skip_words4 s lo e =
     (if e > lo then
        if e < 4 then Inl Out_Of_Bounds
        else rbind (load_be4 s (e - 4)) (\<lambda>v. if v = 0x20202020 then skip_words4 s lo (e - 4) else Inr e)
      else Inr e)"
  by pat_completeness auto
termination by (relation "measure (\<lambda>(_, _, e). e)") auto

declare skip_words4.simps [simp del]

definition skip_trailing_space_sparc :: "nat \<Rightarrow> uchars \<Rightarrow> nat res" where
  "skip_trailing_space_sparc ptr s =
     (let e = length s in
      rbind
        (if length s > 20 then
           let end_words = (ptr + e) div 4 * 4 - ptr;
               start_words = (ptr + 3) div 4 * 4 - ptr
           in rbind (skip_bytes_to s end_words e) (\<lambda>e.
              rbind (if e = 0 then Inl Out_Of_Bounds else byte_at s (e - 1)) (\<lambda>c.
                if c = space_byte \<and> start_words < end_words then skip_words4 s start_words e else Inr e))
         else Inr e)
        (skip_bytes s))"

section \<open>Copying strings\<close>

text \<open>\<open>stpcpy\<close>: the destination with the copy, and the index of the NUL that was written.\<close>

definition my_stpcpy :: "bytes \<Rightarrow> bytes \<Rightarrow> (bytes \<times> nat) res" where
  "my_stpcpy dst src =
     rbind (c_string src) (\<lambda>s. rbind (mem_write dst 0 (s @ [NUL])) (\<lambda>d. Inr (d, length s)))"

text \<open>\<open>stpncpy\<close>: at most \<open>n\<close> bytes, filled up with NULs; the index of the first NUL, or \<open>n\<close>.\<close>

definition my_stpncpy :: "bytes \<Rightarrow> bytes \<Rightarrow> nat \<Rightarrow> (bytes \<times> nat) res" where
  "my_stpncpy dst src n =
     rbind (if NUL \<in> set (take n src) \<or> n \<le> length src then Inr (takeWhile (\<lambda>c. c \<noteq> NUL) (take n src)) else Inl Out_Of_Bounds)
       (\<lambda>s. rbind (mem_write dst 0 (s @ replicate (n - length s) NUL)) (\<lambda>d. Inr (d, length s)))"

section \<open>Strings with a length\<close>

record LEX_STRING =
  lex_str :: bytes
  lex_length :: size_t

definition lex_string_set :: "bytes \<Rightarrow> LEX_STRING res" where
  "lex_string_set cs = rbind (c_string cs) (\<lambda>s. Inr \<lparr>lex_str = cs, lex_length = of_nat (length s)\<rparr>)"

definition lex_cstring_set :: "bytes \<Rightarrow> LEX_STRING res" where
  "lex_cstring_set cs = rbind (c_string cs) (\<lambda>s. Inr \<lparr>lex_str = cs, lex_length = of_nat (length s)\<rparr>)"

text \<open>\<open>STRING_WITH_LEN\<close> of a literal: its bytes and the size of the array without the final NUL.\<close>

definition STRING_WITH_LEN :: "bytes \<Rightarrow> bytes \<times> size_t" where
  "STRING_WITH_LEN X = (X @ [NUL], of_nat (length (X @ [NUL])) - 1)"

section \<open>Both versions compute the reference\<close>

lemma trimmed_length_snoc: "trimmed_length (s @ [c]) = (if c = space_byte then trimmed_length s else Suc (length s))"
  by (simp add: trimmed_length_def)

lemma trimmed_length_le: "trimmed_length s \<le> length s"
  unfolding trimmed_length_def by (metis length_dropWhile_le length_rev)

lemma trimmed_length_Nil [simp]: "trimmed_length [] = 0"
  by (simp add: trimmed_length_def)

lemma byte_at_nth: "i < length s \<Longrightarrow> byte_at s i = Inr (s ! i)"
  by (simp add: byte_at_def)

lemma skip_bytes_spec: "e \<le> length s \<Longrightarrow> skip_bytes s e = Inr (trimmed_length (take e s))"
proof (induction s e rule: skip_bytes.induct)
  case (2 s e)
  then show ?case
    by (simp add: byte_at_nth take_Suc_conv_app_nth trimmed_length_snoc)
qed simp

text \<open>What is behind the length is blank, and the byte before it is not.\<close>

lemma trimmed_length_rest:
  "\<forall>c \<in> set (drop (trimmed_length s) s). c = space_byte"
  "trimmed_length s = 0 \<or> s ! (trimmed_length s - 1) \<noteq> space_byte"
proof (induction s rule: rev_induct)
  case (snoc c s)
  {
    case 1
    show ?case using snoc(1) by (auto simp: trimmed_length_snoc trimmed_length_le)
  next
    case 2
    show ?case using snoc(2) trimmed_length_le [of s] by (auto simp: trimmed_length_snoc nth_append)
  }
qed simp_all

text \<open>Dropping a block of spaces at the end does not change the result.\<close>

lemma trimmed_length_spaces: "(\<forall>c \<in> set t. c = space_byte) \<Longrightarrow> trimmed_length (s @ t) = trimmed_length s"
proof (induction t rule: rev_induct)
  case (snoc c t)
  then show ?case using trimmed_length_snoc [of "s @ t" c] by simp
qed simp

lemma le_val_spaces:
  assumes "length bs = k"
  shows "le_val bs = le_val (replicate k space_byte) \<longleftrightarrow> (\<forall>c \<in> set bs. c = space_byte)"
proof
  assume "le_val bs = le_val (replicate k space_byte)"
  then have "le_bytes k (le_val bs) = le_bytes k (le_val (replicate k space_byte))" by simp
  then have "bs = replicate k space_byte"
    using le_bytes_le_val [of bs] le_bytes_le_val [of "replicate k space_byte"] assms by simp
  then show "\<forall>c \<in> set bs. c = space_byte" by simp
next
  assume "\<forall>c \<in> set bs. c = space_byte"
  then have "bs = replicate k space_byte" using assms by (metis replicate_length_same)
  then show "le_val bs = le_val (replicate k space_byte)" by simp
qed

lemma space_words: "le_val (replicate 8 space_byte) = 0x2020202020202020" "le_val (replicate 4 space_byte) = 0x20202020"
proof -
  have "replicate 8 c = [c, c, c, c, c, c, c, c]" "replicate 4 c = [c, c, c, c]" for c :: "8 word"
    by (simp_all add: eval_nat_numeral)
  then show "le_val (replicate 8 space_byte) = 0x2020202020202020" "le_val (replicate 4 space_byte) = 0x20202020"
    by (simp_all add: space_byte_def)
qed

lemma word_of_spaces:
  assumes "length bs = 8"
  shows "of_nat (le_val bs) = (0x2020202020202020 :: 64 word) \<longleftrightarrow> (\<forall>c \<in> set bs. c = space_byte)"
proof -
  have "le_val bs < 2 ^ 64" using le_val_bound [of bs] assms by simp
  then have "unat (of_nat (le_val bs) :: 64 word) = le_val bs" by (rule unat_of_nat_size_t)
  then have "of_nat (le_val bs) = (0x2020202020202020 :: 64 word) \<longleftrightarrow> le_val bs = 0x2020202020202020"
    by (auto simp: word_unat_eq_iff)
  then show ?thesis using le_val_spaces [OF assms] space_words by simp
qed

lemma word4_of_spaces:
  assumes "length bs = 4"
  shows "of_nat (le_val bs) = (0x20202020 :: 32 word) \<longleftrightarrow> (\<forall>c \<in> set bs. c = space_byte)"
proof -
  have "le_val bs < 2 ^ 32" using le_val_bound [of bs] assms by simp
  then have "unat (of_nat (le_val bs) :: 32 word) = le_val bs" by (simp add: unat_of_nat)
  then have "of_nat (le_val bs) = (0x20202020 :: 32 word) \<longleftrightarrow> le_val bs = 0x20202020"
    by (auto simp: word_unat_eq_iff)
  then show ?thesis using le_val_spaces [OF assms] space_words by simp
qed

lemma take_split: "k \<le> e \<Longrightarrow> e \<le> length s \<Longrightarrow> take e s = take (e - k) s @ take k (drop (e - k) s)"
  using take_add [of "e - k" k s] by simp

lemma skip_words8_spec:
  "e \<le> length s \<Longrightarrow> \<exists>e' \<le> length s. skip_words8 s e = Inr e' \<and> trimmed_length (take e' s) = trimmed_length (take e s)"
proof (induction s e rule: skip_words8.induct)
  case (1 s e)
  show ?case
  proof (cases "e \<ge> 8")
    case False
    then show ?thesis using 1(2) by (subst skip_words8.simps) auto
  next
    case True
    let ?b = "take 8 (drop (e - 8) s)"
    have l: "length ?b = 8" using True 1(2) by simp
    have u: "uint8korr (drop (e - 8) s) = Inr (of_nat (le_val ?b))"
      using codec8.load_ok [of "drop (e - 8) s"] True 1(2) by simp
    show ?thesis
    proof (cases "\<forall>c \<in> set ?b. c = space_byte")
      case spaces: True
      have v: "of_nat (le_val ?b) = (0x2020202020202020 :: 64 word)" using word_of_spaces [OF l] spaces by blast
      have "trimmed_length (take e s) = trimmed_length (take (e - 8) s)"
        using take_split [OF True 1(2)] trimmed_length_spaces [OF spaces] by simp
      moreover have "skip_words8 s e = skip_words8 s (e - 8)"
        using True u v by (subst skip_words8.simps) simp
      moreover have "\<exists>e' \<le> length s. skip_words8 s (e - 8) = Inr e' \<and> trimmed_length (take e' s) = trimmed_length (take (e - 8) s)"
        using 1(1) [OF True u] v 1(2) by simp
      ultimately show ?thesis by auto
    next
      case False
      then have "of_nat (le_val ?b) \<noteq> (0x2020202020202020 :: 64 word)" using word_of_spaces [OF l] by blast
      then show ?thesis using True u 1(2) by (subst skip_words8.simps) auto
    qed
  qed
qed

lemma skip_trailing_space_spec: "skip_trailing_space s = Inr (trimmed_length s)"
proof -
  obtain e where "e \<le> length s" "skip_words8 s (length s) = Inr e" "trimmed_length (take e s) = trimmed_length s"
    using skip_words8_spec [of "length s" s] by auto
  then show ?thesis by (simp add: skip_trailing_space_def skip_bytes_spec)
qed

text \<open>The version for SPARC.\<close>

lemma skip_bytes_to_spec:
  "e \<le> length s \<Longrightarrow> \<exists>e' \<le> e. skip_bytes_to s lo e = Inr e' \<and> trimmed_length (take e' s) = trimmed_length (take e s)
     \<and> (min lo e \<le> e') \<and> (0 < e' \<and> lo < e' \<longrightarrow> s ! (e' - 1) \<noteq> space_byte)"
proof (induction s lo e rule: skip_bytes_to.induct)
  case (2 s lo e)
  show ?case
  proof (cases "lo < Suc e \<and> s ! e = space_byte")
    case True
    then have "skip_bytes_to s lo (Suc e) = skip_bytes_to s lo e" using 2(2) by (simp add: byte_at_nth)
    moreover have "trimmed_length (take (Suc e) s) = trimmed_length (take e s)"
      using True 2(2) by (simp add: take_Suc_conv_app_nth trimmed_length_snoc)
    moreover obtain e' where "e' \<le> e" "skip_bytes_to s lo e = Inr e'" "trimmed_length (take e' s) = trimmed_length (take e s)"
        "min lo e \<le> e'" "0 < e' \<and> lo < e' \<longrightarrow> s ! (e' - 1) \<noteq> space_byte"
      using 2(1) [of space_byte] True 2(2) by (auto simp: byte_at_nth)
    ultimately show ?thesis using True by (intro exI [of _ e']) auto
  next
    case False
    then show ?thesis using 2(2) by (auto simp: byte_at_nth)
  qed
qed simp

lemma take4_nth: "i + 4 \<le> length s \<Longrightarrow> take 4 (drop i s) = [s ! i, s ! (i + 1), s ! (i + 2), s ! (i + 3)]"
  by (intro nth_equalityI) (auto simp: nth_Cons' numeral_eq_Suc less_Suc_eq)

lemma skip_words4_spec:
  "e \<le> length s \<Longrightarrow> 4 dvd (ptr + e) \<Longrightarrow> 4 dvd (ptr + lo) \<Longrightarrow>
     \<exists>e' \<le> length s. skip_words4 s lo e = Inr e' \<and> trimmed_length (take e' s) = trimmed_length (take e s)"
proof (induction s lo e rule: skip_words4.induct)
  case (1 s lo e)
  show ?case
  proof (cases "lo < e")
    case False
    then show ?thesis using 1(2) by (subst skip_words4.simps) auto
  next
    case True
    have "lo + 4 \<le> e"
    proof -
      have "4 dvd (ptr + e) - (ptr + lo)" using 1(3,4) by (intro dvd_diff_nat)
      then have "4 dvd e - lo" by simp
      then show ?thesis using True by (metis add.commute dvd_imp_le le_diff_conv2 less_imp_le_nat zero_less_diff)
    qed
    then have e4: "\<not> e < 4" "4 \<le> e" by auto
    let ?b = "take 4 (drop (e - 4) s)"
    have l: "length ?b = 4" using e4 1(2) by simp
    have b: "?b = [s ! (e - 4), s ! (e - 4 + 1), s ! (e - 4 + 2), s ! (e - 4 + 3)]"
      using e4 1(2) by (intro take4_nth) simp
    have u: "load_be4 s (e - 4) = Inr (of_nat (le_val (rev ?b)))"
      using e4 1(2) by (subst b) (simp add: load_be4_def byte_at_nth)
    show ?thesis
    proof (cases "\<forall>c \<in> set ?b. c = space_byte")
      case spaces: True
      have v: "of_nat (le_val (rev ?b)) = (0x20202020 :: 32 word)"
        using word4_of_spaces [of "rev ?b"] l spaces by simp
      have "trimmed_length (take e s) = trimmed_length (take (e - 4) s)"
        using take_split [OF e4(2) 1(2)] trimmed_length_spaces [OF spaces] by simp
      moreover have "skip_words4 s lo e = skip_words4 s lo (e - 4)"
        using True e4 u v by (subst skip_words4.simps) simp
      moreover have "4 dvd ptr + (e - 4)" using 1(3) e4 by (metis Nat.add_diff_assoc dvd_minus_self)
      then have "\<exists>e' \<le> length s. skip_words4 s lo (e - 4) = Inr e' \<and> trimmed_length (take e' s) = trimmed_length (take (e - 4) s)"
        using 1(1) [OF True e4(1) u v] 1(2,4) by simp
      ultimately show ?thesis by auto
    next
      case False
      then have "of_nat (le_val (rev ?b)) \<noteq> (0x20202020 :: 32 word)" using word4_of_spaces [of "rev ?b"] l by simp
      then show ?thesis using True e4 u 1(2) by (subst skip_words4.simps) auto
    qed
  qed
qed

lemma skip_trailing_space_sparc_spec: "skip_trailing_space_sparc ptr s = Inr (trimmed_length s)"
proof (cases "length s > 20")
  case False
  then show ?thesis by (simp add: skip_trailing_space_sparc_def skip_bytes_spec)
next
  case True
  define ew where "ew = (ptr + length s) div 4 * 4 - ptr"
  define sw where "sw = (ptr + 3) div 4 * 4 - ptr"
  have ew: "ptr + ew = (ptr + length s) div 4 * 4" "ew \<le> length s" "0 < ew"
    using True by (simp_all add: ew_def)
  have sw: "ptr + sw = (ptr + 3) div 4 * 4" unfolding sw_def by linarith
  obtain e where e: "e \<le> length s" "skip_bytes_to s ew (length s) = Inr e"
      "trimmed_length (take e s) = trimmed_length s" "ew \<le> e" "0 < e \<and> ew < e \<longrightarrow> s ! (e - 1) \<noteq> space_byte"
    using skip_bytes_to_spec [of "length s" s ew] ew(2) by auto
  have c: "e \<noteq> 0" "byte_at s (e - 1) = Inr (s ! (e - 1))" using e ew(3) by (simp_all add: byte_at_nth)
  have "\<exists>e' \<le> length s. (if s ! (e - 1) = space_byte \<and> sw < ew then skip_words4 s sw e else Inr e) = Inr e'
      \<and> trimmed_length (take e' s) = trimmed_length s"
  proof (cases "s ! (e - 1) = space_byte \<and> sw < ew")
    case True
    then have "e = ew" using e by auto
    then show ?thesis using True skip_words4_spec [of e s ptr sw] e(1,3) ew(1) sw by simp
  next
    case False
    then show ?thesis using e by auto
  qed
  then show ?thesis
    using True e(2) c
    by (auto simp: skip_trailing_space_sparc_def Let_def ew_def [symmetric] sw_def [symmetric] skip_bytes_spec)
qed

section \<open>Copies\<close>

lemma my_stpcpy_spec:
  assumes "my_stpcpy dst src = Inr (d, n)"
  shows "c_string d = c_string src" "d ! n = NUL" "length d = length dst"
proof -
  obtain s where s: "c_string src = Inr s" "mem_write dst 0 (s @ [NUL]) = Inr d" "n = length s"
    using assms by (auto simp: my_stpcpy_def res_simps)
  have d: "d = s @ NUL # drop (Suc (length s)) dst" using s(2) by (auto simp: mem_simps)
  show "c_string d = c_string src" using c_string_append_NUL c_string_no_NUL [OF s(1)] s(1) d by simp
  show "d ! n = NUL" by (simp add: d s(3))
  show "length d = length dst" using mem_write_length [OF s(2)] .
qed

lemma lex_string_set_length:
  "lex_string_set cs = Inr l \<Longrightarrow> length cs < 2 ^ 64 \<Longrightarrow> c_string (lex_str l) = Inr (take (unat (lex_length l)) (lex_str l))"
proof -
  assume l: "lex_string_set cs = Inr l" and b: "length cs < 2 ^ 64"
  then obtain s where s: "c_string cs = Inr s" "l = \<lparr>lex_str = cs, lex_length = of_nat (length s)\<rparr>"
    by (auto simp: lex_string_set_def res_simps)
  have "length s < length cs" using c_string_length [OF s(1)] .
  then have u: "unat (of_nat (length s) :: size_t) = length s" using b by (intro unat_of_nat_size_t) simp
  have "s = takeWhile (\<lambda>c. c \<noteq> NUL) cs" using s(1) by (simp add: c_string_def split: if_splits)
  then have "take (length s) cs = s" by (metis takeWhile_eq_take)
  then show ?thesis using s u by simp
qed

end
