(* ===== verification/C_Strings.thy ===== *)
theory C_Strings
  imports C_Library
begin

text \<open>
  The inline functions of \<^verbatim>\<open>m_string.h\<close> that stand for a function of the C library
  under one name on every platform: the conversions \<open>my_strtoll\<close> and \<open>my_strtoull\<close>, the
  tokenizer \<open>my_strtok_r\<close> and the comparisons \<open>native_strcasecmp\<close> and
  \<open>native_strncasecmp\<close>. The functions behind them are defined here as the standard describes them, in
  the locale C. Windows' functions have other names and the same contract.
\<close>

section \<open>Comparisons\<close>

definition lower_code :: "char \<Rightarrow> nat" where
  "lower_code c = (let n = of_char c in if 65 \<le> n \<and> n \<le> 90 then n + 32 else n)"

fun strcasecmp :: "bytes \<Rightarrow> bytes \<Rightarrow> int res" where
  "strcasecmp (c # s1) (d # s2) =
     (if lower_code c \<noteq> lower_code d then Inr (int (lower_code c) - int (lower_code d))
      else if c = NUL then Inr 0
      else strcasecmp s1 s2)"
| "strcasecmp _ _ = Inl Out_Of_Bounds"

fun strncasecmp :: "bytes \<Rightarrow> bytes \<Rightarrow> nat \<Rightarrow> int res" where
  "strncasecmp _ _ 0 = Inr 0"
| "strncasecmp (c # s1) (d # s2) (Suc n) =
     (if lower_code c \<noteq> lower_code d then Inr (int (lower_code c) - int (lower_code d))
      else if c = NUL then Inr 0
      else strncasecmp s1 s2 n)"
| "strncasecmp _ _ (Suc n) = Inl Out_Of_Bounds"

definition native_strcasecmp :: "bytes \<Rightarrow> bytes \<Rightarrow> int res" where
  "native_strcasecmp s1 s2 = strcasecmp s1 s2"

definition native_strncasecmp :: "bytes \<Rightarrow> bytes \<Rightarrow> nat \<Rightarrow> int res" where
  "native_strncasecmp s1 s2 n = strncasecmp s1 s2 n"

lemma lower_code_NUL [simp]: "lower_code NUL = 0"
  by (simp add: lower_code_def)

lemma lower_code_0: "lower_code c = 0 \<longleftrightarrow> c = NUL"
proof -
  have "(of_char c :: nat) = 0 \<longleftrightarrow> c = NUL"
    using of_char_eq_iff [of c NUL, where ?'a = nat] by simp
  then show ?thesis by (auto simp: lower_code_def Let_def)
qed

lemma c_string_Cons:
  "c_string (c # d) = (if c = NUL then Inr [] else rbind (c_string d) (\<lambda>s. Inr (c # s)))"
  by (auto simp: c_string_def)

text \<open>The result is zero for strings that are equal up to case, and its sign is that of the lexicographic order.\<close>

lemma strcasecmp_spec:
  "c_string s1 = Inr s \<Longrightarrow> c_string s2 = Inr t \<Longrightarrow>
     \<exists>r. strcasecmp s1 s2 = Inr r \<and> (r = 0 \<longleftrightarrow> map lower_code s = map lower_code t)
       \<and> (r < 0 \<longleftrightarrow> ord_class.lexordp (map lower_code s) (map lower_code t))"
proof (induction s1 s2 arbitrary: s t rule: strcasecmp.induct)
  case (1 c s1 d s2)
  show ?case
  proof (cases "c = NUL \<or> d = NUL \<or> lower_code c \<noteq> lower_code d")
    case True
    then show ?thesis
      using 1(2,3) lower_code_0 [of c] lower_code_0 [of d]
      by (auto simp: c_string_Cons res_simps split: if_splits)
  next
    case False
    then obtain s' t' where s: "c_string s1 = Inr s'" "s = c # s'" "c_string s2 = Inr t'" "t = d # t'"
      using 1(2,3) by (auto simp: c_string_Cons res_simps)
    with 1(1) [OF _ _ s(1,3)] False show ?thesis by simp
  qed
qed (auto simp: c_string_def)

lemma strcasecmp_swap: "strcasecmp s2 s1 = rbind (strcasecmp s1 s2) (\<lambda>r. Inr (- r))"
proof (induction s1 s2 rule: strcasecmp.induct)
  case (1 c s1 d s2)
  then show ?case using lower_code_0 [of c] lower_code_0 [of d] by auto
qed simp_all

text \<open>With a bound the comparison looks at the first bytes only, and reads no other.\<close>

lemma strncasecmp_spec:
  "c_string s1 = Inr s \<Longrightarrow> c_string s2 = Inr t \<Longrightarrow> strncasecmp s1 s2 n = strcasecmp (take n s @ [NUL]) (take n t @ [NUL])"
proof (induction s1 s2 n arbitrary: s t rule: strncasecmp.induct)
  case (2 c s1 d s2 n)
  show ?case
  proof (cases "c = NUL \<or> d = NUL \<or> lower_code c \<noteq> lower_code d")
    case True
    then show ?thesis
      using 2(2,3) lower_code_0 [of c] lower_code_0 [of d]
      by (auto simp: c_string_Cons res_simps split: if_splits)
  next
    case False
    then obtain s' t' where s: "c_string s1 = Inr s'" "s = c # s'" "c_string s2 = Inr t'" "t = d # t'"
      using 2(2,3) by (auto simp: c_string_Cons res_simps)
    with 2(1) [OF _ _ s(1,3)] False show ?thesis by simp
  qed
qed (auto simp: c_string_def)

lemma strncasecmp_prefix:
  "length s1 = n \<Longrightarrow> length s2 = n \<Longrightarrow> strncasecmp (s1 @ r1) (s2 @ r2) n = strncasecmp s1 s2 n"
  by (induction s1 s2 n rule: strncasecmp.induct) auto

section \<open>Tokens\<close>

text \<open>
  \<open>strtok_r\<close> on the memory of a string: an index is a pointer into it. The result is the start of the token or
  \<open>None\<close>, the memory, in which the delimiter behind the token is overwritten by NUL, and the saved pointer.
\<close>

definition strtok_r :: "bytes \<Rightarrow> nat option \<Rightarrow> bytes \<Rightarrow> nat \<Rightarrow> (nat option \<times> bytes \<times> nat) res" where
  "strtok_r mem str delim saveptr =
     rbind (c_string delim) (\<lambda>ds.
       let s = (case str of Some i \<Rightarrow> i | None \<Rightarrow> saveptr) in
       rbind (c_string (drop s mem)) (\<lambda>cs.
         let start = s + length (takeWhile (\<lambda>c. c \<in> set ds) cs);
             token = takeWhile (\<lambda>c. c \<notin> set ds) (dropWhile (\<lambda>c. c \<in> set ds) cs);
             stop = start + length token
         in if token = [] then Inr (None, mem, stop)
            else if stop = s + length cs then Inr (Some start, mem, stop)
            else Inr (Some start, mem[stop := NUL], Suc stop)))"

definition my_strtok_r :: "bytes \<Rightarrow> nat option \<Rightarrow> bytes \<Rightarrow> nat \<Rightarrow> (nat option \<times> bytes \<times> nat) res" where
  "my_strtok_r mem str delim saveptr = strtok_r mem str delim saveptr"

text \<open>The loop over the tokens of a string, with a bound for the number of calls, and the tokens it should give.\<close>

fun all_tokens :: "nat \<Rightarrow> bytes \<Rightarrow> nat option \<Rightarrow> bytes \<Rightarrow> nat \<Rightarrow> bytes list res" where
  "all_tokens 0 mem str delim saveptr = Inr []"
| "all_tokens (Suc k) mem str delim saveptr =
     rbind (my_strtok_r mem str delim saveptr) (\<lambda>(tok, mem', save').
       case tok of
         None \<Rightarrow> Inr []
       | Some i \<Rightarrow> rbind (c_string (drop i mem')) (\<lambda>t.
           rbind (all_tokens k mem' None delim save') (\<lambda>ts. Inr (t # ts))))"

function tokens :: "char set \<Rightarrow> bytes \<Rightarrow> bytes list" where
  "tokens ds cs =
     (let rest = dropWhile (\<lambda>c. c \<in> ds) cs in
      if rest = [] then [] else takeWhile (\<lambda>c. c \<notin> ds) rest # tokens ds (dropWhile (\<lambda>c. c \<notin> ds) rest))"
  by pat_completeness auto
termination
proof (relation "measure (\<lambda>(ds, cs). length cs)")
  fix ds :: "char set" and cs rest
  assume r: "rest = dropWhile (\<lambda>c. c \<in> ds) cs" "rest \<noteq> []"
  then have "hd rest \<notin> ds" using hd_dropWhile [of "\<lambda>c. c \<in> ds" cs] by simp
  then have "length (dropWhile (\<lambda>c. c \<notin> ds) rest) < length rest"
    using r(2) by (cases rest) (simp_all add: le_imp_less_Suc length_dropWhile_le)
  moreover have "length rest \<le> length cs" unfolding r(1) by (rule length_dropWhile_le)
  ultimately show "((ds, dropWhile (\<lambda>c. c \<notin> ds) rest), (ds, cs)) \<in> measure (\<lambda>(ds, cs). length cs)" by simp
qed simp

declare tokens.simps [simp del]

lemma tokens_nonempty: "t \<in> set (tokens ds cs) \<Longrightarrow> t \<noteq> [] \<and> set t \<inter> ds = {}"
proof (induction ds cs rule: tokens.induct)
  case (1 ds cs)
  let ?r = "dropWhile (\<lambda>c. c \<in> ds) cs"
  show ?case
  proof (cases "?r = []")
    case False
    then have "hd ?r \<notin> ds" using hd_dropWhile [of "\<lambda>c. c \<in> ds" cs] by simp
    with False have "takeWhile (\<lambda>c. c \<notin> ds) ?r \<noteq> []" by (cases ?r) simp_all
    moreover have "set (takeWhile (\<lambda>c. c \<notin> ds) ?r) \<inter> ds = {}" by (auto dest: set_takeWhileD)
    moreover have "t = takeWhile (\<lambda>c. c \<notin> ds) ?r \<or> t \<in> set (tokens ds (dropWhile (\<lambda>c. c \<notin> ds) ?r))"
      using 1(2) False by (subst (asm) tokens.simps) (simp only: Let_def if_False set_simps insert_iff)
    ultimately show ?thesis using 1(1) [OF refl False] by auto
  qed (use 1(2) in \<open>simp add: tokens.simps\<close>)
qed

lemma filter_dropWhile: "filter (\<lambda>c. c \<notin> ds) (dropWhile (\<lambda>c. c \<in> ds) cs) = filter (\<lambda>c. c \<notin> ds) cs"
  by (induction cs) auto

lemma concat_tokens: "concat (tokens ds cs) = filter (\<lambda>c. c \<notin> ds) cs"
proof (induction ds cs rule: tokens.induct)
  case (1 ds cs)
  let ?r = "dropWhile (\<lambda>c. c \<in> ds) cs" and ?out = "\<lambda>c. c \<notin> ds"
  have "filter ?out ?r = filter ?out (takeWhile ?out ?r) @ filter ?out (dropWhile ?out ?r)"
    unfolding filter_append [symmetric] by simp
  moreover have "filter ?out (takeWhile ?out ?r) = takeWhile ?out ?r"
    by (auto simp: filter_id_conv dest: set_takeWhileD)
  moreover have "concat (tokens ds cs) = (if ?r = [] then [] else takeWhile ?out ?r @ concat (tokens ds (dropWhile ?out ?r)))"
    by (subst tokens.simps) (simp add: Let_def)
  ultimately show ?case
    using 1 [OF refl] filter_dropWhile [of ds cs] by (cases "?r = []") auto
qed

text \<open>The loop gives the tokens, in order, and none is missing: their bytes are those that are no delimiters.\<close>

lemma c_string_split: "c_string d = Inr cs \<Longrightarrow> \<exists>r. d = cs @ NUL # r"
proof -
  assume c: "c_string d = Inr cs"
  then have n: "NUL \<in> set d" and cs: "cs = takeWhile (\<lambda>c. c \<noteq> NUL) d" by (auto simp: c_string_def split: if_splits)
  have "dropWhile (\<lambda>c. c \<noteq> NUL) d \<noteq> []" using n by auto
  then obtain x r where r: "dropWhile (\<lambda>c. c \<noteq> NUL) d = x # r" by (cases "dropWhile (\<lambda>c. c \<noteq> NUL) d") auto
  then have "x = NUL" using hd_dropWhile [of "\<lambda>c. c \<noteq> NUL" d] by simp
  then have "d = cs @ NUL # r" using takeWhile_dropWhile_id [of "\<lambda>c. c \<noteq> NUL" d] r cs by simp
  then show ?thesis by blast
qed

lemma tokens_delim: "d \<in> ds \<Longrightarrow> tokens ds (d # cs) = tokens ds cs"
  by (subst (1 2) tokens.simps) simp

lemma tokens_Nil [simp]: "tokens ds [] = []"
  by (simp add: tokens.simps)

lemma strtok_r_cases:
  assumes "c_string delim = Inr ds" "s = (case str of Some i \<Rightarrow> i | None \<Rightarrow> saveptr)" "c_string (drop s mem) = Inr cs"
  obtains
    (none) "tokens (set ds) cs = []" "\<exists>m p. strtok_r mem str delim saveptr = Inr (None, m, p)"
  | (token) i m p t cs' where "strtok_r mem str delim saveptr = Inr (Some i, m, p)" "tokens (set ds) cs = t # tokens (set ds) cs'"
      "c_string (drop i m) = Inr t" "c_string (drop p m) = Inr cs'" "length cs' < length cs"
proof -
  let ?in = "\<lambda>c. c \<in> set ds" and ?out = "\<lambda>c. c \<notin> set ds"
  define pre where "pre = takeWhile ?in cs"
  define rest where "rest = dropWhile ?in cs"
  define t where "t = takeWhile ?out rest"
  define post where "post = dropWhile ?out rest"
  have cs: "cs = pre @ t @ post" by (simp add: pre_def t_def post_def rest_def)
  obtain r where r: "drop s mem = cs @ NUL # r" using c_string_split [OF assms(3)] by blast
  then have "s < length mem" by (metis append_is_Nil_conv drop_all list.distinct(1) not_less)
  then obtain A where mem: "mem = A @ pre @ t @ post @ NUL # r" "length A = s"
    using r append_take_drop_id [of s mem] unfolding cs by (metis append_assoc length_take less_imp_le min.absorb2)
  have no: "NUL \<notin> set pre" "NUL \<notin> set t" "NUL \<notin> set post" using c_string_no_NUL [OF assms(3)] by (auto simp: cs)
  have call: "strtok_r mem str delim saveptr =
    (if t = [] then Inr (None, mem, s + length pre + length t)
     else if post = [] then Inr (Some (s + length pre), mem, s + length pre + length t)
     else Inr (Some (s + length pre), mem[s + length pre + length t := NUL], Suc (s + length pre + length t)))"
    using assms by (simp add: strtok_r_def Let_def pre_def [symmetric] rest_def [symmetric] t_def [symmetric]) (simp add: cs)
  have toks: "tokens (set ds) cs = (if rest = [] then [] else t # tokens (set ds) post)"
    by (subst tokens.simps) (simp add: Let_def rest_def t_def post_def)
  have t: "t = [] \<longleftrightarrow> rest = []"
  proof (cases rest)
    case (Cons d p)
    then have "?out d" using hd_dropWhile [of ?in cs] unfolding rest_def by simp
    then show ?thesis by (simp add: t_def Cons)
  qed (simp add: t_def)
  show thesis
  proof (cases "t = []")
    case True
    then show thesis using none call toks t by simp
  next
    case False
    show thesis
    proof (cases post)
      case Nil
      have "drop (s + length pre) mem = t @ NUL # r" "drop (s + length pre + length t) mem = NUL # r"
        unfolding mem(1) by (simp_all add: mem(2) [symmetric] Nil)
      then have "c_string (drop (s + length pre) mem) = Inr t" "c_string (drop (s + length pre + length t) mem) = Inr []"
        using no by (simp_all add: c_string_append_NUL c_string_Cons)
      with False Nil toks t call show thesis by (intro token [of "s + length pre" mem "s + length pre + length t" t "[]"]) (simp_all add: cs)
    next
      case (Cons d p)
      let ?m = "mem[s + length pre + length t := NUL]"
      have "\<not> ?out d" using hd_dropWhile [of ?out rest] Cons unfolding post_def by simp
      then have "tokens (set ds) cs = t # tokens (set ds) p" using toks t False Cons by (simp add: tokens_delim)
      moreover have "?m = A @ pre @ t @ NUL # p @ NUL # r"
        unfolding mem(1) by (simp add: mem(2) [symmetric] Cons list_update_append)
      then have "drop (s + length pre) ?m = t @ NUL # p @ NUL # r" "drop (Suc (s + length pre + length t)) ?m = p @ NUL # r"
        by (simp_all add: mem(2) [symmetric])
      then have "c_string (drop (s + length pre) ?m) = Inr t" "c_string (drop (Suc (s + length pre + length t)) ?m) = Inr p"
        using no Cons by (simp_all add: c_string_append_NUL)
      ultimately show thesis using False Cons call by (intro token [of "s + length pre" ?m "Suc (s + length pre + length t)" t p]) (simp_all add: cs)
    qed
  qed
qed

lemma all_tokens_spec:
  assumes "c_string delim = Inr ds"
  shows "s = (case str of Some i \<Rightarrow> i | None \<Rightarrow> saveptr) \<Longrightarrow> c_string (drop s mem) = Inr cs \<Longrightarrow> length cs < k \<Longrightarrow>
    all_tokens k mem str delim saveptr = Inr (tokens (set ds) cs)"
proof (induction k arbitrary: s str saveptr mem cs)
  case (Suc k)
  from assms Suc.prems(1,2) show ?case
  proof (cases rule: strtok_r_cases)
    case none
    then show ?thesis by (auto simp: my_strtok_r_def)
  next
    case (token i m p t cs')
    then have "all_tokens k m None delim p = Inr (tokens (set ds) cs')"
      using Suc.prems(3) by (intro Suc.IH) simp_all
    with token show ?thesis by (simp add: my_strtok_r_def)
  qed
qed simp

section \<open>Numbers\<close>

definition alnum_value :: "char \<Rightarrow> nat option" where
  "alnum_value c =
     (let n = of_char c in
      if 48 \<le> n \<and> n \<le> 57 then Some (n - 48)
      else if 97 \<le> n \<and> n \<le> 122 then Some (n - 87)
      else if 65 \<le> n \<and> n \<le> 90 then Some (n - 55)
      else None)"

definition in_base :: "nat \<Rightarrow> char \<Rightarrow> bool" where
  "in_base b c = (case alnum_value c of None \<Rightarrow> False | Some v \<Rightarrow> v < b)"

fun base_value :: "nat \<Rightarrow> nat \<Rightarrow> bytes \<Rightarrow> nat" where
  "base_value b acc [] = acc"
| "base_value b acc (c # cs) = base_value b (b * acc + the (alnum_value c)) cs"

text \<open>
  The parts of a number: sign, prefix, digits. The result is the sign, the value and the index behind the last
  digit; \<open>None\<close> when there is no digit.
\<close>

definition has_sign :: "bytes \<Rightarrow> bool" where
  "has_sign s = (case s of [] \<Rightarrow> False | c # _ \<Rightarrow> c = CHR ''-'' \<or> c = CHR ''+'')"

definition has_hex_prefix :: "bytes \<Rightarrow> bool" where
  "has_hex_prefix s =
     (case s of z # x # d # _ \<Rightarrow> z = CHR ''0'' \<and> (x = CHR ''x'' \<or> x = CHR ''X'') \<and> in_base 16 d | _ \<Rightarrow> False)"

definition strto_base :: "bytes \<Rightarrow> nat \<Rightarrow> nat" where
  "strto_base number base =
     (if base \<noteq> 0 then base
      else if has_hex_prefix number then 16
      else if number \<noteq> [] \<and> hd number = CHR ''0'' then 8 else 10)"

definition strto_prefix :: "bytes \<Rightarrow> nat \<Rightarrow> nat" where
  "strto_prefix number base = (if (base = 0 \<or> base = 16) \<and> has_hex_prefix number then 2 else 0)"

definition strto_parts :: "bytes \<Rightarrow> nat \<Rightarrow> (bool \<times> nat \<times> nat) option" where
  "strto_parts s base =
     (let spaces = length (takeWhile is_space s);
          signed = drop spaces s;
          neg = (signed \<noteq> [] \<and> hd signed = CHR ''-'');
          sgn_len = (if has_sign signed then 1 else 0);
          number = drop sgn_len signed;
          b = strto_base number base;
          pre = strto_prefix number base;
          digits = takeWhile (in_base b) (drop pre number)
      in if digits = [] then None
         else Some (neg, base_value b 0 digits, spaces + sgn_len + pre + length digits))"

text \<open>
  The value, the index of \<open>endptr\<close>, and \<open>errno\<close> where it is set. With a base that is not supported
  the standard leaves \<open>endptr\<close> open; it is 0 here.
\<close>

datatype strto_error = Strto_Range | Strto_Base

definition bad_base :: "nat \<Rightarrow> bool" where
  "bad_base base \<longleftrightarrow> base = 1 \<or> 36 < base"

definition strtoll :: "bytes \<Rightarrow> nat \<Rightarrow> (64 word \<times> nat \<times> strto_error option) res" where
  "strtoll nptr base =
     rbind (c_string nptr) (\<lambda>s. Inr (
       if bad_base base then (0, 0, Some Strto_Base)
       else case strto_parts s base of
         None \<Rightarrow> (0, 0, None)
       | Some (neg, v, stop) \<Rightarrow>
           if neg then if v \<le> 2 ^ 63 then (word_of_int (- int v), stop, None)
                       else (word_of_int (- (2 ^ 63)), stop, Some Strto_Range)
           else if v < 2 ^ 63 then (word_of_int (int v), stop, None)
           else (word_of_int (2 ^ 63 - 1), stop, Some Strto_Range)))"

definition strtoull :: "bytes \<Rightarrow> nat \<Rightarrow> (64 word \<times> nat \<times> strto_error option) res" where
  "strtoull nptr base =
     rbind (c_string nptr) (\<lambda>s. Inr (
       if bad_base base then (0, 0, Some Strto_Base)
       else case strto_parts s base of
         None \<Rightarrow> (0, 0, None)
       | Some (neg, v, stop) \<Rightarrow>
           if v < 2 ^ 64 then (if neg then - word_of_nat v else word_of_nat v, stop, None)
           else (- 1, stop, Some Strto_Range)))"

definition my_strtoll :: "bytes \<Rightarrow> nat \<Rightarrow> (64 word \<times> nat \<times> strto_error option) res" where
  "my_strtoll nptr base = strtoll nptr base"

definition my_strtoull :: "bytes \<Rightarrow> nat \<Rightarrow> (64 word \<times> nat \<times> strto_error option) res" where
  "my_strtoull nptr base = strtoull nptr base"

text \<open>\<open>endptr\<close> stays in the string, and with a number it is behind at least one byte.\<close>

lemma strto_parts_stop:
  assumes "strto_parts s base = Some (neg, v, stop)"
  shows "0 < stop \<and> stop \<le> length s"
proof -
  define k where "k = length (takeWhile is_space s)"
  define sl where "sl = (if has_sign (drop k s) then 1 else (0 :: nat))"
  define pre where "pre = strto_prefix (drop sl (drop k s)) base"
  define digits where "digits = takeWhile (in_base (strto_base (drop sl (drop k s)) base)) (drop pre (drop sl (drop k s)))"
  have "digits \<noteq> [] \<and> stop = k + sl + pre + length digits"
    using assms unfolding strto_parts_def Let_def k_def [symmetric] sl_def [symmetric]
    by (auto simp: pre_def digits_def split: if_splits)
  moreover have "length digits \<le> length s - (k + sl + pre)"
    unfolding digits_def using length_takeWhile_le by (metis drop_drop length_drop add.commute)
  ultimately show ?thesis by (cases digits) auto
qed

text \<open>In decimal the conversion is \<open>atoi\<close> where the number is in range, and reads what was printed.\<close>

lemma alnum_value_digit: "is_digit c \<Longrightarrow> alnum_value c = Some (digit_value c)"
  by (simp add: alnum_value_def is_digit_def digit_value_def Let_def)

lemma in_base_10: "in_base 10 c \<longleftrightarrow> is_digit c"
  by (auto simp: in_base_def alnum_value_def is_digit_def Let_def)

lemma base_value_digits: "base_value 10 acc (takeWhile is_digit cs) = digits_value acc cs"
  by (induction cs arbitrary: acc) (simp_all add: alnum_value_digit)

lemma strto_parts_10:
  "strto_parts s 10 =
     (let spaces = length (takeWhile is_space s); signed = dropWhile is_space s;
          sl = (if has_sign signed then 1 else 0); digits = takeWhile is_digit (drop sl signed)
      in if digits = [] then None
         else Some (signed \<noteq> [] \<and> hd signed = CHR ''-'', digits_value 0 (drop sl signed), spaces + sl + length digits))"
proof -
  have "in_base 10 = is_digit" by (rule ext) (rule in_base_10)
  moreover have "strto_base number 10 = 10" "strto_prefix number 10 = 0" for number
    by (simp_all add: strto_base_def strto_prefix_def)
  ultimately show ?thesis
    by (simp only: strto_parts_def Let_def dropWhile_eq_drop base_value_digits drop_0 add_0_right)
qed

lemma atoi_strto_parts:
  "atoi s = (case strto_parts s 10 of None \<Rightarrow> 0 | Some (neg, v, _) \<Rightarrow> if neg then - int v else int v)"
proof -
  have none: "digits_value 0 cs = 0" if "takeWhile is_digit cs = []" for cs
    using that base_value_digits [of 0 cs] by simp
  show ?thesis
  proof (cases "dropWhile is_space s")
    case Nil
    show ?thesis unfolding atoi_def strto_parts_10 Let_def Nil by (simp add: has_sign_def)
  next
    case (Cons c cs)
    show ?thesis
      unfolding atoi_def strto_parts_10 Let_def Cons using none [of cs] none [of "c # cs"] by (auto simp: has_sign_def)
  qed
qed

lemma my_strtoll_atoi:
  assumes "c_string nptr = Inr s" "- (2 ^ 63) \<le> atoi s" "atoi s < 2 ^ 63"
  shows "\<exists>stop. my_strtoll nptr 10 = Inr (word_of_int (atoi s), stop, None)"
proof (cases "strto_parts s 10")
  case None
  then show ?thesis using assms by (simp add: my_strtoll_def strtoll_def bad_base_def atoi_strto_parts)
next
  case (Some p)
  obtain neg v stop where p: "p = (neg, v, stop)" by (cases p)
  have "int v \<le> 2 ^ 63" if neg using assms(2) Some that by (simp add: p atoi_strto_parts)
  then have a: "v \<le> 2 ^ 63" if neg using that by simp
  have "int v < 2 ^ 63" if "\<not> neg" using assms(3) Some that by (simp add: p atoi_strto_parts)
  then have b: "v < 2 ^ 63" if "\<not> neg" using that by simp
  show ?thesis using a b assms(1) Some by (simp add: my_strtoll_def strtoll_def bad_base_def atoi_strto_parts p)
qed

lemma takeWhile_spaces:
  "takeWhile is_space (replicate k (CHR '' '') @ cs) = replicate k (CHR '' '') @ takeWhile is_space cs"
  by (induction k) (auto simp: is_space_def)

lemma my_strtoll_printed:
  assumes "n < 2 ^ 63"
  shows "my_strtoll (format_4d (int n) @ [NUL]) 10 = Inr (word_of_int (int n), length (format_4d (int n)), None)"
proof -
  let ?s = "format_4d (int n)"
  obtain k where k: "?s = replicate k (CHR '' '') @ show_nat n"
    by (simp add: format_4d_def show_int_def Let_def)
  obtain c cs where c: "show_nat n = c # cs" "is_digit c"
    using show_nat_nonempty [of n] show_nat_digits [of n] by (cases "show_nat n") auto
  have sp: "takeWhile is_space ?s = replicate k (CHR '' '')" "dropWhile is_space ?s = show_nat n"
    unfolding k takeWhile_spaces dropWhile_spaces using c digit_not_space [OF c(2)] by simp_all
  have digits: "takeWhile is_digit (show_nat n) = show_nat n" using show_nat_digits [of n] by simp
  have sign: "\<not> has_sign (show_nat n)" "hd (show_nat n) \<noteq> CHR ''-''"
    using digit_not_sign [OF c(2)] by (simp_all add: c has_sign_def)
  have "length ?s = k + length (show_nat n)" unfolding k by simp
  then have "strto_parts ?s 10 = Some (False, n, length ?s)"
    unfolding strto_parts_10 Let_def sp if_not_P [OF sign(1)] drop_0 digits
    using show_nat_nonempty [of n] sign(2) by (simp add: digits_value_show_nat)
  then show ?thesis
    using assms c_string_append_NUL [OF format_4d_no_NUL [of n], of "[]"]
    by (simp add: my_strtoll_def strtoll_def bad_base_def)
qed

text \<open>Without a sign the unsigned conversion has the same bits wherever the signed one is in range; a sign negates.\<close>

lemma my_strtoull_signed:
  "my_strtoll nptr base = Inr (w, stop, None) \<Longrightarrow> my_strtoull nptr base = Inr (w, stop, None)"
  by (auto simp: my_strtoll_def my_strtoull_def strtoll_def strtoull_def res_simps word_of_int_minus
      split: if_splits option.splits)

end
