(* ===== verification/Io_Cache.thy ===== *)
theory Io_Cache
  imports My_Global
begin

text \<open>
  The macros and inline functions of \<^verbatim>\<open>my_sys.h\<close>: the fast paths of the buffered files
  (\<open>IO_CACHE\<close>) and the small helpers. A pointer into a buffer is an index. The functions that fill
  and flush the buffers are in the library; they are function pointers in the cache and parameters
  here. The laws name what they promise, and the lemmas show that the macros, which go around them
  when the buffer suffices, keep the same promise: a cache is a stream of bytes.
\<close>

section \<open>Caches\<close>

datatype cache_type = TYPE_NOT_SET | READ_CACHE | WRITE_CACHE | SEQ_READ_APPEND | READ_FIFO | READ_NET | WRITE_NET

text \<open>\<open>file_part\<close> is everything else that the functions of the library use.\<close>

record 'f IO_CACHE =
  pos_in_file :: nat
  read_pos :: nat
  read_end :: nat
  buffer :: "bytes option"
  request_pos :: nat
  write_buffer :: bytes
  write_pos :: nat
  write_end :: nat
  ctype' :: cache_type
  file_part :: 'f

type_synonym 'f read_fun = "nat \<Rightarrow> 'f IO_CACHE \<Rightarrow> int \<times> bytes \<times> 'f IO_CACHE"
type_synonym 'f write_fun = "bytes \<Rightarrow> 'f IO_CACHE \<Rightarrow> int \<times> 'f IO_CACHE"

definition my_b_clear :: "'f IO_CACHE \<Rightarrow> 'f IO_CACHE" where
  "my_b_clear info = info\<lparr>buffer := None\<rparr>"

definition my_b_inited :: "'f IO_CACHE \<Rightarrow> bool" where
  "my_b_inited info \<longleftrightarrow> buffer info \<noteq> None"

definition buffer_bytes :: "'f IO_CACHE \<Rightarrow> bytes res" where
  "buffer_bytes info = (case buffer info of None \<Rightarrow> Inl Null_Deref | Some b \<Rightarrow> Inr b)"

definition my_b_read :: "'f read_fun \<Rightarrow> nat \<Rightarrow> 'f IO_CACHE \<Rightarrow> (int \<times> bytes \<times> 'f IO_CACHE) res" where
  "my_b_read read_function Count info =
     (if read_pos info + Count \<le> read_end info then
        rbind (buffer_bytes info) (\<lambda>b.
        rbind (mem_read b (read_pos info) Count) (\<lambda>bs.
          Inr (0, bs, info\<lparr>read_pos := read_pos info + Count\<rparr>)))
      else Inr (read_function Count info))"

definition my_b_write :: "'f write_fun \<Rightarrow> bytes \<Rightarrow> 'f IO_CACHE \<Rightarrow> (int \<times> 'f IO_CACHE) res" where
  "my_b_write write_function Buffer info =
     (if write_pos info + length Buffer \<le> write_end info then
        rbind (mem_write (write_buffer info) (write_pos info) Buffer) (\<lambda>b.
          Inr (0, info\<lparr>write_buffer := b, write_pos := write_pos info + length Buffer\<rparr>))
      else Inr (write_function Buffer info))"

text \<open>\<open>_my_b_get\<close> reads one byte through the read function, or returns the end of the file.\<close>

definition my_b_EOF :: int where "my_b_EOF = - (2 ^ 31)"

definition my_b_get :: "('f IO_CACHE \<Rightarrow> int \<times> 'f IO_CACHE) \<Rightarrow> 'f IO_CACHE \<Rightarrow> (int \<times> 'f IO_CACHE) res" where
  "my_b_get b_get info =
     (if read_pos info \<noteq> read_end info then
        rbind (buffer_bytes info) (\<lambda>b.
        rbind (mem_read b (read_pos info) 1) (\<lambda>bs.
          Inr (int (of_char (hd bs)), info\<lparr>read_pos := read_pos info + 1\<rparr>)))
      else Inr (b_get info))"

text \<open>\<open>current_pos\<close> points to the write position of a write cache and to the read position otherwise.\<close>

definition current_pos :: "'f IO_CACHE \<Rightarrow> nat" where
  "current_pos info = (if ctype' info = WRITE_CACHE then write_pos info else read_pos info)"

definition current_end :: "'f IO_CACHE \<Rightarrow> nat" where
  "current_end info = (if ctype' info = WRITE_CACHE then write_end info else read_end info)"

definition my_b_tell :: "'f IO_CACHE \<Rightarrow> 64 word" where
  "my_b_tell info = of_nat (pos_in_file info) + (of_nat (current_pos info) - of_nat (request_pos info))"

definition my_b_bytes_in_cache :: "'f IO_CACHE \<Rightarrow> 64 word" where
  "my_b_bytes_in_cache info = of_nat (current_end info) - of_nat (current_pos info)"

definition my_b_get_buffer_start :: "'f IO_CACHE \<Rightarrow> nat" where
  "my_b_get_buffer_start info = request_pos info"

definition my_b_get_bytes_in_buffer :: "'f IO_CACHE \<Rightarrow> int" where
  "my_b_get_bytes_in_buffer info = int (read_end info) - int (my_b_get_buffer_start info)"

definition my_b_get_pos_in_file :: "'f IO_CACHE \<Rightarrow> nat" where
  "my_b_get_pos_in_file info = pos_in_file info"

section \<open>Helpers\<close>

record DYNAMIC_ARRAY =
  da_buffer :: bytes
  elements :: "32 word"
  max_element :: "32 word"
  alloc_increment :: "32 word"
  size_of_element :: "32 word"

definition reset_dynamic :: "DYNAMIC_ARRAY \<Rightarrow> DYNAMIC_ARRAY" where
  "reset_dynamic array = array\<lparr>elements := 0\<rparr>"

record MEM_ROOT =
  mr_free :: "nat option"
  mr_used :: "nat option"
  mr_pre_alloc :: "nat option"
  min_malloc :: size_t
  mr_block_size :: size_t

definition alloc_root_inited :: "MEM_ROOT \<Rightarrow> bool" where
  "alloc_root_inited A \<longleftrightarrow> min_malloc A \<noteq> 0"

definition clear_alloc_root :: "MEM_ROOT \<Rightarrow> MEM_ROOT" where
  "clear_alloc_root A = A\<lparr>mr_free := None, mr_used := None, mr_pre_alloc := None, min_malloc := 0\<rparr>"

text \<open>\<open>strdup_root\<close> is in the library: it returns the address of the copy or null.\<close>

definition safe_strdup_root :: "('r \<Rightarrow> bytes \<Rightarrow> nat option \<times> 'r) \<Rightarrow> 'r \<Rightarrow> bytes option \<Rightarrow> nat option \<times> 'r" where
  "safe_strdup_root strdup_root root str = (case str of Some s \<Rightarrow> strdup_root root s | None \<Rightarrow> (None, root))"

text \<open>Where a block is allocated, and whether the matching macro frees it.\<close>

datatype alloc_place = On_stack | On_heap

definition my_safe_alloca :: "size_t \<Rightarrow> size_t \<Rightarrow> alloc_place" where
  "my_safe_alloca sz max_alloca_sz = (if sz \<le> max_alloca_sz then On_stack else On_heap)"

definition my_safe_afree :: "size_t \<Rightarrow> size_t \<Rightarrow> bool" where
  "my_safe_afree sz max_alloca_sz \<longleftrightarrow> sz > max_alloca_sz"

text \<open>What \<open>my_sleep\<close> passes to \<open>select\<close>, and to \<open>Sleep\<close> on Windows.\<close>

definition my_sleep_timeval :: "int \<Rightarrow> int \<times> int" where
  "my_sleep_timeval m_seconds = (m_seconds sdiv 1000000, m_seconds smod 1000000)"

definition my_sleep_win :: "64 word \<Rightarrow> 32 word" where
  "my_sleep_win m_seconds = ucast m_seconds div 1000 + 1"

section \<open>A read cache is a stream\<close>

text \<open>What can still be read: the rest of the buffer, then what the file holds behind it.\<close>

definition available :: "'f IO_CACHE \<Rightarrow> bytes" where
  "available info = (case buffer info of None \<Rightarrow> [] | Some b \<Rightarrow> take (read_end info - read_pos info) (drop (read_pos info) b))"

definition read_ok :: "'f IO_CACHE \<Rightarrow> bool" where
  "read_ok info \<longleftrightarrow> read_pos info \<le> read_end info \<and> (case buffer info of None \<Rightarrow> False | Some b \<Rightarrow> read_end info \<le> length b)"

definition stream :: "('f IO_CACHE \<Rightarrow> bytes) \<Rightarrow> 'f IO_CACHE \<Rightarrow> bytes" where
  "stream rest info = available info @ rest info"

text \<open>
  The contract of a reader: a request the stream can serve returns 0 and the next bytes, any other
  request returns an error. The rest behind the buffer is not changed by reads inside the buffer.
\<close>

definition reader_law :: "('f IO_CACHE \<Rightarrow> bytes) \<Rightarrow> (nat \<Rightarrow> 'f IO_CACHE \<Rightarrow> int \<times> bytes \<times> 'f IO_CACHE) \<Rightarrow> 'f IO_CACHE \<Rightarrow> nat \<Rightarrow> bool" where
  "reader_law rest rd info n \<longleftrightarrow>
     (case rd n info of (r, bs, info') \<Rightarrow>
        read_ok info' \<and>
        (if n \<le> length (stream rest info)
         then r = 0 \<and> bs = take n (stream rest info) \<and> stream rest info' = drop n (stream rest info)
         else r \<noteq> 0))"

definition read_function_law :: "('f IO_CACHE \<Rightarrow> bytes) \<Rightarrow> 'f read_fun \<Rightarrow> bool" where
  "read_function_law rest rf \<longleftrightarrow>
     (\<forall>info n. read_ok info \<and> length (available info) < n \<longrightarrow> reader_law rest rf info n)
   \<and> (\<forall>info k. rest (info\<lparr>read_pos := k\<rparr>) = rest info)"

lemma length_available: "read_ok info \<Longrightarrow> length (available info) = read_end info - read_pos info"
  by (auto simp: read_ok_def available_def split: option.splits)

lemma my_b_read_law:
  assumes law: "read_function_law rest rf" and ok: "read_ok info"
  shows "\<exists>x. my_b_read rf n info = Inr x \<and> reader_law rest (\<lambda>_ _. x) info n"
proof (cases "read_pos info + n \<le> read_end info")
  case True
  obtain b where b: "buffer info = Some b" "read_end info \<le> length b" "read_pos info \<le> read_end info"
    using ok by (auto simp: read_ok_def split: option.splits)
  let ?i = "info\<lparr>read_pos := read_pos info + n\<rparr>"
  have r: "my_b_read rf n info = Inr (0, take n (drop (read_pos info) b), ?i)"
    using True b by (simp add: my_b_read_def buffer_bytes_def mem_read_def)
  have a: "available info = take n (drop (read_pos info) b) @ available ?i"
  proof -
    have "take (n + (read_end info - (read_pos info + n))) (drop (read_pos info) b) =
        take n (drop (read_pos info) b) @ take (read_end info - (read_pos info + n)) (drop (n + read_pos info) b)"
      by (simp add: take_add)
    then show ?thesis using True b by (simp add: available_def add.commute)
  qed
  have "length (take n (drop (read_pos info) b)) = n" using True b by simp
  moreover have "rest ?i = rest info" using law by (simp add: read_function_law_def)
  moreover have "read_ok ?i" using True b by (simp add: read_ok_def)
  ultimately show ?thesis using r a by (simp add: reader_law_def stream_def)
next
  case False
  then have "length (available info) < n" using length_available [OF ok] ok by (simp add: read_ok_def) arith
  then have "reader_law rest rf info n" using law ok by (simp add: read_function_law_def)
  then show ?thesis using False by (simp add: my_b_read_def reader_law_def)
qed

text \<open>Reads of any sizes return the stream piece by piece.\<close>

fun read_all :: "'f read_fun \<Rightarrow> nat list \<Rightarrow> 'f IO_CACHE \<Rightarrow> (bytes list \<times> 'f IO_CACHE) res" where
  "read_all rf [] info = Inr ([], info)"
| "read_all rf (n # ns) info =
     rbind (my_b_read rf n info) (\<lambda>(r, bs, info).
     rbind (read_all rf ns info) (\<lambda>(bss, info). Inr (bs # bss, info)))"

lemma read_all_stream:
  "read_function_law rest rf \<Longrightarrow> read_ok info \<Longrightarrow> sum_list ns \<le> length (stream rest info) \<Longrightarrow>
     \<exists>bss info'. read_all rf ns info = Inr (bss, info') \<and> map length bss = ns
       \<and> concat bss @ stream rest info' = stream rest info"
proof (induction ns arbitrary: info)
  case (Cons n ns)
  obtain r bs info1 where x: "my_b_read rf n info = Inr (r, bs, info1)" "reader_law rest (\<lambda>_ _. (r, bs, info1)) info n"
    using my_b_read_law [OF Cons.prems(1,2)] by (metis prod_cases3)
  then have i1: "read_ok info1" "bs = take n (stream rest info)" "stream rest info1 = drop n (stream rest info)"
    using Cons.prems(3) by (auto simp: reader_law_def)
  have "sum_list ns \<le> length (stream rest info1)" using i1(3) Cons.prems(3) by simp
  then obtain bss info' where "read_all rf ns info1 = Inr (bss, info')" "map length bss = ns"
      "concat bss @ stream rest info' = stream rest info1"
    using Cons.IH [OF Cons.prems(1) i1(1)] by blast
  then show ?case using x(1) i1 Cons.prems(3) by simp
qed simp

section \<open>A write cache collects what is written\<close>

text \<open>\<open>flushed\<close> is what has reached the file; the rest is in the buffer.\<close>

definition written :: "('f IO_CACHE \<Rightarrow> bytes) \<Rightarrow> 'f IO_CACHE \<Rightarrow> bytes" where
  "written flushed info = flushed info @ take (write_pos info) (write_buffer info)"

definition write_ok :: "'f IO_CACHE \<Rightarrow> bool" where
  "write_ok info \<longleftrightarrow> write_pos info \<le> write_end info \<and> write_end info \<le> length (write_buffer info)"

definition write_function_law :: "('f IO_CACHE \<Rightarrow> bytes) \<Rightarrow> 'f write_fun \<Rightarrow> bool" where
  "write_function_law flushed wfun \<longleftrightarrow>
     (\<forall>info bs r info'. write_ok info \<and> write_end info < write_pos info + length bs \<and> wfun bs info = (r, info') \<longrightarrow>
        r = 0 \<and> write_ok info' \<and> written flushed info' = written flushed info @ bs)
   \<and> (\<forall>info b k. flushed (info\<lparr>write_buffer := b, write_pos := k\<rparr>) = flushed info)"

lemma my_b_write_law:
  assumes law: "write_function_law flushed wfun" and ok: "write_ok info"
  shows "\<exists>info'. my_b_write wfun bs info = Inr (0, info') \<and> write_ok info' \<and> written flushed info' = written flushed info @ bs"
proof (cases "write_pos info + length bs \<le> write_end info")
  case True
  then have "write_pos info + length bs \<le> length (write_buffer info)" using ok by (simp add: write_ok_def)
  then have w: "my_b_write wfun bs info = Inr (0, info\<lparr>write_buffer := take (write_pos info) (write_buffer info) @ bs
        @ drop (write_pos info + length bs) (write_buffer info), write_pos := write_pos info + length bs\<rparr>)"
    using True by (simp add: my_b_write_def mem_write_ok)
  moreover have "flushed (info\<lparr>write_buffer := b, write_pos := k\<rparr>) = flushed info" for b k
    using law unfolding write_function_law_def by blast
  moreover have "length (take (write_pos info) (write_buffer info)) = write_pos info"
    using ok by (simp add: write_ok_def)
  ultimately show ?thesis using True ok by (simp add: write_ok_def written_def)
next
  case False
  obtain r info' where w: "wfun bs info = (r, info')" by fastforce
  then have "r = 0 \<and> write_ok info' \<and> written flushed info' = written flushed info @ bs"
    using law ok False unfolding write_function_law_def not_le by blast
  then show ?thesis using False w by (simp add: my_b_write_def)
qed

fun write_all :: "'f write_fun \<Rightarrow> bytes list \<Rightarrow> 'f IO_CACHE \<Rightarrow> (int \<times> 'f IO_CACHE) res" where
  "write_all wfun [] info = Inr (0, info)"
| "write_all wfun (bs # bss) info =
     rbind (my_b_write wfun bs info) (\<lambda>(r, info). if r \<noteq> 0 then Inr (r, info) else write_all wfun bss info)"

lemma write_all_written:
  "write_function_law flushed wfun \<Longrightarrow> write_ok info \<Longrightarrow>
     \<exists>info'. write_all wfun bss info = Inr (0, info') \<and> write_ok info' \<and> written flushed info' = written flushed info @ concat bss"
proof (induction bss arbitrary: info)
  case (Cons bs bss)
  from my_b_write_law [OF Cons.prems] obtain info1 where
    "my_b_write wfun bs info = Inr (0, info1)" "write_ok info1" "written flushed info1 = written flushed info @ bs" by blast
  with Cons.IH [OF Cons.prems(1), of info1] show ?case by auto
qed auto

text \<open>The position in a write cache is the number of bytes written.\<close>

lemma my_b_tell_written:
  assumes "ctype' info = WRITE_CACHE" "write_ok info" "request_pos info = 0" "pos_in_file info = length (flushed info)"
  shows "my_b_tell info = of_nat (length (written flushed info))"
proof -
  have "length (take (write_pos info) (write_buffer info)) = write_pos info"
    using assms(2) by (simp add: write_ok_def)
  then show ?thesis using assms(1,3,4) by (simp add: my_b_tell_def current_pos_def written_def)
qed

section \<open>Functions that keep the contract\<close>

text \<open>
  The simplest reader behind the macros: it puts the whole file into the buffer and goes on there.
  The simplest writer: it appends the buffer and the new bytes to the file.
\<close>

definition refill_all :: "bytes read_fun" where
  "refill_all n info =
     (let s = stream file_part info in
      if n \<le> length s
      then (0, take n s, info\<lparr>buffer := Some (drop n s), read_pos := 0, read_end := length s - n, file_part := []\<rparr>)
      else (1, [], info))"

definition flush_all :: "bytes write_fun" where
  "flush_all bs info = (0, info\<lparr>write_pos := 0, file_part := written file_part info @ bs\<rparr>)"

lemma refill_all_law: "read_function_law file_part refill_all"
  by (auto simp: read_function_law_def reader_law_def refill_all_def Let_def read_ok_def stream_def available_def)

lemma flush_all_law: "write_function_law file_part flush_all"
  by (auto simp: write_function_law_def flush_all_def write_ok_def written_def)

lemma my_safe_alloca_free: "my_safe_afree sz mx \<longleftrightarrow> my_safe_alloca sz mx = On_heap"
  by (auto simp: my_safe_afree_def my_safe_alloca_def not_le)

lemma my_sleep_exact: "fst (my_sleep_timeval m) * 1000000 + snd (my_sleep_timeval m) = m"
  using sdiv_mult_smod_eq [of m 1000000] by (simp add: my_sleep_timeval_def)

end
