(* ===== verification/Field_Types.thy ===== *)
theory Field_Types
  imports Engine_Prelude
begin

unbundle bit_operations_syntax

text \<open>
  Bit masks and classifications of the MySQL headers: the types of fields
  (\<^verbatim>\<open>binary_log_types.h\<close>, \<^verbatim>\<open>mysql.h\<close>), their flags and the capabilities
  of a client (\<^verbatim>\<open>mysql_com.h\<close>), the character classes and the sort flags of
  \<^verbatim>\<open>m_ctype.h\<close>, and the small macros of \<^verbatim>\<open>decimal.h\<close>. A group of
  constants is an association list of names and values, so that statements can speak of all of them.
\<close>

section \<open>Types of fields\<close>

datatype (plugins only: size code) field_type =
    MYSQL_TYPE_DECIMAL | MYSQL_TYPE_TINY | MYSQL_TYPE_SHORT | MYSQL_TYPE_LONG | MYSQL_TYPE_FLOAT
  | MYSQL_TYPE_DOUBLE | MYSQL_TYPE_NULL | MYSQL_TYPE_TIMESTAMP | MYSQL_TYPE_LONGLONG | MYSQL_TYPE_INT24
  | MYSQL_TYPE_DATE | MYSQL_TYPE_TIME | MYSQL_TYPE_DATETIME | MYSQL_TYPE_YEAR | MYSQL_TYPE_NEWDATE
  | MYSQL_TYPE_VARCHAR | MYSQL_TYPE_BIT | MYSQL_TYPE_TIMESTAMP2 | MYSQL_TYPE_DATETIME2 | MYSQL_TYPE_TIME2
  | MYSQL_TYPE_JSON | MYSQL_TYPE_NEWDECIMAL | MYSQL_TYPE_ENUM | MYSQL_TYPE_SET | MYSQL_TYPE_TINY_BLOB
  | MYSQL_TYPE_MEDIUM_BLOB | MYSQL_TYPE_LONG_BLOB | MYSQL_TYPE_BLOB | MYSQL_TYPE_VAR_STRING
  | MYSQL_TYPE_STRING | MYSQL_TYPE_GEOMETRY

text \<open>The enumeration counts from 0 up to \<open>TIME2\<close> and goes on at 245.\<close>

fun field_type_code :: "field_type \<Rightarrow> int" where
  "field_type_code MYSQL_TYPE_DECIMAL = 0"
| "field_type_code MYSQL_TYPE_TINY = 1"
| "field_type_code MYSQL_TYPE_SHORT = 2"
| "field_type_code MYSQL_TYPE_LONG = 3"
| "field_type_code MYSQL_TYPE_FLOAT = 4"
| "field_type_code MYSQL_TYPE_DOUBLE = 5"
| "field_type_code MYSQL_TYPE_NULL = 6"
| "field_type_code MYSQL_TYPE_TIMESTAMP = 7"
| "field_type_code MYSQL_TYPE_LONGLONG = 8"
| "field_type_code MYSQL_TYPE_INT24 = 9"
| "field_type_code MYSQL_TYPE_DATE = 10"
| "field_type_code MYSQL_TYPE_TIME = 11"
| "field_type_code MYSQL_TYPE_DATETIME = 12"
| "field_type_code MYSQL_TYPE_YEAR = 13"
| "field_type_code MYSQL_TYPE_NEWDATE = 14"
| "field_type_code MYSQL_TYPE_VARCHAR = 15"
| "field_type_code MYSQL_TYPE_BIT = 16"
| "field_type_code MYSQL_TYPE_TIMESTAMP2 = 17"
| "field_type_code MYSQL_TYPE_DATETIME2 = 18"
| "field_type_code MYSQL_TYPE_TIME2 = 19"
| "field_type_code MYSQL_TYPE_JSON = 245"
| "field_type_code MYSQL_TYPE_NEWDECIMAL = 246"
| "field_type_code MYSQL_TYPE_ENUM = 247"
| "field_type_code MYSQL_TYPE_SET = 248"
| "field_type_code MYSQL_TYPE_TINY_BLOB = 249"
| "field_type_code MYSQL_TYPE_MEDIUM_BLOB = 250"
| "field_type_code MYSQL_TYPE_LONG_BLOB = 251"
| "field_type_code MYSQL_TYPE_BLOB = 252"
| "field_type_code MYSQL_TYPE_VAR_STRING = 253"
| "field_type_code MYSQL_TYPE_STRING = 254"
| "field_type_code MYSQL_TYPE_GEOMETRY = 255"

definition IS_NUM :: "int \<Rightarrow> bool" where
  "IS_NUM t \<longleftrightarrow>
     t \<le> field_type_code MYSQL_TYPE_INT24 \<and> t \<noteq> field_type_code MYSQL_TYPE_TIMESTAMP
   \<or> t = field_type_code MYSQL_TYPE_YEAR \<or> t = field_type_code MYSQL_TYPE_NEWDECIMAL"

definition IS_LONGDATA :: "int \<Rightarrow> bool" where
  "IS_LONGDATA t \<longleftrightarrow> t \<ge> field_type_code MYSQL_TYPE_TINY_BLOB \<and> t \<le> field_type_code MYSQL_TYPE_STRING"

section \<open>Flags of fields and capabilities of clients\<close>

definition field_flags :: "(string \<times> 32 word) list" where
  "field_flags =
     [(''NOT_NULL_FLAG'', 1), (''PRI_KEY_FLAG'', 2), (''UNIQUE_KEY_FLAG'', 4), (''MULTIPLE_KEY_FLAG'', 8),
      (''BLOB_FLAG'', 16), (''UNSIGNED_FLAG'', 32), (''ZEROFILL_FLAG'', 64), (''BINARY_FLAG'', 128),
      (''ENUM_FLAG'', 256), (''AUTO_INCREMENT_FLAG'', 512), (''TIMESTAMP_FLAG'', 1024), (''SET_FLAG'', 2048),
      (''NO_DEFAULT_VALUE_FLAG'', 4096), (''ON_UPDATE_NOW_FLAG'', 8192), (''NUM_FLAG'', 32768),
      (''PART_KEY_FLAG'', 16384), (''GROUP_FLAG'', 32768), (''UNIQUE_FLAG'', 65536), (''BINCMP_FLAG'', 131072),
      (''GET_FIXED_FIELDS_FLAG'', push_bit 18 1), (''FIELD_IN_PART_FUNC_FLAG'', push_bit 19 1),
      (''FIELD_IN_ADD_INDEX'', push_bit 20 1), (''FIELD_IS_RENAMED'', push_bit 21 1),
      (''FIELD_FLAGS_STORAGE_MEDIA_MASK'', push_bit 22 3), (''FIELD_FLAGS_COLUMN_FORMAT_MASK'', push_bit 24 3),
      (''FIELD_IS_DROPPED'', push_bit 26 1), (''EXPLICIT_NULL_FLAG'', push_bit 27 1)]"

definition PRI_KEY_FLAG :: "32 word" where "PRI_KEY_FLAG = 2"
definition NOT_NULL_FLAG :: "32 word" where "NOT_NULL_FLAG = 1"
definition BLOB_FLAG :: "32 word" where "BLOB_FLAG = 16"

definition IS_PRI_KEY :: "32 word \<Rightarrow> 32 word" where "IS_PRI_KEY n = n AND PRI_KEY_FLAG"
definition IS_NOT_NULL :: "32 word \<Rightarrow> 32 word" where "IS_NOT_NULL n = n AND NOT_NULL_FLAG"
definition IS_BLOB :: "32 word \<Rightarrow> 32 word" where "IS_BLOB n = n AND BLOB_FLAG"

definition client_flags :: "(string \<times> 32 word) list" where
  "client_flags =
     [(''CLIENT_LONG_PASSWORD'', 1), (''CLIENT_FOUND_ROWS'', 2), (''CLIENT_LONG_FLAG'', 4),
      (''CLIENT_CONNECT_WITH_DB'', 8), (''CLIENT_NO_SCHEMA'', 16), (''CLIENT_COMPRESS'', 32), (''CLIENT_ODBC'', 64),
      (''CLIENT_LOCAL_FILES'', 128), (''CLIENT_IGNORE_SPACE'', 256), (''CLIENT_PROTOCOL_41'', 512),
      (''CLIENT_INTERACTIVE'', 1024), (''CLIENT_SSL'', 2048), (''CLIENT_IGNORE_SIGPIPE'', 4096),
      (''CLIENT_TRANSACTIONS'', 8192), (''CLIENT_RESERVED'', 16384), (''CLIENT_RESERVED2'', 32768),
      (''CLIENT_MULTI_STATEMENTS'', push_bit 16 1), (''CLIENT_MULTI_RESULTS'', push_bit 17 1),
      (''CLIENT_PS_MULTI_RESULTS'', push_bit 18 1), (''CLIENT_PLUGIN_AUTH'', push_bit 19 1),
      (''CLIENT_CONNECT_ATTRS'', push_bit 20 1), (''CLIENT_PLUGIN_AUTH_LENENC_CLIENT_DATA'', push_bit 21 1),
      (''CLIENT_CAN_HANDLE_EXPIRED_PASSWORDS'', push_bit 22 1), (''CLIENT_SESSION_TRACK'', push_bit 23 1),
      (''CLIENT_DEPRECATE_EOF'', push_bit 24 1), (''CLIENT_SSL_VERIFY_SERVER_CERT'', push_bit 30 1),
      (''CLIENT_REMEMBER_OPTIONS'', push_bit 31 1)]"

definition client_flag :: "string \<Rightarrow> 32 word" where
  "client_flag n = (case map_of client_flags n of Some w \<Rightarrow> w | None \<Rightarrow> 0)"

definition CLIENT_ALL_FLAGS :: "32 word" where
  "CLIENT_ALL_FLAGS = foldl (\<lambda>a n. a OR client_flag n) 0
     [''CLIENT_LONG_PASSWORD'', ''CLIENT_FOUND_ROWS'', ''CLIENT_LONG_FLAG'', ''CLIENT_CONNECT_WITH_DB'',
      ''CLIENT_NO_SCHEMA'', ''CLIENT_COMPRESS'', ''CLIENT_ODBC'', ''CLIENT_LOCAL_FILES'', ''CLIENT_IGNORE_SPACE'',
      ''CLIENT_PROTOCOL_41'', ''CLIENT_INTERACTIVE'', ''CLIENT_SSL'', ''CLIENT_IGNORE_SIGPIPE'',
      ''CLIENT_TRANSACTIONS'', ''CLIENT_RESERVED'', ''CLIENT_RESERVED2'', ''CLIENT_MULTI_STATEMENTS'',
      ''CLIENT_MULTI_RESULTS'', ''CLIENT_PS_MULTI_RESULTS'', ''CLIENT_SSL_VERIFY_SERVER_CERT'',
      ''CLIENT_REMEMBER_OPTIONS'', ''CLIENT_PLUGIN_AUTH'', ''CLIENT_CONNECT_ATTRS'',
      ''CLIENT_PLUGIN_AUTH_LENENC_CLIENT_DATA'', ''CLIENT_CAN_HANDLE_EXPIRED_PASSWORDS'',
      ''CLIENT_SESSION_TRACK'', ''CLIENT_DEPRECATE_EOF'']"

definition CLIENT_BASIC_FLAGS :: "32 word" where
  "CLIENT_BASIC_FLAGS =
     ((CLIENT_ALL_FLAGS AND NOT (client_flag ''CLIENT_SSL'')) AND NOT (client_flag ''CLIENT_COMPRESS''))
       AND NOT (client_flag ''CLIENT_SSL_VERIFY_SERVER_CERT'')"

section \<open>Character classes\<close>

text \<open>A character set has a table of 257 classes, whose first entry is that of the end of file.\<close>

record charset =
  cs_ctype :: "nat \<Rightarrow> 8 word"
  cs_to_upper :: "nat \<Rightarrow> 8 word"
  cs_to_lower :: "nat \<Rightarrow> 8 word"
  cs_state :: "32 word"
  cs_mbcharlen :: "nat \<Rightarrow> nat"
  cs_mbmaxlenlen :: nat

definition MY_U :: "8 word" where "MY_U = 1"
definition MY_L :: "8 word" where "MY_L = 2"
definition MY_NMR :: "8 word" where "MY_NMR = 4"
definition MY_SPC :: "8 word" where "MY_SPC = 8"
definition MY_PNT :: "8 word" where "MY_PNT = 16"
definition MY_CTR :: "8 word" where "MY_CTR = 32"
definition MY_B :: "8 word" where "MY_B = 64"
definition MY_X :: "8 word" where "MY_X = 128"

definition class_of :: "charset \<Rightarrow> 8 word \<Rightarrow> 8 word" where
  "class_of s c = cs_ctype s (unat c + 1)"

definition my_isascii :: "32 word \<Rightarrow> bool" where "my_isascii c \<longleftrightarrow> c AND NOT 0x7f = 0"
definition my_toascii :: "32 word \<Rightarrow> 32 word" where "my_toascii c = c AND 0x7f"
definition my_tocntrl :: "32 word \<Rightarrow> 32 word" where "my_tocntrl c = c AND 31"
definition my_toprint :: "32 word \<Rightarrow> 32 word" where "my_toprint c = c OR 64"
definition my_toupper :: "charset \<Rightarrow> 8 word \<Rightarrow> 8 word" where "my_toupper s c = cs_to_upper s (unat c)"
definition my_tolower :: "charset \<Rightarrow> 8 word \<Rightarrow> 8 word" where "my_tolower s c = cs_to_lower s (unat c)"
definition my_isalpha :: "charset \<Rightarrow> 8 word \<Rightarrow> bool" where "my_isalpha s c \<longleftrightarrow> class_of s c AND (MY_U OR MY_L) \<noteq> 0"
definition my_isupper :: "charset \<Rightarrow> 8 word \<Rightarrow> bool" where "my_isupper s c \<longleftrightarrow> class_of s c AND MY_U \<noteq> 0"
definition my_islower :: "charset \<Rightarrow> 8 word \<Rightarrow> bool" where "my_islower s c \<longleftrightarrow> class_of s c AND MY_L \<noteq> 0"
definition my_isdigit :: "charset \<Rightarrow> 8 word \<Rightarrow> bool" where "my_isdigit s c \<longleftrightarrow> class_of s c AND MY_NMR \<noteq> 0"
definition my_isxdigit :: "charset \<Rightarrow> 8 word \<Rightarrow> bool" where "my_isxdigit s c \<longleftrightarrow> class_of s c AND MY_X \<noteq> 0"
definition my_isalnum :: "charset \<Rightarrow> 8 word \<Rightarrow> bool" where
  "my_isalnum s c \<longleftrightarrow> class_of s c AND (MY_U OR MY_L OR MY_NMR) \<noteq> 0"
definition my_isspace :: "charset \<Rightarrow> 8 word \<Rightarrow> bool" where "my_isspace s c \<longleftrightarrow> class_of s c AND MY_SPC \<noteq> 0"
definition my_ispunct :: "charset \<Rightarrow> 8 word \<Rightarrow> bool" where "my_ispunct s c \<longleftrightarrow> class_of s c AND MY_PNT \<noteq> 0"
definition my_isprint :: "charset \<Rightarrow> 8 word \<Rightarrow> bool" where
  "my_isprint s c \<longleftrightarrow> class_of s c AND (MY_PNT OR MY_U OR MY_L OR MY_NMR OR MY_B) \<noteq> 0"
definition my_isgraph :: "charset \<Rightarrow> 8 word \<Rightarrow> bool" where
  "my_isgraph s c \<longleftrightarrow> class_of s c AND (MY_PNT OR MY_U OR MY_L OR MY_NMR) \<noteq> 0"
definition my_iscntrl :: "charset \<Rightarrow> 8 word \<Rightarrow> bool" where "my_iscntrl s c \<longleftrightarrow> class_of s c AND MY_CTR \<noteq> 0"

definition my_isvar :: "charset \<Rightarrow> 8 word \<Rightarrow> bool" where "my_isvar s c \<longleftrightarrow> my_isalnum s c \<or> c = 0x5f"
definition my_isvar_start :: "charset \<Rightarrow> 8 word \<Rightarrow> bool" where "my_isvar_start s c \<longleftrightarrow> my_isalpha s c \<or> c = 0x5f"

definition MY_CS_BINSORT :: "32 word" where "MY_CS_BINSORT = 16"
definition MY_CS_STRNXFRM :: "32 word" where "MY_CS_STRNXFRM = 64"
definition my_binary_compare :: "charset \<Rightarrow> bool" where "my_binary_compare s \<longleftrightarrow> cs_state s AND MY_CS_BINSORT \<noteq> 0"
definition use_strnxfrm :: "charset \<Rightarrow> bool" where "use_strnxfrm s \<longleftrightarrow> cs_state s AND MY_CS_STRNXFRM \<noteq> 0"

definition my_mbcharlen :: "charset \<Rightarrow> nat \<Rightarrow> nat" where "my_mbcharlen s a = cs_mbcharlen s a"
definition my_mbcharlen_2 :: "charset \<Rightarrow> 32 word \<Rightarrow> 32 word \<Rightarrow> nat" where
  "my_mbcharlen_2 s a b = cs_mbcharlen s (unat (push_bit 8 (a AND 0xFF) + (b AND 0xFF)))"
definition my_mbmaxlenlen :: "charset \<Rightarrow> nat" where "my_mbmaxlenlen s = cs_mbmaxlenlen s"
definition my_ismb1st :: "charset \<Rightarrow> nat \<Rightarrow> bool" where
  "my_ismb1st s i \<longleftrightarrow> my_mbcharlen s i > 1 \<or> my_mbmaxlenlen s = 2 \<and> my_mbcharlen s i = 0"

definition MY_CS_TOOSMALLN :: "int \<Rightarrow> int" where "MY_CS_TOOSMALLN n = - 100 - n"

section \<open>Sort flags\<close>

text \<open>The six levels, and for each the flags of a descending and of a reverse order.\<close>

definition MY_STRXFRM_LEVEL :: "(32 word) list" where
  "MY_STRXFRM_LEVEL = [0x00000001, 0x00000002, 0x00000004, 0x00000008, 0x00000010, 0x00000020]"
definition MY_STRXFRM_LEVEL_ALL :: "32 word" where "MY_STRXFRM_LEVEL_ALL = 0x0000003F"
definition MY_STRXFRM_NLEVELS :: nat where "MY_STRXFRM_NLEVELS = 6"
definition MY_STRXFRM_DESC_LEVEL :: "(32 word) list" where
  "MY_STRXFRM_DESC_LEVEL = [0x00000100, 0x00000200, 0x00000300, 0x00000800, 0x00001000, 0x00002000]"
definition MY_STRXFRM_DESC_SHIFT :: nat where "MY_STRXFRM_DESC_SHIFT = 8"
definition MY_STRXFRM_REVERSE_LEVEL :: "(32 word) list" where
  "MY_STRXFRM_REVERSE_LEVEL = [0x00010000, 0x00020000, 0x00040000, 0x00080000, 0x00100000, 0x00200000]"
definition MY_STRXFRM_REVERSE_SHIFT :: nat where "MY_STRXFRM_REVERSE_SHIFT = 16"

section \<open>Decimals\<close>

record decimal =
  dec_intg :: int
  dec_frac :: int
  dec_sign :: bool
  dec_buf :: "int list"

definition decimal_make_zero :: "decimal \<Rightarrow> decimal res" where
  "decimal_make_zero dec =
     (if dec_buf dec = [] then Inl Out_Of_Bounds
      else Inr (dec\<lparr>dec_buf := (dec_buf dec)[0 := 0], dec_intg := 1, dec_frac := 0, dec_sign := False\<rparr>))"

definition decimal_string_size :: "decimal \<Rightarrow> int" where
  "decimal_string_size dec =
     (if dec_intg dec \<noteq> 0 then dec_intg dec else 1) + dec_frac dec + (if dec_frac dec > 0 then 1 else 0) + 2"

section \<open>Lemmas\<close>

lemma field_type_code_inj: "field_type_code a = field_type_code b \<Longrightarrow> a = b"
  by (cases a; simp; cases b; simp)

lemma IS_NUM_iff:
  "IS_NUM (field_type_code t) \<longleftrightarrow>
     t \<in> {MYSQL_TYPE_DECIMAL, MYSQL_TYPE_TINY, MYSQL_TYPE_SHORT, MYSQL_TYPE_LONG, MYSQL_TYPE_FLOAT, MYSQL_TYPE_DOUBLE,
       MYSQL_TYPE_NULL, MYSQL_TYPE_LONGLONG, MYSQL_TYPE_INT24, MYSQL_TYPE_YEAR, MYSQL_TYPE_NEWDECIMAL}"
  by (cases t) (simp_all add: IS_NUM_def)

lemma IS_LONGDATA_iff:
  "IS_LONGDATA (field_type_code t) \<longleftrightarrow>
     t \<in> {MYSQL_TYPE_TINY_BLOB, MYSQL_TYPE_MEDIUM_BLOB, MYSQL_TYPE_LONG_BLOB, MYSQL_TYPE_BLOB, MYSQL_TYPE_VAR_STRING, MYSQL_TYPE_STRING}"
  by (cases t) (simp_all add: IS_LONGDATA_def)

lemma no_numeric_longdata: "\<not> (IS_NUM (field_type_code t) \<and> IS_LONGDATA (field_type_code t))"
  by (cases t) (simp_all add: IS_NUM_def IS_LONGDATA_def)

text \<open>Every mask of a list is built of bits of its own.\<close>

fun disjoint_masks :: "(32 word) list \<Rightarrow> bool" where
  "disjoint_masks [] \<longleftrightarrow> True"
| "disjoint_masks (m # ms) \<longleftrightarrow> list_all (\<lambda>m'. m AND m' = 0) ms \<and> disjoint_masks ms"

lemma client_flags_disjoint: "disjoint_masks (map snd client_flags)"
  by (simp add: client_flags_def push_bit_eq_mult)

text \<open>The capabilities a client offers: all of them, or all but encryption and compression.\<close>

lemmas client_flag_eqs = client_flag_def client_flags_def push_bit_eq_mult

lemma CLIENT_ALL_FLAGS_value: "CLIENT_ALL_FLAGS = 0xC1FFFFFF"
  by (simp add: CLIENT_ALL_FLAGS_def client_flag_eqs)

lemma CLIENT_BASIC_FLAGS_value: "CLIENT_BASIC_FLAGS = 0x81FFF7DF"
  by (simp add: CLIENT_BASIC_FLAGS_def CLIENT_ALL_FLAGS_value client_flag_eqs)

lemma client_flag_offered:
  "list_all (\<lambda>(n, w). w AND CLIENT_ALL_FLAGS = w \<and> w AND CLIENT_BASIC_FLAGS
     = (if n \<in> {''CLIENT_SSL'', ''CLIENT_COMPRESS'', ''CLIENT_SSL_VERIFY_SERVER_CERT''} then 0 else w)) client_flags"
  by (simp add: CLIENT_ALL_FLAGS_value CLIENT_BASIC_FLAGS_value client_flags_def push_bit_eq_mult)

text \<open>The flags of a field are not all disjoint: a grouped field cannot be told from a numeric one.\<close>

lemma field_flags_clash:
  "map_of field_flags ''NUM_FLAG'' = map_of field_flags ''GROUP_FLAG''"
  "\<not> disjoint_masks (map snd field_flags)"
  by (simp_all add: field_flags_def push_bit_eq_mult)

text \<open>The classes of characters decompose as those of the C library do.\<close>

lemma my_isascii_iff: "my_isascii c \<longleftrightarrow> unat c < 128"
proof -
  have "my_isascii c \<longleftrightarrow> c = c AND mask 7"
    by (auto simp: my_isascii_def mask_eq_exp_minus_1 bit_eq_iff bit_simps)
  also have "c AND mask 7 = take_bit 7 c"
    by (simp add: take_bit_eq_mask)
  also have "c = take_bit 7 c \<longleftrightarrow> unat c = unat c mod 128"
    by (simp only: word_unat_eq_iff unsigned_take_bit_eq) (simp add: take_bit_eq_mod)
  finally show ?thesis by (auto simp: mod_eq_self_iff_div_eq_0)
qed

lemma my_isalnum_iff: "my_isalnum s c \<longleftrightarrow> my_isalpha s c \<or> my_isdigit s c"
  by (auto simp: my_isalnum_def my_isalpha_def my_isdigit_def bit.conj_disj_distrib or_eq_0_iff)

lemma my_isalpha_iff: "my_isalpha s c \<longleftrightarrow> my_isupper s c \<or> my_islower s c"
  by (auto simp: my_isalpha_def my_isupper_def my_islower_def bit.conj_disj_distrib or_eq_0_iff)

lemma my_isgraph_iff: "my_isgraph s c \<longleftrightarrow> my_ispunct s c \<or> my_isalnum s c"
  by (auto simp: my_isgraph_def my_ispunct_def my_isalnum_def bit.conj_disj_distrib or_eq_0_iff)

lemma my_isprint_iff: "my_isprint s c \<longleftrightarrow> my_isgraph s c \<or> class_of s c AND MY_B \<noteq> 0"
  by (auto simp: my_isprint_def my_isgraph_def bit.conj_disj_distrib or_eq_0_iff)

text \<open>
  The flag of a descending level is the level shifted by \<open>MY_STRXFRM_DESC_SHIFT\<close>, that of a
  reverse level the one shifted by \<open>MY_STRXFRM_REVERSE_SHIFT\<close>, except for the third
  descending level: its value is the one of the first two together.
\<close>

lemma reverse_levels: "MY_STRXFRM_REVERSE_LEVEL = map (push_bit MY_STRXFRM_REVERSE_SHIFT) MY_STRXFRM_LEVEL"
  by (simp add: MY_STRXFRM_REVERSE_LEVEL_def MY_STRXFRM_LEVEL_def MY_STRXFRM_REVERSE_SHIFT_def push_bit_eq_mult)

lemma desc_levels:
  "map (push_bit MY_STRXFRM_DESC_SHIFT) MY_STRXFRM_LEVEL = MY_STRXFRM_DESC_LEVEL[2 := 0x400]"
  "MY_STRXFRM_DESC_LEVEL ! 2 = MY_STRXFRM_DESC_LEVEL ! 0 OR MY_STRXFRM_DESC_LEVEL ! 1"
  by (simp_all add: MY_STRXFRM_DESC_LEVEL_def MY_STRXFRM_LEVEL_def MY_STRXFRM_DESC_SHIFT_def push_bit_eq_mult)

lemma level_all: "foldl (OR) 0 MY_STRXFRM_LEVEL = MY_STRXFRM_LEVEL_ALL"
  by (simp add: MY_STRXFRM_LEVEL_def MY_STRXFRM_LEVEL_ALL_def)

end
