(* ===== verification/Init_Db.thy ===== *)
theory Init_Db
  imports Engine_Prelude
begin

text \<open>
  The database probe \<open>init_db\<close> of \<^verbatim>\<open>src/game.cpp\<close> and its stand-alone copy
  \<^verbatim>\<open>src/test_db_mysql_c.cpp\<close>: connect, run one query, print the stored result. The MySQL
  client library is the record \<open>mysql_api\<close> over a state \<open>'d\<close>; \<open>'c\<close> is
  a connection and \<open>'r\<close> a stored result. The library's functions on a result need one: a
  null pointer passed to \<open>mysql_num_fields\<close> is dereferenced. The user's password is an argument.
\<close>

section \<open>The client library\<close>

type_synonym row = "bytes option list"

record ('d, 'c, 'r) mysql_api =
  mysql_init :: "'d \<Rightarrow> 'c option \<times> 'd"
  mysql_real_connect :: "'c \<Rightarrow> bytes \<Rightarrow> bytes \<Rightarrow> bytes \<Rightarrow> bytes \<Rightarrow> 'd \<Rightarrow> bool \<times> 'd"
  mysql_query :: "'c \<Rightarrow> bytes \<Rightarrow> 'd \<Rightarrow> int \<times> 'd"
  mysql_store_result :: "'c \<Rightarrow> 'd \<Rightarrow> 'r option \<times> 'd"
  mysql_num_fields :: "'r \<Rightarrow> 'd \<Rightarrow> nat"
  mysql_fetch_row :: "'r \<Rightarrow> 'd \<Rightarrow> row option \<times> 'd"
  mysql_free_result :: "'r \<Rightarrow> 'd \<Rightarrow> 'd"
  mysql_close :: "'c \<Rightarrow> 'd \<Rightarrow> 'd"

section \<open>Printing the rows\<close>

text \<open>The inner loop: field \<open>i\<close> and a blank, NULL for a null field.\<close>

definition print_field :: "row \<Rightarrow> nat \<Rightarrow> bytes \<Rightarrow> bytes res" where
  "print_field r i out =
     (if i < length r then Inr (out @ (case r ! i of Some s \<Rightarrow> c_str s | None \<Rightarrow> ''NULL'') @ '' '')
      else Inl Out_Of_Bounds)"

definition print_row :: "nat \<Rightarrow> row \<Rightarrow> bytes \<Rightarrow> bytes res" where
  "print_row num_fields r out =
     rbind (rfold (print_field r) [0..<num_fields] out) (\<lambda>out. Inr (out @ [CHR 0x0A]))"

text \<open>
  The outer loop runs until the library has no more rows; \<open>None\<close> is the value when
  \<open>fuel\<close> rounds were not enough.
\<close>

fun fetch_rows :: "nat \<Rightarrow> ('d, 'c, 'r) mysql_api \<Rightarrow> nat \<Rightarrow> 'r \<Rightarrow> 'd \<Rightarrow> bytes \<Rightarrow> (bytes \<times> 'd) res option" where
  "fetch_rows 0 api num_fields result d out = None"
| "fetch_rows (Suc fuel) api num_fields result d out =
     (case mysql_fetch_row api result d of
        (None, d) \<Rightarrow> Some (Inr (out, d))
      | (Some r, d) \<Rightarrow>
          (case print_row num_fields r out of
             Inl e \<Rightarrow> Some (Inl e)
           | Inr out \<Rightarrow> fetch_rows fuel api num_fields result d out))"

text \<open>
  The steps the two programs share: a failed connection, a failed query and a null result have empty
  branches, so the program goes on.
\<close>

definition query_and_print :: "nat \<Rightarrow> ('d, 'c, 'r) mysql_api \<Rightarrow> bytes \<Rightarrow> bytes \<Rightarrow> bytes \<Rightarrow> bytes \<Rightarrow> 'd \<Rightarrow>
    (bytes \<times> 'd) res option" where
  "query_and_print fuel api user passwd db query d =
     (case mysql_init api d of
        (None, d) \<Rightarrow> Some (Inl (Exit_Code 1))
      | (Some con, d) \<Rightarrow>
          let (_, d) = mysql_real_connect api con ''127.0.0.1'' user passwd db d;
              (_, d) = mysql_query api con query d;
              (result, d) = mysql_store_result api con d
          in case result of
               None \<Rightarrow> Some (Inl Null_Deref)
             | Some result \<Rightarrow>
                 (case fetch_rows fuel api (mysql_num_fields api result d) result d [] of
                    None \<Rightarrow> None
                  | Some (Inl e) \<Rightarrow> Some (Inl e)
                  | Some (Inr (out, d)) \<Rightarrow>
                      Some (Inr (out, mysql_close api con (mysql_free_result api result d)))))"

definition init_db :: "nat \<Rightarrow> ('d, 'c, 'r) mysql_api \<Rightarrow> bytes \<Rightarrow> 'd \<Rightarrow> (bool \<times> bytes \<times> 'd) res option" where
  "init_db fuel api passwd d =
     map_option (\<lambda>r. rbind r (\<lambda>(out, d). Inr (True, out, d)))
       (query_and_print fuel api ''shop_kengqie_co'' passwd ''shop_kengqie_co'' ''SELECT * FROM dbshop_ad'' d)"

definition test_db_main :: "nat \<Rightarrow> ('d, 'c, 'r) mysql_api \<Rightarrow> bytes \<Rightarrow> 'd \<Rightarrow> unit res option" where
  "test_db_main fuel api passwd d =
     map_option (\<lambda>r. rbind r (\<lambda>_. Inl (Exit_Code 0)))
       (query_and_print fuel api ''shop1_kengqie_c'' passwd ''shop1_kengqie_c''
          ''SELECT * FROM dbshop_goods_class'' d)"

section \<open>What is printed\<close>

definition render_field :: "bytes option \<Rightarrow> bytes" where
  "render_field f = (case f of Some s \<Rightarrow> c_str s | None \<Rightarrow> ''NULL'') @ '' ''"

definition render_row :: "row \<Rightarrow> bytes" where
  "render_row r = concat (map render_field r) @ [CHR 0x0A]"

lemma print_fields:
  "n \<le> length r \<Longrightarrow> rfold (print_field r) [0..<n] out = Inr (out @ concat (map render_field (take n r)))"
proof (induction n)
  case (Suc n)
  then have "[0..<Suc n] = [0..<n] @ [n]" and "take (Suc n) r = take n r @ [r ! n]"
    by (simp_all add: take_Suc_conv_app_nth)
  with Suc show ?case
    by (simp add: rfold_append print_field_def render_field_def)
qed simp

lemma print_row_eq: "print_row (length r) r out = Inr (out @ render_row r)"
  using print_fields [of "length r" r out] by (simp add: print_row_def render_row_def)

text \<open>The library hands out the rows one after the other and then a null pointer.\<close>

fun fetch_yields :: "('d, 'c, 'r) mysql_api \<Rightarrow> 'r \<Rightarrow> row list \<Rightarrow> 'd \<Rightarrow> 'd \<Rightarrow> bool" where
  "fetch_yields api result [] d d' \<longleftrightarrow> mysql_fetch_row api result d = (None, d')"
| "fetch_yields api result (r # rs) d d' \<longleftrightarrow>
     fst (mysql_fetch_row api result d) = Some r \<and> fetch_yields api result rs (snd (mysql_fetch_row api result d)) d'"

lemma fetch_rows_eq:
  assumes "fetch_yields api result rs d d'" and "\<forall>r \<in> set rs. length r = n" and "length rs < fuel"
  shows "fetch_rows fuel api n result d out = Some (Inr (out @ concat (map render_row rs), d'))"
  using assms
proof (induction rs arbitrary: d fuel out)
  case Nil
  then obtain k where "fuel = Suc k" by (cases fuel) auto
  with Nil show ?case by simp
next
  case (Cons r rs)
  then obtain k where k: "fuel = Suc k" by (cases fuel) auto
  obtain d1 where d1: "mysql_fetch_row api result d = (Some r, d1)"
    using Cons.prems(1) by (cases "mysql_fetch_row api result d") auto
  have "fetch_rows k api n result d1 (out @ render_row r)
      = Some (Inr ((out @ render_row r) @ concat (map render_row rs), d'))"
    using Cons.prems k d1 by (intro Cons.IH) auto
  moreover have "print_row n r out = Inr (out @ render_row r)"
    using print_row_eq [of r out] Cons.prems(2) by simp
  ultimately show ?case by (simp add: k d1)
qed

lemma query_and_print_eq:
  assumes "mysql_init api d = (Some con, d1)"
    and "mysql_real_connect api con ''127.0.0.1'' user passwd db d1 = (b, d2)"
    and "mysql_query api con query d2 = (q, d3)"
    and "mysql_store_result api con d3 = (Some result, d4)"
    and "fetch_yields api result rs d4 d5"
    and "\<forall>r \<in> set rs. length r = mysql_num_fields api result d4"
    and "length rs < fuel"
  shows "query_and_print fuel api user passwd db query d
    = Some (Inr (concat (map render_row rs), mysql_close api con (mysql_free_result api result d5)))"
  using assms(1-4) fetch_rows_eq [OF assms(5-7), of "[]"] by (simp add: query_and_print_def)

text \<open>When there is no result, after a failed connection or query, the null pointer is used.\<close>

lemma query_and_print_null:
  assumes "mysql_init api d = (Some con, d1)"
    and "\<And>d. fst (mysql_store_result api con d) = None"
  shows "query_and_print fuel api user passwd db query d = Some (Inl Null_Deref)"
proof -
  obtain b d2 where c: "mysql_real_connect api con ''127.0.0.1'' user passwd db d1 = (b, d2)" by fastforce
  obtain q d3 where q: "mysql_query api con query d2 = (q, d3)" by fastforce
  obtain d4 where r: "mysql_store_result api con d3 = (None, d4)"
    using assms(2) [of d3] by (cases "mysql_store_result api con d3") simp
  show ?thesis by (simp add: query_and_print_def assms(1) c q r)
qed

text \<open>A server that is not reachable, and one that keeps two rows.\<close>

definition offline_mysql :: "(unit, unit, unit) mysql_api" where
  "offline_mysql = \<lparr>mysql_init = (\<lambda>d. (Some (), d)), mysql_real_connect = (\<lambda>_ _ _ _ _ d. (False, d)),
     mysql_query = (\<lambda>_ _ d. (1, d)), mysql_store_result = (\<lambda>_ d. (None, d)), mysql_num_fields = (\<lambda>_ _. 0),
     mysql_fetch_row = (\<lambda>_ d. (None, d)), mysql_free_result = (\<lambda>_ d. d), mysql_close = (\<lambda>_ d. d)\<rparr>"

definition list_mysql :: "(row list, unit, unit) mysql_api" where
  "list_mysql = \<lparr>mysql_init = (\<lambda>d. (Some (), d)), mysql_real_connect = (\<lambda>_ _ _ _ _ d. (True, d)),
     mysql_query = (\<lambda>_ _ d. (0, d)), mysql_store_result = (\<lambda>_ d. (Some (), d)), mysql_num_fields = (\<lambda>_ _. 2),
     mysql_fetch_row = (\<lambda>_ d. case d of [] \<Rightarrow> (None, []) | r # rs \<Rightarrow> (Some r, rs)),
     mysql_free_result = (\<lambda>_ d. d), mysql_close = (\<lambda>_ d. d)\<rparr>"

end
