(* ===== verification/Test_Engine.thy ===== *)
theory Test_Engine
  imports Gafq_Api
begin

text \<open>
  The example \<^verbatim>\<open>src/test_game_eng.cpp\<close>: load a script, pass it a table as the global
  \<open>foo\<close>, run it and print the number it returns. The three functions of the interpreter that
  only this program calls are the record \<open>gafq_test_api\<close>; a number of the interpreter is
  \<open>'n\<close>.
\<close>

record ('v, 'n) gafq_test_api =
  gafq_rawset :: "int \<Rightarrow> 'v \<Rightarrow> 'v"
  gafq_tonumber :: "int \<Rightarrow> 'v \<Rightarrow> 'n"
  gafq_close :: "'v \<Rightarrow> unit"

text \<open>What the program prints before it ends, and its exit code.\<close>

datatype 'n test_output = Could_not_load "bytes option" | Failed_to_run "bytes option" | Script_returned 'n

text \<open>The loop stores the pair of \<open>i\<close> and \<open>2 * i\<close> in the table below them.\<close>

definition store_pair :: "'v gafq_api \<Rightarrow> ('v, 'n) gafq_test_api \<Rightarrow> int \<Rightarrow> 'v \<Rightarrow> 'v" where
  "store_pair api tapi i v =
     gafq_rawset tapi (- 3) (gafq_pushnumber api (i * 2) (gafq_pushnumber api i v))"

definition fill_table :: "'v gafq_api \<Rightarrow> ('v, 'n) gafq_test_api \<Rightarrow> 'v \<Rightarrow> 'v" where
  "fill_table api tapi v = fold (store_pair api tapi) [1..5] v"

definition test_main :: "'v gafq_api \<Rightarrow> ('v, 'n) gafq_test_api \<Rightarrow> 'n test_output \<times> int" where
  "test_main api tapi =
     (let L = gafqL_openlibs api (gafqL_newstate api);
          (status, L) = gafqL_loadfile api ''script.gafq'' L
      in if status \<noteq> 0 then (Could_not_load (fst (gafq_tostring api (- 1) L)), 1)
         else
           let L = gafq_newtable api L;
               L = fill_table api tapi L;
               L = gafq_setglobal api ''foo'' L;
               (result, L) = gafq_pcall api 0 GAFQ_MULTRET 0 L
           in if result \<noteq> 0 then (Failed_to_run (fst (gafq_tostring api (- 1) L)), 1)
              else
                let sum = gafq_tonumber tapi (- 1) L;
                    L = gafq_pop api 1 L;
                    _ = gafq_close tapi L
                in (Script_returned sum, 0))"

text \<open>
  The program exits with 0 exactly when the script was loaded and ran without an error; only then a
  number is printed.
\<close>

lemma test_main_exit:
  "snd (test_main api tapi) = 0 \<longleftrightarrow> (\<exists>n. fst (test_main api tapi) = Script_returned n)"
  by (simp add: test_main_def Let_def split: prod.splits)

text \<open>
  \<open>gafq_rawset\<close> pops a key and a value. The loop leaves the stack as it found it, so the table is
  on top when it becomes the global, and the loaded script is the only value left to call.
\<close>

lemma fill_table_height:
  assumes "gafq_stack_laws api"
    and "\<And>v. 3 \<le> gafq_gettop api v \<Longrightarrow> gafq_gettop api (gafq_rawset tapi (- 3) v) = gafq_gettop api v - 2"
    and "1 \<le> gafq_gettop api v"
  shows "gafq_gettop api (fill_table api tapi v) = gafq_gettop api v"
proof -
  have "1 \<le> gafq_gettop api v \<Longrightarrow> gafq_gettop api (store_pair api tapi i v) = gafq_gettop api v" for i v
    using assms(2) by (simp add: store_pair_def gettop_pushnumber [OF assms(1)])
  then have "1 \<le> gafq_gettop api v \<Longrightarrow>
      gafq_gettop api (fold (store_pair api tapi) is v) = gafq_gettop api v" for "is"
    by (induction "is" arbitrary: v) auto
  with assms(3) show ?thesis by (simp add: fill_table_def)
qed

lemma script_called_alone:
  assumes laws: "gafq_stack_laws api"
    and raw: "\<And>v. 3 \<le> gafq_gettop api v \<Longrightarrow> gafq_gettop api (gafq_rawset tapi (- 3) v) = gafq_gettop api v - 2"
    and load: "gafqL_loadfile api ''script.gafq'' (gafqL_openlibs api (gafqL_newstate api)) = (0, L)"
  shows "gafq_gettop api (gafq_setglobal api ''foo'' (fill_table api tapi (gafq_newtable api L))) = 1"
proof -
  have l: "gafq_gettop api L = 1"
    using gettop_loadfile [OF laws, of "''script.gafq''" "gafqL_openlibs api (gafqL_newstate api)"]
    by (simp add: load gettop_openlibs [OF laws] gettop_newstate [OF laws])
  then have t: "gafq_gettop api (fill_table api tapi (gafq_newtable api L)) = 2"
    using fill_table_height [OF laws raw] by (simp add: gettop_newtable [OF laws])
  have "1 \<le> gafq_gettop api w \<Longrightarrow> gafq_gettop api (gafq_setfield api i k w) = gafq_gettop api w - 1" for w i k
    using laws by (simp add: gafq_stack_laws_def)
  with t show ?thesis by (simp add: gafq_setglobal_def)
qed

end
