(* ===== verification/Engine_Facts.thy ===== *)
theory Engine_Facts
  imports Socket_Session Game_Main Endian_Headers Psi_Socket Psi_File Thr_Native M_String
begin

text \<open>
  Facts about single functions, each with an instance. Several are defects that follow from the
  definitions: a session that stops sending after a failed write, a print that reads past a buffer, a
  stack slot lost for every unknown action, a counter that loses updates, two engines, a length that is
  not written back.
\<close>

section \<open>Connections\<close>

text \<open>
  A failed write ends the output of a session for good: the handler does nothing, the message
  stays at the front of the queue, and in every later state no write is outstanding and the bytes
  sent are the same, however many messages are delivered.
\<close>

lemma write_failure_stuck:
  assumes "handle_write True s = Inr (ops, s')" and "write_msgs s \<noteq> []"
    and "(wq_step deliver handle_write)\<^sup>*\<^sup>*
      \<lparr>wq_obj = s', wq_pending = writes_of ops, wq_sent = w, wq_accepted = a\<rparr> y"
  shows "wq_pending y = [] \<and> wq_sent y = w \<and> write_msgs (wq_obj y) \<noteq> []"
proof -
  have "s' = s" and "ops = []" using assms(1) by (simp_all add: handle_write_def)
  with sess_wq.stuck_forever [OF assms(3)] assms(2) show ?thesis by simp
qed

lemma write_failure_stuck_witness:
  "\<exists>y :: socket_session wq_state.
    wq_pending y = [] \<and> wq_sent y = ''  '' \<and> length (write_msgs (wq_obj y)) = 2"
proof -
  let ?m = "\<lparr>data' = replicate 1028 NUL, body_length' = 0 :: size_t\<rparr>"
  let ?s = "(socket_session_ctor [])\<lparr>write_msgs := [?m]\<rparr>"
  let ?y = "\<lparr>wq_obj = ?s\<lparr>write_msgs := [?m, ?m]\<rparr>, wq_pending = [] @ writes_of [], wq_sent = ''  '',
    wq_accepted = [?m] @ [?m]\<rparr>"
  have h: "handle_write True ?s = Inr ([], ?s)" by (simp add: handle_write_def)
  have "deliver ?m ?s = Inr ([], ?s\<lparr>write_msgs := [?m, ?m]\<rparr>)" by (simp add: deliver_def)
  moreover have "msg_inv ?m" by (simp add: msg_inv_def msg_consts)
  ultimately have "wq_step deliver handle_write
      \<lparr>wq_obj = ?s, wq_pending = [], wq_sent = ''  '', wq_accepted = [?m]\<rparr> ?y"
    by (rule wq_step.deliver [rotated])
  then have "(wq_step deliver handle_write)\<^sup>*\<^sup>*
      \<lparr>wq_obj = ?s, wq_pending = writes_of [], wq_sent = ''  '', wq_accepted = [?m]\<rparr> ?y"
    by (simp add: r_into_rtranclp)
  moreover have "write_msgs ?s \<noteq> []" by simp
  ultimately have "wq_pending ?y = [] \<and> wq_sent ?y = ''  '' \<and> write_msgs (wq_obj ?y) \<noteq> []"
    using write_failure_stuck [OF h] by blast
  then show ?thesis by (intro exI [of _ ?y]) simp
qed

text \<open>
  A session that receives a full body with no NUL byte reads past the end of its buffer when
  it prints the message: the header is accepted, the body fits, and the print faults.
\<close>

lemma session_print_overrun:
  assumes inv: "msg_inv (read_msg s)" and b: "length b = max_body_length" "NUL \<notin> set b"
  shows "\<exists>d1 s1 d2. mem_write (data' (read_msg s)) 0 (take header_length (frame b)) = Inr d1
    \<and> handle_read_header False (set_read_msg ((read_msg s)\<lparr>data' := d1\<rparr>) s)
        = Inr ([Async_read header_length max_body_length Handle_read_body], s1)
    \<and> mem_write (data' (read_msg s1)) header_length b = Inr d2
    \<and> handle_read_body False (set_read_msg ((read_msg s1)\<lparr>data' := d2\<rparr>) s1) = Inl Out_Of_Bounds"
proof -
  define h where "h = take header_length (frame b)"
  have h: "h = format_4d (int max_body_length)" "length h = header_length"
    using b length_format_4d [of 1024] by (simp_all add: h_def frame_def msg_consts)
  then have nul: "NUL \<notin> set h" using format_4d_no_NUL [of 1024] by (simp add: msg_consts)
  define d1 where "d1 = h @ drop header_length (data' (read_msg s))"
  let ?m = "(read_msg s)\<lparr>data' := d1\<rparr>"
  let ?s1 = "s\<lparr>read_msg := ?m\<lparr>body_length' := of_nat max_body_length\<rparr>\<rparr>"
  have w1: "mem_write (data' (read_msg s)) 0 h = Inr d1"
    using inv h by (simp add: mem_write_ok msg_inv_def d1_def)
  have l1: "length d1 = header_length + max_body_length"
    using inv h by (simp add: d1_def msg_inv_def)
  have "header_value (take header_length d1) = Some max_body_length"
    using header_value_frame [of b] b h by (simp add: d1_def h_def [symmetric])
  then have "decode_header ?m = Inr (True, ?m\<lparr>body_length' := of_nat max_body_length\<rparr>)"
    using l1 by (simp add: decode_header_value)
  moreover have "unat (of_nat max_body_length :: size_t) = max_body_length" by (simp add: msg_consts)
  ultimately have hh: "handle_read_header False (set_read_msg ?m s)
      = Inr ([Async_read header_length max_body_length Handle_read_body], ?s1)"
    by (simp add: handle_read_header_def set_read_msg_def msg_body_length_def)
  have w2: "mem_write (data' (read_msg ?s1)) header_length b = Inr (h @ b)"
    using l1 b h by (simp add: mem_write_ok d1_def msg_inv_def)
  have "handle_read_body False (set_read_msg ((read_msg ?s1)\<lparr>data' := h @ b\<rparr>) ?s1) = Inl Out_Of_Bounds"
    using nul b by (simp add: handle_read_body_def set_read_msg_def msg_data_def c_string_def)
  with w1 hh w2 show ?thesis unfolding h_def by blast
qed

lemma session_print_overrun_witness:
  "\<exists>s1 d2. mem_write (data' (read_msg s1)) header_length (replicate 1024 CHR ''a'') = Inr d2
    \<and> handle_read_body False (set_read_msg ((read_msg s1)\<lparr>data' := d2\<rparr>) s1) = Inl Out_Of_Bounds"
  using session_print_overrun [of "socket_session_ctor (replicate 1028 NUL)" "replicate 1024 CHR ''a''"]
    msg_inv_ctor [of "replicate 1028 NUL"]
  by (auto simp: socket_session_ctor_def msg_consts)

section \<open>The server loop\<close>

text \<open>
  Frames that arrive one at a time reach the engine complete and in order: for bodies shorter
  than 1024 bytes and without NUL, one readiness event per frame queues exactly these bodies, each
  with the connection's descriptor and the action \<open>start_action\<close>.
\<close>

lemma server_queues_frames:
  assumes "full_read_law os fd inp" and "\<And>bs k. inp (arrive bs k) = inp k @ bs"
    and "msg_inv (ls_msg s)" and "inp (ls_kernel s) = []"
    and "\<forall>b \<in> set bs. length b < max_body_length \<and> NUL \<notin> set b"
  shows "\<exists>s'. rfold (\<lambda>f s. handle_readable os fd (s\<lparr>ls_kernel := arrive f (ls_kernel s)\<rparr>))
        (map frame bs) s = Inr s'
    \<and> waiting_msgs (ls_engine s') = waiting_msgs (ls_engine s)
        @ map (\<lambda>b. (fd, Some \<lparr>action = start_action, msg_text = b\<rparr>)) bs"
  using frames_one_by_one [where arrive = arrive, OF assms] waiting_fold_queued by metis

lemma server_queues_frames_witness:
  "\<exists>s'. rfold (\<lambda>f s. handle_readable stream_os 5 (s\<lparr>ls_kernel := ls_kernel s @ f\<rparr>))
      (map frame [''a'', ''bc''])
      \<lparr>ls_msg = socket_msg_ctor (replicate 1028 CHR ''x''), ls_engine = get_instance (0::nat) None,
       ls_kernel = []\<rparr> = Inr s'
    \<and> waiting_msgs (ls_engine s') = [(5, Some \<lparr>action = start_action, msg_text = ''a''\<rparr>),
        (5, Some \<lparr>action = start_action, msg_text = ''bc''\<rparr>)]"
  using server_queues_frames [OF stream_os_full_read, of "\<lambda>bs k. k @ bs"
      "\<lparr>ls_msg = socket_msg_ctor (replicate 1028 CHR ''x''), ls_engine = get_instance (0::nat) None,
       ls_kernel = []\<rparr>" "[''a'', ''bc'']" 5]
    msg_inv_ctor [of "replicate 1028 CHR ''x''"]
  by (auto simp: msg_consts get_instance_def waiting_msgs_def)

text \<open>
  A frame with a full body that is followed by another byte overflows the buffer: the read of
  1025 bytes into the 1024 bytes after the header writes out of bounds.
\<close>

lemma readable_event_overflow:
  assumes law: "full_read_law os fd inp" and inv: "msg_inv (ls_msg s)"
    and inp: "inp (ls_kernel s) = frame b @ c # rest" and b: "length b = max_body_length"
  shows "handle_readable os fd s = Inl Out_Of_Bounds"
proof -
  have b': "length b \<le> 1024" using b by (simp add: msg_consts)
  show ?thesis
    by (rule handle_readable_frame [OF law inv inp b']) (simp add: b)
qed

lemma readable_event_overflow_witness:
  "handle_readable stream_os 5
      \<lparr>ls_msg = socket_msg_ctor (replicate 1028 NUL), ls_engine = get_instance (0::nat) None,
       ls_kernel = frame (replicate 1024 CHR ''a'') @ ''!''\<rparr> = Inl Out_Of_Bounds"
proof -
  let ?s = "\<lparr>ls_msg = socket_msg_ctor (replicate 1028 NUL), ls_engine = get_instance (0::nat) None,
    ls_kernel = frame (replicate 1024 CHR ''a'') @ ''!''\<rparr>"
  have "msg_inv (ls_msg ?s)"
    using msg_inv_ctor [of "replicate 1028 NUL"] by (simp add: msg_consts)
  moreover have "ls_kernel ?s = frame (replicate 1024 CHR ''a'') @ CHR ''!'' # []" by simp
  moreover have "length (replicate 1024 CHR ''a'') = max_body_length" by (simp add: msg_consts)
  ultimately show ?thesis by (rule readable_event_overflow [OF stream_os_full_read])
qed

section \<open>The script engine\<close>

text \<open>
  Messages for an action the script does not define leak one stack slot each: after a round of
  \<open>n\<close> of them the stack is \<open>n\<close> slots higher.
\<close>

lemma unknown_action_leaks:
  assumes "gafq_stack_laws api" and "\<And>v. \<not> gafq_isfunction api (- 1) (gafq_getglobal api a v)"
    and "\<forall>it \<in> set (wait_execute_list e). \<exists>m. item_msg it = Some m \<and> c_str (action m) = a"
  shows "\<exists>e'. LoopExecute api e = Inr e' \<and> gafq_gettop api (se_gafqState e')
    = gafq_gettop api (se_gafqState e) + int (length (wait_execute_list e))"
proof -
  have "\<forall>it \<in> set (wait_execute_list e). item_msg it \<noteq> None" using assms(3) by auto
  then obtain e' where e': "rfold (exec_item api) (wait_execute_list e) (e\<lparr>wait_execute_list := []\<rparr>) = Inr e'"
    using rfold_exec_total by blast
  from rfold_exec_height [OF assms(1) e'] round_leaks_not_function [OF assms(2,3)] e' show ?thesis
    by (simp add: LoopExecute_eq)
qed

lemma unknown_action_leaks_witness:
  "\<exists>e'. LoopExecute no_globals_api (fold (\<lambda>m. submit_msg (7, m))
        [\<lparr>action = ''f'', msg_text = ''x''\<rparr>, \<lparr>action = ''f'', msg_text = ''y''\<rparr>]
        (get_instance (gafqL_newstate ref_api) None)) = Inr e'
    \<and> gafq_gettop no_globals_api (se_gafqState e') = 2"
proof -
  let ?e = "fold (\<lambda>m. submit_msg (7, m))
        [\<lparr>action = ''f'', msg_text = ''x''\<rparr>, \<lparr>action = ''f'', msg_text = ''y''\<rparr>]
        (get_instance (gafqL_newstate ref_api) None)"
  have f: "\<not> gafq_isfunction no_globals_api (- 1) (gafq_getglobal no_globals_api ''f'' v)" for v
    by (simp add: no_globals_api_def ref_api_def gafq_isfunction_def gafq_getglobal_def ref_at_def
        ref_push_def gafq_type_defs)
  have w: "length (wait_execute_list ?e) = 2"
    "\<forall>it \<in> set (wait_execute_list ?e). \<exists>m. item_msg it = Some m \<and> c_str (action m) = ''f''"
    by (simp_all add: submit_msg_def ExecGafq_def get_instance_def c_str_def)
  have "gafq_gettop no_globals_api (se_gafqState ?e) = 0"
    by (simp add: submit_msg_def ExecGafq_def get_instance_def no_globals_api_def ref_api_def)
  with unknown_action_leaks [OF no_globals_laws f w(2)] w(1) show ?thesis by simp
qed

text \<open>
  Submitting script text crashes the engine: the item gets no message, and the round that
  reaches it dereferences a null pointer.
\<close>

lemma exec_content_crash:
  assumes "content \<noteq> []" and "all_msgs e"
  shows "LoopExecute api (ExecGafq content fd msg st err e) = Inl Null_Deref"
  using content_item_faults assms by (simp add: all_msgs_def)

lemma exec_content_crash_witness:
  "LoopExecute ref_api (ExecGafq ''print(1)'' 0 None 1 [] (get_instance (gafqL_newstate ref_api) None))
     = Inl Null_Deref"
  by (rule exec_content_crash) (simp_all add: all_msgs_def get_instance_def)

text \<open>
  \<open>Init\<close> always reports success, and leaves one value more on the stack than running
  the script file did: the error object of the call of a table.
\<close>

lemma init_leaves_error:
  assumes "gafq_stack_laws api" and "\<And>v. fst (gafq_pcall api 0 0 0 (gafq_newtable api v)) \<noteq> 0"
  shows "fst (Init api file e) \<and> gafq_gettop api (se_gafqState (snd (Init api file e)))
    = gafq_gettop api (snd (gafqL_dofile api (c_str file) (gafqL_openlibs api (gafqL_newstate api)))) + 1"
  using Init_height [OF assms] by (simp add: Init_def Let_def)

lemma init_leaves_error_witness:
  "fst (Init ref_api ''script.gafq'' (get_instance (gafqL_newstate ref_api) None))
   \<and> gafq_gettop ref_api (se_gafqState
       (snd (Init ref_api ''script.gafq'' (get_instance (gafqL_newstate ref_api) None)))) = 1"
proof -
  have c: "fst (gafq_pcall ref_api 0 0 0 (gafq_newtable ref_api v)) \<noteq> 0" for v
    by (simp add: ref_api_def gafq_newtable_def ref_push_def ref_pcall_def)
  have "gafq_gettop ref_api (snd (gafqL_dofile ref_api (c_str ''script.gafq'')
      (gafqL_openlibs ref_api (gafqL_newstate ref_api)))) = 0" by code_simp
  with init_leaves_error [OF ref_api_laws c, of "''script.gafq''" "get_instance (gafqL_newstate ref_api) None"]
  show ?thesis by simp
qed

section \<open>The threads\<close>

text \<open>
  \<open>count2\<close>, which is incremented under the mutex, is exact: whenever no thread stands
  between its insertion and its increment, it is the number of submissions modulo 2 to the 32.
\<close>

lemma count2_exact:
  assumes "threads_reachable t" and "\<forall>i. ppc t i \<noteq> P_count2"
  shows "cnt2 t = of_nat (length (submitted t))"
  using reachable_count2_inv [OF assms(1)] assms(2) by (simp add: count2_inv_def)

lemma count2_exact_witness: "cnt2 (race_state 5) = 5"
  using count2_exact [OF race_state_reachable [of 5]] by (simp add: race_state_def)

text \<open>
  \<open>count\<close>, which is incremented after the mutex is released, is not: two threads that
  submit one item each can leave it at 1.
\<close>

lemma count_lost:
  "\<exists>t. threads_reachable t \<and> (\<forall>i. ppc t i = P_idle) \<and> length (submitted t) = 2 \<and> cnt2 t = 2 \<and> cnt t = 1"
  by (rule count_lost_update)

text \<open>
  \<open>get_instance\<close> is not safe under concurrency: two threads can both create an engine
  and go on with different instances.
\<close>

lemma get_instance_two_engines:
  "\<exists>s. gi_reachable s \<and> gpc s 0 = G_have 0 \<and> gpc s 1 = G_have 1 \<and> next_obj s = 2"
  by (rule get_instance_race)

section \<open>The configuration\<close>

text \<open>
  The configuration is one object: it is created by the first use, every later use sees the
  same tree, and every operation keeps the number of objects at one per instance.
\<close>

lemma config_singleton:
  assumes "config_inv c"
  shows "cfg_instance api (snd (cfg_instance api c)) = cfg_instance api c
    \<and> objectCount (snd (cfg_instance api c)) = 1
    \<and> config_inv (snd (get_config_int api key c)) \<and> config_inv (snd (get_config_float api key c))
    \<and> config_inv (snd (get_config_string api key c)) \<and> config_inv (snd (load_config api path c))"
proof -
  have "objectCount (snd (cfg_instance api c)) = 1"
    using config_inv_instance [OF assms, of api] cfg_after_use [of api c] by (simp add: config_inv_def)
  then show ?thesis
    using config_inv_ops [OF assms] cfg_instance_stable by blast
qed

lemma config_singleton_witness:
  "objectCount (snd (cfg_instance empty_ptree_api config_init)) = 1"
  using config_singleton [OF config_inv_init] by blast

text \<open>
  A program started without the option \<open>props\<close>, or with a file that does not exist,
  does not stop there: the configuration stays empty, and the first lookup of a missing key ends
  the process with an exception that \<open>main\<close> does not catch; the server thread would end
  the same way at its lookup of the port.
\<close>

lemma main_without_config:
  assumes "init_load_config env papi argv c = (Inr False, c')" and "cfg c = None"
    and "pt_get_string papi ''name'' (pt_empty papi) = Inl ex" and "ex \<noteq> ''filesystem_error''"
    and "pt_get_int papi ''port'' (pt_empty papi) = Inl ex'"
  shows "main_start env papi api argv c v = Inl (Uncaught ex)
    \<and> init_server n papi os uninit c' eng k = Inl (Uncaught ex')"
proof -
  have "c' = c" by (rule init_load_config_false [OF assms(1)])
  with assms show ?thesis
    by (simp add: main_start_def get_config_string_def get_config_int_def cfg_instance_def catch_fs_def
        init_server_def init_epool_def case_prod_beta)
qed

lemma main_without_config_witness:
  "main_start no_props_env empty_ptree_api ref_api [''game''] config_init (gafqL_newstate ref_api)
     = Inl (Uncaught ''ptree_bad_path'')"
proof -
  have l: "init_load_config no_props_env empty_ptree_api [''game''] config_init = (Inr False, config_init)"
    by (simp add: init_load_config_def no_props_env_def)
  have c: "cfg (config_init :: unit config_state) = None" by (simp add: config_init_def)
  have n: "pt_get_string empty_ptree_api ''name'' (pt_empty empty_ptree_api) = Inl ''ptree_bad_path''"
    and p: "pt_get_int empty_ptree_api ''port'' (pt_empty empty_ptree_api) = Inl ''ptree_bad_path''"
    by (simp_all add: empty_ptree_api_def)
  have e: "''ptree_bad_path'' \<noteq> ''filesystem_error''" by simp
  show ?thesis by (rule conjunct1 [OF main_without_config [OF l c n e p]])
qed

section \<open>The headers\<close>

text \<open>
  Every signed number of 24 bits survives \<open>int3store\<close> followed by
  \<open>sint3korr\<close>, the sign included, and the bytes behind it are untouched.
\<close>

lemma medium_int_roundtrip:
  assumes "- (2 ^ 23) \<le> z" and "z < 2 ^ 23" and "3 \<le> length T"
  shows "\<exists>T' v. int3store T (word_of_int z) = Inr T' \<and> sint3korr T' = Inr v \<and> sint v = z \<and> drop 3 T' = drop 3 T"
proof -
  obtain T' v where r: "int3store T (word_of_int z) = Inr T'" "sint3korr T' = Inr v" "sint v = z"
    using int3_roundtrip [OF assms] by blast
  moreover have "drop 3 T' = drop 3 T"
    using codec3.store_ok [OF assms(3), of "word_of_int z"] r(1) by auto
  ultimately show ?thesis by blast
qed

lemma medium_int_roundtrip_witness:
  "\<exists>T' v. int3store [9, 9, 9, 7] (word_of_int (- 5)) = Inr T' \<and> sint3korr T' = Inr v \<and> sint v = - 5
     \<and> drop 3 T' = [7]"
  using medium_int_roundtrip [of "- 5" "[9, 9, 9, 7]"] by simp

text \<open>
  The wrapper of \<open>accept\<close> makes the native call on a copy of the address length: the
  descriptor is the native one, but the caller's length keeps its old value whatever the native call
  wrote.
\<close>

lemma accept_keeps_length:
  "(\<exists>m. sk_accept sk (sock_fd socket_listen) addr (case addr_len of Some k \<Rightarrow> k | None \<Rightarrow> 0) (world_part s)
      = ((sock_fd (fst (fst (run_state (inline_mysql_socket_accept api sk key socket_listen addr addr_len src) s))), m),
         world_part (snd (run_state (inline_mysql_socket_accept api sk key socket_listen addr addr_len src) s))))
   \<and> snd (fst (run_state (inline_mysql_socket_accept api sk key socket_listen addr addr_len src) s)) = addr_len"
proof -
  obtain sock n s' where r:
    "run_state (inline_mysql_socket_accept api sk key socket_listen addr addr_len src) s = ((sock, n), s')"
    by (metis prod.exhaust)
  from accept_result [OF r] r show ?thesis by auto
qed

text \<open>
  The formats do not depend on the build: the x86 accesses equal the portable ones byte by byte on
  every memory, faults included, and a big-endian machine stores a float or a double (whose
  representation is the reversal) as the same bytes as a little-endian one.
\<close>

lemma formats_portable:
  assumes "length f = 4" and "4 \<le> length T" and "length g = 8" and "8 \<le> length U"
  shows "uint2korr_x86 = uint2korr \<and> int2store_x86 = int2store \<and> uint4korr_x86 = uint4korr
    \<and> int4store_x86 = int4store \<and> uint8korr_x86 = uint8korr \<and> int8store_x86 = int8store
    \<and> sint2korr_x86 = sint2korr \<and> sint4korr_x86 = sint4korr \<and> sint8korr_x86 = sint8korr
    \<and> float4store_be T (rev f) = float4store_le T f \<and> float8store_be U (rev g) = float8store_le U g"
  using x86_equiv float_formats_agree(1) [OF assms(1,2)] float_formats_agree(2) [OF assms(3,4)] by simp

lemma formats_portable_witness:
  "uint2korr_x86 [1, 2] = uint2korr [1, 2]
   \<and> float4store_be [0, 0, 0, 0] (rev [1, 2, 3, 4]) = float4store_le [0, 0, 0, 0] [1, 2, 3, 4]"
  using formats_portable [of "[1, 2, 3, 4]" "[0, 0, 0, 0]" "replicate 8 0" "replicate 8 0"] by simp

text \<open>
  A thread that makes any sequence of calls on mutexes, read-write locks, reader-preferring locks
  and conditions gets the same results and leaves the same world as with the native operations,
  whatever the service does; each call makes exactly one native call, and every wait that is opened is
  closed by its own end before the next one starts.
\<close>

lemma thread_wrappers_transparent:
  "run_natives (map (thr_native thr) cs) (world_part s)
     = (fst (run_wrappers (map (thr_wrapper mapi rapi capi thr) cs) s),
        world_part (snd (run_wrappers (map (thr_wrapper mapi rapi capi thr) cs) s)))
   \<and> (\<exists>es. calls (snd (run_wrappers (map (thr_wrapper mapi rapi capi thr) cs) s)) = calls s @ es
        \<and> balanced es \<and> count_list es Ev_native = length cs)"
  by (rule thr_call_program) simp

text \<open>
  The same for sockets (binding, connecting, listening, sending, receiving, options, non-blocking
  mode, shutdown and close) and for files (open streams, descriptors and file names, in every result
  type): any sequence of calls has the results and the world of the native calls, one for each, and
  every wait that is opened is closed.
\<close>

lemma io_wrappers_transparent:
  "(run_natives (map (socket_native sk) cs) (world_part s)
     = (fst (run_wrappers (map (socket_wrapper sapi sk) cs) s),
        world_part (snd (run_wrappers (map (socket_wrapper sapi sk) cs) s)))
   \<and> (\<exists>es. calls (snd (run_wrappers (map (socket_wrapper sapi sk) cs) s)) = calls s @ es
        \<and> balanced es \<and> count_list es Ev_native = length cs))
   \<and> run_natives (map (file_native fs) ds) (world_part t)
     = (fst (run_wrappers (map (file_wrapper fapi fs) ds) t),
        world_part (snd (run_wrappers (map (file_wrapper fapi fs) ds) t)))
   \<and> (\<exists>es. calls (snd (run_wrappers (map (file_wrapper fapi fs) ds) t)) = calls t @ es
        \<and> balanced es \<and> count_list es Ev_native = length ds)"
proof (intro conjI)
  show "run_natives (map (socket_native sk) cs) (world_part s)
     = (fst (run_wrappers (map (socket_wrapper sapi sk) cs) s),
        world_part (snd (run_wrappers (map (socket_wrapper sapi sk) cs) s)))"
    and "\<exists>es. calls (snd (run_wrappers (map (socket_wrapper sapi sk) cs) s)) = calls s @ es
        \<and> balanced es \<and> count_list es Ev_native = length cs"
    using socket_call_program [of sapi sk cs s, OF surjective_pairing] by blast+
  show "run_natives (map (file_native fs) ds) (world_part t)
     = (fst (run_wrappers (map (file_wrapper fapi fs) ds) t),
        world_part (snd (run_wrappers (map (file_wrapper fapi fs) ds) t)))"
    and "\<exists>es. calls (snd (run_wrappers (map (file_wrapper fapi fs) ds) t)) = calls t @ es
        \<and> balanced es \<and> count_list es Ev_native = length ds"
    using file_call_program [of fapi fs ds t, OF surjective_pairing] by blast+
qed

text \<open>
  The three layers of the locks fall together on POSIX: a program of instrumented calls on mutexes,
  read-write locks and conditions, through \<open>my_mutex_lock\<close>, \<open>native_mutex_lock\<close> and
  their likes, makes exactly the \<open>pthread\<close> calls, with their results and in their order.
\<close>

lemma posix_layers:
  "run_natives (map (posix_call os pr) cs) (world_part s)
     = (fst (run_wrappers (map (thr_wrapper mapi rapi capi (thr_of (None, Posix os) src pr)) cs) s),
        world_part (snd (run_wrappers (map (thr_wrapper mapi rapi capi (thr_of (None, Posix os) src pr)) cs) s)))
   \<and> (\<exists>es. calls (snd (run_wrappers (map (thr_wrapper mapi rapi capi (thr_of (None, Posix os) src pr)) cs) s))
          = calls s @ es \<and> balanced es \<and> count_list es Ev_native = length cs)"
  using posix_program [of mapi rapi capi os src pr cs s, OF surjective_pairing] by blast

section \<open>Texts\<close>

text \<open>
  \<open>skip_trailing_space\<close> returns the length of the text without its trailing blanks, and never
  reads outside it, in both variants: the one of unaligned words of eight bytes and the one for
  SPARC, which aligns its words of four bytes, wherever the text lies in memory.
\<close>

lemma skip_trailing_space_variants:
  "skip_trailing_space s = Inr (trimmed_length s)
   \<and> skip_trailing_space_sparc ptr s = Inr (trimmed_length s)
   \<and> (\<forall>c \<in> set (drop (trimmed_length s) s). c = space_byte)
   \<and> (trimmed_length s = 0 \<or> s ! (trimmed_length s - 1) \<noteq> space_byte)"
  using skip_trailing_space_spec skip_trailing_space_sparc_spec trimmed_length_rest by blast

lemma skip_trailing_space_variants_witness:
  "skip_trailing_space [0x68, 0x69, 0x20, 0x20] = Inr 2 \<and> skip_trailing_space_sparc 3 [0x68, 0x69, 0x20, 0x20] = Inr 2"
proof -
  have "trimmed_length [0x68, 0x69, 0x20, 0x20] = 2" by code_simp
  then show ?thesis
    using skip_trailing_space_variants [of "[0x68, 0x69, 0x20, 0x20]" 3] by (simp only: simp_thms)
qed

end
