(* ===== verification/Relay.thy ===== *)
theory Relay
  imports Game_Script
begin

text \<open>
  The server as a relay: the engine's loop, the script and the C function \<open>send_data\<close>
  together. The interpreter is a parameter of the engine; \<open>runs_script\<close> says what it means that it
  runs \<^verbatim>\<open>script.gafq\<close>: the global \<open>start_action\<close> is a function, and calling it has the
  result and the effects of its model, each effect \<open>Send_data\<close> being a call of the C function.
\<close>

section \<open>An interpreter that runs the script\<close>

text \<open>
  The calls of \<open>send_data\<close> that the script makes, one after the other: the arguments are on the
  stack of some state of the interpreter, and the uninitialised buffer has some contents.
\<close>

inductive performs :: "'v gafq_api \<Rightarrow> 'k os_api \<Rightarrow> ('n json \<Rightarrow> int) \<Rightarrow> ('n json \<times> bytes) list \<Rightarrow> 'k \<Rightarrow> 'k \<Rightarrow> bool"
  for api :: "'v gafq_api" and os :: "'k os_api" and to_integer :: "'n json \<Rightarrow> int"
where
  performs_Nil: "performs api os to_integer [] k k"
| performs_Cons: "gafq_tointeger api 1 w = to_integer to \<Longrightarrow> gafq_tostring api 2 w = (Some data, w1) \<Longrightarrow>
    length uninit = header_length + max_body_length \<Longrightarrow>
    send_data api os uninit w k = Inr (n, w2, k1) \<Longrightarrow> performs api os to_integer r k1 k2 \<Longrightarrow>
    performs api os to_integer ((to, data) # r) k k2"

inductive_cases performs_NilE: "performs api os to_integer [] k k'"
inductive_cases performs_ConsE: "performs api os to_integer (x # r) k k'"

text \<open>The call of \<open>start_action\<close> as the engine makes it.\<close>

definition call_state :: "'v gafq_api \<Rightarrow> int \<Rightarrow> bytes \<Rightarrow> 'v \<Rightarrow> 'v" where
  "call_state api fd data v =
     gafq_pushstring api data (gafq_pushnumber api fd (gafq_getglobal api ''start_action'' v))"

text \<open>\<open>kern v\<close> is the kernel as the interpreter's C functions see it in the state \<open>v\<close>.\<close>

definition runs_script :: "'v gafq_api \<Rightarrow> 'k os_api \<Rightarrow> 'n script_env \<Rightarrow> ('n json \<Rightarrow> int) \<Rightarrow> ('v \<Rightarrow> 'k) \<Rightarrow> bool" where
  "runs_script api os senv to_integer kern \<longleftrightarrow>
     (\<forall>v. gafq_isfunction api (- 1) (gafq_getglobal api ''start_action'' v))
   \<and> (\<forall>v i. kern (snd (gafq_togstring api i v)) = kern v)
   \<and> (\<forall>v n. kern (gafq_settop api n v) = kern v)
   \<and> (\<forall>v fd data st v'. length data < max_body_length \<and> NUL \<notin> set data \<and>
        gafq_pcall api 2 0 0 (call_state api fd data v) = (st, v') \<longrightarrow>
        (st = 0 \<longleftrightarrow> \<not> isl (fst (script_start_action senv fd data)))
      \<and> performs api os to_integer (sends (snd (script_start_action senv fd data))) (kern v) (kern v'))"

section \<open>One message\<close>

text \<open>What a kernel does with the messages of the specification.\<close>

definition transmit :: "'k os_api \<Rightarrow> ('n json \<Rightarrow> int) \<Rightarrow> 'n json \<times> bytes \<Rightarrow> 'k \<Rightarrow> 'k" where
  "transmit os to_integer m k =
     snd (sys_send os (sint (word_of_int (to_integer (fst m)) :: 32 word)) (frame (snd m)) k)"

text \<open>A call of \<open>send_data\<close> that returns has put the text on the wire, cut to what a frame holds.\<close>

lemma send_data_returns:
  assumes "send_data api os uninit w k = Inr (n, w2, k1)" "gafq_tostring api 2 w = (Some data, w1)"
    and "length uninit = header_length + max_body_length" "length data < max_body_length" "NUL \<notin> set data"
  shows "k1 = snd (sys_send os (sint (word_of_int (gafq_tointeger api 1 w) :: 32 word)) (frame data) k)"
proof -
  have c: "c_str data = data" using assms(5) by (auto simp: c_str_def takeWhile_eq_all_conv)
  have "length (c_str data) < 2 ^ 64" "take max_body_length (c_str data) = data"
    using assms(4) by (simp_all add: c msg_consts)
  then show ?thesis
    using assms(1) send_data_eq [OF assms(2,3), of os k] by (auto simp: Let_def split: if_splits)
qed

lemma performs_transmits:
  "performs api os to_integer ms k k' \<Longrightarrow> (\<forall>m \<in> set ms. length (snd m) < max_body_length \<and> NUL \<notin> set (snd m)) \<Longrightarrow>
     k' = fold (transmit os to_integer) ms k"
proof (induction rule: performs.induct)
  case (performs_Cons w to data w1 uninit k n w2 k1 r k2)
  then show ?case
    using send_data_returns [OF performs_Cons(4,2,3)] by (simp add: transmit_def)
qed simp

text \<open>An item of the engine with the text of a value.\<close>

definition json_item :: "'n lua_env \<Rightarrow> int \<times> 'n json \<Rightarrow> int \<times> ScriptEngineMsgBase option" where
  "json_item env x = (fst x, Some \<lparr>action = start_action, msg_text = json_text env (snd x)\<rparr>)"

lemma relayed_small:
  "length (json_text env j) < max_body_length \<Longrightarrow> NUL \<notin> set (json_text env j) \<Longrightarrow> m \<in> set (relayed env j) \<Longrightarrow>
     length (snd m) < max_body_length \<and> NUL \<notin> set (snd m)"
  by (auto simp: relayed_def split: json.splits if_splits)

lemma exec_item_relays:
  assumes run: "runs_script api os senv to_integer kern"
    and it: "item_fd it = fd" "item_msg it = Some \<lparr>action = start_action, msg_text = json_text env j\<rparr>"
    and j: "canonical (sc_tonumber senv) env j" "length (json_text env j) < max_body_length"
  shows "\<exists>e'. exec_item api it e = Inr e' \<and> wait_execute_list e' = wait_execute_list e
    \<and> kern (se_gafqState e') = fold (transmit os to_integer) (relayed env j) (kern (se_gafqState e))"
proof -
  let ?t = "json_text env j" and ?v = "se_gafqState e"
  have nul: "NUL \<notin> set ?t" by (rule json_text_no_NUL [OF j(1)])
  then have c: "c_str ?t = ?t" by (auto simp: c_str_def takeWhile_eq_all_conv)
  have s: "c_str start_action = ''start_action''" by (simp add: start_action_def c_str_def)
  obtain st v' where p: "gafq_pcall api 2 0 0 (call_state api fd ?t ?v) = (st, v')" by fastforce
  have f: "gafq_isfunction api (- 1) (gafq_getglobal api ''start_action'' ?v)"
    and k1: "kern (snd (gafq_togstring api i v)) = kern v" and k2: "kern (gafq_settop api n v) = kern v" for i v n
    using run unfolding runs_script_def by blast+
  have "performs api os to_integer (sends (snd (script_start_action senv fd ?t))) (kern ?v) (kern v')"
    using run nul j(2) p unfolding runs_script_def by blast
  then have k: "kern v' = fold (transmit os to_integer) (relayed env j) (kern ?v)"
    unfolding start_action_relays [OF j(1)] by (rule performs_transmits) (use relayed_small [OF j(2) nul] in blast)
  have p': "gafq_pcall api 2 0 0 (gafq_pushstring api ?t (gafq_pushnumber api fd (gafq_getglobal api ''start_action'' ?v))) = (st, v')"
    using p by (simp add: call_state_def)
  show ?thesis
  proof (cases "st \<noteq> 0 \<and> \<not> gafq_isnil api (- 1) v'")
    case True
    then show ?thesis
      using it f p' k k1 [of "- 1" v'] k2
      by (auto simp: exec_item_def s c Let_def gafq_pop_def gafq_tostring_def split: prod.splits)
  next
    case False
    then show ?thesis using it f p' k by (auto simp: exec_item_def s c Let_def)
  qed
qed

section \<open>A round of the engine\<close>

lemma rfold_relays:
  assumes run: "runs_script api os senv to_integer kern"
  shows "map (\<lambda>it. (item_fd it, item_msg it)) its = map (json_item env) xs \<Longrightarrow>
    (\<forall>x \<in> set xs. canonical (sc_tonumber senv) env (snd x) \<and> length (json_text env (snd x)) < max_body_length) \<Longrightarrow>
    \<exists>e'. rfold (exec_item api) its e = Inr e' \<and> wait_execute_list e' = wait_execute_list e
      \<and> kern (se_gafqState e') = fold (transmit os to_integer) (concat (map (\<lambda>x. relayed env (snd x)) xs)) (kern (se_gafqState e))"
proof (induction its arbitrary: xs e)
  case (Cons it its)
  then obtain x r where xs: "xs = x # r"
    and it: "item_fd it = fst x" "item_msg it = Some \<lparr>action = start_action, msg_text = json_text env (snd x)\<rparr>"
    and its: "map (\<lambda>it. (item_fd it, item_msg it)) its = map (json_item env) r"
    by (cases xs) (auto simp: json_item_def)
  obtain e1 where e1: "exec_item api it e = Inr e1" "wait_execute_list e1 = wait_execute_list e"
    "kern (se_gafqState e1) = fold (transmit os to_integer) (relayed env (snd x)) (kern (se_gafqState e))"
    using exec_item_relays [OF run it] Cons.prems(2) xs by auto
  obtain e' where "rfold (exec_item api) its e1 = Inr e'" "wait_execute_list e' = wait_execute_list e1"
    "kern (se_gafqState e') = fold (transmit os to_integer) (concat (map (\<lambda>x. relayed env (snd x)) r)) (kern (se_gafqState e1))"
    using Cons.IH [OF its, of e1] Cons.prems(2) xs by auto
  with e1 show ?case by (simp add: xs)
qed simp

lemma LoopExecute_relays:
  assumes "runs_script api os senv to_integer kern" "waiting_msgs e = map (json_item env) xs"
    and "\<forall>x \<in> set xs. canonical (sc_tonumber senv) env (snd x) \<and> length (json_text env (snd x)) < max_body_length"
  shows "\<exists>e'. LoopExecute api e = Inr e' \<and> wait_execute_list e' = []
    \<and> kern (se_gafqState e') = fold (transmit os to_integer) (concat (map (\<lambda>x. relayed env (snd x)) xs)) (kern (se_gafqState e))"
  using rfold_relays [OF assms(1) _ assms(3), of "wait_execute_list e" "e\<lparr>wait_execute_list := []\<rparr>"] assms(2)
  by (simp add: LoopExecute_eq waiting_msgs_def)

section \<open>An example\<close>

text \<open>
  An interpreter that knows one function: its state holds the two arguments of the call and the bytes
  that were sent. It runs the script by its model and sends in the way of the kernel \<open>stream_os\<close>.
\<close>

record relay_vm =
  r_fd :: int
  r_data :: bytes
  r_out :: bytes

definition json_integer :: "int json \<Rightarrow> int" where
  "json_integer j = (case j of JNum n \<Rightarrow> n | _ \<Rightarrow> 0)"

definition relay_api :: "relay_vm gafq_api" where
  "relay_api = \<lparr>
     gafq_gettop = (\<lambda>v. 0), gafq_settop = (\<lambda>n v. v), gafq_pushvalue = (\<lambda>i v. v),
     gafq_type = (\<lambda>i v. GAFQ_TFUNCTION), gafq_tointeger = (\<lambda>i v. r_fd v),
     gafq_togstring = (\<lambda>i v. (Some (r_data v), v)), gafq_objlen = (\<lambda>i v. length (r_data v)),
     gafq_pushnumber = (\<lambda>n v. v\<lparr>r_fd := n\<rparr>), gafq_pushinteger = (\<lambda>n v. v),
     gafq_pushgstring = (\<lambda>s v. v), gafq_pushstring = (\<lambda>s v. v\<lparr>r_data := s\<rparr>),
     gafq_pushcclosure = (\<lambda>f n v. v), gafq_getfield = (\<lambda>i k v. v), gafq_rawgeti = (\<lambda>i n v. v),
     gafq_createtable = (\<lambda>a b v. v), gafq_setfield = (\<lambda>i k v. v),
     gafq_pcall = (\<lambda>n r h v. let run = script_start_action digit_script (r_fd v) (r_data v) in
        (if isl (fst run) then 2 else 0,
         v\<lparr>r_out := fold (transmit stream_os json_integer) (sends (snd run)) (r_out v)\<rparr>)),
     gafqL_newstate = \<lparr>r_fd = 0, r_data = [], r_out = []\<rparr>, gafqL_openlibs = (\<lambda>v. v),
     gafqL_loadfile = (\<lambda>f v. (0, v)), gafqL_loadstring = (\<lambda>s v. (0, v))\<rparr>"

lemma relay_api_sel:
  "gafq_type relay_api i v = GAFQ_TFUNCTION" "gafq_tointeger relay_api i v = r_fd v"
  "gafq_togstring relay_api i v = (Some (r_data v), v)" "gafq_settop relay_api n v = v"
  "gafq_getfield relay_api i k v = v" "gafq_pushnumber relay_api m v = v\<lparr>r_fd := m\<rparr>"
  "gafq_pushstring relay_api s v = v\<lparr>r_data := s\<rparr>"
  "gafq_pcall relay_api n r h v = (let run = script_start_action digit_script (r_fd v) (r_data v) in
     (if isl (fst run) then 2 else 0, v\<lparr>r_out := fold (transmit stream_os json_integer) (sends (snd run)) (r_out v)\<rparr>))"
  by (simp_all add: relay_api_def)

lemma relay_api_performs:
  "(\<forall>m \<in> set ms. length (snd m) < max_body_length \<and> NUL \<notin> set (snd m)) \<Longrightarrow>
     performs relay_api stream_os json_integer ms k (fold (transmit stream_os json_integer) ms k)"
proof (induction ms arbitrary: k)
  case (Cons m ms)
  let ?w = "\<lparr>r_fd = json_integer (fst m), r_data = snd m, r_out = []\<rparr>"
  let ?u = "replicate (header_length + max_body_length) NUL"
  have small: "length (snd m) < max_body_length" "NUL \<notin> set (snd m)" using Cons.prems by auto
  have str: "gafq_tostring relay_api 2 ?w = (Some (snd m), ?w)"
    by (simp add: gafq_tostring_def relay_api_sel)
  have c: "c_str (snd m) = snd m" using small(2) by (auto simp: c_str_def takeWhile_eq_all_conv)
  have "length (c_str (snd m)) < 2 ^ 64" "take max_body_length (snd m) = snd m"
    using small(1) by (simp_all add: c msg_consts)
  moreover have "NUL \<in> set (drop (header_length + length (snd m)) ?u)"
    using small(1) by (simp add: set_replicate_conv_if)
  ultimately obtain n w2 where
    "send_data relay_api stream_os ?u ?w k = Inr (n, w2, transmit stream_os json_integer m k)"
    using send_data_eq [OF str, of ?u stream_os k] by (auto simp: c Let_def transmit_def relay_api_sel)
  moreover have i: "gafq_tointeger relay_api 1 ?w = json_integer (fst m)" by (simp add: relay_api_sel)
  moreover have "performs relay_api stream_os json_integer ms (transmit stream_os json_integer m k)
      (fold (transmit stream_os json_integer) ms (transmit stream_os json_integer m k))"
    using Cons by auto
  ultimately have "performs relay_api stream_os json_integer ((fst m, snd m) # ms) k
      (fold (transmit stream_os json_integer) ms (transmit stream_os json_integer m k))"
    by (intro performs_Cons [where w = ?w and ?w1.0 = ?w and uninit = ?u]) (simp_all add: str)
  then show ?case by simp
qed (simp add: performs_Nil)

lemma relay_api_runs_script: "runs_script relay_api stream_os digit_script json_integer r_out"
proof -
  have "\<forall>m \<in> set (sends (snd (script_start_action digit_script fd data))). snd m = data" for fd data
    by (auto simp: start_action_sends split: sum.splits json.splits if_splits)
  then have "length data < max_body_length \<Longrightarrow> NUL \<notin> set data \<Longrightarrow>
      performs relay_api stream_os json_integer (sends (snd (script_start_action digit_script fd data))) k
        (fold (transmit stream_os json_integer) (sends (snd (script_start_action digit_script fd data))) k)" for fd data k
    by (intro relay_api_performs) auto
  then show ?thesis
    unfolding runs_script_def
    by (auto simp: gafq_isfunction_def gafq_getglobal_def call_state_def relay_api_sel Let_def)
qed

section \<open>From the wire to the wire\<close>

lemma queued_keeps_state: "se_gafqState (fold (queued fd) bs e) = se_gafqState e"
  by (induction bs arbitrary: e) (simp_all add: queued_def ExecGafq_def Let_def)

lemma transmit_wire:
  assumes "\<And>to bs k. wire_bytes (snd (sys_send out to bs k)) = wire_bytes k @ bs"
  shows "wire_bytes (fold (transmit out to_integer) ms k) = wire_bytes k @ concat (map frame (map snd ms))"
  by (induction ms arbitrary: k) (simp_all add: transmit_def assms)

lemma relayed_length:
  "\<forall>j \<in> set js. length (json_text env j) < max_body_length \<Longrightarrow>
     \<forall>b \<in> set (map snd (concat (map (relayed env) js))). length b \<le> max_body_length"
  by (fastforce simp: relayed_def split: json.splits if_splits)

text \<open>
  From the client's bytes to the receiver's: when the frames of JSON texts arrive one at a time, the
  engine queues these texts in order; for each of them the script calls \<open>send_data\<close> exactly
  when the text asks for it, with the receiver it names and the text itself; and that call puts one
  frame with the text on the wire.
\<close>

lemma script_relays_messages:
  assumes "full_read_law os fd inp" and "\<And>bs k. inp (arrive bs k) = inp k @ bs"
    and "msg_inv (ls_msg s)" and "inp (ls_kernel s) = []"
    and js: "\<forall>j \<in> set js. canonical (sc_tonumber senv) env j \<and> length (json_text env j) < max_body_length"
  shows "\<exists>s'. rfold (\<lambda>f s. handle_readable os fd (s\<lparr>ls_kernel := arrive f (ls_kernel s)\<rparr>))
        (map (frame \<circ> json_text env) js) s = Inr s'
    \<and> waiting_msgs (ls_engine s') = waiting_msgs (ls_engine s)
        @ map (\<lambda>j. (fd, Some \<lparr>action = start_action, msg_text = json_text env j\<rparr>)) js
    \<and> (\<forall>j \<in> set js. sends (snd (script_start_action senv (int n) (json_text env j))) = relayed env j)
    \<and> (\<forall>j \<in> set js. \<forall>v v' uninit k. gafq_tostring api 2 v = (Some (json_text env j), v')
        \<and> length uninit = header_length + max_body_length
        \<and> NUL \<in> set (drop (header_length + length (json_text env j)) uninit) \<longrightarrow>
        send_data api os uninit v k = Inr (1, gafq_pushinteger api 1 v',
          snd (sys_send os (sint (word_of_int (gafq_tointeger api 1 v) :: 32 word)) (frame (json_text env j)) k)))"
proof -
  have b: "\<forall>b \<in> set (map (json_text env) js). length b < max_body_length \<and> NUL \<notin> set b"
    using js json_text_no_NUL by auto
  from frames_one_by_one [where arrive = arrive, OF assms(1-4) b] obtain s' where
    "rfold (\<lambda>f s. handle_readable os fd (s\<lparr>ls_kernel := arrive f (ls_kernel s)\<rparr>))
        (map (frame \<circ> json_text env) js) s = Inr s'"
    "ls_engine s' = fold (queued fd) (map (json_text env) js) (ls_engine s)"
    by auto
  moreover have "\<forall>j \<in> set js. sends (snd (script_start_action senv (int n) (json_text env j))) = relayed env j"
    using js start_action_relays by blast
  ultimately show ?thesis
    using js by (intro exI [of _ s'] conjI) (auto simp: waiting_fold_queued comp_def intro: json_text_sent)
qed

lemma script_relays_messages_witness:
  "\<exists>s'. rfold (\<lambda>f s. handle_readable stream_os 5 (s\<lparr>ls_kernel := ls_kernel s @ f\<rparr>))
        [frame (json_text digit_env send_five)]
        \<lparr>ls_msg = socket_msg_ctor (replicate 1028 NUL), ls_engine = get_instance (0::nat) None, ls_kernel = []\<rparr> = Inr s'
    \<and> length (waiting_msgs (ls_engine s')) = 1
    \<and> sends (snd (script_start_action digit_script 5 (json_text digit_env send_five)))
        = [(JNum 5, json_text digit_env send_five)]"
proof -
  let ?s = "\<lparr>ls_msg = socket_msg_ctor (replicate 1028 NUL), ls_engine = get_instance (0::nat) None, ls_kernel = []\<rparr>"
  have i: "msg_inv (ls_msg ?s)" using msg_inv_ctor [of "replicate 1028 NUL"] by (simp add: msg_consts)
  have j: "\<forall>j \<in> set [send_five]. canonical (sc_tonumber digit_script) digit_env j
      \<and> length (json_text digit_env j) < max_body_length"
    using send_five_canonical send_five_text by (simp add: msg_consts)
  have r: "relayed digit_env send_five = [(JNum 5, json_text digit_env send_five)]"
    by (simp add: relayed_def send_five_def table_get_def)
  show ?thesis
    using script_relays_messages [OF stream_os_full_read _ i _ j, of "\<lambda>bs k. k @ bs" 5 5 ref_api] r
    by (auto simp: get_instance_def waiting_msgs_def)
qed

end
