(* ===== verification/Relay_Threads.thy ===== *)
theory Relay_Threads
  imports Relay Engine_Threads
begin

text \<open>
  The threads together with the interpreter: the machine of \<open>Engine_Threads\<close>, where executing an item is
  the engine's \<open>exec_item\<close> on the interpreter's state, which only the main thread uses. The submitting
  threads pass texts of JSON values. Under every interleaving the wire carries what the texts executed so far
  ask for, in the order of submission.
\<close>

section \<open>The system\<close>

definition json_ok :: "'n script_env \<Rightarrow> 'n lua_env \<Rightarrow> 'n json \<Rightarrow> bool" where
  "json_ok senv env j \<longleftrightarrow> canonical (sc_tonumber senv) env j \<and> length (json_text env j) < max_body_length"

definition json_submission :: "'n script_env \<Rightarrow> 'n lua_env \<Rightarrow> gafqItem \<Rightarrow> bool" where
  "json_submission senv env it \<longleftrightarrow> (\<exists>x. json_ok senv env (snd x) \<and> (item_fd it, item_msg it) = json_item env x)"

text \<open>
  A step of a thread that executes nothing, in which only such items are passed to \<open>ExecGafq\<close>; or the main
  thread executes the next item.
\<close>

inductive system_step :: "'v gafq_api \<Rightarrow> (gafqItem \<Rightarrow> bool) \<Rightarrow> threads \<times> 'v script_engine \<Rightarrow> threads \<times> 'v script_engine \<Rightarrow> bool"
  for api :: "'v gafq_api" and ok :: "gafqItem \<Rightarrow> bool"
where
  sys_thread: "thread_step t u \<Longrightarrow> executed u = executed t \<Longrightarrow>
     (\<And>i it. ppc u i = P_lock it \<Longrightarrow> ppc t i \<noteq> P_lock it \<Longrightarrow> ok it) \<Longrightarrow> system_step api ok (t, e) (u, e)"
| sys_exec: "mpc t = M_exec (it # its) \<Longrightarrow> exec_item api it e = Inr e' \<Longrightarrow>
     system_step api ok (t, e) (t\<lparr>executed := executed t @ [it], mpc := M_exec its\<rparr>, e')"

definition system_reachable :: "'v gafq_api \<Rightarrow> (gafqItem \<Rightarrow> bool) \<Rightarrow> 'v script_engine \<Rightarrow> threads \<times> 'v script_engine \<Rightarrow> bool" where
  "system_reachable api ok e0 = (system_step api ok)\<^sup>*\<^sup>* (threads_init, e0)"

section \<open>Invariants\<close>

text \<open>What waits to be pushed was passed to \<open>ExecGafq\<close>.\<close>

fun pending :: "producer_pc \<Rightarrow> gafqItem list" where
  "pending (P_lock it) = [it]"
| "pending (P_push it) = [it]"
| "pending _ = []"

definition system_inv :: "'v gafq_api \<Rightarrow> (gafqItem \<Rightarrow> bool) \<Rightarrow> 'v script_engine \<Rightarrow> threads \<times> 'v script_engine \<Rightarrow> bool" where
  "system_inv api ok e0 s \<longleftrightarrow> threads_reachable (fst s)
     \<and> rfold (exec_item api) (executed (fst s)) e0 = Inr (snd s)
     \<and> list_all ok (submitted (fst s)) \<and> (\<forall>i. list_all ok (pending (ppc (fst s) i)))"

lemma system_inv_init: "system_inv api ok e (threads_init, e)"
  by (simp add: system_inv_def thr_start) (simp add: threads_init_def)

lemma thread_step_items:
  assumes "thread_step t u" "list_all ok (submitted t)" "\<forall>i. list_all ok (pending (ppc t i))"
    and "\<And>i it. ppc u i = P_lock it \<Longrightarrow> ppc t i \<noteq> P_lock it \<Longrightarrow> ok it"
  shows "list_all ok (submitted u) \<and> (\<forall>i. list_all ok (pending (ppc u i)))"
  using assms
proof (cases rule: thread_step.cases)
  case (p_call i it)
  then have "ok it" using assms(4) [of i it] by simp
  then show ?thesis using p_call assms(2,3) by simp
next
  case (p_push i it)
  then have "list_all ok (pending (P_push it))" using assms(3) by metis
  then show ?thesis using p_push assms(2,3) by simp
next
  case (p_lock i it)
  then have "list_all ok (pending (P_lock it))" using assms(3) by metis
  then show ?thesis using p_lock assms(2,3) by simp
qed (use assms(2,3) in simp_all)

lemma system_inv_step: "system_step api ok s s' \<Longrightarrow> system_inv api ok e0 s \<Longrightarrow> system_inv api ok e0 s'"
proof (induction rule: system_step.induct)
  case (sys_thread t u e)
  have "threads_reachable u" using sys_thread by (auto simp: system_inv_def intro: thr_next)
  moreover have "list_all ok (submitted u) \<and> (\<forall>i. list_all ok (pending (ppc u i)))"
    by (rule thread_step_items [OF sys_thread(1) _ _ sys_thread(3)]) (use sys_thread(4) in \<open>simp_all add: system_inv_def\<close>)
  ultimately show ?case using sys_thread(2,4) by (simp add: system_inv_def)
next
  case (sys_exec t it its e e')
  have "threads_reachable (t\<lparr>executed := executed t @ [it], mpc := M_exec its\<rparr>)"
    using sys_exec by (auto simp: system_inv_def intro: thr_next m_exec)
  then show ?case using sys_exec by (simp add: system_inv_def rfold_append)
qed

lemma system_reachable_inv: "system_reachable api ok e0 s \<Longrightarrow> system_inv api ok e0 s"
  unfolding system_reachable_def
  by (induction rule: rtranclp_induct) (auto intro: system_inv_init system_inv_step)

section \<open>What is on the wire\<close>

lemma json_submissions:
  "list_all (json_submission senv env) its \<Longrightarrow>
     \<exists>xs. map (\<lambda>it. (item_fd it, item_msg it)) its = map (json_item env) xs \<and> (\<forall>x \<in> set xs. json_ok senv env (snd x))"
proof (induction its)
  case (Cons it its)
  then obtain x xs where "json_ok senv env (snd x)" "(item_fd it, item_msg it) = json_item env x"
    "map (\<lambda>it. (item_fd it, item_msg it)) its = map (json_item env) xs" "\<forall>x \<in> set xs. json_ok senv env (snd x)"
    by (auto simp: json_submission_def)
  then show ?case by (intro exI [of _ "x # xs"]) simp
qed simp

text \<open>The texts of some JSON items that ask to be sent, as the receivers' readers see them.\<close>

definition wire_carries :: "('k \<Rightarrow> bytes) \<Rightarrow> 'n script_env \<Rightarrow> 'n lua_env \<Rightarrow> gafqItem list \<Rightarrow> 'k \<Rightarrow> 'k \<Rightarrow> bool" where
  "wire_carries wire_bytes senv env its k k' \<longleftrightarrow> (\<exists>xs bs. map (\<lambda>it. (item_fd it, item_msg it)) its = map (json_item env) xs
     \<and> (\<forall>x \<in> set xs. json_ok senv env (snd x)) \<and> wire_bytes k' = wire_bytes k @ bs \<and> deframe header_value bs = (map snd (concat (map (\<lambda>x. relayed env (snd x)) xs)), []))"

lemma executed_on_wire:
  assumes run: "runs_script api out senv to_integer kern"
    and send: "\<And>to bs k. wire_bytes (snd (sys_send out to bs k)) = wire_bytes k @ bs"
    and ok: "list_all (json_submission senv env) its"
    and ex: "rfold (exec_item api) its e = Inr e'"
  shows "wire_carries wire_bytes senv env its (kern (se_gafqState e)) (kern (se_gafqState e'))"
proof -
  from json_submissions [OF ok] obtain xs where
    xs: "map (\<lambda>it. (item_fd it, item_msg it)) its = map (json_item env) xs" "\<forall>x \<in> set xs. json_ok senv env (snd x)"
    by blast
  let ?ms = "concat (map (\<lambda>x. relayed env (snd x)) xs)"
  obtain e1 where "rfold (exec_item api) its e = Inr e1"
    "kern (se_gafqState e1) = fold (transmit out to_integer) ?ms (kern (se_gafqState e))"
    using rfold_relays [OF run xs(1), of e] xs(2) by (auto simp: json_ok_def)
  then have k: "kern (se_gafqState e') = fold (transmit out to_integer) ?ms (kern (se_gafqState e))"
    using ex by simp
  have "\<forall>b \<in> set (map snd ?ms). length b \<le> max_body_length"
    using relayed_length [of "map snd xs" env] xs(2) by (auto simp: json_ok_def comp_def)
  then have "deframe header_value (concat (map frame (map snd ?ms))) = (map snd ?ms, [])"
    using msg_format.deframe_stream [of "map snd ?ms" "[]"] by auto
  moreover have "wire_bytes (kern (se_gafqState e')) = wire_bytes (kern (se_gafqState e)) @ concat (map frame (map snd ?ms))"
    unfolding k by (rule transmit_wire [OF send])
  ultimately show ?thesis using xs unfolding wire_carries_def by blast
qed

section \<open>Progress\<close>

lemma thread_step_executes:
  "thread_step t u \<Longrightarrow> executed u = executed t \<or>
     (\<exists>it its. mpc t = M_exec (it # its) \<and> u = t\<lparr>executed := executed t @ [it], mpc := M_exec its\<rparr>)"
  by (induction rule: thread_step.induct) auto

text \<open>Every run of the threads without new submissions is a run of the system.\<close>

lemma own_steps_system:
  assumes exec: "\<And>it e. ok it \<Longrightarrow> \<exists>e'. exec_item api it e = Inr e'"
  shows "own_step\<^sup>*\<^sup>* t u \<Longrightarrow> system_inv api ok e0 (t, e) \<Longrightarrow> \<exists>e'. (system_step api ok)\<^sup>*\<^sup>* (t, e) (u, e')"
proof (induction rule: rtranclp_induct)
  case base
  then show ?case by blast
next
  case (step u w)
  then obtain e1 where r: "(system_step api ok)\<^sup>*\<^sup>* (t, e) (u, e1)" by blast
  have inv: "system_inv api ok e0 (u, e1)"
    using r step.prems by (induction rule: rtranclp_induct) (auto intro: system_inv_step)
  from step.hyps(2) have s: "thread_step u w" and own: "\<And>i it. ppc w i = P_lock it \<Longrightarrow> ppc u i = P_lock it"
    by (auto simp: own_step_def)
  from thread_step_executes [OF s] show ?case
  proof
    assume "executed w = executed u"
    then have "system_step api ok (u, e1) (w, e1)" by (rule sys_thread [OF s]) (use own in blast)
    with r show ?case by (meson rtranclp.rtrancl_into_rtrancl)
  next
    assume "\<exists>it its. mpc u = M_exec (it # its) \<and> w = u\<lparr>executed := executed u @ [it], mpc := M_exec its\<rparr>"
    then obtain it its where m: "mpc u = M_exec (it # its)" and w: "w = u\<lparr>executed := executed u @ [it], mpc := M_exec its\<rparr>"
      by blast
    have "it \<in> set (submitted u)"
      using reachable_fifo_inv [of u] inv m by (simp add: system_inv_def fifo_inv_def)
    then have "ok it" using inv by (simp add: system_inv_def list_all_iff)
    then obtain e2 where "exec_item api it e1 = Inr e2" using exec by blast
    from sys_exec [OF m this] r show ?case unfolding w by (meson rtranclp.rtrancl_into_rtrancl)
  qed
qed

lemma json_submission_executes:
  assumes "json_submission senv env it"
  shows "\<exists>e'. exec_item api it e = Inr e'"
proof -
  have m: "item_msg it \<noteq> None" using assms by (auto simp: json_submission_def json_item_def)
  show ?thesis
  proof (cases "exec_item api it e")
    case (Inl x)
    then show ?thesis using m exec_item_fault [of api it e x] by simp
  qed blast
qed

lemma system_progress:
  assumes "system_reachable api (json_submission senv env) e0 (t, e)"
  obtains u e' where "(system_step api (json_submission senv env))\<^sup>*\<^sup>* (t, e) (u, e')" "executed u = submitted u"
    "prefix (submitted t) (executed u)"
proof -
  note inv = system_reachable_inv [OF assms]
  then have "threads_reachable t" by (simp add: system_inv_def)
  then obtain u where u: "own_step\<^sup>*\<^sup>* t u" "executed u = submitted u" "prefix (submitted t) (executed u)"
    using all_executed_own by blast
  have "\<exists>e'. (system_step api (json_submission senv env))\<^sup>*\<^sup>* (t, e) (u, e')"
    by (rule own_steps_system [OF _ u(1) inv]) (rule json_submission_executes)
  with u(2,3) that show thesis by blast
qed

section \<open>An example\<close>

text \<open>One thread has pushed the text \<open>send_five\<close>.\<close>

definition five_item :: gafqItem where
  "five_item = new_item\<lparr>item_fd := 5, item_msg := Some \<lparr>action = start_action, msg_text = json_text digit_env send_five\<rparr>\<rparr>"

definition five_pushed :: threads where
  "five_pushed = threads_init\<lparr>mtx := Some (Producer 0), ppc := (ppc threads_init)(0 := P_count2),
     wait_list := [five_item], submitted := [five_item]\<rparr>"

lemma five_submission: "json_submission digit_script digit_env five_item"
proof -
  have "json_ok digit_script digit_env send_five"
    using send_five_canonical send_five_text by (simp add: json_ok_def msg_consts)
  then show ?thesis
    unfolding json_submission_def by (intro exI [of _ "(5, send_five)"]) (simp add: five_item_def json_item_def)
qed

lemma five_pushed_reachable:
  "system_reachable api (json_submission digit_script digit_env) e (five_pushed, e)"
proof -
  let ?ok = "json_submission digit_script digit_env"
  let ?t1 = "threads_init\<lparr>ppc := (ppc threads_init)(0 := P_lock five_item)\<rparr>"
  let ?t2 = "?t1\<lparr>mtx := Some (Producer 0), ppc := (ppc ?t1)(0 := P_push five_item)\<rparr>"
  let ?t3 = "?t2\<lparr>wait_list := wait_list ?t2 @ [five_item], submitted := submitted ?t2 @ [five_item],
    ppc := (ppc ?t2)(0 := P_count2)\<rparr>"
  have "system_step api ?ok (threads_init, e) (?t1, e)"
    by (rule sys_thread [OF p_call]) (auto simp: threads_init_def five_submission split: if_splits)
  moreover have "system_step api ?ok (?t1, e) (?t2, e)"
    by (rule sys_thread [OF p_lock]) (auto simp: threads_init_def split: if_splits)
  moreover have "system_step api ?ok (?t2, e) (?t3, e)"
    by (rule sys_thread [OF p_push]) (auto simp: threads_init_def split: if_splits)
  moreover have "?t3 = five_pushed" by (simp add: five_pushed_def threads_init_def)
  ultimately show ?thesis
    unfolding system_reachable_def by (metis (no_types, lifting) converse_rtranclp_into_rtranclp rtranclp.rtrancl_refl)
qed

end
