(* ===== verification/Rounding.thy ===== *)
theory Rounding
  imports Complex_Main "HOL-Library.Log_Nat"
begin

text \<open>
  Rounding as the machine does it: to the nearest integer with ties to the even one, and to the nearest double.
  Numbers are rational.
\<close>

section \<open>To an integer\<close>

definition round_half_even :: "rat \<Rightarrow> int" where
  "round_half_even x =
     (let f = \<lfloor>x\<rfloor>; r = x - of_int f in
      if r < 1 / 2 then f else if r > 1 / 2 then f + 1 else if even f then f else f + 1)"

lemma round_half_even_bounds: "\<lfloor>x\<rfloor> \<le> round_half_even x" "round_half_even x \<le> \<lceil>x\<rceil>"
  by (auto simp: round_half_even_def Let_def ceiling_altdef)

lemma round_half_even_error: "\<bar>of_int (round_half_even x) - x\<bar> \<le> 1 / 2"
proof -
  have "of_int \<lfloor>x\<rfloor> \<le> x" "x < of_int \<lfloor>x\<rfloor> + 1" by linarith+
  then show ?thesis by (auto simp: round_half_even_def Let_def)
qed

lemma round_half_even_of_int [simp]: "round_half_even (of_int z) = z"
  by (simp add: round_half_even_def)

lemma round_half_even_shift: "even z \<Longrightarrow> round_half_even (x + of_int z) = round_half_even x + z"
  by (simp add: round_half_even_def Let_def)

lemma round_half_even_between: "of_int a \<le> x \<Longrightarrow> x \<le> of_int b \<Longrightarrow> a \<le> round_half_even x \<and> round_half_even x \<le> b"
  using round_half_even_bounds [of x] by (meson ceiling_le_iff le_floor_iff order_trans)

lemma round_half_even_mono_bound: "x \<le> - of_int a \<Longrightarrow> round_half_even x \<le> - a"
  using round_half_even_bounds(2) [of x] by (simp add: ceiling_le_iff order.trans)

section \<open>To a double\<close>

text \<open>
  A double has 53 binary digits. \<open>binade x\<close> is the position of the first digit of \<open>x\<close>, for numbers from
  one on. Smaller numbers are kept as they are: no operation here has a result between zero and one that
  is not a double already. The range of the exponent is not reached.
\<close>

definition binade :: "rat \<Rightarrow> nat" where
  "binade x = floorlog 2 (nat \<lfloor>\<bar>x\<bar>\<rfloor>) - 1"

definition to_double :: "rat \<Rightarrow> rat" where
  "to_double x =
     (if \<bar>x\<bar> < 1 then x else of_int (round_half_even (x * 2 ^ 52 / 2 ^ binade x)) * 2 ^ binade x / 2 ^ 52)"

definition is_double :: "rat \<Rightarrow> bool" where
  "is_double x \<longleftrightarrow> to_double x = x"

lemma binade_bounds:
  assumes "1 \<le> \<bar>x\<bar>"
  shows "2 ^ binade x \<le> \<bar>x\<bar>" "\<bar>x\<bar> < 2 ^ (binade x + 1)"
proof -
  let ?n = "nat \<lfloor>\<bar>x\<bar>\<rfloor>"
  have n: "0 < ?n" using assms by simp
  have "floorlog 2 ?n \<noteq> 0" unfolding floorlog_eq_zero_iff using n by linarith
  then have l: "0 < floorlog 2 ?n" by linarith
  have b: "2 ^ (floorlog 2 ?n - 1) \<le> ?n" "?n < 2 ^ floorlog 2 ?n"
    using floorlog_bounds [OF n, of 2] by simp_all
  have "of_nat ?n = (of_int \<lfloor>\<bar>x\<bar>\<rfloor> :: rat)" by (simp add: of_nat_nat)
  then have "of_nat ?n \<le> \<bar>x\<bar>" "\<bar>x\<bar> < of_nat ?n + 1" by linarith+
  moreover have "(2 :: rat) ^ (floorlog 2 ?n - 1) \<le> of_nat ?n"
    using b(1) by (metis of_nat_le_iff of_nat_numeral of_nat_power)
  moreover have "of_nat ?n + 1 \<le> (2 :: rat) ^ floorlog 2 ?n"
    using b(2) by (metis Suc_leI add.commute of_nat_Suc of_nat_le_iff of_nat_numeral of_nat_power)
  ultimately have "(2 :: rat) ^ (floorlog 2 ?n - 1) \<le> \<bar>x\<bar>" "\<bar>x\<bar> < (2 :: rat) ^ floorlog 2 ?n" by linarith+
  then show "2 ^ binade x \<le> \<bar>x\<bar>" "\<bar>x\<bar> < 2 ^ (binade x + 1)"
    using l unfolding binade_def by simp_all
qed

lemma binade_eq:
  assumes "2 ^ e \<le> \<bar>x\<bar>" "\<bar>x\<bar> < 2 ^ (e + 1)"
  shows "binade x = e"
proof -
  have "1 \<le> \<bar>x\<bar>" using assms(1) by (meson one_le_numeral one_le_power order_trans)
  note b = binade_bounds [OF this]
  have "(2 :: rat) ^ binade x < 2 ^ (e + 1)" "(2 :: rat) ^ e < 2 ^ (binade x + 1)"
    using assms b by linarith+
  then have "binade x < e + 1 \<and> e < binade x + 1"
    by (intro conjI power_less_imp_less_exp [of "2 :: rat"]) simp_all
  then show ?thesis by simp
qed

text \<open>Integers with at most 53 digits, shifted to the left, are doubles.\<close>

lemma to_double_shift:
  assumes "\<bar>m\<bar> < 2 ^ 53"
  shows "to_double (of_int (m * 2 ^ k)) = of_int (m * 2 ^ k)"
proof (cases "m = 0")
  case False
  let ?x = "of_int (m * 2 ^ k) :: rat"
  have x: "\<bar>?x\<bar> = of_int \<bar>m\<bar> * 2 ^ k" by (simp add: abs_mult)
  have m: "1 \<le> (of_int \<bar>m\<bar> :: rat)" "(of_int \<bar>m\<bar> :: rat) < 2 ^ 53"
    using False assms by linarith (metis assms of_int_less_iff of_int_numeral of_int_power)
  have one: "1 \<le> \<bar>?x\<bar>" unfolding x using m(1) mult_mono [of 1 "of_int \<bar>m\<bar> :: rat" 1 "2 ^ k"] by simp
  have "of_int \<bar>m\<bar> * 2 ^ k < (2 :: rat) ^ 53 * 2 ^ k"
    by (rule mult_strict_right_mono [OF m(2)]) simp
  then have "(2 :: rat) ^ binade ?x < 2 ^ (53 + k)"
    using binade_bounds(1) [OF one] unfolding x power_add by (rule le_less_trans [rotated])
  then have "binade ?x < 53 + k" by (rule power_less_imp_less_exp [rotated]) simp
  then have e: "binade ?x \<le> 52 + k" by simp
  then have "(2 :: rat) ^ (52 + k - binade ?x) = 2 ^ (52 + k) / 2 ^ binade ?x" by (rule power_diff [rotated]) simp
  then have "of_int m * (2 :: rat) ^ (52 + k - binade ?x) = of_int m * (2 ^ (52 + k) / 2 ^ binade ?x)" by (rule arg_cong)
  then have "?x * 2 ^ 52 / 2 ^ binade ?x = of_int (m * 2 ^ (52 + k - binade ?x))"
    unfolding of_int_mult of_int_power of_int_numeral power_add by (simp add: mult_ac)
  then have r: "of_int (round_half_even (?x * 2 ^ 52 / 2 ^ binade ?x)) = ?x * 2 ^ 52 / 2 ^ binade ?x"
    by (simp only: round_half_even_of_int)
  show ?thesis using one unfolding to_double_def r by simp
qed (simp add: to_double_def)

lemma to_double_negative: "x < 0 \<Longrightarrow> to_double x < 0"
proof -
  assume x: "x < 0"
  show ?thesis
  proof (cases "\<bar>x\<bar> < 1")
    case False
    then have "2 ^ binade x \<le> - x" using binade_bounds(1) [of x] x by simp
    then have "x * 2 ^ 52 / 2 ^ binade x \<le> - of_int (2 ^ 52)" by (simp add: field_simps)
    then have "round_half_even (x * 2 ^ 52 / 2 ^ binade x) \<le> - (2 ^ 52)" by (rule round_half_even_mono_bound)
    then have "(of_int (round_half_even (x * 2 ^ 52 / 2 ^ binade x)) :: rat) < 0" by simp
    then show ?thesis using False by (simp add: to_double_def divide_neg_pos mult_neg_pos)
  qed (simp add: to_double_def x)
qed

lemma to_double_error:
  assumes "\<bar>x\<bar> < 2 ^ (e + 1)" "52 \<le> e"
  shows "\<bar>to_double x - x\<bar> \<le> 2 ^ (e - 52) / 2"
proof (cases "\<bar>x\<bar> < 1")
  case False
  let ?b = "binade x" and ?y = "x * 2 ^ 52 / 2 ^ binade x"
  have "(2 :: rat) ^ ?b < 2 ^ (e + 1)" using binade_bounds(1) [of x] False assms(1) by linarith
  then have "?b < e + 1" by (rule power_less_imp_less_exp [rotated]) simp
  then have b: "?b \<le> e" by simp
  have d: "to_double x - x = (of_int (round_half_even ?y) - ?y) * (2 ^ ?b / 2 ^ 52)"
    using False by (simp add: to_double_def field_simps)
  have "\<bar>to_double x - x\<bar> = \<bar>of_int (round_half_even ?y) - ?y\<bar> * (2 ^ ?b / 2 ^ 52)"
    unfolding d abs_mult by simp
  also have "\<dots> \<le> (1 / 2) * (2 ^ e / 2 ^ 52)"
    by (intro mult_mono round_half_even_error divide_right_mono power_increasing b) simp_all
  also have "\<dots> = 2 ^ (e - 52) / 2" using assms(2) by (simp add: power_diff)
  finally show ?thesis .
qed (simp add: to_double_def)

end
