(* ===== verification/Double_Conv.thy ===== *)
theory Double_Conv
  imports Rounding "HOL-Library.Word"
begin

text \<open>
  Conversions between \<open>ulonglong\<close> and \<open>double\<close> in \<^verbatim>\<open>my_global.h\<close>: the inline functions for
  Windows, whose compilers only convert signed integers, and the plain casts of the other platforms.
\<close>

section \<open>The conversions\<close>

text \<open>A cast of an integer rounds it; a cast to an integer cuts the fraction off, and is undefined out of range.\<close>

definition two_63 :: rat where "two_63 = 9223372036854775808"
definition two_64 :: rat where "two_64 = 18446744073709551616"

definition my_ulonglong2double :: "64 word \<Rightarrow> rat" where
  "my_ulonglong2double value =
     (let nr = sint value in
      if nr \<ge> 0 then to_double (of_int nr)
      else to_double (two_64 + to_double (of_int nr)))"

definition ulonglong2double :: "64 word \<Rightarrow> rat" where
  "ulonglong2double A = to_double (of_int (uint A))"

definition cast_ulonglong :: "rat \<Rightarrow> 64 word option" where
  "cast_ulonglong d = (if - 1 < d \<and> d < two_64 then Some (word_of_int (if d < 0 then \<lceil>d\<rceil> else \<lfloor>d\<rfloor>)) else None)"

definition my_double2ulonglong :: "rat \<Rightarrow> 64 word option" where
  "my_double2ulonglong d =
     (let t = to_double (d - two_63) in
      if t \<ge> 0 then map_option (\<lambda>u. u + 0x8000000000000000) (cast_ulonglong t)
      else cast_ulonglong d)"

definition double2ulonglong :: "rat \<Rightarrow> 64 word option" where
  "double2ulonglong A = cast_ulonglong A"

section \<open>From integers\<close>

lemma sint_uint_64:
  "sint v = (if uint v < 2 ^ 63 then uint v else uint v - 2 ^ 64)" for v :: "64 word"
proof -
  have r: "0 \<le> uint v" "uint v < 2 ^ 64" using uint_lt2p [of v] by simp_all
  have "sint v = (uint v + 2 ^ 63) mod 2 ^ 64 - 2 ^ 63"
    using int_word_sint [of "uint v", where ?'a = 64] by simp
  moreover have "(uint v + 2 ^ 63) mod 2 ^ 64 = (if uint v < 2 ^ 63 then uint v + 2 ^ 63 else uint v + 2 ^ 63 - 2 ^ 64)"
    using r minus_mod_self2 [of "uint v + 2 ^ 63" "2 ^ 64"] by (auto simp: mod_pos_pos_trivial)
  ultimately show ?thesis by simp
qed

lemma ulonglong_nonneg:
  assumes "uint v < 2 ^ 63"
  shows "my_ulonglong2double v = ulonglong2double v"
  using assms uint_ge_0 [of v] by (simp add: my_ulonglong2double_def ulonglong2double_def sint_uint_64)

text \<open>Numbers that are doubles are converted exactly.\<close>

lemma double_of_large:
  assumes "is_double (of_int n)" "2 ^ 63 \<le> n" "n < 2 ^ 64"
  obtains m where "n = m * 2 ^ 11" "2 ^ 52 \<le> m" "m < 2 ^ 53"
proof -
  have x: "\<not> \<bar>of_int n :: rat\<bar> < 1" "binade (of_int n) = 63"
  proof -
    have "(2 :: rat) ^ 63 \<le> of_int n" "of_int n < (2 :: rat) ^ (63 + 1)"
      using assms(2,3) by (metis of_int_le_iff of_int_numeral of_int_power, simp)
    then show "binade (of_int n) = 63" by (intro binade_eq) (simp_all add: abs_of_nonneg)
    show "\<not> \<bar>of_int n :: rat\<bar> < 1" using assms(2) by simp
  qed
  let ?m = "round_half_even (of_int n * 2 ^ 52 / 2 ^ 63)"
  have "of_int ?m * 2 ^ 63 / 2 ^ 52 = (of_int n :: rat)"
    using assms(1) x unfolding is_double_def to_double_def by simp
  then have "(of_int n :: rat) = of_int (?m * 2 ^ 11)" by simp
  then have n: "n = ?m * 2 ^ 11" by (simp only: of_int_eq_iff)
  show thesis by (rule that [OF n]) (use n assms(2,3) in simp_all)
qed

lemma ulonglong_exact:
  assumes "is_double (of_int (uint v))"
  shows "my_ulonglong2double v = of_int (uint v)"
proof (cases "uint v < 2 ^ 63")
  case True
  then show ?thesis using assms by (simp add: ulonglong_nonneg ulonglong2double_def is_double_def)
next
  case False
  have "2 ^ 63 \<le> uint v" "uint v < 2 ^ 64" using False uint_lt2p [of v] by simp_all
  from double_of_large [OF assms this] obtain m where m: "uint v = m * 2 ^ 11" "2 ^ 52 \<le> m" "m < 2 ^ 53" .
  have s: "sint v = (m - 2 ^ 53) * 2 ^ 11" using False m(1) by (simp add: sint_uint_64)
  have "to_double (of_int (sint v)) = of_int (sint v)"
    unfolding s by (rule to_double_shift) (use m in simp)
  then have "two_64 + to_double (of_int (sint v)) = of_int (m * 2 ^ 11)" by (simp add: s two_64_def)
  moreover have "to_double (of_int (m * 2 ^ 11)) = of_int (m * 2 ^ 11)"
    by (rule to_double_shift) (use m in simp)
  moreover have "sint v < 0" using m by (simp add: s)
  ultimately show ?thesis by (simp only: my_ulonglong2double_def Let_def m(1) if_False not_le [symmetric] not_less)
qed

text \<open>Others are converted with an error of at most three quarters of the distance of two doubles.\<close>

lemma ulonglong_error: "\<bar>my_ulonglong2double v - of_int (uint v)\<bar> \<le> 3 / 4 * 2 ^ 11"
proof (cases "uint v < 2 ^ 63")
  case True
  then have "(of_int (uint v) :: rat) < of_int (2 ^ 63)" by (simp only: of_int_less_iff)
  then have "\<bar>of_int (uint v) :: rat\<bar> < 2 ^ (62 + 1)" by (simp del: of_int_uint)
  from to_double_error [OF this] True show ?thesis
    by (simp add: ulonglong_nonneg ulonglong2double_def)
next
  case False
  let ?n = "sint v"
  have n: "?n < 0" "- (2 ^ 63) \<le> ?n" "of_int (uint v) = two_64 + (of_int ?n :: rat)"
    using False uint_lt2p [of v] by (simp_all add: sint_uint_64 two_64_def)
  have n0: "(of_int ?n :: rat) < 0" using n(1) by (simp only: of_int_less_0_iff)
  have "\<bar>to_double (of_int ?n) - of_int ?n\<bar> \<le> (2 :: rat) ^ 10 / 2"
  proof (cases "?n = - (2 ^ 63)")
    case True
    then have "to_double (of_int ?n) = of_int ?n" using to_double_shift [of "- 1" 63] by simp
    then show ?thesis by simp
  next
    case False
    then have "- (2 ^ 63) < ?n" using n(2) by simp
    then have "(of_int (- (2 ^ 63)) :: rat) < of_int ?n" by (simp only: of_int_less_iff)
    with n0 have "\<bar>of_int ?n :: rat\<bar> < 2 ^ (62 + 1)" by (simp only: abs_of_neg) simp
    from to_double_error [OF this] show ?thesis by simp
  qed
  note e1 = this
  let ?x = "two_64 + to_double (of_int ?n)"
  have neg: "to_double (of_int ?n) < 0" by (rule to_double_negative [OF n0])
  have "(of_int (- (2 ^ 63)) :: rat) \<le> of_int ?n" using n(2) by (simp only: of_int_le_iff)
  then have "\<bar>?x\<bar> < 2 ^ (63 + 1)" using e1 neg by (simp add: two_64_def)
  from to_double_error [OF this] have e2: "\<bar>to_double ?x - ?x\<bar> \<le> 2 ^ 11 / 2" by simp
  have "my_ulonglong2double v = to_double ?x" using n(1) by (simp add: my_ulonglong2double_def Let_def)
  with e1 e2 n(3) show ?thesis by (simp add: abs_le_iff)
qed

text \<open>The number is rounded twice: just above a tie the result is the lower double, where a cast gives the upper one.\<close>

lemma to_double_round:
  assumes "2 ^ e \<le> \<bar>x\<bar>" "\<bar>x\<bar> < 2 ^ (e + 1)" "\<lfloor>x * 2 ^ 52 / 2 ^ e\<rfloor> = f"
  shows "to_double x =
    (let r = x * 2 ^ 52 / 2 ^ e - of_int f in
     of_int (if r < 1 / 2 then f else if r > 1 / 2 then f + 1 else if even f then f else f + 1) * 2 ^ e / 2 ^ 52)"
proof -
  have "(1 :: rat) \<le> 2 ^ e" by simp
  then have "\<not> \<bar>x\<bar> < 1" using assms(1) by linarith
  then show ?thesis
    by (simp only: to_double_def binade_eq [OF assms(1,2)] round_half_even_def assms(3) Let_def if_False)
qed

lemma ulonglong_twice_rounded:
  "my_ulonglong2double 9223372036854776833 = 9223372036854775808"
  "ulonglong2double 9223372036854776833 = 9223372036854777856"
proof -
  have u: "uint (9223372036854776833 :: 64 word) = 9223372036854776833" by simp
  have s: "sint (9223372036854776833 :: 64 word) = - 9223372036854774783" by (simp add: sint_uint_64 del: uint_numeral)
  have "\<lfloor>- 9223372036854774783 * 2 ^ 52 / (2 :: rat) ^ 62\<rfloor> = - 9007199254740991"
    by (rule floor_unique) simp_all
  from to_double_round [OF _ _ this]
  have 1: "to_double (- 9223372036854774783) = - 9223372036854774784" by (simp add: Let_def)
  have "\<lfloor>9223372036854776832 * 2 ^ 52 / (2 :: rat) ^ 63\<rfloor> = 4503599627370496"
    by (rule floor_unique) simp_all
  from to_double_round [OF _ _ this]
  have 2: "to_double 9223372036854776832 = 9223372036854775808" by (simp add: Let_def)
  have "\<lfloor>9223372036854776833 * 2 ^ 52 / (2 :: rat) ^ 63\<rfloor> = 4503599627370496"
    by (rule floor_unique) simp_all
  from to_double_round [OF _ _ this]
  have 3: "to_double 9223372036854776833 = 9223372036854777856" by (simp add: Let_def)
  show "my_ulonglong2double 9223372036854776833 = 9223372036854775808"
    unfolding my_ulonglong2double_def Let_def s using 1 2 by (simp add: two_64_def)
  show "ulonglong2double 9223372036854776833 = 9223372036854777856"
    unfolding ulonglong2double_def u using 3 by simp
qed

section \<open>To integers\<close>

lemma to_double_large:
  assumes "is_double d" "two_63 \<le> d" "d < two_64"
  shows "to_double (d - two_63) = d - two_63"
proof -
  have b: "binade d = 63" "\<not> \<bar>d\<bar> < 1"
    using assms(2,3) by (auto intro!: binade_eq simp: two_63_def two_64_def)
  let ?m = "round_half_even (d * 2 ^ 52 / 2 ^ 63)"
  have d: "d = of_int (?m * 2 ^ 11)"
    using assms(1) b unfolding is_double_def to_double_def by simp
  have "of_int (2 ^ 52 * 2 ^ 11) \<le> d" "d < of_int (2 ^ 53 * 2 ^ 11)"
    using assms(2,3) by (simp_all add: two_63_def two_64_def)
  then have "2 ^ 52 * 2 ^ 11 \<le> ?m * 2 ^ 11" "?m * 2 ^ 11 < 2 ^ 53 * 2 ^ 11"
    by (subst (asm) (2) d, simp only: of_int_le_iff of_int_less_iff)+
  then have m: "2 ^ 52 \<le> ?m" "?m < 2 ^ 53" by simp_all
  have e: "d - two_63 = of_int ((?m - 2 ^ 52) * 2 ^ 11)" by (subst d) (simp add: two_63_def algebra_simps)
  show ?thesis unfolding e by (rule to_double_shift) (use m in simp)
qed

text \<open>On every double from 0 up to the range of the integers the function for Windows is the cast.\<close>

lemma double2ulonglong_agree:
  assumes "is_double d" "0 \<le> d" "d < two_64"
  shows "my_double2ulonglong d = double2ulonglong d" "double2ulonglong d = Some (word_of_int \<lfloor>d\<rfloor>)"
proof -
  show c: "double2ulonglong d = Some (word_of_int \<lfloor>d\<rfloor>)"
    using assms by (simp add: double2ulonglong_def cast_ulonglong_def)
  show "my_double2ulonglong d = double2ulonglong d"
  proof (cases "two_63 \<le> d")
    case True
    have "\<lfloor>d - two_63\<rfloor> = \<lfloor>d\<rfloor> - 2 ^ 63"
      using floor_diff_of_int [of d "2 ^ 63"] by (simp add: two_63_def)
    then have "cast_ulonglong (d - two_63) = Some (word_of_int (\<lfloor>d\<rfloor> - 2 ^ 63))"
      using True assms(3) by (simp add: cast_ulonglong_def two_63_def two_64_def)
    then show ?thesis
      using True unfolding my_double2ulonglong_def Let_def to_double_large [OF assms(1) True assms(3)] c
      by (simp add: two_63_def)
  next
    case False
    then have "to_double (d - two_63) < 0" by (intro to_double_negative) simp
    then show ?thesis by (simp add: my_double2ulonglong_def double2ulonglong_def)
  qed
qed

lemma ulonglong_roundtrip:
  assumes "is_double (of_int (uint v))"
  shows "my_double2ulonglong (my_ulonglong2double v) = Some v"
proof -
  have "uint v < 2 ^ 64" using uint_lt2p [of v] by simp
  then have "(of_int (uint v) :: rat) < of_int (2 ^ 64)" by (simp only: of_int_less_iff)
  then have "0 \<le> (of_int (uint v) :: rat)" "of_int (uint v) < two_64" by (simp_all add: two_64_def del: of_int_uint)
  then show ?thesis
    using double2ulonglong_agree [OF assms] by (simp only: ulonglong_exact [OF assms] floor_of_int word_of_int_uint)
qed

end
