(* ===== verification/Error_Tables.thy ===== *)
theory Error_Tables
  imports Error_Defines Error_Names Engine_Prelude "HOL-Library.Sublist"
begin

text \<open>
  The errors of the MySQL headers: the tables of the server's errors agree with each other, and the
  macro \<open>ER\<close> of \<^verbatim>\<open>errmsg.h\<close> looks up the errors of the client.
\<close>

section \<open>Formats\<close>

text \<open>
  The syntax of format strings that \<^verbatim>\<open>service_my_snprintf.h\<close> documents:
  \<open>% <flag> <width> <precision> <length modifier> <format>\<close>, everything but the format
  optional. \<open>directive s\<close> is what follows a directive at the front of \<open>s\<close>.
\<close>

definition format_flag :: "char \<Rightarrow> bool" where
  "format_flag c \<longleftrightarrow> c = CHR ''0'' \<or> c = CHR ''-'' \<or> c = CHR 0x60"

definition format_digit :: "char \<Rightarrow> bool" where
  "format_digit c \<longleftrightarrow> c \<in> set ''0123456789''"

definition format_number :: "string \<Rightarrow> string" where
  "format_number s = (case s of c # r \<Rightarrow> if c = CHR ''*'' then r else dropWhile format_digit s | [] \<Rightarrow> [])"

definition format_precision :: "string \<Rightarrow> string" where
  "format_precision s = (case s of c # r \<Rightarrow> if c = CHR ''.'' then format_number r else s | [] \<Rightarrow> [])"

definition format_length :: "string \<Rightarrow> string" where
  "format_length s = (case s of
     c # r \<Rightarrow> if c = CHR ''z'' then r
       else if c = CHR ''l'' then (case r of d # r' \<Rightarrow> if d = CHR ''l'' then r' else r | [] \<Rightarrow> []) else s
   | [] \<Rightarrow> [])"

definition directive :: "string \<Rightarrow> string option" where
  "directive s = (case format_length (format_precision (format_number (dropWhile format_flag s))) of
     c # r \<Rightarrow> if c \<in> set ''sdubcixoXp'' then Some r else None
   | [] \<Rightarrow> None)"

lemma format_number_le: "length (format_number s) \<le> length s"
  using length_dropWhile_le [of format_digit s] by (auto simp: format_number_def split: list.split)

lemma format_precision_le: "length (format_precision s) \<le> length s"
  using format_number_le by (auto simp: format_precision_def le_SucI split: list.split)

lemma format_length_le: "length (format_length s) \<le> length s"
  by (auto simp: format_length_def split: list.split)

lemma directive_shorter:
  assumes "directive s = Some r"
  shows "length r < length s"
proof -
  let ?t = "format_length (format_precision (format_number (dropWhile format_flag s)))"
  have "length ?t \<le> length s"
    using format_length_le format_precision_le format_number_le length_dropWhile_le by (meson le_trans)
  moreover have "length r < length ?t"
    using assms by (auto simp: directive_def split: list.splits if_splits)
  ultimately show ?thesis by simp
qed

function format_ok :: "string \<Rightarrow> bool" where
  "format_ok [] = True"
| "format_ok (c # s) = (if c = CHR ''%'' then (case directive s of None \<Rightarrow> False | Some r \<Rightarrow> format_ok r) else format_ok s)"
  by pat_completeness auto
termination by (relation "measure length") (auto dest: directive_shorter)

fun is_percent :: "char \<Rightarrow> bool" where
  "is_percent (Char False b1 b2 b3 b4 b5 b6 b7) = False"
| "is_percent (Char True True b2 b3 b4 b5 b6 b7) = False"
| "is_percent (Char True False False b3 b4 b5 b6 b7) = False"
| "is_percent (Char True False True True b4 b5 b6 b7) = False"
| "is_percent (Char True False True False b4 b5 b6 b7) = (\<not> b4 \<and> b5 \<and> \<not> b6 \<and> \<not> b7)"

lemma is_percent: "c = CHR ''%'' \<longleftrightarrow> is_percent c"
  by (cases c rule: is_percent.cases) auto

lemma format_ok_code [code]:
  "format_ok [] \<longleftrightarrow> True"
  "format_ok (c # s) \<longleftrightarrow> (if is_percent c then (case directive s of None \<Rightarrow> False | Some r \<Rightarrow> format_ok r) else format_ok s)"
  by (simp_all add: is_percent)

section \<open>The errors of the client\<close>

definition CR_MIN_ERROR :: int where "CR_MIN_ERROR = 2000"
definition CR_MAX_ERROR :: int where "CR_MAX_ERROR = 2999"
definition CR_ERROR_FIRST :: int where "CR_ERROR_FIRST = 2000"
definition CR_ERROR_LAST :: int where "CR_ERROR_LAST = 2062"
definition CR_UNKNOWN_ERROR :: int where "CR_UNKNOWN_ERROR = 2000"

definition cr_defines :: "(string \<times> nat) list" where
  "cr_defines =
    [(''CR_UNKNOWN_ERROR'', 2000),
     (''CR_SOCKET_CREATE_ERROR'', 2001),
     (''CR_CONNECTION_ERROR'', 2002),
     (''CR_CONN_HOST_ERROR'', 2003),
     (''CR_IPSOCK_ERROR'', 2004),
     (''CR_UNKNOWN_HOST'', 2005),
     (''CR_SERVER_GONE_ERROR'', 2006),
     (''CR_VERSION_ERROR'', 2007),
     (''CR_OUT_OF_MEMORY'', 2008),
     (''CR_WRONG_HOST_INFO'', 2009),
     (''CR_LOCALHOST_CONNECTION'', 2010),
     (''CR_TCP_CONNECTION'', 2011),
     (''CR_SERVER_HANDSHAKE_ERR'', 2012),
     (''CR_SERVER_LOST'', 2013),
     (''CR_COMMANDS_OUT_OF_SYNC'', 2014),
     (''CR_NAMEDPIPE_CONNECTION'', 2015),
     (''CR_NAMEDPIPEWAIT_ERROR'', 2016),
     (''CR_NAMEDPIPEOPEN_ERROR'', 2017),
     (''CR_NAMEDPIPESETSTATE_ERROR'', 2018),
     (''CR_CANT_READ_CHARSET'', 2019),
     (''CR_NET_PACKET_TOO_LARGE'', 2020),
     (''CR_EMBEDDED_CONNECTION'', 2021),
     (''CR_PROBE_SLAVE_STATUS'', 2022),
     (''CR_PROBE_SLAVE_HOSTS'', 2023),
     (''CR_PROBE_SLAVE_CONNECT'', 2024),
     (''CR_PROBE_MASTER_CONNECT'', 2025),
     (''CR_SSL_CONNECTION_ERROR'', 2026),
     (''CR_MALFORMED_PACKET'', 2027),
     (''CR_WRONG_LICENSE'', 2028),
     (''CR_NULL_POINTER'', 2029),
     (''CR_NO_PREPARE_STMT'', 2030),
     (''CR_PARAMS_NOT_BOUND'', 2031),
     (''CR_DATA_TRUNCATED'', 2032),
     (''CR_NO_PARAMETERS_EXISTS'', 2033),
     (''CR_INVALID_PARAMETER_NO'', 2034),
     (''CR_INVALID_BUFFER_USE'', 2035),
     (''CR_UNSUPPORTED_PARAM_TYPE'', 2036),
     (''CR_SHARED_MEMORY_CONNECTION'', 2037),
     (''CR_SHARED_MEMORY_CONNECT_REQUEST_ERROR'', 2038),
     (''CR_SHARED_MEMORY_CONNECT_ANSWER_ERROR'', 2039),
     (''CR_SHARED_MEMORY_CONNECT_FILE_MAP_ERROR'', 2040),
     (''CR_SHARED_MEMORY_CONNECT_MAP_ERROR'', 2041),
     (''CR_SHARED_MEMORY_FILE_MAP_ERROR'', 2042),
     (''CR_SHARED_MEMORY_MAP_ERROR'', 2043),
     (''CR_SHARED_MEMORY_EVENT_ERROR'', 2044),
     (''CR_SHARED_MEMORY_CONNECT_ABANDONED_ERROR'', 2045),
     (''CR_SHARED_MEMORY_CONNECT_SET_ERROR'', 2046),
     (''CR_CONN_UNKNOW_PROTOCOL'', 2047),
     (''CR_INVALID_CONN_HANDLE'', 2048),
     (''CR_UNUSED_1'', 2049),
     (''CR_FETCH_CANCELED'', 2050),
     (''CR_NO_DATA'', 2051),
     (''CR_NO_STMT_METADATA'', 2052),
     (''CR_NO_RESULT_SET'', 2053),
     (''CR_NOT_IMPLEMENTED'', 2054),
     (''CR_SERVER_LOST_EXTENDED'', 2055),
     (''CR_STMT_CLOSED'', 2056),
     (''CR_NEW_STMT_METADATA'', 2057),
     (''CR_ALREADY_CONNECTED'', 2058),
     (''CR_AUTH_PLUGIN_CANNOT_LOAD'', 2059),
     (''CR_DUPLICATE_CONNECTION_ATTR'', 2060),
     (''CR_AUTH_PLUGIN_ERR'', 2061),
     (''CR_INSECURE_API_ERR'', 2062)]"

text \<open>The array \<open>client_errors\<close> is in the library. An index outside it is a fault.\<close>

definition error_text :: "bytes list \<Rightarrow> int \<Rightarrow> bytes res" where
  "error_text a i = (if 0 \<le> i \<and> i < int (length a) then Inr (a ! nat i) else Inl Out_Of_Bounds)"

definition ER :: "bytes list \<Rightarrow> int \<Rightarrow> bytes res" where
  "ER client_errors X =
     (if X \<ge> CR_ERROR_FIRST \<and> X \<le> CR_ERROR_LAST then error_text client_errors (X - CR_ERROR_FIRST)
      else error_text client_errors CR_UNKNOWN_ERROR)"

text \<open>One text for every number from the first to the last.\<close>

definition one_text_each :: "bytes list \<Rightarrow> bool" where
  "one_text_each a \<longleftrightarrow> int (length a) = CR_ERROR_LAST - CR_ERROR_FIRST + 1"

lemma ER_spec:
  assumes "one_text_each a"
  shows "ER a X = (if CR_ERROR_FIRST \<le> X \<and> X \<le> CR_ERROR_LAST then Inr (a ! nat (X - CR_ERROR_FIRST)) else Inl Out_Of_Bounds)"
  using assms by (auto simp: ER_def error_text_def one_text_each_def CR_ERROR_FIRST_def CR_ERROR_LAST_def CR_UNKNOWN_ERROR_def)

text \<open>The numbers of the client are consecutive, from the first to the last.\<close>

lemma cr_defines_codes: "map snd cr_defines = [nat CR_ERROR_FIRST..<nat CR_ERROR_LAST + 1]"
  by (simp add: cr_defines_def CR_ERROR_FIRST_def CR_ERROR_LAST_def upt_rec_numeral)

section \<open>The errors of the server\<close>

text \<open>The tables are checked part by part: the numbers are consecutive, both files name the same errors.\<close>

lemma er_codes_1: "map snd er_defines_1 = [1000..<1135]"
  by (simp add: er_defines_1_def upt_rec_numeral)

lemma er_names_1_defines: "map (\<lambda>(n, c, t). (n, c)) er_names_1 = er_defines_1"
  by (simp only: er_names_1_def er_defines_1_def list.map prod.case)

lemma er_formats_1: "list_all (\<lambda>(n, c, t). format_ok t) er_names_1"
  by (simp only: er_names_1_def list.pred_inject prod.case) (intro conjI TrueI; code_simp)

lemma er_codes_2: "map snd er_defines_2 = [1135..<1270]"
  by (simp add: er_defines_2_def upt_rec_numeral)

lemma er_names_2_defines: "map (\<lambda>(n, c, t). (n, c)) er_names_2 = er_defines_2"
  by (simp only: er_names_2_def er_defines_2_def list.map prod.case)

lemma er_formats_2: "list_all (\<lambda>(n, c, t). format_ok t) er_names_2"
  by (simp only: er_names_2_def list.pred_inject prod.case) (intro conjI TrueI; code_simp)

lemma er_codes_3: "map snd er_defines_3 = [1270..<1405]"
  by (simp add: er_defines_3_def upt_rec_numeral)

lemma er_names_3_defines: "map (\<lambda>(n, c, t). (n, c)) er_names_3 = er_defines_3"
  by (simp only: er_names_3_def er_defines_3_def list.map prod.case)

lemma er_formats_3: "list_all (\<lambda>(n, c, t). format_ok t) er_names_3"
  by (simp only: er_names_3_def list.pred_inject prod.case) (intro conjI TrueI; code_simp)

lemma er_codes_4: "map snd er_defines_4 = [1405..<1540]"
  by (simp add: er_defines_4_def upt_rec_numeral)

lemma er_names_4_defines: "map (\<lambda>(n, c, t). (n, c)) er_names_4 = er_defines_4"
  by (simp only: er_names_4_def er_defines_4_def list.map prod.case)

lemma er_formats_4: "list_all (\<lambda>(n, c, t). format_ok t) er_names_4"
  by (simp only: er_names_4_def list.pred_inject prod.case) (intro conjI TrueI; code_simp)

lemma er_codes_5: "map snd er_defines_5 = [1540..<1675]"
  by (simp add: er_defines_5_def upt_rec_numeral)

lemma er_names_5_defines: "map (\<lambda>(n, c, t). (n, c)) er_names_5 = er_defines_5"
  by (simp only: er_names_5_def er_defines_5_def list.map prod.case)

lemma er_formats_5: "list_all (\<lambda>(n, c, t). format_ok t) er_names_5"
  by (simp only: er_names_5_def list.pred_inject prod.case) (intro conjI TrueI; code_simp)

lemma er_codes_6: "map snd er_defines_6 = [1675..<1810]"
  by (simp add: er_defines_6_def upt_rec_numeral)

lemma er_names_6_defines: "map (\<lambda>(n, c, t). (n, c)) er_names_6 = er_defines_6"
  by (simp only: er_names_6_def er_defines_6_def list.map prod.case)

lemma er_formats_6: "list_all (\<lambda>(n, c, t). format_ok t) er_names_6"
  by (simp only: er_names_6_def list.pred_inject prod.case) (intro conjI TrueI; code_simp)

lemma er_codes_7: "map snd er_defines_7 = [1810..<1886] @ [3000..<3059]"
  by (simp add: er_defines_7_def upt_rec_numeral)

lemma er_names_7_defines: "map (\<lambda>(n, c, t). (n, c)) er_names_7 = er_defines_7"
  by (simp only: er_names_7_def er_defines_7_def list.map prod.case)

lemma er_formats_7: "list_all (\<lambda>(n, c, t). format_ok t) er_names_7"
  by (simp only: er_names_7_def list.pred_inject prod.case) (intro conjI TrueI; code_simp)

lemma er_codes_8: "map snd er_defines_8 = [3059..<3194]"
  by (simp add: er_defines_8_def upt_rec_numeral)

lemma er_names_8_defines: "map (\<lambda>(n, c, t). (n, c)) er_names_8 = er_defines_8"
  by (simp only: er_names_8_def er_defines_8_def list.map prod.case)

lemma er_formats_8: "list_all (\<lambda>(n, c, t). format_ok t) er_names_8"
  by (simp only: er_names_8_def list.pred_inject prod.case) (intro conjI TrueI; code_simp)

text \<open>A state has five characters.\<close>

definition sql_state_form :: "string \<Rightarrow> bool" where
  "sql_state_form s \<longleftrightarrow> length s = 5"

text \<open>The errors of \<open>sql_state.h\<close> are errors of \<open>mysqld_error.h\<close>, in the same order: a list of gaps selects them.\<close>

fun select :: "nat list \<Rightarrow> 'a list \<Rightarrow> 'a list" and select_at :: "nat list \<Rightarrow> 'a list \<Rightarrow> 'a list" where
  "select [] xs = []"
| "select (n # ns) xs = select_at ns (drop n xs)"
| "select_at ns [] = []"
| "select_at ns (x # xs) = x # select ns xs"

lemma subseq_select: "subseq (select ns xs) xs" "subseq (select_at ns xs) xs"
proof (induction ns xs and ns xs rule: select_select_at.induct)
  case (2 n ns xs)
  from subseq_order.order_trans [OF 2 suffix_imp_subseq [OF suffix_drop]] show ?case by simp
qed auto

lemma drop_pred: "drop 1 (x # xs) = xs" "drop (numeral v) (x # xs) = drop (pred_numeral v) xs"
  by (simp_all add: numeral_eq_Suc)

lemmas select_steps = select.simps select_at.simps drop_0 drop_pred pred_numeral_simps
  BitM.simps numeral_One

lemma sql_states_1_select:
  "map fst sql_states_1 = select
     [22, 14, 0, 1, 1, 0, 0, 0, 0, 0, 0, 0, 0, 0, 0, 0, 0, 0, 0, 0, 0, 0, 0, 0, 0, 0, 0, 0, 0, 0, 0, 0, 0, 0, 0, 0,
      0, 0, 4, 0, 0, 0, 0, 5, 0, 9, 0, 0, 0, 1, 0, 1, 0, 1, 0, 1, 2, 1, 0, 9, 0, 0]
     (map fst er_defines_1)"
  by (simp only: sql_states_1_def er_defines_1_def list.map fst_conv select_steps)

lemma sql_states_1_form: "list_all (\<lambda>(n, q, j). sql_state_form q \<and> (j = [] \<or> sql_state_form j)) sql_states_1"
  by (simp add: sql_states_1_def sql_state_form_def)

lemma sql_states_2_select:
  "map fst sql_states_2 = select
     [1, 1, 0, 0, 0, 0, 0, 0, 0, 0, 0, 0, 0, 2, 0, 0, 0, 0, 0, 0, 0, 0, 0, 0, 0, 0, 1, 0, 1, 0, 0, 0, 0, 2, 0, 0, 0,
      4, 4, 0, 12, 3, 3, 1, 2, 0, 0, 3, 3, 0, 2, 0, 0, 1, 0, 3, 1, 0, 4, 0, 0, 0, 0, 0, 0, 7, 0, 0, 0, 0]
     (map fst er_defines_2)"
  by (simp only: sql_states_2_def er_defines_2_def list.map fst_conv select_steps)

lemma sql_states_2_form: "list_all (\<lambda>(n, q, j). sql_state_form q \<and> (j = [] \<or> sql_state_form j)) sql_states_2"
  by (simp add: sql_states_2_def sql_state_form_def)

lemma sql_states_3_select:
  "map fst sql_states_3 = select
     [10, 0, 4, 5, 10, 0, 0, 2, 0, 0, 0, 0, 0, 0, 0, 0, 0, 0, 0, 0, 0, 0, 0, 0, 0, 0, 0, 1, 0, 0, 0, 0, 1, 0, 0, 0,
      0, 25, 1, 2, 26, 0, 0, 0, 0, 0, 0]
     (map fst er_defines_3)"
  by (simp only: sql_states_3_def er_defines_3_def list.map fst_conv select_steps)

lemma sql_states_3_form: "list_all (\<lambda>(n, q, j). sql_state_form q \<and> (j = [] \<or> sql_state_form j)) sql_states_3"
  by (simp add: sql_states_3_def sql_state_form_def)

lemma sql_states_4_select:
  "map fst sql_states_4 = select
     [1, 0, 2, 2, 0, 0, 0, 8, 0, 0, 9, 1, 0, 0, 9, 0, 0, 4, 1, 0, 1]
     (map fst er_defines_4)"
  by (simp only: sql_states_4_def er_defines_4_def list.map fst_conv select_steps)

lemma sql_states_4_form: "list_all (\<lambda>(n, q, j). sql_state_form q \<and> (j = [] \<or> sql_state_form j)) sql_states_4"
  by (simp add: sql_states_4_def sql_state_form_def)

lemma sql_states_5_select:
  "map fst sql_states_5 = select
     [17, 10, 13, 0, 0, 1, 26, 0, 15, 10, 0, 0, 0, 0]
     (map fst er_defines_5)"
  by (simp only: sql_states_5_def er_defines_5_def list.map fst_conv select_steps)

lemma sql_states_5_form: "list_all (\<lambda>(n, q, j). sql_state_form q \<and> (j = [] \<or> sql_state_form j)) sql_states_5"
  by (simp add: sql_states_5_def sql_state_form_def)

lemma sql_states_6_select:
  "map fst sql_states_6 = select
     [12, 2, 7, 2, 56, 2, 0, 29]
     (map fst er_defines_6)"
  by (simp only: sql_states_6_def er_defines_6_def list.map fst_conv select_steps)

lemma sql_states_6_form: "list_all (\<lambda>(n, q, j). sql_state_form q \<and> (j = [] \<or> sql_state_form j)) sql_states_6"
  by (simp add: sql_states_6_def sql_state_form_def)

lemma sql_states_7_select:
  "map fst sql_states_7 = select
     [35, 0, 12, 13, 16, 15, 16, 19]
     (map fst er_defines_7)"
  by (simp only: sql_states_7_def er_defines_7_def list.map fst_conv select_steps)

lemma sql_states_7_form: "list_all (\<lambda>(n, q, j). sql_state_form q \<and> (j = [] \<or> sql_state_form j)) sql_states_7"
  by (simp add: sql_states_7_def sql_state_form_def)

lemma sql_states_8_select:
  "map fst sql_states_8 = select
     [2, 6, 50, 11, 8, 0, 1, 0, 0, 0, 0, 0, 0, 0, 0, 0, 0, 0, 0, 0, 0, 0, 6]
     (map fst er_defines_8)"
  by (simp only: sql_states_8_def er_defines_8_def list.map fst_conv select_steps)

lemma sql_states_8_form: "list_all (\<lambda>(n, q, j). sql_state_form q \<and> (j = [] \<or> sql_state_form j)) sql_states_8"
  by (simp add: sql_states_8_def sql_state_form_def)

text \<open>The tables as a whole.\<close>

lemma upt_parts:
  "a \<le> b \<Longrightarrow> b \<le> c \<Longrightarrow> [a..<b] @ [b..<c] = [a..<c]"
  "a \<le> b \<Longrightarrow> b \<le> c \<Longrightarrow> [a..<b] @ [b..<c] @ xs = [a..<c] @ xs"
  by (metis le_Suc_ex upt_add_eq_append, metis append.assoc le_Suc_ex upt_add_eq_append)

lemma er_codes:
  "map snd er_defines = concat (map (\<lambda>(s, n). [s..<s + n]) (zip errmsg_section_start errmsg_section_size))"
proof -
  have "map snd er_defines = [1000..<1886] @ [3000..<3194]"
    by (simp add: er_defines_def er_codes_1 er_codes_2 er_codes_3 er_codes_4 er_codes_5 er_codes_6 er_codes_7 er_codes_8 upt_parts del: upt_rec_numeral)
  also have "\<dots> = concat (map (\<lambda>(s, n). [s..<s + n]) (zip errmsg_section_start errmsg_section_size))"
    by (simp add: errmsg_section_start_def errmsg_section_size_def del: upt_rec_numeral)
  finally show ?thesis .
qed

lemma er_names_defines: "map (\<lambda>(n, c, t). (n, c)) er_names = er_defines"
  by (simp only: er_names_def er_defines_def map_append er_names_1_defines er_names_2_defines er_names_3_defines er_names_4_defines er_names_5_defines er_names_6_defines er_names_7_defines er_names_8_defines)

lemma er_formats: "list_all (\<lambda>(n, c, t). format_ok t) er_names"
  by (simp only: er_names_def list_all_append er_formats_1 er_formats_2 er_formats_3 er_formats_4 er_formats_5 er_formats_6 er_formats_7 er_formats_8 simp_thms)

lemma sql_states_subseq: "subseq (map fst sql_states) (map fst er_defines)"
  unfolding sql_states_def er_defines_def map_append sql_states_1_select sql_states_2_select sql_states_3_select sql_states_4_select sql_states_5_select sql_states_6_select sql_states_7_select sql_states_8_select
  by (intro list_emb_append_mono subseq_select)

lemma sql_states_form: "list_all (\<lambda>(n, q, j). sql_state_form q \<and> (j = [] \<or> sql_state_form j)) sql_states"
  by (simp only: sql_states_def list_all_append sql_states_1_form sql_states_2_form sql_states_3_form sql_states_4_form sql_states_5_form sql_states_6_form sql_states_7_form sql_states_8_form simp_thms)

end
