(* ===== verification/Ssl_Options.thy ===== *)
theory Ssl_Options
  imports Engine_Prelude
begin

text \<open>
  The SSL options of the MySQL clients: the rows of \<^verbatim>\<open>sslopt-longopts.h\<close>, the variables and
  \<open>set_client_ssl_options\<close> of \<^verbatim>\<open>sslopt-vars.h\<close>, and the cases of
  \<^verbatim>\<open>sslopt-case.h\<close>, as the client compiles them with OpenSSL; \<open>yassl\<close> is
  \<open>HAVE_YASSL\<close>. \<open>handle_options\<close> and \<open>find_type_or_exit\<close> are in the library.
\<close>

section \<open>The modes\<close>

definition SSL_MODE_DISABLED :: "32 word" where "SSL_MODE_DISABLED = 1"
definition SSL_MODE_PREFERRED :: "32 word" where "SSL_MODE_PREFERRED = 2"
definition SSL_MODE_REQUIRED :: "32 word" where "SSL_MODE_REQUIRED = 3"
definition SSL_MODE_VERIFY_CA :: "32 word" where "SSL_MODE_VERIFY_CA = 4"
definition SSL_MODE_VERIFY_IDENTITY :: "32 word" where "SSL_MODE_VERIFY_IDENTITY = 5"

lemmas ssl_modes = SSL_MODE_DISABLED_def SSL_MODE_PREFERRED_def SSL_MODE_REQUIRED_def SSL_MODE_VERIFY_CA_def
  SSL_MODE_VERIFY_IDENTITY_def

definition ssl_mode_names_lib :: "bytes list" where
  "ssl_mode_names_lib = [''DISABLED'', ''PREFERRED'', ''REQUIRED'', ''VERIFY_CA'', ''VERIFY_IDENTITY'']"

section \<open>The table of options\<close>

datatype ssl_id = OPT_SSL_MODE | OPT_SSL_SSL | OPT_SSL_VERIFY_SERVER_CERT | OPT_SSL_CA | OPT_SSL_CAPATH
  | OPT_SSL_CERT | OPT_SSL_CIPHER | OPT_SSL_KEY | OPT_SSL_CRL | OPT_SSL_CRLPATH | OPT_TLS_VERSION

datatype ssl_place = At_use_ssl_arg | At_verify_server_cert_arg | At_ca | At_capath | At_cert | At_cipher | At_key
  | At_crl | At_crlpath | At_tls_version

datatype get_opt_arg_type = NO_ARG | OPT_ARG | REQUIRED_ARG

definition GET_BOOL :: nat where "GET_BOOL = 2"
definition GET_STR :: nat where "GET_STR = 9"

text \<open>
  A row of \<open>struct my_option\<close>; the pointer \<open>u_max_value\<close> is the same as \<open>value\<close> in
  every row, the fields that are 0 in every row are left out.
\<close>

record my_option =
  opt_name :: bytes
  opt_id :: ssl_id
  opt_comment :: bytes
  opt_value :: "ssl_place option"
  opt_var_type :: nat
  opt_arg_type :: get_opt_arg_type
  opt_def_value :: int

definition text_option :: "bytes \<Rightarrow> ssl_id \<Rightarrow> bytes \<Rightarrow> ssl_place option \<Rightarrow> my_option" where
  "text_option n i c p = \<lparr>opt_name = n, opt_id = i, opt_comment = c, opt_value = p, opt_var_type = GET_STR,
     opt_arg_type = REQUIRED_ARG, opt_def_value = 0\<rparr>"

definition bool_option :: "bytes \<Rightarrow> ssl_id \<Rightarrow> bytes \<Rightarrow> ssl_place option \<Rightarrow> int \<Rightarrow> my_option" where
  "bool_option n i c p d = \<lparr>opt_name = n, opt_id = i, opt_comment = c, opt_value = p, opt_var_type = GET_BOOL,
     opt_arg_type = OPT_ARG, opt_def_value = d\<rparr>"

definition ssl_longopts :: "bool \<Rightarrow> my_option list" where
  "ssl_longopts yassl =
    [text_option ''ssl-mode'' OPT_SSL_MODE ''SSL connection mode.'' None,
     bool_option ''ssl'' OPT_SSL_SSL ''Deprecated. Use --ssl-mode instead.'' (Some At_use_ssl_arg) 1,
     bool_option ''ssl-verify-server-cert'' OPT_SSL_VERIFY_SERVER_CERT
       ''Deprecated. Use --ssl-mode=VERIFY_IDENTITY instead.'' (Some At_verify_server_cert_arg) 0,
     text_option ''ssl-ca'' OPT_SSL_CA ''CA file in PEM format.'' (Some At_ca),
     text_option ''ssl-capath'' OPT_SSL_CAPATH ''CA directory.'' (Some At_capath),
     text_option ''ssl-cert'' OPT_SSL_CERT ''X509 cert in PEM format.'' (Some At_cert),
     text_option ''ssl-cipher'' OPT_SSL_CIPHER ''SSL cipher to use.'' (Some At_cipher),
     text_option ''ssl-key'' OPT_SSL_KEY ''X509 key in PEM format.'' (Some At_key),
     text_option ''ssl-crl'' OPT_SSL_CRL ''Certificate revocation list.'' (Some At_crl),
     text_option ''ssl-crlpath'' OPT_SSL_CRLPATH ''Certificate revocation list path.'' (Some At_crlpath),
     text_option ''tls-version'' OPT_TLS_VERSION
       (''TLS version to use, '' @ (if yassl then ''permitted values are: TLSv1, TLSv1.1''
                                    else ''permitted values are: TLSv1, TLSv1.1, TLSv1.2'')) (Some At_tls_version)]"

section \<open>The variables\<close>

text \<open>\<open>ssl_deprecated\<close> is the list of warnings \<open>CLIENT_WARN_DEPRECATED\<close> was called for.\<close>

record ssl_vars =
  opt_ssl_mode :: "32 word"
  opt_ssl_ca :: "bytes option"
  opt_ssl_capath :: "bytes option"
  opt_ssl_cert :: "bytes option"
  opt_ssl_cipher :: "bytes option"
  opt_ssl_key :: "bytes option"
  opt_ssl_crl :: "bytes option"
  opt_ssl_crlpath :: "bytes option"
  opt_tls_version :: "bytes option"
  ssl_mode_set_explicitly :: bool
  opt_use_ssl_arg :: bool
  opt_ssl_verify_server_cert_arg :: bool
  ssl_deprecated :: "(bytes \<times> bytes) list"

definition ssl_vars_init :: ssl_vars where
  "ssl_vars_init = \<lparr>opt_ssl_mode = SSL_MODE_PREFERRED, opt_ssl_ca = None, opt_ssl_capath = None,
     opt_ssl_cert = None, opt_ssl_cipher = None, opt_ssl_key = None, opt_ssl_crl = None, opt_ssl_crlpath = None,
     opt_tls_version = None, ssl_mode_set_explicitly = False, opt_use_ssl_arg = True,
     opt_ssl_verify_server_cert_arg = False, ssl_deprecated = []\<rparr>"

section \<open>The cases\<close>

definition CLIENT_WARN_DEPRECATED :: "bytes \<Rightarrow> bytes \<Rightarrow> ssl_vars \<Rightarrow> ssl_vars" where
  "CLIENT_WARN_DEPRECATED opt new_opt s = s\<lparr>ssl_deprecated := ssl_deprecated s @ [(opt, new_opt)]\<rparr>"

definition ssl_case :: "(bytes option \<Rightarrow> bytes list \<Rightarrow> bytes \<Rightarrow> int res) \<Rightarrow> bool \<Rightarrow> my_option \<Rightarrow> bytes option \<Rightarrow>
    ssl_vars \<Rightarrow> ssl_vars res" where
  "ssl_case find_type_or_exit yassl opt argument s = (case opt_id opt of
     OPT_SSL_MODE \<Rightarrow> rbind (find_type_or_exit argument ssl_mode_names_lib (opt_name opt)) (\<lambda>n.
       Inr (s\<lparr>opt_ssl_mode := word_of_int n, ssl_mode_set_explicitly := True\<rparr>))
   | OPT_SSL_SSL \<Rightarrow>
       let s = CLIENT_WARN_DEPRECATED ''--ssl'' ''--ssl-mode'' s in
       if \<not> opt_use_ssl_arg s then Inr (s\<lparr>opt_ssl_mode := SSL_MODE_DISABLED\<rparr>)
       else if opt_ssl_mode s < SSL_MODE_REQUIRED then Inr (s\<lparr>opt_ssl_mode := SSL_MODE_REQUIRED\<rparr>)
       else Inr s
   | OPT_SSL_VERIFY_SERVER_CERT \<Rightarrow>
       let s = CLIENT_WARN_DEPRECATED ''--ssl-verify-server-cert'' ''--ssl-mode=VERIFY_IDENTITY'' s in
       if \<not> opt_ssl_verify_server_cert_arg s then
         if opt_ssl_mode s \<ge> SSL_MODE_VERIFY_IDENTITY then Inr (s\<lparr>opt_ssl_mode := SSL_MODE_VERIFY_CA\<rparr>)
         else Inr s
       else Inr (s\<lparr>opt_ssl_mode := SSL_MODE_VERIFY_IDENTITY\<rparr>)
   | i \<Rightarrow> if i \<in> {OPT_SSL_CA, OPT_SSL_CAPATH} then
       if \<not> ssl_mode_set_explicitly s then Inr (s\<lparr>opt_ssl_mode := SSL_MODE_VERIFY_CA\<rparr>)
       else Inr s
     else if yassl then Inr (s\<lparr>opt_ssl_crl := None, opt_ssl_crlpath := None\<rparr>)
     else Inr s)"

section \<open>The use of the variables\<close>

datatype ssl_call =
    Printf bytes
  | Mysql_ssl_set "bytes option" "bytes option" "bytes option" "bytes option" "bytes option"
      \<comment> \<open>key, cert, ca, capath, cipher\<close>
  | Set_ssl_crl "bytes option" | Set_ssl_crlpath "bytes option" | Set_tls_version "bytes option"
  | Set_ssl_mode "32 word"

definition ssl_warning :: bytes where
  "ssl_warning = ''WARNING: no verification of server certificate will be done. '' @
     ''Use --ssl-mode=VERIFY_CA or VERIFY_IDENTITY.'' @ [CHR 0x0A]"

definition set_client_ssl_options :: "ssl_vars \<Rightarrow> ssl_call list" where
  "set_client_ssl_options s =
     (if ssl_mode_set_explicitly s \<and> opt_ssl_mode s < SSL_MODE_VERIFY_CA \<and>
         (opt_ssl_ca s \<noteq> None \<or> opt_ssl_capath s \<noteq> None) then [Printf ssl_warning] else []) @
     (if opt_ssl_mode s \<ge> SSL_MODE_VERIFY_CA
      then [Mysql_ssl_set (opt_ssl_key s) (opt_ssl_cert s) (opt_ssl_ca s) (opt_ssl_capath s) (opt_ssl_cipher s)]
      else [Mysql_ssl_set (opt_ssl_key s) (opt_ssl_cert s) None None (opt_ssl_cipher s)]) @
     [Set_ssl_crl (opt_ssl_crl s), Set_ssl_crlpath (opt_ssl_crlpath s), Set_tls_version (opt_tls_version s),
      Set_ssl_mode (opt_ssl_mode s)]"

section \<open>The options one after the other\<close>

text \<open>
  What \<^verbatim>\<open>my_getopt.h\<close> documents: the argument of an option is stored where its row points to,
  then the client is called for it. \<open>getopt_bool\<close> is how a flag is read. \<open>find_type_or_exit\<close>
  counts from one, and finds a full name.
\<close>

definition set_flag :: "ssl_place \<Rightarrow> bool \<Rightarrow> ssl_vars \<Rightarrow> ssl_vars" where
  "set_flag p b s = (case p of
     At_use_ssl_arg \<Rightarrow> s\<lparr>opt_use_ssl_arg := b\<rparr>
   | At_verify_server_cert_arg \<Rightarrow> s\<lparr>opt_ssl_verify_server_cert_arg := b\<rparr>
   | _ \<Rightarrow> s)"

definition set_text :: "ssl_place \<Rightarrow> bytes option \<Rightarrow> ssl_vars \<Rightarrow> ssl_vars" where
  "set_text p t s = (case p of
     At_ca \<Rightarrow> s\<lparr>opt_ssl_ca := t\<rparr> | At_capath \<Rightarrow> s\<lparr>opt_ssl_capath := t\<rparr> | At_cert \<Rightarrow> s\<lparr>opt_ssl_cert := t\<rparr>
   | At_cipher \<Rightarrow> s\<lparr>opt_ssl_cipher := t\<rparr> | At_key \<Rightarrow> s\<lparr>opt_ssl_key := t\<rparr> | At_crl \<Rightarrow> s\<lparr>opt_ssl_crl := t\<rparr>
   | At_crlpath \<Rightarrow> s\<lparr>opt_ssl_crlpath := t\<rparr> | At_tls_version \<Rightarrow> s\<lparr>opt_tls_version := t\<rparr> | _ \<Rightarrow> s)"

definition stores_arguments :: "(bytes option \<Rightarrow> bool) \<Rightarrow> (my_option \<Rightarrow> bytes option \<Rightarrow> ssl_vars \<Rightarrow> ssl_vars) \<Rightarrow> bool" where
  "stores_arguments getopt_bool store \<longleftrightarrow> (\<forall>opt a s. store opt a s = (case opt_value opt of
     None \<Rightarrow> s
   | Some p \<Rightarrow> if opt_var_type opt = GET_BOOL then set_flag p (getopt_bool a) s else set_text p a s))"

definition find_type_law :: "(bytes option \<Rightarrow> bytes list \<Rightarrow> bytes \<Rightarrow> int res) \<Rightarrow> bool" where
  "find_type_law find_type \<longleftrightarrow>
     (\<forall>x lib opt n. find_type x lib opt = Inr n \<longrightarrow> 1 \<le> n \<and> n \<le> int (length lib))
   \<and> (\<forall>lib opt i. i < length lib \<and> distinct lib \<longrightarrow> find_type (Some (lib ! i)) lib opt = Inr (int i + 1))"

type_synonym given = "my_option \<times> bytes option"

definition give_option :: "(my_option \<Rightarrow> bytes option \<Rightarrow> ssl_vars \<Rightarrow> ssl_vars) \<Rightarrow> (bytes option \<Rightarrow> bytes list \<Rightarrow> bytes \<Rightarrow> int res) \<Rightarrow>
    bool \<Rightarrow> given \<Rightarrow> ssl_vars \<Rightarrow> ssl_vars res" where
  "give_option store find_type yassl g s = ssl_case find_type yassl (fst g) (snd g) (store (fst g) (snd g) s)"

definition turns_off :: "(bytes option \<Rightarrow> bool) \<Rightarrow> given \<Rightarrow> bool" where
  "turns_off getopt_bool g \<longleftrightarrow> opt_id (fst g) = OPT_SSL_SSL \<and> \<not> getopt_bool (snd g)"

section \<open>Invariants\<close>

definition valid_mode :: "ssl_vars \<Rightarrow> bool" where
  "valid_mode s \<longleftrightarrow> SSL_MODE_DISABLED \<le> opt_ssl_mode s \<and> opt_ssl_mode s \<le> SSL_MODE_VERIFY_IDENTITY"

text \<open>A certificate authority that was named is used, unless the mode was given explicitly.\<close>

definition authority_used :: "ssl_vars \<Rightarrow> bool" where
  "authority_used s \<longleftrightarrow> ssl_mode_set_explicitly s \<or> opt_ssl_ca s = None \<and> opt_ssl_capath s = None
     \<or> SSL_MODE_VERIFY_CA \<le> opt_ssl_mode s"

lemma init_invariants: "valid_mode ssl_vars_init" "authority_used ssl_vars_init"
  by (simp_all add: valid_mode_def authority_used_def ssl_vars_init_def ssl_modes)

lemma mode_of_name:
  assumes "1 \<le> n" "n \<le> (5 :: int)"
  shows "1 \<le> (word_of_int n :: 32 word)" "(word_of_int n :: 32 word) \<le> 5"
proof -
  have "n = 1 \<or> n = 2 \<or> n = 3 \<or> n = 4 \<or> n = 5" using assms by arith
  then show "1 \<le> (word_of_int n :: 32 word)" "(word_of_int n :: 32 word) \<le> 5" by auto
qed

lemma store_ssl:
  assumes "stores_arguments getopt_bool store" and "opt \<in> set (ssl_longopts yassl)"
  shows "store opt a s = (case opt_id opt of
     OPT_SSL_MODE \<Rightarrow> s
   | OPT_SSL_SSL \<Rightarrow> s\<lparr>opt_use_ssl_arg := getopt_bool a\<rparr>
   | OPT_SSL_VERIFY_SERVER_CERT \<Rightarrow> s\<lparr>opt_ssl_verify_server_cert_arg := getopt_bool a\<rparr>
   | OPT_SSL_CA \<Rightarrow> s\<lparr>opt_ssl_ca := a\<rparr> | OPT_SSL_CAPATH \<Rightarrow> s\<lparr>opt_ssl_capath := a\<rparr>
   | OPT_SSL_CERT \<Rightarrow> s\<lparr>opt_ssl_cert := a\<rparr> | OPT_SSL_CIPHER \<Rightarrow> s\<lparr>opt_ssl_cipher := a\<rparr>
   | OPT_SSL_KEY \<Rightarrow> s\<lparr>opt_ssl_key := a\<rparr> | OPT_SSL_CRL \<Rightarrow> s\<lparr>opt_ssl_crl := a\<rparr>
   | OPT_SSL_CRLPATH \<Rightarrow> s\<lparr>opt_ssl_crlpath := a\<rparr> | OPT_TLS_VERSION \<Rightarrow> s\<lparr>opt_tls_version := a\<rparr>)"
proof -
  have st: "store opt a s = (case opt_value opt of None \<Rightarrow> s
      | Some p \<Rightarrow> if opt_var_type opt = GET_BOOL then set_flag p (getopt_bool a) s else set_text p a s)"
    using assms(1) by (simp add: stores_arguments_def)
  show ?thesis
    using assms(2) unfolding st
    by (auto simp: ssl_longopts_def text_option_def bool_option_def set_flag_def set_text_def GET_BOOL_def GET_STR_def)
qed

lemma ssl_mode_found:
  assumes "find_type_law find_type" and "find_type a ssl_mode_names_lib n = Inr m"
  shows "SSL_MODE_DISABLED \<le> word_of_int m" "word_of_int m \<le> SSL_MODE_VERIFY_IDENTITY"
proof -
  have "1 \<le> m \<and> m \<le> int (length ssl_mode_names_lib)"
    using assms unfolding find_type_law_def by blast
  then show "SSL_MODE_DISABLED \<le> word_of_int m" "word_of_int m \<le> SSL_MODE_VERIFY_IDENTITY"
    using mode_of_name [of m] by (simp_all add: ssl_mode_names_lib_def ssl_modes)
qed

lemma give_option_valid_mode:
  assumes "stores_arguments getopt_bool store" "find_type_law find_type" "fst g \<in> set (ssl_longopts yassl)"
    and "valid_mode s" "give_option store find_type yassl g s = Inr s'"
  shows "valid_mode s'"
  using assms(4,5) ssl_mode_found [OF assms(2)]
  by (auto simp: give_option_def store_ssl [OF assms(1,3)] ssl_case_def valid_mode_def CLIENT_WARN_DEPRECATED_def
      ssl_modes Let_def res_simps split: ssl_id.splits if_splits)

lemma give_option_authority:
  assumes "stores_arguments getopt_bool store" "fst g \<in> set (ssl_longopts yassl)" "\<not> turns_off getopt_bool g"
    and "authority_used s" "give_option store find_type yassl g s = Inr s'"
  shows "authority_used s'"
  using assms(3-5)
  by (auto simp: give_option_def store_ssl [OF assms(1,2)] ssl_case_def authority_used_def turns_off_def
      CLIENT_WARN_DEPRECATED_def ssl_modes Let_def res_simps dest: le_less_trans split: ssl_id.splits if_splits)

lemma given_options_valid_mode:
  assumes "stores_arguments getopt_bool store" "find_type_law find_type"
    and "fst ` set gs \<subseteq> set (ssl_longopts yassl)"
    and "rfold (give_option store find_type yassl) gs ssl_vars_init = Inr s"
  shows "valid_mode s"
  by (rule rfold_invariant [where P = valid_mode, OF _ init_invariants(1) assms(4)])
    (use give_option_valid_mode [OF assms(1,2)] assms(3) in blast)

lemma given_options_authority:
  assumes "stores_arguments getopt_bool store"
    and "fst ` set gs \<subseteq> set (ssl_longopts yassl)" "\<not> list_ex (turns_off getopt_bool) gs"
    and "rfold (give_option store find_type yassl) gs ssl_vars_init = Inr s"
  shows "authority_used s"
proof (rule rfold_invariant [where P = authority_used, OF _ init_invariants(2) assms(4)])
  fix g t t'
  assume g: "g \<in> set gs" and t: "authority_used t" and step: "give_option store find_type yassl g t = Inr t'"
  have o: "fst g \<in> set (ssl_longopts yassl)" and off: "\<not> turns_off getopt_bool g"
    using g assms(2,3) by (auto simp: list_ex_iff)
  show "authority_used t'" by (rule give_option_authority [OF assms(1) o off t step])
qed

text \<open>The authorities reach the library, or the user is warned.\<close>

definition authority_honoured :: "ssl_vars \<Rightarrow> bool" where
  "authority_honoured s \<longleftrightarrow>
     opt_ssl_ca s = None \<and> opt_ssl_capath s = None
   \<or> Mysql_ssl_set (opt_ssl_key s) (opt_ssl_cert s) (opt_ssl_ca s) (opt_ssl_capath s) (opt_ssl_cipher s)
       \<in> set (set_client_ssl_options s)
   \<or> Printf ssl_warning \<in> set (set_client_ssl_options s)"

lemma authority_used_honoured: "authority_used s \<Longrightarrow> authority_honoured s"
  by (auto simp: authority_used_def authority_honoured_def set_client_ssl_options_def)

text \<open>An explicit mode is kept by the options that are not deprecated.\<close>

definition plain_option :: "given \<Rightarrow> bool" where
  "plain_option g \<longleftrightarrow> opt_id (fst g) \<notin> {OPT_SSL_MODE, OPT_SSL_SSL, OPT_SSL_VERIFY_SERVER_CERT}"

lemma plain_option_keeps_mode:
  assumes "stores_arguments getopt_bool store" "fst g \<in> set (ssl_longopts yassl)" "plain_option g"
    and "ssl_mode_set_explicitly s" "give_option store find_type yassl g s = Inr s'"
  shows "ssl_mode_set_explicitly s' \<and> opt_ssl_mode s' = opt_ssl_mode s"
  using assms(3-5)
  by (auto simp: give_option_def store_ssl [OF assms(1,2)] ssl_case_def plain_option_def split: ssl_id.splits if_splits)

lemma plain_options_keep_mode:
  assumes "stores_arguments getopt_bool store" "fst ` set gs \<subseteq> set (ssl_longopts yassl)" "list_all plain_option gs"
    and "ssl_mode_set_explicitly s" "rfold (give_option store find_type yassl) gs s = Inr s'"
  shows "opt_ssl_mode s' = opt_ssl_mode s"
proof -
  have "ssl_mode_set_explicitly s' \<and> opt_ssl_mode s' = opt_ssl_mode s"
  proof (rule rfold_invariant [where P = "\<lambda>t. ssl_mode_set_explicitly t \<and> opt_ssl_mode t = opt_ssl_mode s", OF _ _ assms(5)])
    fix g t t'
    assume g: "g \<in> set gs" and t: "ssl_mode_set_explicitly t \<and> opt_ssl_mode t = opt_ssl_mode s"
      and step: "give_option store find_type yassl g t = Inr t'"
    have o: "fst g \<in> set (ssl_longopts yassl)" and p: "plain_option g" using g assms(2,3) by (auto simp: list_all_iff)
    show "ssl_mode_set_explicitly t' \<and> opt_ssl_mode t' = opt_ssl_mode s"
      using plain_option_keeps_mode [OF assms(1) o p _ step] t by simp
  qed (use assms(4) in simp)
  then show ?thesis ..
qed

lemma explicit_mode_kept:
  assumes "stores_arguments getopt_bool store" "find_type_law find_type"
    and "fst ` set (gs @ (opt, Some (ssl_mode_names_lib ! i)) # hs) \<subseteq> set (ssl_longopts yassl)"
    and "opt_id opt = OPT_SSL_MODE" "i < 5" "list_all plain_option hs"
    and "rfold (give_option store find_type yassl) (gs @ (opt, Some (ssl_mode_names_lib ! i)) # hs) s0 = Inr s"
  shows "opt_ssl_mode s = of_nat i + 1"
proof -
  obtain t where t: "rfold (give_option store find_type yassl) hs t = Inr s"
    and m: "opt_ssl_mode t = of_nat i + 1" and e: "ssl_mode_set_explicitly t"
  proof -
    from assms(7) obtain r t where r: "give_option store find_type yassl (opt, Some (ssl_mode_names_lib ! i)) r = Inr t"
      and t: "rfold (give_option store find_type yassl) hs t = Inr s"
      by (auto simp: rfold_append res_simps)
    have "distinct ssl_mode_names_lib" "i < length ssl_mode_names_lib"
      using assms(5) by (simp_all add: ssl_mode_names_lib_def)
    then have f: "find_type (Some (ssl_mode_names_lib ! i)) ssl_mode_names_lib (opt_name opt) = Inr (int i + 1)"
      using assms(2) unfolding find_type_law_def by blast
    have o: "opt \<in> set (ssl_longopts yassl)" using assms(3) by simp
    show thesis
      by (rule that [OF t])
        (use r in \<open>auto simp: give_option_def store_ssl [OF assms(1) o] ssl_case_def assms(4) f\<close>)
  qed
  have "fst ` set hs \<subseteq> set (ssl_longopts yassl)" using assms(3) by auto
  from plain_options_keep_mode [OF assms(1) this assms(6) e t] m show ?thesis by simp
qed

section \<open>An instance, and two orders that lose a verification\<close>

definition flag_on :: "bytes option \<Rightarrow> bool" where
  "flag_on a \<longleftrightarrow> a \<noteq> Some ''0''"

definition store_in_place :: "my_option \<Rightarrow> bytes option \<Rightarrow> ssl_vars \<Rightarrow> ssl_vars" where
  "store_in_place opt a s = (case opt_value opt of
     None \<Rightarrow> s
   | Some p \<Rightarrow> if opt_var_type opt = GET_BOOL then set_flag p (flag_on a) s else set_text p a s)"

fun position_of :: "bytes \<Rightarrow> bytes list \<Rightarrow> int option" where
  "position_of x [] = None"
| "position_of x (y # ys) = (if x = y then Some 1 else map_option (\<lambda>n. n + 1) (position_of x ys))"

definition find_full_name :: "bytes option \<Rightarrow> bytes list \<Rightarrow> bytes \<Rightarrow> int res" where
  "find_full_name x lib opt = (case x of
     None \<Rightarrow> Inl (Exit_Code 1)
   | Some t \<Rightarrow> (case position_of t lib of None \<Rightarrow> Inl (Exit_Code 1) | Some n \<Rightarrow> Inr n))"

lemma store_in_place_stores: "stores_arguments flag_on store_in_place"
  by (simp add: stores_arguments_def store_in_place_def)

lemma position_of_range: "position_of x ys = Some n \<Longrightarrow> 1 \<le> n \<and> n \<le> int (length ys)"
  by (induction ys arbitrary: n) (force split: if_splits)+

lemma position_of_nth: "i < length ys \<Longrightarrow> distinct ys \<Longrightarrow> position_of (ys ! i) ys = Some (int i + 1)"
proof (induction ys arbitrary: i)
  case (Cons y ys)
  show ?case
  proof (cases i)
    case (Suc j)
    then have "j < length ys" "ys ! j \<noteq> y" "distinct ys" using Cons.prems by auto
    with Cons.IH [of j] Suc show ?thesis by simp
  qed simp
qed simp

lemma find_full_name_law: "find_type_law find_full_name"
  by (auto simp: find_type_law_def find_full_name_def position_of_range position_of_nth split: option.splits)

definition ssl_run :: "given list \<Rightarrow> ssl_vars res" where
  "ssl_run gs = rfold (give_option store_in_place find_full_name False) gs ssl_vars_init"

text \<open>
  \<open>--ssl-ca\<close> lowers the mode that \<open>--ssl-verify-server-cert\<close> asked for; in the other order
  the identity is verified.
\<close>

lemma identity_check_lost:
  "map_sum id opt_ssl_mode (ssl_run [(ssl_longopts False ! 2, None), (ssl_longopts False ! 3, Some ''ca.pem'')])
     = Inr SSL_MODE_VERIFY_CA"
  "map_sum id opt_ssl_mode (ssl_run [(ssl_longopts False ! 3, Some ''ca.pem''), (ssl_longopts False ! 2, None)])
     = Inr SSL_MODE_VERIFY_IDENTITY"
  by (simp_all add: ssl_run_def give_option_def ssl_longopts_def text_option_def bool_option_def store_in_place_def
      set_flag_def set_text_def GET_BOOL_def GET_STR_def flag_on_def ssl_case_def CLIENT_WARN_DEPRECATED_def
      ssl_vars_init_def ssl_modes)

text \<open>
  Turning SSL off and on again after \<open>--ssl-ca\<close> ends in \<open>REQUIRED\<close>: the authority is dropped
  and no warning is printed.
\<close>

lemma authority_dropped:
  "map_sum id set_client_ssl_options (ssl_run [(ssl_longopts False ! 3, Some ''ca.pem''),
     (ssl_longopts False ! 1, Some ''0''), (ssl_longopts False ! 1, Some ''1'')])
   = Inr [Mysql_ssl_set None None None None None, Set_ssl_crl None, Set_ssl_crlpath None, Set_tls_version None,
       Set_ssl_mode SSL_MODE_REQUIRED]"
  by (simp add: ssl_run_def give_option_def ssl_longopts_def text_option_def bool_option_def store_in_place_def
      set_flag_def set_text_def GET_BOOL_def GET_STR_def flag_on_def ssl_case_def CLIENT_WARN_DEPRECATED_def
      ssl_vars_init_def ssl_modes set_client_ssl_options_def)

end
