(* ===== verification/Dbug.thy ===== *)
theory Dbug
  imports Engine_Prelude
begin

text \<open>
  The debugging macros of \<^verbatim>\<open>my_dbug.h\<close>. Every macro is one definition with the flag
  \<open>debug\<close>: whether the code is compiled with the debugger (\<open>DBUG_OFF\<close> not defined) or without.
  The functions of the debugger are in the library; lines and file names, which they only print, are left
  out.
\<close>

section \<open>Statements\<close>

text \<open>
  A statement falls through, returns from its function, or ends the process. The state has the variable
  \<open>_dbug_on_\<close>, what the debugger keeps, and the rest of the program.
\<close>

datatype 'r flow = Fall | Return 'r | Abort

record ('d, 'w) dbug_state =
  dbug_on :: bool
  dbug :: 'd
  world :: 'w

type_synonym ('d, 'w, 'r) stmt = "('d, 'w) dbug_state \<Rightarrow> 'r flow \<times> ('d, 'w) dbug_state"

definition nothing :: "('d, 'w, 'r) stmt" where
  "nothing s = (Fall, s)"

definition tell_dbug :: "('d \<Rightarrow> 'd) \<Rightarrow> ('d, 'w, 'r) stmt" where
  "tell_dbug f s = (Fall, s\<lparr>dbug := f (dbug s)\<rparr>)"

definition work :: "('w \<Rightarrow> 'w) \<Rightarrow> ('d, 'w, 'r) stmt" where
  "work f s = (Fall, s\<lparr>world := f (world s)\<rparr>)"

definition return_value :: "('w \<Rightarrow> 'r) \<Rightarrow> ('d, 'w, 'r) stmt" where
  "return_value a s = (Return (a (world s)), s)"

definition andthen :: "('d, 'w, 'r) stmt \<Rightarrow> ('d, 'w, 'r) stmt \<Rightarrow> ('d, 'w, 'r) stmt" where
  "andthen f g s = (case f s of (Fall, s') \<Rightarrow> g s' | r \<Rightarrow> r)"

definition branch :: "('w \<Rightarrow> bool) \<Rightarrow> ('d, 'w, 'r) stmt \<Rightarrow> ('d, 'w, 'r) stmt \<Rightarrow> ('d, 'w, 'r) stmt" where
  "branch p f g s = (if p (world s) then f s else g s)"

section \<open>The macros\<close>

record 'd dbug_api =
  db_enter :: "bytes \<Rightarrow> 'd \<Rightarrow> 'd"
  db_return :: "'d \<Rightarrow> 'd"
  db_keyword :: "bytes \<Rightarrow> int \<Rightarrow> 'd \<Rightarrow> bool"
  db_pargs :: "bytes \<Rightarrow> 'd \<Rightarrow> 'd"
  db_enabled :: "'d \<Rightarrow> bool"
  db_doprnt :: "bytes \<Rightarrow> 'd \<Rightarrow> 'd"
  db_doputs :: "bytes \<Rightarrow> 'd \<Rightarrow> 'd"
  db_dump :: "bytes \<Rightarrow> bytes \<Rightarrow> 'd \<Rightarrow> 'd"
  db_process :: "bytes \<Rightarrow> 'd \<Rightarrow> 'd"
  db_push :: "bytes \<Rightarrow> 'd \<Rightarrow> 'd"
  db_pop :: "'d \<Rightarrow> 'd"
  db_set :: "bytes \<Rightarrow> 'd \<Rightarrow> 'd"
  db_set_init :: "bytes \<Rightarrow> 'd \<Rightarrow> 'd"
  db_end :: "'d \<Rightarrow> 'd"
  db_lock_file :: "'d \<Rightarrow> 'd"
  db_unlock_file :: "'d \<Rightarrow> 'd"
  db_flush :: "'d \<Rightarrow> 'd"
  db_get_func :: "'d \<Rightarrow> bytes"

definition DBUG_ENTER :: "'d dbug_api \<Rightarrow> bytes \<Rightarrow> bool \<Rightarrow> ('d, 'w, 'r) stmt" where
  "DBUG_ENTER api a debug = (if debug then tell_dbug (db_enter api a) else nothing)"

definition DBUG_LEAVE :: "'d dbug_api \<Rightarrow> bool \<Rightarrow> ('d, 'w, 'r) stmt" where
  "DBUG_LEAVE api debug = (if debug then tell_dbug (db_return api) else nothing)"

definition DBUG_RETURN :: "'d dbug_api \<Rightarrow> ('w \<Rightarrow> 'r) \<Rightarrow> bool \<Rightarrow> ('d, 'w, 'r) stmt" where
  "DBUG_RETURN api a1 debug =
     (if debug then andthen (DBUG_LEAVE api debug) (return_value a1) else return_value a1)"

definition DBUG_VOID_RETURN :: "'d dbug_api \<Rightarrow> bool \<Rightarrow> ('d, 'w, unit) stmt" where
  "DBUG_VOID_RETURN api debug =
     (if debug then andthen (DBUG_LEAVE api debug) (return_value (\<lambda>_. ())) else return_value (\<lambda>_. ()))"

definition DBUG_EXECUTE :: "'d dbug_api \<Rightarrow> bytes \<Rightarrow> ('d, 'w, 'r) stmt \<Rightarrow> bool \<Rightarrow> ('d, 'w, 'r) stmt" where
  "DBUG_EXECUTE api keyword a1 debug s =
     (if debug then if db_keyword api keyword 0 (dbug s) then a1 s else (Fall, s) else (Fall, s))"

definition DBUG_EXECUTE_IF :: "'d dbug_api \<Rightarrow> bytes \<Rightarrow> ('d, 'w, 'r) stmt \<Rightarrow> bool \<Rightarrow> ('d, 'w, 'r) stmt" where
  "DBUG_EXECUTE_IF api keyword a1 debug s =
     (if debug then if db_keyword api keyword 1 (dbug s) then a1 s else (Fall, s) else (Fall, s))"

definition DBUG_EVALUATE :: "'d dbug_api \<Rightarrow> bytes \<Rightarrow> 'a \<Rightarrow> 'a \<Rightarrow> bool \<Rightarrow> ('d, 'w) dbug_state \<Rightarrow> 'a" where
  "DBUG_EVALUATE api keyword a1 a2 debug s =
     (if debug then if db_keyword api keyword 0 (dbug s) then a1 else a2 else a2)"

definition DBUG_EVALUATE_IF :: "'d dbug_api \<Rightarrow> bytes \<Rightarrow> 'a \<Rightarrow> 'a \<Rightarrow> bool \<Rightarrow> ('d, 'w) dbug_state \<Rightarrow> 'a" where
  "DBUG_EVALUATE_IF api keyword a1 a2 debug s =
     (if debug then if db_keyword api keyword 1 (dbug s) then a1 else a2 else a2)"

definition DBUG_PRINT :: "'d dbug_api \<Rightarrow> bytes \<Rightarrow> bytes \<Rightarrow> bool \<Rightarrow> ('d, 'w, 'r) stmt" where
  "DBUG_PRINT api keyword text debug s =
     (if debug then
        if dbug_on s then
          let d = db_pargs api keyword (dbug s)
          in (Fall, s\<lparr>dbug := if db_enabled api d then db_doprnt api text d else d\<rparr>)
        else (Fall, s)
      else (Fall, s))"

definition DBUG_PUTS :: "'d dbug_api \<Rightarrow> bytes \<Rightarrow> bytes \<Rightarrow> bool \<Rightarrow> ('d, 'w, 'r) stmt" where
  "DBUG_PUTS api keyword arg debug s =
     (if debug then
        if dbug_on s then
          let d = db_pargs api keyword (dbug s)
          in (Fall, s\<lparr>dbug := if db_enabled api d then db_doputs api arg d else d\<rparr>)
        else (Fall, s)
      else (Fall, s))"

definition DBUG_PUSH :: "'d dbug_api \<Rightarrow> bytes \<Rightarrow> bool \<Rightarrow> ('d, 'w, 'r) stmt" where
  "DBUG_PUSH api a1 debug = (if debug then tell_dbug (db_push api a1) else nothing)"

definition DBUG_POP :: "'d dbug_api \<Rightarrow> bool \<Rightarrow> ('d, 'w, 'r) stmt" where
  "DBUG_POP api debug = (if debug then tell_dbug (db_pop api) else nothing)"

definition DBUG_SET :: "'d dbug_api \<Rightarrow> bytes \<Rightarrow> bool \<Rightarrow> ('d, 'w, 'r) stmt" where
  "DBUG_SET api a1 debug = (if debug then tell_dbug (db_set api a1) else nothing)"

definition DBUG_SET_INITIAL :: "'d dbug_api \<Rightarrow> bytes \<Rightarrow> bool \<Rightarrow> ('d, 'w, 'r) stmt" where
  "DBUG_SET_INITIAL api a1 debug = (if debug then tell_dbug (db_set_init api a1) else nothing)"

definition DBUG_PROCESS :: "'d dbug_api \<Rightarrow> bytes \<Rightarrow> bool \<Rightarrow> ('d, 'w, 'r) stmt" where
  "DBUG_PROCESS api a1 debug = (if debug then tell_dbug (db_process api a1) else nothing)"

definition DBUG_DUMP :: "'d dbug_api \<Rightarrow> bytes \<Rightarrow> bytes \<Rightarrow> bool \<Rightarrow> ('d, 'w, 'r) stmt" where
  "DBUG_DUMP api keyword memory debug = (if debug then tell_dbug (db_dump api keyword memory) else nothing)"

definition DBUG_END :: "'d dbug_api \<Rightarrow> bool \<Rightarrow> ('d, 'w, 'r) stmt" where
  "DBUG_END api debug = (if debug then tell_dbug (db_end api) else nothing)"

definition DBUG_LOCK_FILE :: "'d dbug_api \<Rightarrow> bool \<Rightarrow> ('d, 'w, 'r) stmt" where
  "DBUG_LOCK_FILE api debug = (if debug then tell_dbug (db_lock_file api) else nothing)"

definition DBUG_UNLOCK_FILE :: "'d dbug_api \<Rightarrow> bool \<Rightarrow> ('d, 'w, 'r) stmt" where
  "DBUG_UNLOCK_FILE api debug = (if debug then tell_dbug (db_unlock_file api) else nothing)"

definition DBUG_ASSERT :: "('w \<Rightarrow> bool) \<Rightarrow> bool \<Rightarrow> ('d, 'w, 'r) stmt" where
  "DBUG_ASSERT A debug s = (if debug then if A (world s) then (Fall, s) else (Abort, s) else (Fall, s))"

definition DEBUGGER_OFF :: "bool \<Rightarrow> ('d, 'w, 'r) stmt" where
  "DEBUGGER_OFF debug s = (if debug then (Fall, s\<lparr>dbug_on := False\<rparr>) else (Fall, s))"

definition DEBUGGER_ON :: "bool \<Rightarrow> ('d, 'w, 'r) stmt" where
  "DEBUGGER_ON debug s = (if debug then (Fall, s\<lparr>dbug_on := True\<rparr>) else (Fall, s))"

definition DBUG_ABORT :: "'d dbug_api \<Rightarrow> bool \<Rightarrow> ('d, 'w, 'r) stmt" where
  "DBUG_ABORT api debug s = (if debug then (Abort, s\<lparr>dbug := db_flush api (dbug s)\<rparr>) else (Fall, s))"

text \<open>\<open>strxnmov\<close> joins the two names in an array of 255 bytes, of which 254 may be used.\<close>

definition DBUG_CHECK_CRASH :: "'d dbug_api \<Rightarrow> bytes \<Rightarrow> bytes \<Rightarrow> ('d, 'w, 'r) stmt" where
  "DBUG_CHECK_CRASH api func op = DBUG_EXECUTE_IF api (take 254 (func @ op)) (DBUG_ABORT api True) True"

definition DBUG_CRASH_ENTER :: "'d dbug_api \<Rightarrow> bytes \<Rightarrow> bool \<Rightarrow> ('d, 'w, 'r) stmt" where
  "DBUG_CRASH_ENTER api func debug =
     (if debug then andthen (DBUG_ENTER api func debug) (DBUG_CHECK_CRASH api func ''_crash_enter'') else nothing)"

definition DBUG_CRASH_RETURN :: "'d dbug_api \<Rightarrow> ('w \<Rightarrow> 'r) \<Rightarrow> bool \<Rightarrow> ('d, 'w, 'r) stmt" where
  "DBUG_CRASH_RETURN api val debug =
     (if debug then (\<lambda>s. DBUG_CHECK_CRASH api (db_get_func api (dbug s)) ''_crash_return'' s) else return_value val)"

definition DBUG_CRASH_VOID_RETURN :: "'d dbug_api \<Rightarrow> bool \<Rightarrow> ('d, 'w, unit) stmt" where
  "DBUG_CRASH_VOID_RETURN api debug =
     (if debug then (\<lambda>s. DBUG_CHECK_CRASH api (db_get_func api (dbug s)) ''_crash_return'' s)
      else return_value (\<lambda>_. ()))"

section \<open>Instrumented code\<close>

text \<open>
  The body of a function that uses the macros: work on the program's state, sequences and branches, calls of
  other such functions, returns, and every macro that does not change which keywords are active. It leaves only
  through \<open>DBUG_RETURN\<close>.
\<close>

definition dbug_function :: "'d dbug_api \<Rightarrow> bytes \<Rightarrow> (bool \<Rightarrow> ('d, 'w, 'r) stmt) \<Rightarrow> bool \<Rightarrow> ('d, 'w, 'r) stmt" where
  "dbug_function api name body debug = andthen (DBUG_ENTER api name debug) (body debug)"

definition call_function :: "(bool \<Rightarrow> ('d, 'w, 'r) stmt) \<Rightarrow> ('r \<Rightarrow> 'w \<Rightarrow> 'w) \<Rightarrow> bool \<Rightarrow> ('d, 'w, 'r) stmt" where
  "call_function f k debug s = (case f debug s of
     (Return r, s') \<Rightarrow> (Fall, s'\<lparr>world := k r (world s')\<rparr>)
   | (Fall, s') \<Rightarrow> (Abort, s')
   | (Abort, s') \<Rightarrow> (Abort, s'))"

inductive dbug_body :: "'d dbug_api \<Rightarrow> (bool \<Rightarrow> ('d, 'w, 'r) stmt) \<Rightarrow> bool" for api :: "'d dbug_api" where
  body_work: "dbug_body api (\<lambda>_. work f)"
| body_seq: "dbug_body api f \<Longrightarrow> dbug_body api g \<Longrightarrow> dbug_body api (\<lambda>b. andthen (f b) (g b))"
| body_branch: "dbug_body api f \<Longrightarrow> dbug_body api g \<Longrightarrow> dbug_body api (\<lambda>b. branch p (f b) (g b))"
| body_call: "dbug_body api f \<Longrightarrow> dbug_body api (call_function (dbug_function api n f) k)"
| body_return: "dbug_body api (DBUG_RETURN api a)"
| body_execute: "dbug_body api (DBUG_EXECUTE api kw a1)"
| body_execute_if: "dbug_body api (DBUG_EXECUTE_IF api kw a1)"
| body_evaluate: "dbug_body api (\<lambda>b s. work (DBUG_EVALUATE api kw f1 f2 b s) s)"
| body_evaluate_if: "dbug_body api (\<lambda>b s. work (DBUG_EVALUATE_IF api kw f1 f2 b s) s)"
| body_print: "dbug_body api (DBUG_PRINT api kw t)"
| body_puts: "dbug_body api (DBUG_PUTS api kw t)"
| body_dump: "dbug_body api (DBUG_DUMP api kw m)"
| body_process: "dbug_body api (DBUG_PROCESS api n)"
| body_lock_file: "dbug_body api (DBUG_LOCK_FILE api)"
| body_unlock_file: "dbug_body api (DBUG_UNLOCK_FILE api)"
| body_assert: "dbug_body api (DBUG_ASSERT A)"
| body_off: "dbug_body api DEBUGGER_OFF"
| body_on: "dbug_body api DEBUGGER_ON"

text \<open>
  What the debugger promises: entering and leaving a function changes the nesting by one, nothing else changes
  it, and none of these functions activates a keyword.
\<close>

definition quiet :: "'d dbug_api \<Rightarrow> 'd \<Rightarrow> bool" where
  "quiet api d \<longleftrightarrow> (\<forall>k i. \<not> db_keyword api k i d)"

definition neutral :: "'d dbug_api \<Rightarrow> ('d \<Rightarrow> int) \<Rightarrow> int \<Rightarrow> ('d \<Rightarrow> 'd) \<Rightarrow> bool" where
  "neutral api depth n f \<longleftrightarrow> (\<forall>d. depth (f d) = depth d + n \<and> (quiet api d \<longrightarrow> quiet api (f d)))"

definition dbug_laws :: "'d dbug_api \<Rightarrow> ('d \<Rightarrow> int) \<Rightarrow> bool" where
  "dbug_laws api depth \<longleftrightarrow> (\<forall>a. neutral api depth 1 (db_enter api a)) \<and> neutral api depth (- 1) (db_return api)
   \<and> (\<forall>a. neutral api depth 0 (db_pargs api a)) \<and> (\<forall>a. neutral api depth 0 (db_doprnt api a))
   \<and> (\<forall>a. neutral api depth 0 (db_doputs api a)) \<and> (\<forall>a b. neutral api depth 0 (db_dump api a b))
   \<and> (\<forall>a. neutral api depth 0 (db_process api a)) \<and> neutral api depth 0 (db_lock_file api)
   \<and> neutral api depth 0 (db_unlock_file api) \<and> neutral api depth 0 (db_flush api)"

text \<open>The nesting at the end of a statement: a return has left its function.\<close>

fun left_by :: "'r flow \<Rightarrow> int" where
  "left_by (Return r) = 1"
| "left_by _ = 0"

definition matches :: "'d dbug_api \<Rightarrow> ('d \<Rightarrow> int) \<Rightarrow> (bool \<Rightarrow> ('d, 'w, 'r) stmt) \<Rightarrow> bool" where
  "matches api depth f \<longleftrightarrow> (\<forall>s t x s'. quiet api (dbug s) \<and> world s = world t \<and> f True s = (x, s') \<and> x \<noteq> Abort \<longrightarrow>
     (\<exists>t'. f False t = (x, t') \<and> world s' = world t') \<and> quiet api (dbug s')
     \<and> depth (dbug s') = depth (dbug s) - left_by x)"

lemma matchesD:
  assumes "matches api depth f" "quiet api (dbug s)" "world s = world t" "f True s = (x, s')" "x \<noteq> Abort"
  obtains t' where "f False t = (x, t')" "world s' = world t'" "quiet api (dbug s')"
    "depth (dbug s') = depth (dbug s) - left_by x"
  using assms unfolding matches_def by blast

lemma matches_tell:
  assumes "neutral api depth 0 f"
  shows "matches api depth (\<lambda>b. if b then tell_dbug f else nothing)"
  using assms by (simp add: matches_def neutral_def tell_dbug_def nothing_def)

lemma matches_seq:
  assumes "matches api depth f" "matches api depth g"
  shows "matches api depth (\<lambda>b. andthen (f b) (g b))"
  unfolding matches_def
proof (intro allI impI, elim conjE)
  fix s t s' :: "('a, 'b) dbug_state" and x :: "'c flow"
  assume s: "quiet api (dbug s)" "world s = world t" "andthen (f True) (g True) s = (x, s')" "x \<noteq> Abort"
  obtain y s1 where f: "f True s = (y, s1)" by fastforce
  show "(\<exists>t'. andthen (f False) (g False) t = (x, t') \<and> world s' = world t') \<and> quiet api (dbug s')
    \<and> depth (dbug s') = depth (dbug s) - left_by x"
  proof (cases y)
    case Fall
    from matchesD [OF assms(1) s(1,2) f] Fall obtain t1 where
      1: "f False t = (Fall, t1)" "world s1 = world t1" "quiet api (dbug s1)" "depth (dbug s1) = depth (dbug s)" by auto
    have "g True s1 = (x, s')" using s(3) f Fall by (simp add: andthen_def)
    from matchesD [OF assms(2) 1(3,2) this s(4)] 1(1,4) show ?thesis by (auto simp: andthen_def)
  next
    case (Return r)
    then have "x = y" "s1 = s'" using s(3) f by (simp_all add: andthen_def)
    from matchesD [OF assms(1) s(1,2) f] Return obtain t1 where
      1: "f False t = (Return r, t1)" "world s1 = world t1" "quiet api (dbug s1)" "depth (dbug s1) = depth (dbug s) - 1"
      by auto
    then show ?thesis using \<open>x = y\<close> \<open>s1 = s'\<close> Return by (simp add: andthen_def)
  next
    case Abort
    then show ?thesis using s(3,4) f by (simp add: andthen_def)
  qed
qed

lemma matches_branch:
  assumes "matches api depth f" "matches api depth g"
  shows "matches api depth (\<lambda>b. branch p (f b) (g b))"
  unfolding matches_def
proof (intro allI impI, elim conjE)
  fix s t s' :: "('a, 'b) dbug_state" and x :: "'c flow"
  assume s: "quiet api (dbug s)" "world s = world t" "branch p (f True) (g True) s = (x, s')" "x \<noteq> Abort"
  show "(\<exists>t'. branch p (f False) (g False) t = (x, t') \<and> world s' = world t') \<and> quiet api (dbug s')
    \<and> depth (dbug s') = depth (dbug s) - left_by x"
  proof (cases "p (world t)")
    case True
    then have "f True s = (x, s')" using s(2,3) by (simp add: branch_def)
    from matchesD [OF assms(1) s(1,2) this s(4)] True show ?thesis by (auto simp: branch_def)
  next
    case False
    then have "g True s = (x, s')" using s(2,3) by (simp add: branch_def)
    from matchesD [OF assms(2) s(1,2) this s(4)] False show ?thesis by (auto simp: branch_def)
  qed
qed

lemma matches_call:
  assumes "dbug_laws api depth" "matches api depth f"
  shows "matches api depth (call_function (dbug_function api n f) k)"
  unfolding matches_def
proof (intro allI impI, elim conjE)
  fix s t s' :: "('a, 'b) dbug_state" and x :: "'c flow"
  assume s: "quiet api (dbug s)" "world s = world t" "call_function (dbug_function api n f) k True s = (x, s')" "x \<noteq> Abort"
  let ?s = "s\<lparr>dbug := db_enter api n (dbug s)\<rparr>"
  have e: "quiet api (dbug ?s)" "depth (dbug ?s) = depth (dbug s) + 1" "world ?s = world t"
    using assms(1) s(1,2) by (simp_all add: dbug_laws_def neutral_def)
  obtain y s1 where f: "f True ?s = (y, s1)" by fastforce
  have "dbug_function api n f True s = (y, s1)"
    using f by (simp add: dbug_function_def DBUG_ENTER_def andthen_def tell_dbug_def)
  with s(3,4) obtain r where y: "y = Return r" "x = Fall" "s' = s1\<lparr>world := k r (world s1)\<rparr>"
    by (auto simp: call_function_def split: flow.splits)
  from matchesD [OF assms(2) e(1,3) f] y(1) obtain t1 where
    t: "f False t = (Return r, t1)" "world s1 = world t1" "quiet api (dbug s1)" "depth (dbug s1) = depth (dbug s)"
    using e(2) by auto
  have "dbug_function api n f False t = (Return r, t1)"
    using t(1) by (simp add: dbug_function_def DBUG_ENTER_def andthen_def nothing_def)
  with y t show "(\<exists>t'. call_function (dbug_function api n f) k False t = (x, t') \<and> world s' = world t')
    \<and> quiet api (dbug s') \<and> depth (dbug s') = depth (dbug s) - left_by x"
    by (simp add: call_function_def)
qed

lemma matches_return:
  assumes "dbug_laws api depth"
  shows "matches api depth (DBUG_RETURN api a)"
  using assms by (simp add: matches_def DBUG_RETURN_def DBUG_LEAVE_def andthen_def tell_dbug_def return_value_def
      dbug_laws_def neutral_def)

lemma matches_quiet_macros:
  "matches api depth (DBUG_EXECUTE api kw a1)" "matches api depth (DBUG_EXECUTE_IF api kw a1)"
  "matches api depth (\<lambda>b s. work (DBUG_EVALUATE api kw f1 f2 b s) s)"
  "matches api depth (\<lambda>b s. work (DBUG_EVALUATE_IF api kw f1 f2 b s) s)"
  "matches api depth (\<lambda>_. work f)" "matches api depth (DBUG_ASSERT A)"
  "matches api depth DEBUGGER_OFF" "matches api depth DEBUGGER_ON"
  by (auto simp: matches_def quiet_def DBUG_EXECUTE_def DBUG_EXECUTE_IF_def DBUG_EVALUATE_def DBUG_EVALUATE_IF_def
      work_def DBUG_ASSERT_def DEBUGGER_OFF_def DEBUGGER_ON_def split: if_splits)

lemma matches_printing:
  assumes "dbug_laws api depth"
  shows "matches api depth (DBUG_PRINT api kw t)" "matches api depth (DBUG_PUTS api kw t)"
  using assms by (auto simp: matches_def dbug_laws_def neutral_def DBUG_PRINT_def DBUG_PUTS_def Let_def split: if_splits)

lemma matches_telling:
  assumes "dbug_laws api depth"
  shows "matches api depth (DBUG_DUMP api kw m)" "matches api depth (DBUG_PROCESS api n)"
    "matches api depth (DBUG_LOCK_FILE api)" "matches api depth (DBUG_UNLOCK_FILE api)"
proof -
  have n: "neutral api depth 0 (db_dump api kw m)" "neutral api depth 0 (db_process api n)"
    "neutral api depth 0 (db_lock_file api)" "neutral api depth 0 (db_unlock_file api)"
    using assms by (simp_all add: dbug_laws_def)
  show "matches api depth (DBUG_DUMP api kw m)" "matches api depth (DBUG_PROCESS api n)"
    "matches api depth (DBUG_LOCK_FILE api)" "matches api depth (DBUG_UNLOCK_FILE api)"
    using n [THEN matches_tell]
    by (simp_all add: matches_def DBUG_DUMP_def DBUG_PROCESS_def DBUG_LOCK_FILE_def DBUG_UNLOCK_FILE_def)
qed

lemma dbug_body_matches:
  assumes "dbug_laws api depth"
  shows "dbug_body api f \<Longrightarrow> matches api depth f"
  by (induction rule: dbug_body.induct)
    (blast intro: matches_seq matches_branch matches_call [OF assms] matches_return [OF assms] matches_quiet_macros
      matches_printing [OF assms] matches_telling [OF assms])+

section \<open>Functions\<close>

text \<open>
  A function that returns in a debugging build returns the same in the other, with the same effects, and the
  debugger has left as many functions as it entered.
\<close>

lemma dbug_function_matches:
  assumes "dbug_laws api depth" "dbug_body api f" "quiet api (dbug s)" "world s = world t"
    and "dbug_function api n f True s = (Return r, s')"
  obtains t' where "dbug_function api n f False t = (Return r, t')" "world s' = world t'" "quiet api (dbug s')"
    "depth (dbug s') = depth (dbug s)"
proof -
  let ?s = "s\<lparr>dbug := db_enter api n (dbug s)\<rparr>"
  have e: "quiet api (dbug ?s)" "world ?s = world t" "depth (dbug ?s) = depth (dbug s) + 1"
    using assms(1,3,4) by (simp_all add: dbug_laws_def neutral_def)
  have f: "f True ?s = (Return r, s')"
    using assms(5) by (simp add: dbug_function_def DBUG_ENTER_def andthen_def tell_dbug_def)
  from matchesD [OF dbug_body_matches [OF assms(1,2)] e(1,2) f] e(3) obtain t' where
    "f False t = (Return r, t')" "world s' = world t'" "quiet api (dbug s')" "depth (dbug s') = depth (dbug s)" by auto
  then show thesis
    by (intro that) (simp_all add: dbug_function_def DBUG_ENTER_def andthen_def nothing_def)
qed

text \<open>
  The one macro that behaves differently: in a debugging build \<open>DBUG_CRASH_RETURN\<close> only tests its
  keyword. It neither returns nor leaves the function.
\<close>

lemma crash_return_differs:
  assumes "quiet api (dbug s)"
  shows "DBUG_CRASH_RETURN api val True s = (Fall, s)" "DBUG_CRASH_RETURN api val False s = (Return (val (world s)), s)"
  using assms
  by (simp_all add: DBUG_CRASH_RETURN_def DBUG_CHECK_CRASH_def DBUG_EXECUTE_IF_def quiet_def return_value_def)

text \<open>A debugger without keywords: it counts the functions it is in and keeps what is printed.\<close>

definition counting_dbug :: "(int \<times> bytes list) dbug_api" where
  "counting_dbug = (let same = (\<lambda>d. d) in
    \<lparr>db_enter = (\<lambda>n (i, out). (i + 1, out)), db_return = (\<lambda>(i, out). (i - 1, out)), db_keyword = (\<lambda>k f d. False),
     db_pargs = (\<lambda>k. same), db_enabled = (\<lambda>d. True), db_doprnt = (\<lambda>t (i, out). (i, out @ [t])),
     db_doputs = (\<lambda>t (i, out). (i, out @ [t])), db_dump = (\<lambda>k m. same), db_process = (\<lambda>n. same),
     db_push = (\<lambda>c. same), db_pop = same, db_set = (\<lambda>c. same), db_set_init = (\<lambda>c. same), db_end = same,
     db_lock_file = same, db_unlock_file = same, db_flush = same, db_get_func = (\<lambda>d. ''f'')\<rparr>)"

lemma counting_dbug_laws: "dbug_laws counting_dbug fst" "quiet counting_dbug d"
  by (simp_all add: dbug_laws_def neutral_def quiet_def counting_dbug_def Let_def case_prod_beta)

definition half_body :: "bool \<Rightarrow> (int \<times> bytes list, int, int) stmt" where
  "half_body = (\<lambda>b. andthen (DBUG_PRINT counting_dbug ''info'' ''halving'' b)
     (branch even (DBUG_RETURN counting_dbug (\<lambda>n. n div 2) b) (DBUG_RETURN counting_dbug (\<lambda>_. - 1) b)))"

lemma half_body_instrumented: "dbug_body counting_dbug half_body"
  unfolding half_body_def by (intro dbug_body.intros)

end
