(* ===== verification/Gafq_Conf.thy ===== *)
theory Gafq_Conf
  imports Rounding Gafq_Api "HOL-Library.Word"
begin

text \<open>
  The configuration of the interpreter, \<^verbatim>\<open>gafqconf.h\<close>: its limits, the default paths, the
  temporary names and both ways of converting a number to an integer. A double is the rational number it
  stands for.
\<close>

section \<open>Numbers\<close>

text \<open>
  The result of an operation with \<open>k\<close> binary digits behind the point. Near the constant of the macro a
  double has none; the registers of the x87 have eleven, and the value is rounded again when it is stored.
\<close>

definition round_to :: "nat \<Rightarrow> rat \<Rightarrow> rat" where
  "round_to k x = of_int (round_half_even (x * 2 ^ k)) / 2 ^ k"

text \<open>
  The representation of a double between \<open>2\<^sup>5\<^sup>2\<close> and \<open>2\<^sup>5\<^sup>3\<close>, where doubles are integers: the
  biased exponent \<open>1023 + 52\<close> above the 52 bits of the mantissa. Other values are \<open>None\<close> here.
\<close>

definition double_bits :: "int \<Rightarrow> 64 word option" where
  "double_bits u = (if 2 ^ 52 \<le> u \<and> u < 2 ^ 53 then Some (word_of_int ((1023 + 52) * 2 ^ 52 + (u - 2 ^ 52))) else None)"

definition magic :: rat where "magic = 6755399441055744"

text \<open>The macro for a Pentium: the low word of the sum is read through a union; \<open>long\<close> has 32 bits there.\<close>

definition gafq_number2int_i386 :: "nat \<Rightarrow> rat \<Rightarrow> 32 word option" where
  "gafq_number2int_i386 k d = map_option ucast (double_bits (round_half_even (round_to k (d + magic))))"

text \<open>The portable macro, the conversion of C: undefined when the integral part is not an \<open>int\<close>.\<close>

definition integral_part :: "rat \<Rightarrow> int" where
  "integral_part d = (if d < 0 then \<lceil>d\<rceil> else \<lfloor>d\<rfloor>)"

definition gafq_number2int :: "rat \<Rightarrow> 32 word option" where
  "gafq_number2int d =
     (if - (2 ^ 31) \<le> integral_part d \<and> integral_part d < 2 ^ 31 then Some (word_of_int (integral_part d)) else None)"

lemma round_to_of_int [simp]: "round_to k (of_int z) = of_int z"
proof -
  have "of_int z * (2 :: rat) ^ k = of_int (z * 2 ^ k)" by simp
  then show ?thesis unfolding round_to_def by (simp only: round_half_even_of_int) simp
qed

lemma round_to_0: "round_to 0 x = of_int (round_half_even x)"
  by (simp add: round_to_def)

lemma round_to_shift: "even z \<Longrightarrow> round_to k (x + of_int z) = round_to k x + of_int z"
proof -
  assume "even z"
  then have "even (z * 2 ^ k)" by simp
  moreover have "(x + of_int z) * 2 ^ k = x * 2 ^ k + of_int (z * 2 ^ k)" by (simp add: algebra_simps)
  ultimately show ?thesis
    unfolding round_to_def by (simp only: round_half_even_shift) (simp add: add_divide_distrib)
qed

lemma round_to_between: "of_int a \<le> x \<Longrightarrow> x \<le> of_int b \<Longrightarrow> of_int a \<le> round_to k x \<and> round_to k x \<le> of_int b"
proof -
  assume "of_int a \<le> x" "x \<le> of_int b"
  then have "of_int (a * 2 ^ k) \<le> x * 2 ^ k" "x * 2 ^ k \<le> of_int (b * 2 ^ k)" by simp_all
  from round_half_even_between [OF this]
  have "of_int (a * 2 ^ k) \<le> (of_int (round_half_even (x * 2 ^ k)) :: rat)"
    and "(of_int (round_half_even (x * 2 ^ k)) :: rat) \<le> of_int (b * 2 ^ k)"
    by (simp_all only: of_int_le_iff)
  then show ?thesis by (simp add: round_to_def field_simps)
qed

lemma round_to_error: "\<bar>round_to k x - x\<bar> \<le> 1 / 2 ^ (k + 1)"
proof -
  have "round_to k x - x = (of_int (round_half_even (x * 2 ^ k)) - x * 2 ^ k) / 2 ^ k"
    by (simp add: round_to_def field_simps)
  then have "\<bar>round_to k x - x\<bar> = \<bar>of_int (round_half_even (x * 2 ^ k)) - x * 2 ^ k\<bar> / 2 ^ k"
    by (simp add: abs_divide)
  also have "\<dots> \<le> (1 / 2) / 2 ^ k"
    by (rule divide_right_mono [OF round_half_even_error]) simp
  finally show ?thesis by simp
qed

text \<open>The trick reads the rounded number, cut to the width of the integer.\<close>

lemma ucast_word_of_int: "(ucast (word_of_int n :: 64 word) :: 32 word) = word_of_int n"
  by (simp add: unsigned_of_int word_of_int_eq_iff)

lemma word_of_int_wrap: "(word_of_int (z + n * 2 ^ 32) :: 32 word) = word_of_int z"
  by (simp only: word_of_int_eq_iff take_bit_eq_mod) simp

lemma number2int_i386_eq:
  assumes "- (2 ^ 51) \<le> d" "d \<le> 2 ^ 51 - 1"
  shows "gafq_number2int_i386 k d = Some (word_of_int (round_half_even (round_to k d)))"
proof -
  let ?m = "6755399441055744 :: int" and ?z = "round_half_even (round_to k d)"
  have m: "magic = of_int ?m" by (simp add: magic_def)
  have e: "round_half_even (round_to k (d + magic)) = ?z + ?m"
    unfolding m by (simp only: round_to_shift round_half_even_shift even_numeral)
  have "of_int (- (2 ^ 51)) \<le> d" "d \<le> of_int (2 ^ 51 - 1)" using assms by simp_all
  then have "- (2 ^ 51) \<le> ?z \<and> ?z \<le> 2 ^ 51 - 1"
    using round_half_even_between round_to_between by blast
  then have "double_bits (?z + ?m) = Some (word_of_int ((1023 + 52) * 2 ^ 52 + (?z + ?m - 2 ^ 52)))"
    by (simp add: double_bits_def)
  moreover have "word_of_int ((1023 + 52) * 2 ^ 52 + (?z + ?m - 2 ^ 52)) = (word_of_int ?z :: 32 word)"
  proof -
    have "(1023 + 52) * 2 ^ 52 + (?z + ?m - 2 ^ 52) = ?z + (1074 * 2 ^ 20 + 1572864) * 2 ^ 32" by simp
    then show ?thesis by (simp only: word_of_int_wrap)
  qed
  ultimately show ?thesis
    by (simp only: gafq_number2int_i386_def e option.map ucast_word_of_int)
qed

lemma sint_word_of_int_32:
  "- (2 ^ 31) \<le> z \<Longrightarrow> z < 2 ^ 31 \<Longrightarrow> sint (word_of_int z :: 32 word) = z"
  by (simp add: signed_of_int signed_take_bit_int_eq_self)

lemma number2int_i386_near:
  assumes "- (2 ^ 31) \<le> d" "d \<le> 2 ^ 31 - 1"
  obtains i where "gafq_number2int_i386 k d = Some i" "sint i = round_half_even (round_to k d)"
    "\<bar>of_int (sint i) - d\<bar> \<le> 1 / 2 + 1 / 2 ^ (k + 1)"
proof
  let ?z = "round_half_even (round_to k d)"
  show "gafq_number2int_i386 k d = Some (word_of_int ?z)"
    by (rule number2int_i386_eq) (use assms in simp_all)
  have "of_int (- (2 ^ 31)) \<le> d" "d \<le> of_int (2 ^ 31 - 1)" using assms by simp_all
  then have "- (2 ^ 31) \<le> ?z \<and> ?z \<le> 2 ^ 31 - 1"
    using round_half_even_between round_to_between by blast
  then show z: "sint (word_of_int ?z :: 32 word) = ?z" by (intro sint_word_of_int_32) simp_all
  have "\<bar>of_int ?z - d\<bar> \<le> \<bar>of_int ?z - round_to k d\<bar> + \<bar>round_to k d - d\<bar>" by simp
  with round_half_even_error [of "round_to k d"] round_to_error [of k d]
  show "\<bar>of_int (sint (word_of_int ?z :: 32 word)) - d\<bar> \<le> 1 / 2 + 1 / 2 ^ (k + 1)" unfolding z by linarith
qed

lemma integral_part_near: "\<bar>of_int (integral_part d) - d\<bar> < 1" "\<bar>of_int (integral_part d)\<bar> \<le> \<bar>d\<bar>"
  by (auto simp: integral_part_def) linarith+

lemma number2int_near:
  assumes "- (2 ^ 31) \<le> d" "d \<le> 2 ^ 31 - 1"
  obtains j where "gafq_number2int d = Some j" "sint j = integral_part d"
proof
  have "- 2147483648 \<le> d" "d \<le> 2147483647" using assms by simp_all
  then have "- 2147483648 \<le> \<lceil>d\<rceil>" "\<lfloor>d\<rfloor> \<le> 2147483647" by linarith+
  moreover have "d < 0 \<Longrightarrow> \<lceil>d\<rceil> \<le> 0" "0 \<le> d \<Longrightarrow> 0 \<le> \<lfloor>d\<rfloor>"
    by linarith+
  ultimately have r: "- (2 ^ 31) \<le> integral_part d" "integral_part d < 2 ^ 31"
    by (auto simp: integral_part_def)
  then show "gafq_number2int d = Some (word_of_int (integral_part d))" by (simp add: gafq_number2int_def)
  show "sint (word_of_int (integral_part d) :: 32 word) = integral_part d" by (rule sint_word_of_int_32 [OF r])
qed

lemma number2int_differ:
  "gafq_number2int_i386 11 (3 / 2) = Some 2" "gafq_number2int (3 / 2) = Some 1"
  by (code_simp)+

section \<open>Limits\<close>

definition GAFQ_IDSIZE :: int where "GAFQ_IDSIZE = 60"
definition GAFQ_MAXINPUT :: int where "GAFQ_MAXINPUT = 512"
definition GAFQI_GCPAUSE :: int where "GAFQI_GCPAUSE = 200"
definition GAFQI_GCMUL :: int where "GAFQI_GCMUL = 200"
definition GAFQI_MAXCALLS :: int where "GAFQI_MAXCALLS = 20000"
definition GAFQI_MAXCSTACK :: int where "GAFQI_MAXCSTACK = 8000"
definition GAFQI_MAXCCALLS :: int where "GAFQI_MAXCCALLS = 200"
definition GAFQI_MAXVARS :: int where "GAFQI_MAXVARS = 200"
definition GAFQI_MAXUPVALUES :: int where "GAFQI_MAXUPVALUES = 60"
definition GAFQI_MAXNUMBER2STR :: int where "GAFQI_MAXNUMBER2STR = 32"
definition GAFQ_MAXCAPTURES :: int where "GAFQ_MAXCAPTURES = 32"
definition GAFQI_EXTRASPACE :: int where "GAFQI_EXTRASPACE = 0"

text \<open>The width of \<open>int\<close> that the headers deduce from \<open>INT_MAX\<close>; \<open>None\<close> is the error.\<close>

definition GAFQI_BITSINT :: "int \<Rightarrow> nat option" where
  "GAFQI_BITSINT INT_MAX =
     (if INT_MAX - 20 < 32760 then Some 16 else if INT_MAX > 2147483640 then Some 32 else None)"

text \<open>
  The limits the comments ask for: variables and upvalues fit in a byte of an instruction, no stack index
  reaches the pseudo-indices, and the index of no upvalue is one of the three others.
\<close>

lemma limits_documented:
  "GAFQI_MAXVARS < 250" "GAFQI_MAXUPVALUES < 250" "GAFQI_MAXCSTACK < - GAFQ_REGISTRYINDEX"
  by (simp_all add: GAFQI_MAXVARS_def GAFQI_MAXUPVALUES_def GAFQI_MAXCSTACK_def GAFQ_REGISTRYINDEX_def)

lemma pseudo_indices_distinct:
  assumes "1 \<le> i" "i \<le> GAFQI_MAXUPVALUES" and "- GAFQI_MAXCSTACK \<le> j"
  shows "gafq_upvalueindex i \<notin> {j, GAFQ_REGISTRYINDEX, GAFQ_ENVIRONINDEX, GAFQ_GLOBALSINDEX}"
    and "j \<notin> {GAFQ_REGISTRYINDEX, GAFQ_ENVIRONINDEX, GAFQ_GLOBALSINDEX}"
  using assms by (auto simp: gafq_upvalueindex_def GAFQI_MAXUPVALUES_def GAFQI_MAXCSTACK_def GAFQ_REGISTRYINDEX_def
      GAFQ_ENVIRONINDEX_def GAFQ_GLOBALSINDEX_def)

lemma BITSINT_of_width: "GAFQI_BITSINT (2 ^ 15 - 1) = Some 16" "GAFQI_BITSINT (2 ^ 31 - 1) = Some 32"
  by (simp_all add: GAFQI_BITSINT_def)

section \<open>Default paths\<close>

definition GAFQ_ROOT :: bytes where "GAFQ_ROOT = ''/usr/local/''"
definition GAFQ_LDIR :: "bool \<Rightarrow> bytes" where
  "GAFQ_LDIR win = (if win then ''!'' @ [CHR 0x5C] @ ''gafq'' @ [CHR 0x5C] else GAFQ_ROOT @ ''share/gafq/5.1/'')"
definition GAFQ_CDIR :: "bool \<Rightarrow> bytes" where
  "GAFQ_CDIR win = (if win then ''!'' @ [CHR 0x5C] else GAFQ_ROOT @ ''lib/gafq/5.1/'')"
definition GAFQ_DIRSEP :: "bool \<Rightarrow> bytes" where
  "GAFQ_DIRSEP win = (if win then [CHR 0x5C] else ''/'')"

definition GAFQ_PATH_DEFAULT :: "bool \<Rightarrow> bytes" where
  "GAFQ_PATH_DEFAULT win =
     (if win then ''.'' @ [CHR 0x5C] @ ''?.gafq;'' @ GAFQ_LDIR win @ ''?.gafq;'' @ GAFQ_LDIR win @ ''?'' @ [CHR 0x5C] @
        ''init.gafq;'' @ GAFQ_CDIR win @ ''?.gafq;'' @ GAFQ_CDIR win @ ''?'' @ [CHR 0x5C] @ ''init.gafq''
      else ''./?.gafq;'' @ GAFQ_LDIR win @ ''?.gafq;'' @ GAFQ_LDIR win @ ''?/init.gafq;'' @
        GAFQ_CDIR win @ ''?.gafq;'' @ GAFQ_CDIR win @ ''?/init.gafq'')"

definition GAFQ_CPATH_DEFAULT :: "bool \<Rightarrow> bytes" where
  "GAFQ_CPATH_DEFAULT win =
     (if win then ''.'' @ [CHR 0x5C] @ ''?.dll;'' @ GAFQ_CDIR win @ ''?.dll;'' @ GAFQ_CDIR win @ ''loadall.dll''
      else ''./?.so;'' @ GAFQ_CDIR win @ ''?.so;'' @ GAFQ_CDIR win @ ''loadall.so'')"

definition GAFQ_PATHSEP :: char where "GAFQ_PATHSEP = CHR '';''"
definition GAFQ_PATH_MARK :: char where "GAFQ_PATH_MARK = CHR ''?''"
definition GAFQ_EXECDIR :: char where "GAFQ_EXECDIR = CHR ''!''"

definition GAFQ_QL :: "bytes \<Rightarrow> bytes" where "GAFQ_QL x = [CHR 0x27] @ x @ [CHR 0x27]"
definition GAFQ_QS :: bytes where "GAFQ_QS = GAFQ_QL ''%s''"

text \<open>The templates of a path, what lies between the separators.\<close>

fun path_templates :: "bytes \<Rightarrow> bytes list" where
  "path_templates [] = [[]]"
| "path_templates (c # s) = (if c = GAFQ_PATHSEP then [] # path_templates s
     else (case path_templates s of t # ts \<Rightarrow> (c # t) # ts | [] \<Rightarrow> [[c]]))"

text \<open>
  Every template of a default path has one mark, but the all-in-one library at the end of the path of C
  libraries; only on Windows a path begins with the directory of the program.
\<close>

lemma path_default_templates:
  "map (\<lambda>t. (count_list t GAFQ_PATH_MARK, hd t = GAFQ_EXECDIR)) (path_templates (GAFQ_PATH_DEFAULT win))
     = [(1, False), (1, win), (1, win), (1, win), (1, win)]"
  "map (\<lambda>t. (count_list t GAFQ_PATH_MARK, hd t = GAFQ_EXECDIR)) (path_templates (GAFQ_CPATH_DEFAULT win))
     = [(1, False), (1, win), (0, win)]"
  by (cases win; simp add: GAFQ_PATH_DEFAULT_def GAFQ_CPATH_DEFAULT_def GAFQ_LDIR_def GAFQ_CDIR_def GAFQ_ROOT_def
      GAFQ_PATHSEP_def GAFQ_PATH_MARK_def GAFQ_EXECDIR_def)+

section \<open>Protected execution\<close>

text \<open>
  A block that may throw: the thrown value, if any, and the status of the jump buffer and the state it leaves.
  Compiled as C++ the handler sets a status that is still 0; the jumps of C leave it alone.
\<close>

definition GAFQI_TRY_cpp :: "(int \<Rightarrow> 's \<Rightarrow> 'e option \<times> int \<times> 's) \<Rightarrow> int \<Rightarrow> 's \<Rightarrow> int \<times> 's" where
  "GAFQI_TRY_cpp a status s = (case a status s of
     (None, r) \<Rightarrow> r
   | (Some _, status', s') \<Rightarrow> (if status' = 0 then - 1 else status', s'))"

definition GAFQI_TRY_jmp :: "(int \<Rightarrow> 's \<Rightarrow> 'e option \<times> int \<times> 's) \<Rightarrow> int \<Rightarrow> 's \<Rightarrow> int \<times> 's" where
  "GAFQI_TRY_jmp a status s = snd (a status s)"

lemma try_status:
  "fst (GAFQI_TRY_cpp a st s) = 0 \<longleftrightarrow> fst (a st s) = None \<and> fst (snd (a st s)) = 0"
  "fst (a st s) \<noteq> None \<longrightarrow> fst (snd (a st s)) \<noteq> 0 \<Longrightarrow> GAFQI_TRY_cpp a st s = GAFQI_TRY_jmp a st s"
  by (auto simp: GAFQI_TRY_cpp_def GAFQI_TRY_jmp_def split: prod.split option.split)

section \<open>Temporary names\<close>

text \<open>With POSIX a temporary name comes from \<open>mkstemp\<close>, which opens the file; the macro closes it.\<close>

record 'k tmp_api =
  mkstemp :: "bytes \<Rightarrow> 'k \<Rightarrow> int \<times> bytes \<times> 'k"
  tmp_close :: "int \<Rightarrow> 'k \<Rightarrow> 'k"

definition GAFQ_TMPNAMBUFSIZE :: nat where "GAFQ_TMPNAMBUFSIZE = 32"

definition gafq_tmpnam :: "'k tmp_api \<Rightarrow> bytes \<Rightarrow> 'k \<Rightarrow> (bool \<times> bytes \<times> 'k) res" where
  "gafq_tmpnam os b k = rbind (mem_write b 0 (''/tmp/gafq_XXXXXX'' @ [NUL])) (\<lambda>b.
     case mkstemp os b k of (e, b, k) \<Rightarrow> Inr (e = - 1, b, if e \<noteq> - 1 then tmp_close os e k else k))"

definition tmp_laws :: "'k tmp_api \<Rightarrow> ('k \<Rightarrow> int set) \<Rightarrow> bool" where
  "tmp_laws os opened \<longleftrightarrow>
     (\<forall>b k. case mkstemp os b k of (e, b', k') \<Rightarrow> length b' = length b
        \<and> (e = - 1 \<and> opened k' = opened k \<or> e \<ge> 0 \<and> e \<notin> opened k \<and> opened k' = insert e (opened k)))
   \<and> (\<forall>e k. opened (tmp_close os e k) = opened k - {e})"

lemma gafq_tmpnam_spec:
  assumes "tmp_laws os opened" "length b = GAFQ_TMPNAMBUFSIZE"
  obtains e b' k' where "gafq_tmpnam os b k = Inr (e, b', k')" "length b' = GAFQ_TMPNAMBUFSIZE" "opened k' = opened k"
proof -
  let ?t = "''/tmp/gafq_XXXXXX'' @ [NUL]"
  let ?b = "?t @ drop (length ?t) b"
  have w: "mem_write b 0 (''/tmp/gafq_XXXXXX'' @ [NUL]) = Inr ?b"
    using assms(2) by (simp add: mem_write_def GAFQ_TMPNAMBUFSIZE_def)
  obtain e b' k' where m: "mkstemp os ?b k = (e, b', k')" by (metis prod_cases3)
  note laws = assms(1) [unfolded tmp_laws_def]
  from spec [OF spec [OF conjunct1 [OF laws], of ?b], of k]
  have l: "length b' = length ?b"
    and o: "e = - 1 \<and> opened k' = opened k \<or> e \<ge> 0 \<and> e \<notin> opened k \<and> opened k' = insert e (opened k)"
    by (simp_all only: m prod.case)
  have c: "opened (tmp_close os e k') = opened k' - {e}"
    using conjunct2 [OF laws] by simp
  show thesis
    by (rule that [of "e = - 1" b' "if e \<noteq> - 1 then tmp_close os e k' else k'"])
      (use w m l o c assms(2) in \<open>auto simp: gafq_tmpnam_def GAFQ_TMPNAMBUFSIZE_def\<close>)
qed

end
