(* ===== verification/Gafq_Buffer.thy ===== *)
theory Gafq_Buffer
  imports Gafq_Conf
begin

text \<open>
  The string buffers of \<^verbatim>\<open>gauxlib.h\<close>: an array that is filled in place, and pieces on the stack
  of the interpreter. The macros are definitions; \<open>gafqL_prepbuffer\<close>, \<open>gafqL_addgstring\<close> and
  \<open>gafqL_buffinit\<close> are the library's.
\<close>

section \<open>The buffer\<close>

text \<open>The pointer \<open>p\<close> is an offset into the array, which has \<open>GAFQL_BUFFERSIZE\<close> bytes.\<close>

record 'v gafqL_Buffer =
  buf_p :: nat
  buf_lvl :: int
  buf_L :: 'v
  buf_bytes :: bytes

definition GAFQL_BUFFERSIZE :: "'v gafqL_Buffer \<Rightarrow> nat" where
  "GAFQL_BUFFERSIZE B = length (buf_bytes B)"

definition gafqL_addchar :: "('v gafqL_Buffer \<Rightarrow> 'v gafqL_Buffer) \<Rightarrow> char \<Rightarrow> 'v gafqL_Buffer \<Rightarrow> 'v gafqL_Buffer res" where
  "gafqL_addchar prepbuffer c B =
     (let B = (if buf_p B < GAFQL_BUFFERSIZE B then B else prepbuffer B)
      in rbind (mem_write (buf_bytes B) (buf_p B) [c]) (\<lambda>bs. Inr (B\<lparr>buf_bytes := bs, buf_p := buf_p B + 1\<rparr>)))"

definition gafqL_putchar :: "('v gafqL_Buffer \<Rightarrow> 'v gafqL_Buffer) \<Rightarrow> char \<Rightarrow> 'v gafqL_Buffer \<Rightarrow> 'v gafqL_Buffer res" where
  "gafqL_putchar prepbuffer c B = gafqL_addchar prepbuffer c B"

definition gafqL_addsize :: "nat \<Rightarrow> 'v gafqL_Buffer \<Rightarrow> 'v gafqL_Buffer" where
  "gafqL_addsize n B = B\<lparr>buf_p := buf_p B + n\<rparr>"

section \<open>The functions behind it\<close>

text \<open>
  The text of a buffer: the pieces on the stack, then the filled part of the array. What the manual of Lua 5.1
  says: \<open>prepbuffer\<close> gives the whole array to write to, \<open>addgstring\<close> adds a string, neither
  loses text.
\<close>

record 'v buffer_api =
  gafqL_prepbuffer :: "'v gafqL_Buffer \<Rightarrow> 'v gafqL_Buffer"
  gafqL_addgstring :: "bytes \<Rightarrow> 'v gafqL_Buffer \<Rightarrow> 'v gafqL_Buffer"
  stack_pieces :: "'v \<Rightarrow> int \<Rightarrow> bytes"

definition buffer_text :: "'v buffer_api \<Rightarrow> 'v gafqL_Buffer \<Rightarrow> bytes" where
  "buffer_text api B = stack_pieces api (buf_L B) (buf_lvl B) @ take (buf_p B) (buf_bytes B)"

definition buffer_ok :: "nat \<Rightarrow> 'v gafqL_Buffer \<Rightarrow> bool" where
  "buffer_ok n B \<longleftrightarrow> GAFQL_BUFFERSIZE B = n \<and> buf_p B \<le> n \<and> 0 < n"

definition buffer_laws :: "'v buffer_api \<Rightarrow> bool" where
  "buffer_laws api \<longleftrightarrow> (\<forall>n B. buffer_ok n B \<longrightarrow>
     buffer_ok n (gafqL_prepbuffer api B) \<and> buf_p (gafqL_prepbuffer api B) = 0
   \<and> buffer_text api (gafqL_prepbuffer api B) = buffer_text api B
   \<and> (\<forall>s. buffer_ok n (gafqL_addgstring api s B)
        \<and> buffer_text api (gafqL_addgstring api s B) = buffer_text api B @ s))"

section \<open>What a use of the buffer adds\<close>

text \<open>
  The three ways to add to a buffer; a piece is written through the pointer that \<open>gafqL_prepbuffer\<close>
  returns and then counted with \<open>gafqL_addsize\<close>.
\<close>

datatype buffer_use = Add_char char | Add_piece bytes | Add_string bytes

fun use_text :: "buffer_use \<Rightarrow> bytes" where
  "use_text (Add_char c) = [c]"
| "use_text (Add_piece bs) = bs"
| "use_text (Add_string s) = s"

fun use_buffer :: "'v buffer_api \<Rightarrow> buffer_use \<Rightarrow> 'v gafqL_Buffer \<Rightarrow> 'v gafqL_Buffer res" where
  "use_buffer api (Add_char c) B = gafqL_addchar (gafqL_prepbuffer api) c B"
| "use_buffer api (Add_piece bs) B =
     (let B = gafqL_prepbuffer api B
      in rbind (mem_write (buf_bytes B) 0 bs) (\<lambda>d. Inr (gafqL_addsize (length bs) (B\<lparr>buf_bytes := d\<rparr>))))"
| "use_buffer api (Add_string s) B = Inr (gafqL_addgstring api s B)"

fun use_fits :: "nat \<Rightarrow> buffer_use \<Rightarrow> bool" where
  "use_fits n (Add_piece bs) = (length bs \<le> n)"
| "use_fits n _ = True"

lemma prepbuffer_law:
  assumes "buffer_laws api" "buffer_ok n B"
  shows "buffer_ok n (gafqL_prepbuffer api B)" "buf_p (gafqL_prepbuffer api B) = 0"
    "buffer_text api (gafqL_prepbuffer api B) = buffer_text api B"
  using assms unfolding buffer_laws_def by blast+

lemma write_in_buffer:
  assumes "buffer_ok n B" "buf_p B + length bs \<le> n"
  obtains d where "mem_write (buf_bytes B) (buf_p B) bs = Inr d"
    "buffer_ok n (B\<lparr>buf_bytes := d, buf_p := buf_p B + length bs\<rparr>)"
    "buffer_text api (B\<lparr>buf_bytes := d, buf_p := buf_p B + length bs\<rparr>) = buffer_text api B @ bs"
  by (rule that [of "take (buf_p B) (buf_bytes B) @ bs @ drop (buf_p B + length bs) (buf_bytes B)"])
    (use assms in \<open>auto simp: mem_write_def buffer_ok_def GAFQL_BUFFERSIZE_def buffer_text_def\<close>)

lemma addchar_text:
  assumes "buffer_laws api" "buffer_ok n B"
  obtains B' where "gafqL_addchar (gafqL_prepbuffer api) c B = Inr B'" "buffer_ok n B'"
    "buffer_text api B' = buffer_text api B @ [c]"
proof -
  let ?B = "if buf_p B < GAFQL_BUFFERSIZE B then B else gafqL_prepbuffer api B"
  have B: "buffer_ok n ?B" "buf_p ?B + length [c] \<le> n" "buffer_text api ?B = buffer_text api B"
    using assms(2) prepbuffer_law [OF assms] by (auto simp: buffer_ok_def)
  from write_in_buffer [OF B(1,2), of api] obtain d where
    "mem_write (buf_bytes ?B) (buf_p ?B) [c] = Inr d"
    "buffer_ok n (?B\<lparr>buf_bytes := d, buf_p := buf_p ?B + length [c]\<rparr>)"
    "buffer_text api (?B\<lparr>buf_bytes := d, buf_p := buf_p ?B + length [c]\<rparr>) = buffer_text api ?B @ [c]" .
  then show thesis
    by (intro that [of "?B\<lparr>buf_bytes := d, buf_p := buf_p ?B + 1\<rparr>"]) (simp_all add: gafqL_addchar_def Let_def B(3))
qed

lemma use_buffer_text:
  assumes "buffer_laws api" "buffer_ok n B" "use_fits n u"
  obtains B' where "use_buffer api u B = Inr B'" "buffer_ok n B'" "buffer_text api B' = buffer_text api B @ use_text u"
proof (cases u)
  case (Add_char c)
  with addchar_text [OF assms(1,2), of c] that show thesis by auto
next
  case (Add_piece bs)
  let ?B = "gafqL_prepbuffer api B"
  note P = prepbuffer_law [OF assms(1,2)]
  have "buf_p ?B + length bs \<le> n" using P(2) assms(3) Add_piece by simp
  from write_in_buffer [OF P(1) this, of api] P(2,3) obtain d where
    "mem_write (buf_bytes ?B) 0 bs = Inr d" "buffer_ok n (?B\<lparr>buf_bytes := d, buf_p := length bs\<rparr>)"
    "buffer_text api (?B\<lparr>buf_bytes := d, buf_p := length bs\<rparr>) = buffer_text api B @ bs" by auto
  then show thesis
    by (intro that [of "?B\<lparr>buf_bytes := d, buf_p := length bs\<rparr>"])
      (simp_all add: Add_piece gafqL_addsize_def Let_def P(2))
next
  case (Add_string s)
  have "buffer_ok n (gafqL_addgstring api s B)" "buffer_text api (gafqL_addgstring api s B) = buffer_text api B @ s"
    using assms(1,2) unfolding buffer_laws_def by blast+
  then show thesis by (intro that [of "gafqL_addgstring api s B"]) (simp_all add: Add_string)
qed

text \<open>Any use of a buffer, however long, adds its text and never writes outside the array.\<close>

lemma uses_buffer_text:
  assumes "buffer_laws api" "buffer_ok n B" "list_all (use_fits n) us"
  shows "\<exists>B'. rfold (use_buffer api) us B = Inr B' \<and> buffer_ok n B'
    \<and> buffer_text api B' = buffer_text api B @ concat (map use_text us)"
  using assms(2,3)
proof (induction us arbitrary: B)
  case (Cons u us)
  from Cons.prems have "use_fits n u" by simp
  from use_buffer_text [OF assms(1) Cons.prems(1) this] obtain B1 where
    1: "use_buffer api u B = Inr B1" "buffer_ok n B1" "buffer_text api B1 = buffer_text api B @ use_text u" .
  from Cons.IH [OF 1(2)] Cons.prems(2) 1 show ?case by auto
qed simp

text \<open>An implementation that keeps its pieces in a list.\<close>

definition list_buffer :: "bytes list buffer_api" where
  "list_buffer = \<lparr>
     gafqL_prepbuffer = (\<lambda>B. B\<lparr>buf_L := buf_L B @ [take (buf_p B) (buf_bytes B)], buf_p := 0\<rparr>),
     gafqL_addgstring = (\<lambda>s B. B\<lparr>buf_L := buf_L B @ [take (buf_p B) (buf_bytes B), s], buf_p := 0\<rparr>),
     stack_pieces = (\<lambda>L _. concat L)\<rparr>"

lemma list_buffer_laws: "buffer_laws list_buffer"
  by (simp add: buffer_laws_def list_buffer_def buffer_ok_def GAFQL_BUFFERSIZE_def buffer_text_def)

lemma list_buffer_example:
  "map_sum id (buffer_text list_buffer) (rfold (use_buffer list_buffer)
     [Add_char CHR ''a'', Add_char CHR ''b'', Add_char CHR ''c'', Add_piece ''de'', Add_string ''fgh'']
     \<lparr>buf_p = 0, buf_lvl = 0, buf_L = [], buf_bytes = ''..''\<rparr>) = Inr ''abcdefgh''"
  by code_simp

end
