(* ===== verification/Gafq_Aux.thy ===== *)
theory Gafq_Aux
  imports Gafq_Api
begin

text \<open>
  The rest of the interpreter's headers: the macros of \<^verbatim>\<open>gauxlib.h\<close> with which a C function checks its
  arguments and keeps references, and of \<^verbatim>\<open>gafq.h\<close> for the collector and the debugger. The
  interpreter's functions behind them are a record beside that of \<open>Gafq_Api\<close>.
\<close>

section \<open>The library's functions\<close>

text \<open>
  A function that raises an error does not return to its caller; the result is then \<open>Inl\<close> the state with the
  error object on the stack. \<open>gafq_Integer\<close> is \<open>ptrdiff_t\<close>, of 64 bits.
\<close>

type_synonym ('v, 'a) checked = "'v \<Rightarrow> 'v + 'a"

record 'v gafq_aux =
  core_api :: "'v gafq_api"
  gafqL_argerror :: "int \<Rightarrow> bytes \<Rightarrow> 'v \<Rightarrow> 'v"
  gafqL_checkgstring :: "int \<Rightarrow> ('v, bytes) checked"
  gafqL_optgstring :: "int \<Rightarrow> bytes option \<Rightarrow> ('v, bytes option) checked"
  gafqL_checkinteger :: "int \<Rightarrow> ('v, 64 word) checked"
  gafqL_optinteger :: "int \<Rightarrow> 64 word \<Rightarrow> ('v, 64 word) checked"
  gafq_typename :: "int \<Rightarrow> 'v \<Rightarrow> bytes"
  gafq_error :: "'v \<Rightarrow> 'v"
  gafqL_ref :: "int \<Rightarrow> 'v \<Rightarrow> int \<times> 'v"
  gafqL_unref :: "int \<Rightarrow> int \<Rightarrow> 'v \<Rightarrow> 'v"
  gafq_gc :: "int \<Rightarrow> int \<Rightarrow> 'v \<Rightarrow> int \<times> 'v"

section \<open>Arguments\<close>

definition gafqL_argcheck :: "'v gafq_aux \<Rightarrow> bool \<Rightarrow> int \<Rightarrow> bytes \<Rightarrow> ('v, unit) checked" where
  "gafqL_argcheck api cond numarg extramsg v =
     (if cond then Inr () else Inl (gafqL_argerror api numarg extramsg v))"

definition gafqL_checkstring :: "'v gafq_aux \<Rightarrow> int \<Rightarrow> ('v, bytes) checked" where
  "gafqL_checkstring api n = gafqL_checkgstring api n"

definition gafqL_optstring :: "'v gafq_aux \<Rightarrow> int \<Rightarrow> bytes option \<Rightarrow> ('v, bytes option) checked" where
  "gafqL_optstring api n d = gafqL_optgstring api n d"

text \<open>\<open>int\<close> has 32 bits, \<open>long\<close> has 64. A default is converted to \<open>gafq_Integer\<close> on the way in.\<close>

definition gafqL_checkint :: "'v gafq_aux \<Rightarrow> int \<Rightarrow> ('v, 32 word) checked" where
  "gafqL_checkint api n v = rbind (gafqL_checkinteger api n v) (\<lambda>i. Inr (scast i))"

definition gafqL_optint :: "'v gafq_aux \<Rightarrow> int \<Rightarrow> 32 word \<Rightarrow> ('v, 32 word) checked" where
  "gafqL_optint api n d v = rbind (gafqL_optinteger api n (scast d) v) (\<lambda>i. Inr (scast i))"

definition gafqL_checklong :: "'v gafq_aux \<Rightarrow> int \<Rightarrow> ('v, 64 word) checked" where
  "gafqL_checklong api n v = gafqL_checkinteger api n v"

definition gafqL_optlong :: "'v gafq_aux \<Rightarrow> int \<Rightarrow> 64 word \<Rightarrow> ('v, 64 word) checked" where
  "gafqL_optlong api n d v = gafqL_optinteger api n d v"

definition gafqL_typename :: "'v gafq_aux \<Rightarrow> int \<Rightarrow> 'v \<Rightarrow> bytes" where
  "gafqL_typename api i v = gafq_typename api (gafq_type (core_api api) i v) v"

definition gafqL_getn :: "'v gafq_aux \<Rightarrow> int \<Rightarrow> 'v \<Rightarrow> 32 word" where
  "gafqL_getn api i v = of_nat (gafq_objlen (core_api api) i v)"

definition gafqL_setn :: "'v gafq_aux \<Rightarrow> int \<Rightarrow> int \<Rightarrow> 'v \<Rightarrow> 'v" where
  "gafqL_setn api i j v = v"

section \<open>References\<close>

definition GAFQ_NOREF :: int where "GAFQ_NOREF = - 2"
definition GAFQ_REFNIL :: int where "GAFQ_REFNIL = - 1"

definition gafq_ref :: "'v gafq_aux \<Rightarrow> bool \<Rightarrow> ('v, int \<times> 'v) checked" where
  "gafq_ref api lock v =
     (if lock then Inr (gafqL_ref api GAFQ_REGISTRYINDEX v)
      else Inl (gafq_error api (gafq_pushstring (core_api api) ''unlocked references are obsolete'' v)))"

definition gafq_unref :: "'v gafq_aux \<Rightarrow> int \<Rightarrow> 'v \<Rightarrow> 'v" where
  "gafq_unref api r = gafqL_unref api GAFQ_REGISTRYINDEX r"

section \<open>Versions, the collector, hooks\<close>

definition GAFQ_VERSION :: bytes where "GAFQ_VERSION = ''Gafq 5.1''"
definition GAFQ_RELEASE :: bytes where "GAFQ_RELEASE = ''Gafq 5.1.5''"
definition GAFQ_VERSION_NUM :: int where "GAFQ_VERSION_NUM = 501"
definition GAFQ_SIGNATURE :: bytes where "GAFQ_SIGNATURE = CHR 0x1B # ''Gafq''"

definition GAFQ_GCSTOP :: int where "GAFQ_GCSTOP = 0"
definition GAFQ_GCRESTART :: int where "GAFQ_GCRESTART = 1"
definition GAFQ_GCCOLLECT :: int where "GAFQ_GCCOLLECT = 2"
definition GAFQ_GCCOUNT :: int where "GAFQ_GCCOUNT = 3"
definition GAFQ_GCCOUNTB :: int where "GAFQ_GCCOUNTB = 4"
definition GAFQ_GCSTEP :: int where "GAFQ_GCSTEP = 5"
definition GAFQ_GCSETPAUSE :: int where "GAFQ_GCSETPAUSE = 6"
definition GAFQ_GCSETSTEPMUL :: int where "GAFQ_GCSETSTEPMUL = 7"

definition gafq_getgccount :: "'v gafq_aux \<Rightarrow> 'v \<Rightarrow> int \<times> 'v" where
  "gafq_getgccount api = gafq_gc api GAFQ_GCCOUNT 0"

definition gafq_open :: "'v gafq_aux \<Rightarrow> 'v" where
  "gafq_open api = gafqL_newstate (core_api api)"

definition GAFQ_HOOKCALL :: nat where "GAFQ_HOOKCALL = 0"
definition GAFQ_HOOKRET :: nat where "GAFQ_HOOKRET = 1"
definition GAFQ_HOOKLINE :: nat where "GAFQ_HOOKLINE = 2"
definition GAFQ_HOOKCOUNT :: nat where "GAFQ_HOOKCOUNT = 3"
definition GAFQ_HOOKTAILRET :: nat where "GAFQ_HOOKTAILRET = 4"

definition GAFQ_MASKCALL :: "32 word" where "GAFQ_MASKCALL = push_bit GAFQ_HOOKCALL 1"
definition GAFQ_MASKRET :: "32 word" where "GAFQ_MASKRET = push_bit GAFQ_HOOKRET 1"
definition GAFQ_MASKLINE :: "32 word" where "GAFQ_MASKLINE = push_bit GAFQ_HOOKLINE 1"
definition GAFQ_MASKCOUNT :: "32 word" where "GAFQ_MASKCOUNT = push_bit GAFQ_HOOKCOUNT 1"

lemmas hook_defs = GAFQ_HOOKCALL_def GAFQ_HOOKRET_def GAFQ_HOOKLINE_def GAFQ_HOOKCOUNT_def GAFQ_HOOKTAILRET_def
  GAFQ_MASKCALL_def GAFQ_MASKRET_def GAFQ_MASKLINE_def GAFQ_MASKCOUNT_def

section \<open>Checks of arguments\<close>

text \<open>
  The checks at the start of a C function, in order: the function goes on only if all conditions hold, and
  otherwise the error is that of the first one that does not.
\<close>

fun argchecks :: "'v gafq_aux \<Rightarrow> (bool \<times> int \<times> bytes) list \<Rightarrow> ('v, unit) checked" where
  "argchecks api [] v = Inr ()"
| "argchecks api ((cond, n, msg) # cs) v = rbind (gafqL_argcheck api cond n msg v) (\<lambda>_. argchecks api cs v)"

lemma argchecks_pass: "argchecks api cs v = Inr () \<longleftrightarrow> list_all fst cs"
  by (induction cs) (auto simp: gafqL_argcheck_def split: if_splits)

lemma argchecks_first:
  "list_all fst as \<Longrightarrow> argchecks api (as @ (False, n, msg) # cs) v = Inl (gafqL_argerror api n msg v)"
  by (induction as) (auto simp: gafqL_argcheck_def)

text \<open>
  \<open>gafqL_checkint\<close> keeps the argument exactly when it fits into an \<open>int\<close>; nothing is reported
  otherwise.
\<close>

lemma checkint_keeps:
  assumes "gafqL_checkinteger api n v = Inr i"
  shows "\<exists>k. gafqL_checkint api n v = Inr k \<and> (sint k = sint i \<longleftrightarrow> - (2 ^ 31) \<le> sint i \<and> sint i < 2 ^ 31)"
proof -
  let ?k = "scast i :: 32 word"
  have "?k = word_of_int (sint i)" by (rule scast_eq)
  moreover have "sint (word_of_int x :: 32 word) = (x + 2 ^ 31) mod 2 ^ 32 - 2 ^ 31" for x
    by (subst int_word_sint) simp
  ultimately have k: "sint ?k = (sint i + 2 ^ 31) mod 2 ^ 32 - 2 ^ 31" by (simp only:)
  have "sint ?k = sint i \<longleftrightarrow> - (2 ^ 31) \<le> sint i \<and> sint i < 2 ^ 31"
  proof
    assume "sint ?k = sint i"
    moreover have "0 \<le> (sint i + 2 ^ 31) mod 2 ^ 32" "(sint i + 2 ^ 31) mod 2 ^ 32 < 2 ^ 32" "(2 :: int) ^ 32 = 2 ^ 31 + 2 ^ 31" by simp_all
    ultimately show "- (2 ^ 31) \<le> sint i \<and> sint i < 2 ^ 31" using k by (intro conjI) linarith+
  next
    assume "- (2 ^ 31) \<le> sint i \<and> sint i < 2 ^ 31"
    then have "(sint i + 2 ^ 31) mod 2 ^ 32 = sint i + 2 ^ 31" by (intro mod_pos_pos_trivial) simp_all
    then show "sint ?k = sint i" using k by linarith
  qed
  then show ?thesis using assms by (simp add: gafqL_checkint_def)
qed

text \<open>
  With the documented meaning of \<open>gafqL_optinteger\<close> the macro \<open>gafqL_optint\<close> is
  \<open>gafqL_opt\<close> of \<open>gafqL_checkint\<close>: the default comes back as it was passed.
\<close>

definition optinteger_law :: "'v gafq_aux \<Rightarrow> bool" where
  "optinteger_law api \<longleftrightarrow> (\<forall>n d v. gafqL_optinteger api n d v =
     (if gafq_type (core_api api) n v \<le> 0 then Inr d else gafqL_checkinteger api n v))"

lemma scast_default: "scast (scast d :: 64 word) = (d :: 32 word)"
  by (rule bit_word_eqI) (auto simp: bit_simps)

lemma optint_default:
  assumes "optinteger_law api"
  shows "gafqL_optint api n d v = (if gafq_type (core_api api) n v \<le> 0 then Inr d else gafqL_checkint api n v)"
  using assms by (simp add: optinteger_law_def gafqL_optint_def gafqL_checkint_def scast_default)

text \<open>The events of hooks have masks of one bit each, and the bit of a mask is its event.\<close>

lemma hook_masks:
  "bit GAFQ_MASKCALL e \<longleftrightarrow> e = GAFQ_HOOKCALL" "bit GAFQ_MASKRET e \<longleftrightarrow> e = GAFQ_HOOKRET"
  "bit GAFQ_MASKLINE e \<longleftrightarrow> e = GAFQ_HOOKLINE" "bit GAFQ_MASKCOUNT e \<longleftrightarrow> e = GAFQ_HOOKCOUNT"
  by (auto simp only: hook_defs bit_push_bit_iff bit_1_iff possible_bit_word) auto

section \<open>Values behind references\<close>

text \<open>
  What the manual says of references: \<open>gafqL_ref\<close> pops the value on the top and returns a reference that
  is not in use, or \<open>GAFQ_REFNIL\<close> for nil; \<open>gafq_rawgeti\<close> pushes the value of a reference, nil for
  \<open>GAFQ_REFNIL\<close>; \<open>gafqL_unref\<close> frees one. All keep the values of the other references.
  \<open>upper\<close> is the value on the top of the stack, \<open>val\<close> gives the values of the references in use.
\<close>

definition ref_laws :: "'v gafq_aux \<Rightarrow> 'a \<Rightarrow> ('v \<Rightarrow> 'a) \<Rightarrow> ('v \<Rightarrow> int \<Rightarrow> 'a option) \<Rightarrow> bool" where
  "ref_laws api nil upper val \<longleftrightarrow>
     (\<forall>v r v'. gafqL_ref api GAFQ_REGISTRYINDEX v = (r, v') \<longrightarrow>
        (if upper v = nil then r = GAFQ_REFNIL \<and> val v' = val v
         else 0 \<le> r \<and> val v r = None \<and> val v' = (val v)(r \<mapsto> upper v)))
   \<and> (\<forall>v r a. val v r = Some a \<longrightarrow> upper (gafq_rawgeti (core_api api) GAFQ_REGISTRYINDEX r v) = a)
   \<and> (\<forall>v. upper (gafq_rawgeti (core_api api) GAFQ_REGISTRYINDEX GAFQ_REFNIL v) = nil)
   \<and> (\<forall>v r. val (gafq_rawgeti (core_api api) GAFQ_REGISTRYINDEX r v) = val v)
   \<and> (\<forall>v r. val (gafqL_unref api GAFQ_REGISTRYINDEX r v) = (if r < 0 then val v else (val v)(r := None)))"

lemma ref_roundtrip:
  assumes laws: "ref_laws api nil upper val" and ref: "gafq_ref api True v = Inr (r, v')"
  shows "upper (gafq_getref (core_api api) r v') = upper v"
    and "val v s = Some a \<Longrightarrow> s \<noteq> r \<Longrightarrow> upper (gafq_getref (core_api api) s v') = a"
    and "val (gafq_unref api r (gafq_getref (core_api api) s v')) = val v"
proof -
  have r: "if upper v = nil then r = GAFQ_REFNIL \<and> val v' = val v
      else 0 \<le> r \<and> val v r = None \<and> val v' = (val v)(r \<mapsto> upper v)"
    using assms by (simp add: ref_laws_def gafq_ref_def)
  have get: "val w s = Some a \<Longrightarrow> upper (gafq_getref (core_api api) s w) = a" "upper (gafq_getref (core_api api) GAFQ_REFNIL w) = nil"
    "val (gafq_getref (core_api api) s w) = val w" "val (gafq_unref api s w) = (if s < 0 then val w else (val w)(s := None))" for w s a
    using laws by (simp_all add: ref_laws_def gafq_getref_def gafq_unref_def)
  show "upper (gafq_getref (core_api api) r v') = upper v"
    using r get(1) [of v' r "upper v"] get(2) by (auto split: if_splits)
  show "upper (gafq_getref (core_api api) s v') = a" if "val v s = Some a" "s \<noteq> r"
    using r that by (intro get(1)) (auto split: if_splits)
  show "val (gafq_unref api r (gafq_getref (core_api api) s v')) = val v"
    using r by (auto simp: get(3,4) GAFQ_REFNIL_def split: if_splits)
qed

lemma ref_unlocked:
  "gafq_ref api False v = Inl (gafq_error api (gafq_pushstring (core_api api) ''unlocked references are obsolete'' v))"
  by (simp add: gafq_ref_def)

text \<open>The laws can hold: numbers on a stack, 0 for nil, and an association list of references.\<close>

type_synonym ref_state = "int list \<times> (int \<times> int) list"

definition ref_value :: "ref_state \<Rightarrow> int \<Rightarrow> int option" where
  "ref_value v r = (if r = GAFQ_REFNIL then None else map_of (snd v) r)"

definition list_refs :: "ref_state gafq_aux \<Rightarrow> ref_state gafq_aux" where
  "list_refs api = api\<lparr>
     core_api := (core_api api)\<lparr>gafq_rawgeti :=
       \<lambda>_ r v. ((case ref_value v r of None \<Rightarrow> 0 | Some a \<Rightarrow> a) # fst v, snd v)\<rparr>,
     gafqL_ref := \<lambda>_ v. if hd (fst v) = 0 then (GAFQ_REFNIL, tl (fst v), snd v)
       else (let r = 1 + fold (\<lambda>(k, _). max k) (snd v) 0 in (r, tl (fst v), (r, hd (fst v)) # snd v)),
     gafqL_unref := \<lambda>_ r v. (fst v, if r < 0 then snd v else filter (\<lambda>(k, _). k \<noteq> r) (snd v))\<rparr>"

lemma fold_max_ge: "k \<in> fst ` set ps \<Longrightarrow> k \<le> fold (\<lambda>(k, _). max k) ps m" "m \<le> fold (\<lambda>(k, _). max k) ps m"
  for ps :: "(int \<times> int) list"
proof -
  have ge: "m \<le> fold (\<lambda>(k, _). max k) ps m" for m :: int and ps :: "(int \<times> int) list"
  proof (induction ps arbitrary: m)
    case (Cons p ps)
    then show ?case by (cases p) (auto intro: order_trans [OF max.cobounded2])
  qed simp
  show "m \<le> fold (\<lambda>(k, _). max k) ps m" by (rule ge)
  show "k \<le> fold (\<lambda>(k, _). max k) ps m" if "k \<in> fst ` set ps"
    using that
  proof (induction ps arbitrary: m)
    case (Cons p ps)
    then show ?case using ge [of "max (fst p) m" ps] by (cases p) auto
  qed simp
qed

lemma list_refs_laws: "ref_laws (list_refs api) 0 (\<lambda>v. hd (fst v)) ref_value"
proof -
  have fresh: "map_of ps (1 + fold (\<lambda>(k, _). max k) ps 0) = None" for ps :: "(int \<times> int) list"
  proof -
    have "1 + fold (\<lambda>(k, _). max k) ps 0 \<notin> fst ` set ps"
      using fold_max_ge(1) [of "1 + fold (\<lambda>(k, _). max k) ps 0" ps 0] by auto
    then show ?thesis by (simp add: map_of_eq_None_iff)
  qed
  have pos: "0 \<le> fold (\<lambda>(k, _). max k) ps (0 :: int)" for ps :: "(int \<times> int) list" by (rule fold_max_ge)
  have filter: "map_of (filter (\<lambda>(k, _). k \<noteq> r) ps) = (map_of ps)(r := None)" for r :: int and ps :: "(int \<times> int) list"
    by (induction ps) (auto simp: fun_eq_iff)
  have ref: "if hd (fst v) = 0 then r = GAFQ_REFNIL \<and> ref_value v' = ref_value v
      else 0 \<le> r \<and> ref_value v r = None \<and> ref_value v' = (ref_value v)(r \<mapsto> hd (fst v))"
    if "gafqL_ref (list_refs api) GAFQ_REGISTRYINDEX v = (r, v')" for v r v'
  proof -
    have "r \<noteq> GAFQ_REFNIL" if "0 \<le> r" using that by (auto simp: GAFQ_REFNIL_def)
    then show ?thesis
      using that fresh [of "snd v"] pos [of "snd v"]
      by (auto simp: list_refs_def ref_value_def fun_eq_iff Let_def split: if_splits)
  qed
  show ?thesis
    unfolding ref_laws_def
  proof (intro conjI allI impI)
    fix v r v' assume "gafqL_ref (list_refs api) GAFQ_REGISTRYINDEX v = (r, v')"
    then show "if hd (fst v) = 0 then r = GAFQ_REFNIL \<and> ref_value v' = ref_value v
      else 0 \<le> r \<and> ref_value v r = None \<and> ref_value v' = (ref_value v)(r \<mapsto> hd (fst v))" by (rule ref)
  qed (auto simp: list_refs_def ref_value_def filter fun_eq_iff)
qed

end
