(* ===== verification/Plugin_Trace.thy ===== *)
theory Plugin_Trace
  imports Main
begin

text \<open>
  Protocol tracing (\<^verbatim>\<open>plugin_trace.h\<close>): the stages of a connection and the events of a trace, which
  the header lists in two macros and expands to enumerations, and the transitions between stages that it documents.
\<close>

section \<open>Stages\<close>

datatype protocol_stage =
    PROTOCOL_STAGE_CONNECTING | PROTOCOL_STAGE_WAIT_FOR_INIT_PACKET | PROTOCOL_STAGE_AUTHENTICATE |
    PROTOCOL_STAGE_SSL_NEGOTIATION | PROTOCOL_STAGE_READY_FOR_COMMAND | PROTOCOL_STAGE_WAIT_FOR_PACKET |
    PROTOCOL_STAGE_WAIT_FOR_RESULT | PROTOCOL_STAGE_WAIT_FOR_FIELD_DEF | PROTOCOL_STAGE_WAIT_FOR_ROW |
    PROTOCOL_STAGE_FILE_REQUEST | PROTOCOL_STAGE_WAIT_FOR_PS_DESCRIPTION |
    PROTOCOL_STAGE_WAIT_FOR_PARAM_DEF | PROTOCOL_STAGE_DISCONNECTED

definition PROTOCOL_STAGE_LIST :: "protocol_stage list" where
  "PROTOCOL_STAGE_LIST =
     [PROTOCOL_STAGE_CONNECTING, PROTOCOL_STAGE_WAIT_FOR_INIT_PACKET, PROTOCOL_STAGE_AUTHENTICATE,
      PROTOCOL_STAGE_SSL_NEGOTIATION, PROTOCOL_STAGE_READY_FOR_COMMAND, PROTOCOL_STAGE_WAIT_FOR_PACKET,
      PROTOCOL_STAGE_WAIT_FOR_RESULT, PROTOCOL_STAGE_WAIT_FOR_FIELD_DEF, PROTOCOL_STAGE_WAIT_FOR_ROW,
      PROTOCOL_STAGE_FILE_REQUEST, PROTOCOL_STAGE_WAIT_FOR_PS_DESCRIPTION,
      PROTOCOL_STAGE_WAIT_FOR_PARAM_DEF, PROTOCOL_STAGE_DISCONNECTED]"

text \<open>The enumeration numbers the stages in the order of the list; \<open>PROTOCOL_STAGE_LAST\<close> is behind it.\<close>

fun number_in :: "'a list \<Rightarrow> 'a \<Rightarrow> nat" where
  "number_in [] x = 0"
| "number_in (y # ys) x = (if x = y then 0 else Suc (number_in ys x))"

definition protocol_stage_code :: "protocol_stage \<Rightarrow> nat" where
  "protocol_stage_code s = number_in PROTOCOL_STAGE_LIST s"

definition PROTOCOL_STAGE_LAST :: nat where
  "PROTOCOL_STAGE_LAST = length PROTOCOL_STAGE_LIST"

text \<open>The documented graph: the stages that can follow a stage. Its \<open>READY_FOR_COMAND\<close> is read as \<open>READY_FOR_COMMAND\<close>.\<close>

fun next_stages :: "protocol_stage \<Rightarrow> protocol_stage list" where
  "next_stages PROTOCOL_STAGE_CONNECTING =
     [PROTOCOL_STAGE_WAIT_FOR_INIT_PACKET, PROTOCOL_STAGE_DISCONNECTED]"
| "next_stages PROTOCOL_STAGE_WAIT_FOR_INIT_PACKET =
     [PROTOCOL_STAGE_AUTHENTICATE, PROTOCOL_STAGE_SSL_NEGOTIATION]"
| "next_stages PROTOCOL_STAGE_AUTHENTICATE =
     [PROTOCOL_STAGE_READY_FOR_COMMAND, PROTOCOL_STAGE_DISCONNECTED]"
| "next_stages PROTOCOL_STAGE_SSL_NEGOTIATION =
     [PROTOCOL_STAGE_AUTHENTICATE]"
| "next_stages PROTOCOL_STAGE_READY_FOR_COMMAND =
     [PROTOCOL_STAGE_DISCONNECTED, PROTOCOL_STAGE_AUTHENTICATE, PROTOCOL_STAGE_WAIT_FOR_PACKET,
      PROTOCOL_STAGE_WAIT_FOR_RESULT, PROTOCOL_STAGE_WAIT_FOR_PS_DESCRIPTION]"
| "next_stages PROTOCOL_STAGE_WAIT_FOR_PACKET =
     [PROTOCOL_STAGE_READY_FOR_COMMAND]"
| "next_stages PROTOCOL_STAGE_WAIT_FOR_RESULT =
     [PROTOCOL_STAGE_READY_FOR_COMMAND, PROTOCOL_STAGE_WAIT_FOR_FIELD_DEF, PROTOCOL_STAGE_FILE_REQUEST]"
| "next_stages PROTOCOL_STAGE_WAIT_FOR_FIELD_DEF =
     [PROTOCOL_STAGE_WAIT_FOR_ROW, PROTOCOL_STAGE_READY_FOR_COMMAND]"
| "next_stages PROTOCOL_STAGE_WAIT_FOR_ROW =
     [PROTOCOL_STAGE_READY_FOR_COMMAND, PROTOCOL_STAGE_WAIT_FOR_RESULT]"
| "next_stages PROTOCOL_STAGE_FILE_REQUEST =
     [PROTOCOL_STAGE_WAIT_FOR_RESULT]"
| "next_stages PROTOCOL_STAGE_WAIT_FOR_PS_DESCRIPTION =
     [PROTOCOL_STAGE_WAIT_FOR_PARAM_DEF, PROTOCOL_STAGE_READY_FOR_COMMAND,
      PROTOCOL_STAGE_WAIT_FOR_FIELD_DEF]"
| "next_stages PROTOCOL_STAGE_WAIT_FOR_PARAM_DEF =
     [PROTOCOL_STAGE_WAIT_FOR_FIELD_DEF, PROTOCOL_STAGE_READY_FOR_COMMAND]"
| "next_stages PROTOCOL_STAGE_DISCONNECTED = []"

section \<open>Events\<close>

datatype trace_event =
    TRACE_EVENT_ERROR | TRACE_EVENT_CONNECTING | TRACE_EVENT_CONNECTED | TRACE_EVENT_DISCONNECTED |
    TRACE_EVENT_SEND_SSL_REQUEST | TRACE_EVENT_SSL_CONNECT | TRACE_EVENT_SSL_CONNECTED |
    TRACE_EVENT_INIT_PACKET_RECEIVED | TRACE_EVENT_AUTH_PLUGIN | TRACE_EVENT_SEND_AUTH_RESPONSE |
    TRACE_EVENT_SEND_AUTH_DATA | TRACE_EVENT_AUTHENTICATED | TRACE_EVENT_SEND_COMMAND |
    TRACE_EVENT_SEND_FILE | TRACE_EVENT_READ_PACKET | TRACE_EVENT_PACKET_RECEIVED |
    TRACE_EVENT_PACKET_SENT

definition TRACE_EVENT_LIST :: "trace_event list" where
  "TRACE_EVENT_LIST =
     [TRACE_EVENT_ERROR, TRACE_EVENT_CONNECTING, TRACE_EVENT_CONNECTED, TRACE_EVENT_DISCONNECTED,
      TRACE_EVENT_SEND_SSL_REQUEST, TRACE_EVENT_SSL_CONNECT, TRACE_EVENT_SSL_CONNECTED,
      TRACE_EVENT_INIT_PACKET_RECEIVED, TRACE_EVENT_AUTH_PLUGIN, TRACE_EVENT_SEND_AUTH_RESPONSE,
      TRACE_EVENT_SEND_AUTH_DATA, TRACE_EVENT_AUTHENTICATED, TRACE_EVENT_SEND_COMMAND,
      TRACE_EVENT_SEND_FILE, TRACE_EVENT_READ_PACKET, TRACE_EVENT_PACKET_RECEIVED,
      TRACE_EVENT_PACKET_SENT]"

definition trace_event_code :: "trace_event \<Rightarrow> nat" where
  "trace_event_code e = number_in TRACE_EVENT_LIST e"

definition TRACE_EVENT_LAST :: nat where
  "TRACE_EVENT_LAST = length TRACE_EVENT_LIST"

section \<open>The enumerations\<close>

lemma number_in_less: "x \<in> set xs \<Longrightarrow> number_in xs x < length xs"
  by (induction xs) auto

lemma nth_number_in: "x \<in> set xs \<Longrightarrow> xs ! number_in xs x = x"
  by (induction xs) auto

lemma number_in_nth: "distinct xs \<Longrightarrow> k < length xs \<Longrightarrow> number_in xs (xs ! k) = k"
  by (induction xs arbitrary: k) (auto simp: nth_Cons' in_set_conv_nth)

lemma stage_listed: "s \<in> set PROTOCOL_STAGE_LIST" "distinct PROTOCOL_STAGE_LIST"
  by (cases s; simp add: PROTOCOL_STAGE_LIST_def) (simp add: PROTOCOL_STAGE_LIST_def)

lemma event_listed: "e \<in> set TRACE_EVENT_LIST" "distinct TRACE_EVENT_LIST"
  by (cases e; simp add: TRACE_EVENT_LIST_def) (simp add: TRACE_EVENT_LIST_def)

text \<open>The numbers are those below the last member, each of one stage or event.\<close>

lemma bij_protocol_stage_code: "bij_betw protocol_stage_code UNIV {..<PROTOCOL_STAGE_LAST}"
  unfolding protocol_stage_code_def PROTOCOL_STAGE_LAST_def
  by (rule bij_betw_byWitness [where f' = "\<lambda>k. PROTOCOL_STAGE_LIST ! k"])
    (auto simp: nth_number_in number_in_nth number_in_less stage_listed)

lemma bij_trace_event_code: "bij_betw trace_event_code UNIV {..<TRACE_EVENT_LAST}"
  unfolding trace_event_code_def TRACE_EVENT_LAST_def
  by (rule bij_betw_byWitness [where f' = "\<lambda>k. TRACE_EVENT_LIST ! k"])
    (auto simp: nth_number_in number_in_nth number_in_less event_listed)

section \<open>The graph\<close>

text \<open>Paths along stages of a set.\<close>

inductive stage_path :: "protocol_stage set \<Rightarrow> protocol_stage \<Rightarrow> protocol_stage \<Rightarrow> bool"
  for S :: "protocol_stage set" and s :: protocol_stage
where
  path_here: "s \<in> S \<Longrightarrow> stage_path S s s"
| path_next: "stage_path S s t \<Longrightarrow> u \<in> set (next_stages t) \<Longrightarrow> u \<in> S \<Longrightarrow> stage_path S s u"

lemma path_trans: "stage_path S t u \<Longrightarrow> stage_path S s t \<Longrightarrow> stage_path S s u"
  by (induction rule: stage_path.induct) (auto intro: stage_path.intros)

lemma path_first: "t \<in> set (next_stages s) \<Longrightarrow> stage_path UNIV t u \<Longrightarrow> stage_path UNIV s u"
  by (rule path_trans) (auto intro: stage_path.intros)

lemma only_disconnected_final: "next_stages s = [] \<longleftrightarrow> s = PROTOCOL_STAGE_DISCONNECTED"
  by (cases s) simp_all

text \<open>From every stage the connection can still end.\<close>

lemma can_disconnect: "stage_path UNIV s PROTOCOL_STAGE_DISCONNECTED"
proof -
  let ?ends = "\<lambda>s. stage_path UNIV s PROTOCOL_STAGE_DISCONNECTED"
  have ready: "?ends PROTOCOL_STAGE_READY_FOR_COMMAND" and auth: "?ends PROTOCOL_STAGE_AUTHENTICATE"
    and conn: "?ends PROTOCOL_STAGE_CONNECTING"
    by (rule path_first [OF _ path_here], simp, simp)+
  have result: "?ends PROTOCOL_STAGE_WAIT_FOR_RESULT" by (rule path_first [OF _ ready]) simp
  show ?thesis
    by (cases s)
      (simp_all add: ready auth conn result path_here path_first [OF _ ready] path_first [OF _ auth] path_first [OF _ result])
qed

text \<open>Every stage can be reached from the first.\<close>

lemma all_reachable: "stage_path UNIV PROTOCOL_STAGE_CONNECTING s"
proof -
  let ?r = "stage_path UNIV PROTOCOL_STAGE_CONNECTING"
  have next_stage: "?r t \<Longrightarrow> u \<in> set (next_stages t) \<Longrightarrow> ?r u" for t u by (rule path_next) simp_all
  have conn: "?r PROTOCOL_STAGE_CONNECTING" by (rule path_here) simp
  have init: "?r PROTOCOL_STAGE_WAIT_FOR_INIT_PACKET" by (rule next_stage [OF conn]) simp
  have auth: "?r PROTOCOL_STAGE_AUTHENTICATE" by (rule next_stage [OF init]) simp
  have ready: "?r PROTOCOL_STAGE_READY_FOR_COMMAND" by (rule next_stage [OF auth]) simp
  have result: "?r PROTOCOL_STAGE_WAIT_FOR_RESULT" by (rule next_stage [OF ready]) simp
  have field: "?r PROTOCOL_STAGE_WAIT_FOR_FIELD_DEF" by (rule next_stage [OF result]) simp
  have ps: "?r PROTOCOL_STAGE_WAIT_FOR_PS_DESCRIPTION" by (rule next_stage [OF ready]) simp
  show ?thesis
    by (cases s)
      (simp_all add: conn init auth ready result field ps next_stage [OF conn] next_stage [OF init] next_stage [OF ready]
        next_stage [OF result] next_stage [OF field] next_stage [OF ps])
qed

text \<open>Without authentication no stage for commands is reached.\<close>

lemma authentication_required:
  "stage_path (- {PROTOCOL_STAGE_AUTHENTICATE}) PROTOCOL_STAGE_CONNECTING s \<Longrightarrow>
     s \<in> {PROTOCOL_STAGE_CONNECTING, PROTOCOL_STAGE_WAIT_FOR_INIT_PACKET, PROTOCOL_STAGE_SSL_NEGOTIATION,
          PROTOCOL_STAGE_DISCONNECTED}"
  by (induction rule: stage_path.induct) auto

text \<open>A connection that has ended does not go on.\<close>

lemma disconnected_stays: "stage_path S PROTOCOL_STAGE_DISCONNECTED s \<Longrightarrow> s = PROTOCOL_STAGE_DISCONNECTED"
  by (induction rule: stage_path.induct) auto

end
