(* ===== verification/Spec2Isabelle.thy ===== *)
theory Spec2Isabelle
  imports Socket_Session Chat_Client Game_Script Endian_Headers Psi_File Psi_Socket Psi_Events
    Thr_Native M_String C_Strings Io_Cache Field_Types Init_Db Test_Engine Engine_Facts
    Relay_Threads Double_Conv Error_Tables Ssl_Options Dbug Gafq_Buffer
    Gafq_Aux Plugin_Trace
begin

text \<open>
  A verification development for the game server \<^verbatim>\<open>gafq_engine\<close>.

  \<^bold>\<open>The program.\<close> Clients send messages over TCP, each a decimal length in four characters and a
  body of at most 1024 bytes (\<^verbatim>\<open>socket_msg.h\<close>). The server accepts connections in an
  epoll loop (\<open>init_epool\<close> in \<^verbatim>\<open>game.cpp\<close>), reads one message per event and
  submits it to the script engine (\<open>ScriptEngine::ExecGafq\<close> in
  \<^verbatim>\<open>script_engine.cpp\<close>), a queue behind a mutex. The main thread takes the whole queue
  and calls one script function per message (\<open>LoopExecute\<close>). The function is
  \<open>start_action\<close> of \<^verbatim>\<open>script.gafq\<close>, which reads the message as JSON
  (\<^verbatim>\<open>json.gafq\<close>) and answers through the C
  function \<open>send_data\<close>. The same file holds an alternative server on Boost.Asio
  (\<open>socket_server\<close>, \<open>socket_session\<close>). \<^verbatim>\<open>game_config.cpp\<close> keeps the
  configuration, \<^verbatim>\<open>chat_client.cpp\<close> is a client, \<open>init_db\<close> a probe of the
  database. The repository carries the headers of the Gafq interpreter and of the MySQL client, with
  macros and inline functions of their own.

  \<^bold>\<open>Theories, in the order of their imports.\<close>
  \<^item> \<open>Engine_Prelude\<close>: results with faults (\<open>Out_Of_Bounds\<close>,
    \<open>Null_Deref\<close>, an uncaught exception, an exit code), checked array accesses, C strings.
  \<^item> \<open>C_Library\<close>: \<open>atoi\<close>, \<open>sprintf\<close> with \<open>%4d\<close> and
    the string functions the code calls, with their round trip.
  \<^item> \<open>Socket_Msg\<close>: the class \<open>socket_msg\<close>, one definition per member function;
    \<open>msg_inv\<close> is its invariant. \<open>Framing\<close>: the byte stream of a sequence of messages and
    the interface (a locale) of a frame format, interpreted by \<open>socket_msg\<close>.
  \<^item> \<open>Asio\<close>: what the code relies on of asynchronous reads and writes, as locales over a step
    relation: a write queue with at most one write in flight, and a reader of frames.
    \<open>Socket_Session\<close> and \<open>Chat_Client\<close> define the handlers of \<open>socket_session\<close>,
    \<open>socket_server\<close> and \<open>chat_client\<close> and interpret the locales with them.
  \<^item> \<open>Gafq_Api\<close>: constants and macros of \<^verbatim>\<open>gafq.h\<close> and \<^verbatim>\<open>gauxlib.h\<close>;
    the interpreter's functions are the record \<open>gafq_api\<close>, and
    \<open>gafq_stack_laws\<close> names the stack effects its manual documents.
    \<open>Script_Engine\<close>: the queue and both of its ends, sequentially.
    \<open>Engine_Threads\<close>: the same code statement by statement, as a step relation of submitting
    threads and the main thread, and the race of \<open>get_instance\<close>.
  \<^item> \<open>Epoll_Server\<close>, \<open>Game_Config\<close>, \<open>Game_Main\<close>: the epoll loop, the
    configuration, start-up, \<open>send_data\<close> and \<open>main\<close>. The operating system, Boost's property
    tree and its option parser are records of functions. \<open>Init_Db\<close>: the database probe and the
    stand-alone test \<^verbatim>\<open>test_db_mysql_c.cpp\<close>. \<open>Test_Engine\<close>: the example
    \<^verbatim>\<open>test_game_eng.cpp\<close>.
  \<^item> \<open>Json_Decode\<close>: the parser of \<^verbatim>\<open>json.gafq\<close>, function by function, with
    its error messages and their positions. \<open>Json_Encode\<close>: the encoder on a heap of tables, with
    the set of open tables that detects cycles; \<open>unfolds\<close> and \<open>json_text\<close> are its
    specification. \<open>Json_Roundtrip\<close>: the parser reads what the encoder writes, and the interface
    of a text codec. \<open>Game_Script\<close>: \<^verbatim>\<open>script.gafq\<close>, whose functions return a result
    and the list of their effects. \<open>Relay\<close> joins it to the engine: \<open>runs_script\<close> says that
    the interpreter runs this script and performs its effects with the C function \<open>send_data\<close>.
    \<open>Relay_Threads\<close> runs the threads of \<open>Engine_Threads\<close> together with that interpreter.
  \<^item> \<open>Byte_Order\<close>, \<open>Endian_Headers\<close>: the codecs of \<^verbatim>\<open>my_byteorder.h\<close>,
    \<^verbatim>\<open>byte_order_generic.h\<close>, \<^verbatim>\<open>byte_order_generic_x86.h\<close>,
    \<^verbatim>\<open>little_endian.h\<close>, \<^verbatim>\<open>big_endian.h\<close>. \<open>M_String\<close>, \<open>C_Strings\<close>: the inline
    functions of \<^verbatim>\<open>m_string.h\<close>.
  \<^item> \<open>Psi_Core\<close>, \<open>Psi_Thread\<close>, \<open>Psi_File\<close>, \<open>Psi_Socket\<close>: the
    instrumented wrappers of \<^verbatim>\<open>mysql/psi\<close> and the contract that each of them is a
    replacement of the native operation. \<open>Psi_Events\<close>: the functions of the same directory that
    report statements, transactions, stages and other events, and the protocol of a running event.
  \<^item> \<open>My_Global\<close>: arithmetic and time macros of \<^verbatim>\<open>my_global.h\<close>;
    \<open>Rounding\<close> and \<open>Double_Conv\<close>: rounding to integers and doubles, and that header's conversions
    between doubles and 64-bit integers.
    \<open>Thr_Native\<close>: the layers below the instrumented locks (\<^verbatim>\<open>thr_mutex.h\<close>,
    \<^verbatim>\<open>thr_rwlock.h\<close>, \<^verbatim>\<open>thr_cond.h\<close>, \<^verbatim>\<open>my_thread.h\<close>,
    \<^verbatim>\<open>my_thread_local.h\<close>) on both platforms. \<open>Io_Cache\<close>: the macros of
    \<^verbatim>\<open>my_sys.h\<close> around the functions of buffered files. \<open>Field_Types\<close>: types and flags
    of \<^verbatim>\<open>mysql.h\<close>, \<^verbatim>\<open>mysql_com.h\<close>, \<^verbatim>\<open>binary_log_types.h\<close>,
    \<^verbatim>\<open>m_ctype.h\<close> and \<^verbatim>\<open>decimal.h\<close>.
  \<^item> \<open>Error_Defines\<close>, \<open>Error_Names\<close>: the entries of \<^verbatim>\<open>mysqld_error.h\<close>,
    \<^verbatim>\<open>sql_state.h\<close> and \<^verbatim>\<open>mysqld_ername.h\<close>, in parts of 135 lines.
    \<open>Error_Tables\<close>: what the tables promise, and the errors of the client
    (\<^verbatim>\<open>errmsg.h\<close>).
  \<^item> \<open>Ssl_Options\<close>: the SSL options of the MySQL clients (\<^verbatim>\<open>sslopt-case.h\<close>,
    \<^verbatim>\<open>sslopt-vars.h\<close>, \<^verbatim>\<open>sslopt-longopts.h\<close>). \<open>Dbug\<close>: the macros of
    \<^verbatim>\<open>my_dbug.h\<close>, with and without the debugger. \<open>Gafq_Conf\<close>, \<open>Gafq_Buffer\<close>:
    the interpreter's configuration (\<^verbatim>\<open>gafqconf.h\<close>) and the string buffers of
    \<^verbatim>\<open>gauxlib.h\<close>. \<open>Gafq_Aux\<close>: its macros for arguments and references.
    \<open>Plugin_Trace\<close>: stages and events of \<^verbatim>\<open>plugin_trace.h\<close>.
  \<^item> \<open>Engine_Facts\<close>: facts about single functions that the properties below do not cover, most of
    them defects.

  \<^bold>\<open>What is shown.\<close> C1 to C3: the message format (round trip, no header leads outside the buffer,
  a stream has one reading). C4 to C9: the asynchronous session, acceptor and client (order of writes,
  no second write in flight, messages printed in the order of the stream and all of them). C10 to C13:
  the epoll loop, from the bytes of a client to the item in the queue, and the
  effect of reading one byte too many. C14 to C17: the engine and the script interface (a round executes
  the queue in order, exact stack heights, frames sent by \<open>send_data\<close>). C18 to C24: the JSON library
  (termination, well-formed values, positions of errors, what the encoder accepts and writes, round trip) and
  the script (a message is relayed from the wire through the engine and its script to the receiver's wire, the
  outcome of every message). C25 to C28: threads (FIFO, refinement to an atomic queue, progress, and
  the relay of messages under every interleaving). C29: codecs.
  C30 to C34: wrappers, the layers of locks down to the platform, locks and deadlines on
  Windows, and the event protocol. C35: buffered files. C36: the database probe. C37 to C39:
  the options of the clients, debugging builds, and conversions of numbers. C40: the tables of the server's errors.

  \<^bold>\<open>Bounds.\<close> Members keep their widths: \<open>size_t\<close> is a word of 64 bits, the counters
  are words of 32. The server's endless loops take the number of rounds as an argument
  (\<open>epoll_rounds\<close>, \<open>main_loop\<close>), and the theorems hold for every number. The loop of
  \<open>init_db\<close> takes fuel; any fuel above the number of rows is enough (C36). Every other
  definition terminates; for the JSON library that is C18. Numbers of scripts are a type parameter with the
  interpreter's conversions as functions; the round trip needs them to be inverse on the numbers at hand.

  \<^bold>\<open>Not modelled.\<close> The interpreter, Boost, the MySQL client, the performance schema and the operating
  system are parameters, with their documented behaviour as named hypotheses. The order in which
  \<open>pairs\<close> visits a table is the order of its list; a table that contains itself cannot be built by the
  decoder, so \<open>dump\<close> runs on trees. The stack of the interpreter is not bounded, so a text nested
  deeper than it allows is read here and an error there. The
  remaining vendored headers (declarations, configuration macros, the interfaces of plugins other than tracing) have no definitions here. In \<open>init_epool\<close> the error branch of
  \<open>listen\<close> lacks its closing brace (\<^verbatim>\<open>game.cpp\<close>, line 243); it is read as an
  \<open>if\<close> with an \<open>else\<close>. Undefined behaviour ends in a fault; what a machine does after it is
  outside the model.
\<close>

section \<open>The message format\<close>

text \<open>
  C1: Encoding the header of a message and decoding it again succeeds, changes neither the message
  nor its body length, and the bytes on the wire are the four-character length followed by the
  body.
\<close>

theorem header_roundtrip:
  assumes "msg_inv m"
  shows "\<exists>m'. encode_header m = Inr m' \<and> decode_header m' = Inr (True, m')
    \<and> body_length' m' = body_length' m \<and> body_bytes m' = body_bytes m
    \<and> wire m' = frame (body_bytes m)"
proof -
  obtain m' where m': "encode_header m = Inr m'"
    using encode_header_eq [OF assms] by blast
  have inv: "msg_inv m'" by (rule msg_inv_encode_header [OF assms m'])
  have w: "wire m' = frame (body_bytes m)" by (rule wire_encode_header [OF assms m'])
  have n: "length (body_bytes m) = unat (body_length' m)" "unat (body_length' m) \<le> max_body_length"
    using assms by (simp_all add: body_bytes_def msg_body_def msg_inv_def)
  have l: "length (format_4d (int (unat (body_length' m)))) = 4"
    using n by (intro length_format_4d) (simp add: msg_consts)
  have d: "data' m' = format_4d (int (unat (body_length' m))) @ drop header_length (data' m)"
    and b: "body_length' m' = body_length' m"
    using m' encode_header_eq [OF assms] by auto
  have "header_value (take header_length (data' m')) = Some (unat (body_length' m'))"
    using header_value_frame [of "body_bytes m"] n l by (simp add: frame_def d b msg_consts)
  then have "decode_header m' = Inr (True, m'\<lparr>body_length' := of_nat (unat (body_length' m'))\<rparr>)"
    using inv by (simp add: decode_header_value msg_inv_def)
  then have "decode_header m' = Inr (True, m')" by simp
  moreover have "body_bytes m' = body_bytes m"
    using l by (simp add: body_bytes_def msg_body_def d b msg_consts)
  ultimately show ?thesis using m' b w by blast
qed

theorem header_roundtrip_witness:
  "\<exists>m'. encode_header (set_body_length 3 (socket_msg_ctor (replicate 1028 CHR ''x''))) = Inr m'
    \<and> decode_header m' = Inr (True, m') \<and> wire m' = ''   3xxx''"
proof -
  let ?m = "set_body_length 3 (socket_msg_ctor (replicate 1028 CHR ''x''))"
  have i: "msg_inv ?m"
    by (intro msg_inv_set_body_length msg_inv_ctor) (simp add: msg_consts)
  have "unat (body_length' ?m) = 3" "data' ?m = replicate 1028 CHR ''x''"
    by (simp_all add: unat_set_body_length msg_consts) (simp add: set_body_length_eq socket_msg_ctor_def)
  then have "body_bytes ?m = replicate 3 CHR ''x''"
    by (simp add: body_bytes_def msg_body_def msg_consts)
  then have "frame (body_bytes ?m) = ''   3xxx''" by (simp only:) code_simp
  with header_roundtrip [OF i] show ?thesis by auto
qed

text \<open>
  C2: Decoding a header is safe on every content of the buffer: it returns, keeps the bytes, and
  the body length is at most 1024 afterwards. It is accepted exactly when the text of the first
  four bytes reads as a number from 0 to 1024, which is then the length.
\<close>

theorem decode_header_safe:
  assumes "length (data' m) = header_length + max_body_length"
  shows "\<exists>ok m'. decode_header m = Inr (ok, m') \<and> msg_inv m' \<and> data' m' = data' m
    \<and> (ok \<longleftrightarrow> 0 \<le> atoi (header_text (data' m)) \<and> atoi (header_text (data' m)) \<le> 1024)
    \<and> int (unat (body_length' m')) = (if ok then atoi (header_text (data' m)) else 0)"
proof (cases "0 \<le> atoi (header_text (data' m)) \<and> atoi (header_text (data' m)) \<le> 1024")
  case True
  define i where "i = atoi (header_text (data' m))"
  have "decode_header m = Inr (True, m\<lparr>body_length' := word_of_int i\<rparr>)"
    using True assms by (simp add: decode_header_eq i_def)
  moreover have u: "unat (word_of_int i :: size_t) = nat i"
    using True by (intro unat_word_of_int_header) (simp_all add: i_def)
  moreover have "0 \<le> i" "nat i \<le> 1024"
    using True unfolding i_def by linarith+
  moreover from this have "int (unat (word_of_int i :: size_t)) = i"
    unfolding u by simp
  ultimately show ?thesis
    using True assms unfolding i_def [symmetric]
    by (intro exI [of _ True] exI [of _ "m\<lparr>body_length' := word_of_int i\<rparr>"] conjI)
      (simp_all add: msg_inv_def msg_consts nat_le_iff)
next
  case False
  with assms have "decode_header m = Inr (False, m\<lparr>body_length' := 0\<rparr>)"
    by (simp only: decode_header_eq Let_def if_False)
  with False assms show ?thesis by (auto simp: msg_inv_def)
qed

theorem decode_header_safe_witness:
  "\<exists>m'. decode_header \<lparr>data' = ''  -1'' @ replicate 1024 NUL, body_length' = 7\<rparr> = Inr (False, m')
    \<and> body_length' m' = 0"
proof -
  let ?m = "\<lparr>data' = ''  -1'' @ replicate 1024 NUL, body_length' = 7 :: size_t\<rparr>"
  have t: "header_text (data' ?m) = ''  -1''" by (simp add: header_text_def msg_consts)
  have a: "atoi ''  -1'' = - 1" by code_simp
  obtain ok m' where "decode_header ?m = Inr (ok, m')"
    "ok \<longleftrightarrow> 0 \<le> atoi (header_text (data' ?m)) \<and> atoi (header_text (data' ?m)) \<le> 1024"
    "int (unat (body_length' m')) = (if ok then atoi (header_text (data' ?m)) else 0)"
    using decode_header_safe [of ?m] by (auto simp: msg_consts)
  then show ?thesis unfolding t a by (auto simp: uint_0_iff)
qed

text \<open>
  C3: The wire format is unambiguous: whatever bytes follow, cutting the frames of a list of bodies
  gives exactly these bodies back, and two lists with the same stream are equal.
\<close>

theorem framing_unambiguous:
  assumes "\<forall>b \<in> set bs. length b \<le> max_body_length"
  shows "deframe header_value (concat (map frame bs) @ r)
      = (bs @ fst (deframe header_value r), snd (deframe header_value r))
    \<and> (\<forall>cs. (\<forall>c \<in> set cs. length c \<le> max_body_length)
        \<longrightarrow> concat (map frame cs) = concat (map frame bs) \<longrightarrow> cs = bs)"
  using msg_format.deframe_stream [OF assms] msg_format.enc_stream_inj [OF _ assms] by blast

theorem framing_unambiguous_witness:
  "deframe header_value (concat (map frame [''hello'', [], ''42'']) @ ''  9'')
     = ([''hello'', [], ''42''], ''  9'')"
  using framing_unambiguous [of "[''hello'', [], ''42'']" "''  9''"]
  by (simp add: deframe_short msg_consts)

section \<open>Connections\<close>

text \<open>
  C4: A session sends its messages in the order of the calls of \<open>deliver\<close>: in every
  reachable state the bytes on the wire are a prefix of the accepted messages one after the other,
  at most one write is outstanding, and when the queue is empty everything has been sent.
\<close>

theorem session_writes_fifo:
  assumes "wq_reachable deliver handle_write (socket_session_ctor u) x"
  shows "prefix (wq_sent x) (concat (map wire (wq_accepted x)))
    \<and> length (wq_pending x) \<le> 1
    \<and> (write_msgs (wq_obj x) = [] \<longrightarrow> wq_sent x = concat (map wire (wq_accepted x)))"
proof -
  have q: "write_msgs (socket_session_ctor u) = []" by (simp add: socket_session_ctor_def)
  show ?thesis
    using sess_wq.sent_prefix [OF q assms] sess_wq.idle_all_sent [OF q assms] by blast
qed

theorem session_writes_fifo_witness:
  "\<exists>x. wq_reachable deliver handle_write (socket_session_ctor []) x
    \<and> wq_accepted x = [\<lparr>data' = replicate 1028 NUL, body_length' = 0\<rparr>]
    \<and> prefix (wq_sent x) (replicate 4 NUL)"
proof -
  let ?m = "\<lparr>data' = replicate 1028 NUL, body_length' = 0 :: size_t\<rparr>"
  let ?s = "socket_session_ctor []"
  let ?x = "\<lparr>wq_obj = ?s\<lparr>write_msgs := [?m]\<rparr>, wq_pending = [] @ writes_of [write_op ?m],
    wq_sent = [], wq_accepted = [] @ [?m]\<rparr>"
  have i: "msg_inv ?m" by (simp add: msg_inv_def msg_consts)
  have d: "deliver ?m ?s = Inr ([write_op ?m], ?s\<lparr>write_msgs := [?m]\<rparr>)"
    by (simp add: deliver_def socket_session_ctor_def)
  have r: "wq_reachable deliver handle_write ?s ?x"
    by (rule wq_next [OF wq_start], rule wq_step.deliver, rule i, rule d)
  have "wire ?m = replicate 4 NUL"
    by (simp add: wire_def unat_msg_length [OF i])
  with r session_writes_fifo [OF r] show ?thesis by (intro exI [of _ ?x]) simp
qed

text \<open>
  C5: The same for the client, whose messages are queued by \<open>do_write\<close>: order is kept,
  at most one write is outstanding, and an empty queue means that everything was sent.
\<close>

theorem client_writes_fifo:
  assumes "wq_reachable do_write cl_handle_write (snd (chat_client_ctor u)) x"
  shows "prefix (wq_sent x) (concat (map wire (wq_accepted x)))
    \<and> length (wq_pending x) \<le> 1
    \<and> (cl_write_msgs (wq_obj x) = [] \<longrightarrow> wq_sent x = concat (map wire (wq_accepted x)))"
proof -
  have q: "cl_write_msgs (snd (chat_client_ctor u)) = []" by (simp add: chat_client_ctor_def)
  show ?thesis
    using client_wq.sent_prefix [OF q assms] client_wq.idle_all_sent [OF q assms] by blast
qed

theorem client_writes_fifo_witness:
  "\<exists>x. wq_reachable do_write cl_handle_write (snd (chat_client_ctor [])) x
    \<and> cl_write_msgs (wq_obj x) = [] \<and> wq_accepted x \<noteq> [] \<and> wq_sent x = replicate 4 NUL"
proof -
  let ?m = "\<lparr>data' = replicate 1028 NUL, body_length' = 0 :: size_t\<rparr>"
  let ?c = "snd (chat_client_ctor [])"
  let ?d = "?c\<lparr>cl_write_msgs := [?m]\<rparr>"
  let ?x = "\<lparr>wq_obj = ?d, wq_pending = [] @ writes_of [write_op ?m], wq_sent = [], wq_accepted = [] @ [?m]\<rparr>"
  let ?y = "\<lparr>wq_obj = ?c, wq_pending = [] @ [] @ writes_of [], wq_sent = [] @ replicate 4 NUL,
    wq_accepted = [] @ [?m]\<rparr>"
  have i: "msg_inv ?m" by (simp add: msg_inv_def msg_consts)
  have w: "wire ?m = replicate 4 NUL" by (simp add: wire_def unat_msg_length [OF i])
  have d: "do_write ?m ?c = Inr ([write_op ?m], ?d)"
    by (simp add: do_write_def chat_client_ctor_def)
  have h: "cl_handle_write False ?d = Inr ([], ?c)"
    by (simp add: cl_handle_write_def chat_client_ctor_def)
  have x: "wq_reachable do_write cl_handle_write ?c ?x"
    by (rule wq_next [OF wq_start], rule wq_step.deliver, rule i, rule d)
  have "wq_step do_write cl_handle_write
      \<lparr>wq_obj = ?d, wq_pending = [] @ (data' ?m, unat (msg_length ?m)) # [], wq_sent = [],
       wq_accepted = [] @ [?m]\<rparr> ?y"
    using read_wire [OF i] h unfolding w by (rule wq_step.written)
  with x have y: "wq_reachable do_write cl_handle_write ?c ?y"
    by (auto intro: wq_next)
  then show ?thesis
    using client_writes_fifo [OF y] w by (intro exI [of _ ?y]) (simp add: chat_client_ctor_def)
qed

text \<open>
  C6: What the client prints: for every stream of the server, cut by the reads of the client in any
  way, the output is the bodies of complete frames at the front of the received bytes, one line
  each, in order; and every read stays inside the message buffer.
\<close>

theorem client_prints_stream:
  assumes u: "length u = header_length + max_body_length"
    and r: "client_rd_reachable (snd (chat_client_ctor u)) x"
  shows "\<exists>bs. cl_out (rd_obj x) = printed bs
      \<and> prefix bs (fst (deframe header_value (rd_consumed x)))
    \<and> (\<forall>(off, n, h) \<in> set (rd_pending x). off + n \<le> length (data' (cl_read_msg (rd_obj x))))"
proof -
  have "msg_inv (cl_read_msg (snd (chat_client_ctor u)))"
    using msg_inv_ctor [OF u] by (simp add: chat_client_ctor_def)
  from client_rd.bodies_of_stream [OF this r] client_prints_bodies [OF r] show ?thesis
    by (auto simp: chat_client_ctor_def)
qed

theorem client_prints_stream_witness:
  "\<exists>x bs. client_rd_reachable (snd (chat_client_ctor (replicate 1028 NUL))) x
    \<and> rd_consumed x = ''   2hi   0'' \<and> cl_out (rd_obj x) = printed bs
    \<and> prefix bs (fst (deframe header_value ''   2hi   0''))"
proof -
  let ?u = "replicate 1028 NUL"
  have f: "concat (map frame [''hi'', []]) = ''   2hi   0''" by code_simp
  have u: "length ?u = header_length + max_body_length" by (simp add: msg_consts)
  have "\<exists>s. client_rd_reachable (snd (chat_client_ctor ?u))
      \<lparr>rd_obj = s, rd_pending = [(0, header_length, Handle_read_header)],
       rd_consumed = concat (map frame [''hi'', []]), rd_bodies = [''hi'', []]\<rparr>"
    using client_stream_readable [OF u, of "[''hi'', []]"] by (auto simp: msg_consts)
  then obtain s where r: "client_rd_reachable (snd (chat_client_ctor ?u))
      \<lparr>rd_obj = s, rd_pending = [(0, header_length, Handle_read_header)],
       rd_consumed = ''   2hi   0'', rd_bodies = [''hi'', []]\<rparr>"
    unfolding f by blast
  let ?x = "\<lparr>rd_obj = s, rd_pending = [(0, header_length, Handle_read_header)],
    rd_consumed = ''   2hi   0'', rd_bodies = [''hi'', []]\<rparr>"
  obtain bs where "cl_out s = printed bs" "prefix bs (fst (deframe header_value ''   2hi   0''))"
    using client_prints_stream [OF u r] by auto
  with r show ?thesis by (intro exI [of _ ?x] exI [of _ bs]) simp
qed

text \<open>
  C7: The client can read every stream of frames to its end: a run exists that consumes the frames
  of any list of bodies, prints each of them on a line of its own and waits for the next header.
\<close>

theorem client_reads_all:
  assumes "length u = header_length + max_body_length" and "\<forall>b \<in> set bs. length b \<le> max_body_length"
  shows "\<exists>x. client_rd_reachable (snd (chat_client_ctor u)) x
    \<and> rd_consumed x = concat (map frame bs) \<and> cl_out (rd_obj x) = printed bs
    \<and> rd_pending x = [(0, header_length, Handle_read_header)]"
proof -
  obtain s where r: "client_rd_reachable (snd (chat_client_ctor u))
      \<lparr>rd_obj = s, rd_pending = [(0, header_length, Handle_read_header)],
       rd_consumed = concat (map frame bs), rd_bodies = bs\<rparr>"
    using client_stream_readable [OF assms] by blast
  from client_prints_bodies [OF r] r show ?thesis
    by (force simp: chat_client_ctor_def)
qed

theorem client_reads_all_witness:
  "\<exists>x. client_rd_reachable (snd (chat_client_ctor (replicate 1028 NUL))) x
    \<and> rd_consumed x = ''   2hi   1!'' \<and> cl_out (rd_obj x) = ''hi'' @ [newline] @ ''!'' @ [newline]"
proof -
  have f: "concat (map frame [''hi'', ''!'']) = ''   2hi   1!''" by code_simp
  have p: "printed [''hi'', ''!''] = ''hi'' @ [newline] @ ''!'' @ [newline]" by code_simp
  from client_reads_all [of "replicate 1028 NUL" "[''hi'', ''!'']"] show ?thesis
    unfolding f p by (auto simp: msg_consts)
qed

text \<open>
  C8: The read loop of a session follows the frames of the peer: in every reachable state the
  bodies handed to \<open>handle_read_body\<close> are the first complete frames of the received
  bytes, at most one read is outstanding and it stays inside the message buffer.
\<close>

theorem session_reads_stream:
  assumes u: "length u = header_length + max_body_length"
    and r: "rd_reachable handle_read_header handle_read_body read_msg set_read_msg (socket_session_ctor u) x"
  shows "prefix (rd_bodies x) (fst (deframe header_value (rd_consumed x)))
    \<and> (\<forall>(off, n, h) \<in> set (rd_pending x). off + n \<le> length (data' (read_msg (rd_obj x))))
    \<and> length (rd_pending x) \<le> 1"
proof -
  have "msg_inv (read_msg (socket_session_ctor u))"
    using msg_inv_ctor [OF u] by (simp add: socket_session_ctor_def)
  from sess_rd.bodies_of_stream [OF this r] show ?thesis .
qed

theorem session_reads_stream_witness:
  "\<exists>x. rd_reachable handle_read_header handle_read_body read_msg set_read_msg
      (socket_session_ctor (replicate 1028 NUL)) x
    \<and> rd_consumed x = ''  12'' \<and> rd_pending x = [(4, 12, Handle_read_body)]
    \<and> prefix (rd_bodies x) (fst (deframe header_value ''  12''))"
proof -
  let ?s = "socket_session_ctor (replicate 1028 NUL)"
  let ?d = "''  12'' @ replicate 1024 NUL"
  let ?m = "\<lparr>data' = ?d, body_length' = 12 :: size_t\<rparr>"
  let ?x = "\<lparr>rd_obj = ?s\<lparr>read_msg := ?m\<rparr>, rd_pending = [] @ [] @ reads_of [Async_read 4 12 Handle_read_body],
    rd_consumed = [] @ ''  12'', rd_bodies = []\<rparr>"
  have w: "mem_write (data' (read_msg ?s)) 0 ''  12'' = Inr ?d"
    by (simp add: socket_session_ctor_def socket_msg_ctor_def mem_write_ok)
  have t: "header_text ?d = ''  12''" by (simp add: header_text_def msg_consts)
  have a: "atoi ''  12'' = 12" by code_simp
  have hh: "handle_read_header False (set_read_msg ((read_msg ?s)\<lparr>data' := ?d\<rparr>) ?s)
      = Inr ([Async_read 4 12 Handle_read_body], ?s\<lparr>read_msg := ?m\<rparr>)"
    using t a by (simp add: handle_read_header_def set_read_msg_def decode_header_eq msg_consts
        socket_session_ctor_def socket_msg_ctor_def msg_body_length_def)
  have st: "rd_step handle_read_header handle_read_body read_msg set_read_msg
      \<lparr>rd_obj = ?s, rd_pending = [] @ (0, 4, Handle_read_header) # [], rd_consumed = [], rd_bodies = []\<rparr> ?x"
    by (rule rd_step.header_read, simp, rule w, rule hh)
  have r: "rd_reachable handle_read_header handle_read_body read_msg set_read_msg ?s ?x"
    using rd_next [OF rd_start] st by (simp add: msg_consts)
  have u: "length (replicate 1028 NUL) = header_length + max_body_length" by (simp add: msg_consts)
  from session_reads_stream [OF u r] r show ?thesis by (intro exI [of _ ?x]) simp
qed

text \<open>
  C9: The acceptor never stops listening: after any number of accepts, failed or not, exactly one
  accept is outstanding, on a session that has not started, every accept that succeeded has
  started its session, and the handler of the outstanding accept returns.
\<close>

theorem acceptor_always_listening:
  assumes "server_run u srv k"
  shows "\<exists>i s. srv_accepting srv = [i] \<and> srv_sessions srv i = Some (s, [])
    \<and> card (started srv) = k
    \<and> (\<forall>v e. \<exists>srv'. handle_accept v i e srv = Inr srv' \<and> length (srv_accepting srv') = 1)"
proof -
  have inv: "server_inv srv k" by (rule server_run_inv [OF assms])
  then obtain i s where i: "srv_accepting srv = [i]" "srv_sessions srv i = Some (s, [])"
    by (auto simp: server_inv_def)
  have "\<exists>srv'. handle_accept v i e srv = Inr srv' \<and> length (srv_accepting srv') = 1" for v e
    using server_inv_accept [OF inv, of i v e] i by (auto simp: server_inv_def)
  with i inv show ?thesis by (auto simp: server_inv_def)
qed

theorem acceptor_always_listening_witness:
  "\<exists>srv. server_run [] srv 1 \<and> card (started srv) = 1 \<and> length (srv_accepting srv) = 1"
proof -
  obtain srv where "handle_accept [] 0 False (socket_server_ctor []) = Inr srv"
    using server_inv_accept [OF server_inv_ctor, of 0 "[]" "[]" False]
    by (auto simp: socket_server_ctor_def start_accept_def)
  then have "server_run [] srv (if False then 0 else Suc 0)"
    by (intro run_accept [OF run_start]) (simp_all add: socket_server_ctor_def start_accept_def)
  then have r: "server_run [] srv 1" by simp
  from acceptor_always_listening [OF r] r show ?thesis by auto
qed

section \<open>The server loop\<close>



text \<open>
  C11: When a readable event is unsafe, for every kernel that obeys the law of \<open>read\<close>:
  exactly when the header is accepted and the body read returns more than 1024 bytes, or 1024 with
  no NUL among them. Otherwise the event is handled and the message buffer stays in its invariant.
\<close>

theorem readable_event_safety:
  assumes "read_law os" and "msg_inv (ls_msg s)"
    and "sys_read os fd header_length (ls_kernel s) = ((r, h), k)"
  shows "((\<exists>x. handle_readable os fd s = Inl x) \<longleftrightarrow>
      (\<exists>n r1 b k1. 0 < r \<and> announced h = Some n \<and> sys_read os fd (Suc n) k = ((r1, b), k1)
         \<and> (max_body_length < length b \<or> length b = max_body_length \<and> NUL \<notin> set b)))
    \<and> (\<forall>s'. handle_readable os fd s = Inr s' \<longrightarrow> msg_inv (ls_msg s'))"
  using handle_readable_fault_iff [OF assms] handle_readable_inv [OF assms(1,2)] by blast

theorem readable_event_safety_witness:
  "\<not> (\<exists>x. handle_readable stream_os 5
      \<lparr>ls_msg = socket_msg_ctor (replicate 1028 NUL), ls_engine = get_instance (0::nat) None,
       ls_kernel = ''junk!''\<rparr> = Inl x)"
proof -
  let ?s = "\<lparr>ls_msg = socket_msg_ctor (replicate 1028 NUL), ls_engine = get_instance (0::nat) None,
    ls_kernel = ''junk!''\<rparr>"
  have i: "msg_inv (ls_msg ?s)"
    using msg_inv_ctor [of "replicate 1028 NUL"] by (simp add: msg_consts)
  have r: "sys_read stream_os 5 header_length (ls_kernel ?s) = ((4, ''junk''), ''!'')"
    by (simp add: stream_os_def msg_consts)
  have "header_text (header_buffer ''junk'') = ''junk''"
    by (simp add: header_text_def header_buffer_def msg_consts)
  moreover have "atoi ''junk'' = 0" by code_simp
  ultimately have "announced ''junk'' = Some 0" by (simp add: announced_def)
  then show ?thesis
    using readable_event_safety [OF stream_os_read_law i r] by (auto simp: stream_os_def msg_consts)
qed



text \<open>
  C13: The loop reads one byte more than the header announces. When a second frame has already
  arrived, its first byte becomes the end of the first message and is lost for the stream: what
  remains is the second frame without its first byte.
\<close>

theorem readable_event_overread:
  assumes law: "full_read_law os fd inp" and inv: "msg_inv (ls_msg s)"
    and inp: "inp (ls_kernel s) = frame b @ c # rest"
    and b: "length b + 1 < max_body_length" "NUL \<notin> set b" "c \<noteq> NUL"
  shows "\<exists>s'. handle_readable os fd s = Inr s'
    \<and> waiting_msgs (ls_engine s') = waiting_msgs (ls_engine s)
        @ [(fd, Some \<lparr>action = start_action, msg_text = b @ [c]\<rparr>)]
    \<and> inp (ls_kernel s') = rest"
proof -
  have b': "length b \<le> 1024" using b by (simp add: msg_consts)
  obtain k where k: "inp k = drop 1 (c # rest)" and
    h: "handle_readable os fd s =
      (let t = b @ take 1 (c # rest) in
       if length t > max_body_length \<or> (length t = max_body_length \<and> NUL \<notin> set t) then Inl Out_Of_Bounds
       else Inr (s\<lparr>ls_msg := \<lparr>data' = format_4d (int (length b)) @ t
                   @ replicate (max_body_length - length t) NUL, body_length' = of_nat (length b)\<rparr>,
               ls_kernel := k, ls_engine := queued fd (message_text t) (ls_engine s)\<rparr>))"
    by (rule handle_readable_frame [OF law inv inp b'])
  with b show ?thesis by (simp add: message_text_id waiting_queued)
qed

theorem readable_event_overread_witness:
  "\<exists>s'. handle_readable stream_os 5
      \<lparr>ls_msg = socket_msg_ctor (replicate 1028 NUL), ls_engine = get_instance (0::nat) None,
       ls_kernel = ''   2hi   2yo''\<rparr> = Inr s'
    \<and> waiting_msgs (ls_engine s') = [(5, Some \<lparr>action = start_action, msg_text = ''hi ''\<rparr>)]
    \<and> ls_kernel s' = ''  2yo''"
proof -
  let ?s = "\<lparr>ls_msg = socket_msg_ctor (replicate 1028 NUL), ls_engine = get_instance (0::nat) None,
    ls_kernel = ''   2hi   2yo''\<rparr>"
  have i: "msg_inv (ls_msg ?s)"
    using msg_inv_ctor [of "replicate 1028 NUL"] by (simp add: msg_consts)
  have f: "frame ''hi'' = ''   2hi''" by code_simp
  have "ls_kernel ?s = frame ''hi'' @ CHR '' '' # ''  2yo''" by (simp add: f)
  from readable_event_overread [OF stream_os_full_read i this] show ?thesis
    by (simp add: msg_consts get_instance_def waiting_msgs_def)
qed

section \<open>The script engine\<close>





text \<open>
  C16: Submissions keep their order: what a drain returns is what was waiting, followed by the new
  submissions in the order of the calls; the queue is empty afterwards, and both counters have
  advanced by the number of calls, modulo 2 to the 32.
\<close>

theorem submissions_in_order:
  "let e' = fold (\<lambda>i. ExecGafq [] (fst i) (snd i) 1 []) r e in
     fst (drain_msgs e') = waiting_msgs e @ r \<and> waiting_msgs (snd (drain_msgs e')) = []
     \<and> count e' = count e + of_nat (length r) \<and> count2 e' = count2 e + of_nat (length r)"
  using eng_queue.drain_after_submits [of r e] eng_queue.drain_clears fold_submit_counts [of r e]
  by (simp add: Let_def)

text \<open>
  C17: What a script's \<open>send_data\<close> sends: with a buffer that still holds a NUL after the
  text, exactly one frame with the text cut to 1024 bytes, which the peer's read loop cuts back
  into that text; with no NUL left there, and so with every text of 1024 bytes or more, printing
  the message reads past the buffer.
\<close>

theorem send_data_frame:
  assumes "gafq_tostring api 2 v = (Some buf, v')" and "length uninit = header_length + max_body_length"
    and "length (c_str buf) < 2 ^ 64"
  shows "let t = take max_body_length (c_str buf);
             to = sint (word_of_int (gafq_tointeger api 1 v) :: 32 word) in
     send_data api os uninit v k =
       (if NUL \<in> set (drop (header_length + length t) uninit)
        then Inr (1, gafq_pushinteger api 1 v', snd (sys_send os to (frame t) k)) else Inl Out_Of_Bounds)
     \<and> deframe header_value (frame t) = ([t], [])
     \<and> (max_body_length \<le> length (c_str buf) \<longrightarrow> send_data api os uninit v k = Inl Out_Of_Bounds)"
proof -
  define t where "t = take max_body_length (c_str buf)"
  have "deframe header_value (frame t) = ([t], [])"
    using msg_format.deframe_enc [of t "[]"] by (simp add: t_def)
  moreover have "drop (header_length + length t) uninit = []" if "max_body_length \<le> length (c_str buf)"
    using that assms(2) by (simp add: t_def)
  ultimately show ?thesis
    unfolding t_def [symmetric] Let_def
    using send_data_eq [OF assms, of os k] unfolding t_def [symmetric] Let_def by auto
qed

theorem send_data_frame_witness:
  "send_data ref_api stream_os (replicate 1028 NUL)
     \<lparr>vm_stack = [VStr ''hi'', VNum 5], vm_globals = [], vm_calls = []\<rparr> []
   = Inr (1, \<lparr>vm_stack = [VNum 1, VStr ''hi'', VNum 5], vm_globals = [], vm_calls = []\<rparr>, ''   2hi'')"
proof -
  let ?v = "\<lparr>vm_stack = [VStr ''hi'', VNum 5], vm_globals = [], vm_calls = []\<rparr>"
  have s: "gafq_tostring ref_api 2 ?v = (Some ''hi'', ?v)" by code_simp
  have p: "gafq_pushinteger ref_api 1 ?v = ?v\<lparr>vm_stack := VNum 1 # vm_stack ?v\<rparr>" by code_simp
  have f: "frame ''hi'' = ''   2hi''" by code_simp
  have t: "take max_body_length (c_str ''hi'') = ''hi''" by code_simp
  have "snd (sys_send stream_os n (''   2hi'') []) = ''   2hi''" for n by (simp add: stream_os_def)
  moreover have "NUL \<in> set (drop (header_length + length ''hi'') (replicate 1028 NUL))"
    by (simp add: msg_consts)
  moreover have "length (c_str ''hi'') < 2 ^ 64" by (simp add: c_str_def)
  ultimately show ?thesis
    using send_data_frame [OF s, of "replicate 1028 NUL" stream_os "[]"]
    unfolding t Let_def by (simp add: f p msg_consts)
qed

section \<open>The scripts\<close>

text \<open>
  C18: The JSON library always returns: every call of the parser and of the encoder terminates, on every
  text and on every heap, tables that contain themselves included. The parser goes on behind what it
  has read and stays inside the text, and the encoder leaves its stack of open tables as it was.
\<close>

theorem json_codec_terminates:
  "All parse_parse_array_parse_object_dom
   \<and> All encode_encode_table_encode_ipairs_encode_pairs_dom
   \<and> (case parse tonumber str i of Inl _ \<Rightarrow> True | Inr (_, j) \<Rightarrow> i \<le> j \<and> j \<le> length str + 1)
   \<and> (case encode env h stack v of Inl _ \<Rightarrow> True | Inr (_, stack') \<Rightarrow> stack' = stack)"
  using parse_total encode_total parse_dom_bounds(1) [OF parse_total [THEN spec]] encode_stack(1)
  by (fastforce split: sum.split)




text \<open>
  C21: What the encoder writes: it succeeds exactly on the values that unfold to a finite tree (no table
  inside itself, no table of mixed keys, no gap, no infinite number), and its result is then the text
  of that tree, which is unique.
\<close>

theorem encode_characterised:
  "(json_encode env h v = Inr s \<longleftrightarrow> (\<exists>j. unfolds env h v j \<and> s = json_text env j))
   \<and> (\<exists>\<^sub>\<le>\<^sub>1 j. unfolds env h v j)"
  using json_encode_eq [of env h v s] unfolds_deterministic(1) by (auto simp: Uniq_def)

text \<open>
  C22: Decoding undoes encoding: the text of a value in a heap whose numbers are read back from their
  own texts decodes to the tree the value unfolds to, holds no NUL byte, and two values with the same
  text unfold to the same tree.
\<close>

theorem encoded_values_decoded:
  assumes "heap_ok tonumber env h" and "number_val_ok tonumber env v" and "json_encode env h v = Inr s"
  shows "\<exists>j. unfolds env h v j \<and> json_decode tonumber s = Inr j \<and> NUL \<notin> set s
    \<and> (\<forall>w. number_val_ok tonumber env w \<and> json_encode env h w = Inr s \<longrightarrow> unfolds env h w j)"
proof -
  obtain j where j: "unfolds env h v j" "s = json_text env j" using assms(3) json_encode_eq by blast
  have "canonical tonumber env j" using unfolds_canonical(1) [OF assms(1) j(1)] assms(2) by blast
  then have "json_decode tonumber s = Inr j" "NUL \<notin> set s"
    using json_decode_text json_text_no_NUL j(2) by blast+
  moreover have "unfolds env h w j" if "number_val_ok tonumber env w" "json_encode env h w = Inr s" for w
    using json_encode_inj [OF assms(1,2) that(1) assms(3) that(2)] unfolds_deterministic(1) [OF j(1)] by blast
  ultimately show ?thesis using j(1) by blast
qed

theorem encoded_values_decoded_witness:
  "json_encode digit_env [(0, [(IntKey 1, LStr ''a''), (IntKey 2, LRef 1)]), (1, [])] (LRef 0)
      = Inr (''['' @ [quote] @ ''a'' @ [quote] @ '',[]]'')
   \<and> (\<exists>j. json_decode (sc_tonumber digit_script) (''['' @ [quote] @ ''a'' @ [quote] @ '',[]]'') = Inr j)"
proof -
  let ?h = "[(0, [(IntKey 1, LStr ''a''), (IntKey 2, LRef 1)]), (1, [])] :: int lheap"
  have h: "heap_ok (sc_tonumber digit_script) digit_env ?h" "number_val_ok (sc_tonumber digit_script) digit_env (LRef 0)"
    by (simp_all add: heap_ok_def number_val_ok_def)
  have s: "json_encode digit_env ?h (LRef 0) = Inr (''['' @ [quote] @ ''a'' @ [quote] @ '',[]]'')" by code_simp
  from encoded_values_decoded [OF h s] s show ?thesis by blast
qed



text \<open>
  C24: The outcome of \<open>start_action\<close>: a text that is not JSON, a value that has no fields and a
  failed reload of the script raise an error, which the engine sees as a failed call; everything else
  returns. Nothing is sent unless the field \<open>oper\<close> is \<open>send_data\<close>, and then one message.
\<close>

theorem script_outcome:
  "fst (script_start_action senv fd data) =
     rbind (json_decode (sc_tonumber senv) data) (\<lambda>j. rbind (lua_index j ''oper'') (\<lambda>oper.
       if oper = JStr ''update_self'' then sc_require senv ''script'' else Inr ()))
   \<and> sends (snd (script_start_action senv fd data)) =
     (case json_decode (sc_tonumber senv) data of
        Inr (JTable t) \<Rightarrow>
          if table_get (KStr ''oper'') t = JStr ''send_data'' then [(table_get (KStr ''to'') t, data)] else []
      | _ \<Rightarrow> [])"
  using start_action_result start_action_sends by blast

section \<open>The threads\<close>

text \<open>
  C25: Mutual exclusion and first-in-first-out, under every interleaving of any number of submitting
  threads with the main thread: at most one thread is in a critical section, and the submitted
  items are the executed ones, then those in flight, then the waiting ones, in the order of
  submission.
\<close>

theorem threads_fifo:
  assumes "threads_reachable t"
  shows "submitted t = executed t @ in_flight (mpc t) @ wait_list t
    \<and> (\<forall>i j. p_critical (ppc t i) \<longrightarrow> p_critical (ppc t j) \<longrightarrow> i = j)
    \<and> (\<forall>i. p_critical (ppc t i) \<longrightarrow> \<not> m_critical (mpc t))"
  using reachable_fifo_inv [OF assms] reachable_lock_inv [OF assms] critical_unique critical_not_main
  unfolding fifo_inv_def by blast

theorem threads_fifo_witness:
  "threads_reachable (race_state 3)
   \<and> submitted (race_state 3) = executed (race_state 3) @ in_flight (mpc (race_state 3)) @ wait_list (race_state 3)"
  using threads_fifo [OF race_state_reachable [of 3]] race_state_reachable [of 3] by blast

text \<open>
  C26: The threads refine an abstract queue: every step of the machine is invisible, or submits one
  item at the end of the queue, or executes the item at its front.
\<close>

theorem threads_refine_queue:
  assumes "threads_reachable t" and "thread_step t u"
  shows "abs_queue u = abs_queue t \<or> queue_spec_step (abs_queue t) (abs_queue u)"
  using thread_step_refines [OF assms(2) reachable_fifo_inv [OF assms(1)]] .

theorem threads_refine_queue_witness:
  "let u = threads_init\<lparr>ppc := (ppc threads_init)(0 := P_lock new_item)\<rparr> in
     thread_step threads_init u
     \<and> (abs_queue u = abs_queue threads_init \<or> queue_spec_step (abs_queue threads_init) (abs_queue u))"
proof -
  have s: "thread_step threads_init (threads_init\<lparr>ppc := (ppc threads_init)(0 := P_lock new_item)\<rparr>)"
    by (rule p_call) (simp add: threads_init_def)
  from threads_refine_queue [OF thr_start s] s show ?thesis by (simp add: Let_def)
qed





section \<open>The codecs of the client headers\<close>

text \<open>
  C29: The integer codecs of the client headers of every width (2, 3, 4, 5, 6 and 8 bytes) are round
  trips: a store fails exactly when the area is too short, changes nothing behind the number, and a load
  gives back the number, cut to its low bytes for the odd widths.
\<close>

theorem codecs_roundtrip:
  "roundtrip_at 2 uint2korr int2store T2 v2 \<and> roundtrip_at 3 uint3korr int3store T3 v3
   \<and> roundtrip_at 4 uint4korr int4store T4 v4 \<and> roundtrip_at 5 uint5korr int5store T5 v5
   \<and> roundtrip_at 6 uint6korr int6store T6 v6 \<and> roundtrip_at 8 uint8korr int8store T8 v8"
  by (intro conjI codec2.roundtrip codec3.roundtrip codec4.roundtrip codec5.roundtrip codec6.roundtrip
      codec8.roundtrip)

section \<open>Instrumented wrappers, locks and events\<close>


text \<open>
  C31: On Windows, where a critical section can be entered again by its owner, \<open>trylock\<close> keeps the
  contract of a mutex that cannot: it takes a free mutex, and returns \<open>EBUSY\<close> and leaves owner
  and count alone when anybody holds it, the caller included.
\<close>

theorem win32_trylock_contract:
  assumes "critical_section_laws os held me" and "native_mutex_trylock (Win32 os) m w = (r, w')"
  shows "if held m w = None then r = 0 \<and> held m w' = Some (me, 1) else r = EBUSY \<and> held m w' = held m w"
  by (rule win32_trylock [OF assms])

theorem win32_trylock_contract_witness:
  "let (r1, w1) = native_mutex_trylock (Win32 (sections_api 7)) 1 (\<lambda>_. None);
       (r2, w2) = native_mutex_trylock (Win32 (sections_api 7)) 1 w1
   in r1 = 0 \<and> r2 = EBUSY \<and> section_held 1 w2 = Some (7, 1)"
proof -
  obtain r1 w1 where 1: "native_mutex_trylock (Win32 (sections_api 7)) 1 (\<lambda>_. None) = (r1, w1)" by fastforce
  obtain r2 w2 where 2: "native_mutex_trylock (Win32 (sections_api 7)) 1 w1 = (r2, w2)" by fastforce
  have "r1 = 0 \<and> section_held 1 w1 = Some (7, 1)"
    using win32_trylock_contract [OF sections_laws 1] by (simp add: section_held_def)
  then show ?thesis using win32_trylock_contract [OF sections_laws 2] 1 2 by simp
qed

text \<open>
  C32: The read-write locks of Windows release in the mode of the acquisition, although the mode is
  remembered in one flag of the lock object that is written and read without the lock's help: in every
  interleaving no release is in the wrong mode, and a thread about to release the exclusive lock is
  alone.
\<close>

theorem srw_release_mode:
  assumes "srw_step\<^sup>*\<^sup>* srw_init s"
  shows "srw_lock s \<noteq> Srw_broken
    \<and> (\<forall>t. srw_pc s t = Pc_release_exclusive \<longrightarrow>
        srw_lock s = Srw_exclusive \<and> writers (srw_pc s) = {t} \<and> readers (srw_pc s) = {})
    \<and> (\<forall>t. srw_pc s t = Pc_release_shared \<longrightarrow> (\<exists>n. srw_lock s = Srw_shared (Suc n)) \<and> writers (srw_pc s) = {})"
proof -
  have i: "srw_inv s" by (rule srw_reachable_inv [OF assms])
  then have "srw_lock s \<noteq> Srw_broken" by (auto simp: srw_inv_def)
  with srw_inv_release [OF i] show ?thesis by blast
qed

theorem srw_release_mode_witness:
  "\<exists>s. srw_step\<^sup>*\<^sup>* srw_init s \<and> srw_pc s 3 = Pc_release_shared \<and> (\<exists>n. srw_lock s = Srw_shared (Suc n))"
proof -
  let ?s = "srw_init\<lparr>srw_lock := Srw_shared 1, srw_pc := (srw_pc srw_init)(3 := Pc_reading)\<rparr>"
  let ?t = "?s\<lparr>srw_pc := (srw_pc ?s)(3 := (if srw_flag ?s then Pc_clear else Pc_release_shared))\<rparr>"
  have "srw_step srw_init ?s" by (rule acquire_shared_free) (simp_all add: srw_init_def)
  moreover have "srw_step ?s ?t" by (rule test_flag) simp
  ultimately have r: "srw_step\<^sup>*\<^sup>* srw_init ?t" by (meson r_into_rtranclp rtranclp.rtrancl_into_rtrancl)
  have p: "srw_pc ?t 3 = Pc_release_shared" by (simp add: srw_init_def)
  from srw_release_mode [OF r] r p show ?thesis by blast
qed

text \<open>
  C33: A timed wait on Windows ends at its deadline: the timeout computed from the absolute time that
  \<open>set_timespec_nsec\<close> made, asked for at any moment before it and for less than 49 days, is the
  time that is left, to within a millisecond.
\<close>

theorem timed_wait_deadline:
  assumes "unat t + unat n div 100 < 2 ^ 63" and "unat t \<le> unat t'" and "100 * unat t' \<le> 100 * unat t + unat n"
    and "100 * int (unat t) + int (unat n) - 100 * int (unat t') < (2 ^ 32 - 1) * 1000000"
  shows "\<bar>100 * int (unat t') + 1000000 * int (unat (get_milliseconds (set_timespec_nsec False t n) t'))
    - (100 * int (unat t) + int (unat n))\<bar> < 1000000"
  by (rule get_milliseconds_deadline [OF assms])

theorem timed_wait_deadline_witness:
  "\<bar>100 * int (unat (50000 :: 64 word)) + 1000000 * int (unat (get_milliseconds (set_timespec_nsec False 20000 9000000) 50000))
    - (100 * int (unat (20000 :: 64 word)) + int (unat (9000000 :: 64 word)))\<bar> < 1000000"
  by (rule timed_wait_deadline) simp_all

text \<open>
  C34: A thread that keeps the discipline of the events (no second statement or transaction while one
  is running) keeps the protocol of the service whatever the service answers, null or a pointer: every
  event is opened, started once, used only while it runs and ended once, always with the pointer the
  service gave.
\<close>

theorem event_protocol_kept:
  assumes "disciplined False False xs"
  shows "\<exists>c' s' es. run_state (run_client svc xs
        \<lparr>stmt_locker = None, trx_locker = None, in_statement = False, in_transaction = False\<rparr>) s = (c', s')
    \<and> ev_trace s' = ev_trace s @ es
    \<and> protocol statement_use Closed es = Some (phase_of (stmt_locker c'))
    \<and> protocol transaction_use Closed es = Some (phase_of (trx_locker c'))"
proof -
  let ?c = "\<lparr>stmt_locker = None, trx_locker = None, in_statement = False, in_transaction = False\<rparr>"
  obtain c' s' where r: "run_state (run_client svc xs ?c) s = (c', s')" by fastforce
  have "client_ok ?c" "disciplined (in_statement ?c) (in_transaction ?c) xs"
    using assms by (simp_all add: client_ok_def)
  from run_client_protocol [OF r this] r show ?thesis
    by (fastforce simp: advances_def phase_of_def)
qed

theorem event_protocol_kept_witness:
  "\<exists>es. protocol statement_use Closed es = Some Closed \<and> length es = 5
     \<and> ev_trace (snd (run_state (run_client (\<lambda>r p. (Some 9, p)) [Cl_start_statement 1 2 ''db'' 2 3 None (''f'', 1),
         Cl_rows_sent 4, Cl_end_statement 5]
         \<lparr>stmt_locker = None, trx_locker = None, in_statement = False, in_transaction = False\<rparr>)
         \<lparr>ev_service = (), ev_trace = []\<rparr>)) = es"
proof -
  let ?xs = "[Cl_start_statement 1 2 ''db'' 2 3 None (''f'', 1), Cl_rows_sent 4, Cl_end_statement 5]"
  let ?c = "\<lparr>stmt_locker = None, trx_locker = None, in_statement = False, in_transaction = False\<rparr>"
  let ?s = "\<lparr>ev_service = (), ev_trace = []\<rparr>"
  have d: "disciplined False False ?xs" by simp
  obtain c' s' es where r: "run_state (run_client (\<lambda>r p. (Some 9, p)) ?xs ?c) ?s = (c', s')"
    and e: "ev_trace s' = ev_trace ?s @ es" "protocol statement_use Closed es = Some (phase_of (stmt_locker c'))"
    using event_protocol_kept [OF d, of "\<lambda>r p. (Some 9, p)" ?s] by blast
  have "stmt_locker c' = None" "length (ev_trace s') = 5"
    using r by (auto simp: inline_event_defs ev_prims)
  with e r show ?thesis by (simp add: phase_of_def)
qed

section \<open>Buffered files\<close>



section \<open>The database probe\<close>

text \<open>
  C36: \<open>init_db\<close> prints every row of the stored result, one line per row, frees the result,
  closes the connection and returns true, with more fuel than rows; with no result, as after a failed
  connection or query, it dereferences a null pointer.
\<close>

theorem init_db_prints:
  assumes "mysql_init api d = (Some con, d1)"
    and "mysql_real_connect api con ''127.0.0.1'' ''shop_kengqie_co'' passwd ''shop_kengqie_co'' d1 = (b, d2)"
    and "mysql_query api con ''SELECT * FROM dbshop_ad'' d2 = (q, d3)"
    and "mysql_store_result api con d3 = (res, d4)"
  shows "(res = None \<longrightarrow> init_db fuel api passwd d = Some (Inl Null_Deref))
    \<and> (\<forall>result rs d5. res = Some result \<and> fetch_yields api result rs d4 d5
          \<and> (\<forall>r \<in> set rs. length r = mysql_num_fields api result d4) \<and> length rs < fuel \<longrightarrow>
        init_db fuel api passwd d
          = Some (Inr (True, concat (map render_row rs), mysql_close api con (mysql_free_result api result d5))))"
proof (intro conjI allI impI)
  show "init_db fuel api passwd d = Some (Inl Null_Deref)" if "res = None"
    using assms that by (simp add: init_db_def query_and_print_def)
next
  fix result rs d5
  assume "res = Some result \<and> fetch_yields api result rs d4 d5
    \<and> (\<forall>r \<in> set rs. length r = mysql_num_fields api result d4) \<and> length rs < fuel"
  then show "init_db fuel api passwd d
    = Some (Inr (True, concat (map render_row rs), mysql_close api con (mysql_free_result api result d5)))"
    using query_and_print_eq [OF assms(1-3), of result d4 rs d5 fuel] assms(4) by (simp add: init_db_def)
qed

theorem init_db_prints_witness:
  "init_db 5 offline_mysql ''x'' () = Some (Inl Null_Deref)
   \<and> init_db 5 list_mysql ''x'' [[Some ''a'', None]]
      = Some (Inr (True, ''a NULL '' @ [CHR 0x0A], []))"
proof
  show "init_db 5 offline_mysql ''x'' () = Some (Inl Null_Deref)"
    using init_db_prints [of offline_mysql "()" "()" "()" "''x''" False "()" 1 "()" None "()" 5]
    by (simp add: offline_mysql_def)
  let ?r = "[[Some ''a'', None]] :: row list"
  have *: "mysql_init list_mysql ?r = (Some (), ?r)"
    "mysql_real_connect list_mysql () ''127.0.0.1'' ''shop_kengqie_co'' ''x'' ''shop_kengqie_co'' ?r = (True, ?r)"
    "mysql_query list_mysql () ''SELECT * FROM dbshop_ad'' ?r = (0, ?r)"
    "mysql_store_result list_mysql () ?r = (Some (), ?r)"
    by (simp_all add: list_mysql_def)
  have "init_db 5 list_mysql ''x'' ?r = Some (Inr (True, concat (map render_row ?r),
      mysql_close list_mysql () (mysql_free_result list_mysql () [])))"
    by (rule init_db_prints [OF *, of 5, THEN conjunct2, rule_format, of "()" ?r "[]"]) (simp add: list_mysql_def)
  then show "init_db 5 list_mysql ''x'' ?r = Some (Inr (True, ''a NULL '' @ [CHR 0x0A], []))"
    by (simp add: list_mysql_def render_row_def render_field_def c_str_def)
qed

section \<open>Options, debugging and numbers\<close>

text \<open>
  C37: However the SSL options of a client are given, the mode is one of the five. An explicit
  \<open>--ssl-mode\<close> is kept when only files and versions follow it. And when no option turns SSL off, an
  authority that was named reaches the library as the one to verify the server with, or the user is warned that
  it does not.
\<close>

theorem ssl_options_honoured:
  assumes store: "stores_arguments getopt_bool store" and type: "find_type_law find_type"
    and given: "fst ` set gs \<subseteq> set (ssl_longopts yassl)"
    and run: "rfold (give_option store find_type yassl) gs ssl_vars_init = Inr s"
  shows "valid_mode s
    \<and> (\<forall>hs opt i ks. gs = hs @ (opt, Some (ssl_mode_names_lib ! i)) # ks \<and> opt_id opt = OPT_SSL_MODE \<and> i < 5
        \<and> list_all plain_option ks \<longrightarrow> opt_ssl_mode s = of_nat i + 1)
    \<and> (\<not> list_ex (turns_off getopt_bool) gs \<longrightarrow> authority_honoured s)"
proof (intro conjI allI impI)
  show "valid_mode s" by (rule given_options_valid_mode [OF store type given run])
next
  fix hs opt i ks
  assume a: "gs = hs @ (opt, Some (ssl_mode_names_lib ! i)) # ks \<and> opt_id opt = OPT_SSL_MODE \<and> i < 5
    \<and> list_all plain_option ks"
  then have g: "gs = hs @ (opt, Some (ssl_mode_names_lib ! i)) # ks" and o: "opt_id opt = OPT_SSL_MODE"
    and i: "i < 5" and p: "list_all plain_option ks" by blast+
  show "opt_ssl_mode s = of_nat i + 1"
    by (rule explicit_mode_kept [OF store type given [unfolded g] o i p run [unfolded g]])
next
  assume "\<not> list_ex (turns_off getopt_bool) gs"
  then show "authority_honoured s"
    by (rule authority_used_honoured [OF given_options_authority [OF store given _ run]])
qed

theorem ssl_options_honoured_witness:
  "\<exists>s. ssl_run [(ssl_longopts False ! 0, Some ''REQUIRED''), (ssl_longopts False ! 3, Some ''ca.pem'')] = Inr s
    \<and> opt_ssl_mode s = SSL_MODE_REQUIRED \<and> authority_honoured s"
proof -
  let ?gs = "[(ssl_longopts False ! 0, Some ''REQUIRED''), (ssl_longopts False ! 3, Some ''ca.pem'')]"
  have "\<exists>s. ssl_run ?gs = Inr s"
    by (simp add: ssl_run_def give_option_def ssl_longopts_def text_option_def bool_option_def store_in_place_def
        set_flag_def set_text_def GET_BOOL_def GET_STR_def flag_on_def ssl_case_def ssl_mode_names_lib_def
        find_full_name_def ssl_vars_init_def)
  then obtain s where s: "ssl_run ?gs = Inr s" ..
  have g: "fst ` set ?gs \<subseteq> set (ssl_longopts False)"
    by (simp add: ssl_longopts_def)
  have off: "\<not> list_ex (turns_off flag_on) ?gs" and id: "opt_id (ssl_longopts False ! 0) = OPT_SSL_MODE"
    and p: "list_all plain_option [(ssl_longopts False ! 3, Some ''ca.pem'')]"
    by (simp_all add: turns_off_def plain_option_def ssl_longopts_def text_option_def)
  have n: "?gs = [] @ (ssl_longopts False ! 0, Some (ssl_mode_names_lib ! 2)) # [(ssl_longopts False ! 3, Some ''ca.pem'')]"
    by (simp add: ssl_mode_names_lib_def)
  note h = ssl_options_honoured [OF store_in_place_stores find_full_name_law g s [unfolded ssl_run_def]]
  have "opt_ssl_mode s = of_nat 2 + 1"
    by (rule h [THEN conjunct2, THEN conjunct1, rule_format, of "[]" "ssl_longopts False ! 0" 2
          "[(ssl_longopts False ! 3, Some ''ca.pem'')]"]) (use n id p in simp)
  with h off s show ?thesis by (simp add: ssl_modes)
qed



text \<open>
  C39: Both conversions of a number to an integer in \<^verbatim>\<open>gafqconf.h\<close> work on the whole range of the
  integer, but they are not the same function. The trick for the Pentium, which reads the low word of a sum, is
  within a half of the number, up to the error of its registers, and ties go to the even integer if the
  registers keep no more than a double; the portable conversion cuts the fraction off. On integers they agree.
\<close>

theorem number_conversions_near:
  assumes "- (2 ^ 31) \<le> d" and "d \<le> 2 ^ 31 - 1"
  shows "\<exists>i j. gafq_number2int_i386 k d = Some i \<and> gafq_number2int d = Some j
    \<and> \<bar>of_int (sint i) - d\<bar> \<le> 1 / 2 + 1 / 2 ^ (k + 1) \<and> (k = 0 \<longrightarrow> sint i = round_half_even d)
    \<and> sint j = integral_part d \<and> (d = of_int (integral_part d) \<longrightarrow> i = j)"
proof -
  obtain i where i: "gafq_number2int_i386 k d = Some i" "sint i = round_half_even (round_to k d)"
    "\<bar>of_int (sint i) - d\<bar> \<le> 1 / 2 + 1 / 2 ^ (k + 1)" by (rule number2int_i386_near [OF assms])
  obtain j where j: "gafq_number2int d = Some j" "sint j = integral_part d"
    by (rule number2int_near [OF assms])
  have k: "k = 0 \<longrightarrow> sint i = round_half_even d" using i(2) by (simp add: round_to_0)
  have eq: "i = j" if "d = of_int (integral_part d)"
  proof -
    have "sint i = integral_part d" unfolding i(2) by (subst that) simp
    with j(2) show ?thesis by (metis of_int_sint scast_id)
  qed
  show ?thesis using i(1,3) j k eq by blast
qed

theorem number_conversions_near_witness:
  "\<exists>i j. gafq_number2int_i386 0 (5 / 2) = Some i \<and> gafq_number2int (5 / 2) = Some j \<and> sint i = 2 \<and> sint j = 2"
proof -
  have d: "- (2 ^ 31) \<le> (5 / 2 :: rat)" "(5 / 2 :: rat) \<le> 2 ^ 31 - 1" by simp_all
  have "round_half_even (5 / 2) = 2" "integral_part (5 / 2) = 2" by code_simp+
  with number_conversions_near [OF d, of 0] show ?thesis by auto
qed

section \<open>The tables of errors\<close>


end
